(* ===== verification/Platform_Prelude.thy ===== *)
theory Platform_Prelude
  imports Main "HOL-Library.AList"
begin

text \<open>
  Shared vocabulary of the development: the exceptions the Python code raises, results that
  are either an exception or a value, Python dictionaries as association lists in insertion
  order, and date-times that may or may not carry a time zone.  The generic lemmas below are
  collected in \<open>result_simps\<close>, \<open>dict_simps\<close> and \<open>scan_simps\<close>, which the component proofs
  pass to \<open>simp\<close> and \<open>auto\<close>.
\<close>

named_theorems result_simps
named_theorems dict_simps
named_theorems scan_simps

section \<open>Exceptions\<close>

text \<open>
  One constructor per exception class that the modelled code raises; the string is the
  message.  Python's class hierarchy matters where a caller catches a base class:
  \<open>is_value_error\<close> and \<open>is_permission_error\<close> give the base class each class has in the source
  (\<open>ValidationError\<close> is pydantic's, documented as a subclass of \<open>ValueError\<close>).
\<close>

datatype exn =
    ValueError string
  | TypeError string
  | KeyError string
  | PermissionError string
  | ValidationError string
  | AssertionError string
  | ProviderConnectionUnavailable string
  | ProviderConnectionAccessDenied string
  | DuplicateCanonicalResourceScope string
  | DuplicateActiveOrganizationMembership string
  | OrganizationOnboardingAlreadyRequested string
  | OrganizationOnboardingActivationError string
  | OrganizationOnboardingReviewAccessDenied string
  | ProvisionExecutionDenied string
  | ProvisionApprovalDenied string
  | BrowserSessionAuthenticationError string
  | BrowserRuntimeActorResolutionError string
  | TopologyValidationError string
  | CommandRouteUnavailable string
  | CommandAuthenticationRequired string
  | OrganizationInvitationNotUsable string
  | OrganizationInvitationRecipientMismatch string
  | OrganizationMembershipOrganizationInactive string
  | OrganizationMembershipNotActive string
  | DeviceAuthorizationPending
  | DeviceAuthorizationSlowDown
  | DeviceAuthorizationDenied
  | DeviceAuthorizationExpired
  | InvalidTokenError string
  | TimeoutError string
  | RuntimeError string
  | AttributeError string
  | IndexError string
  | HTTPException nat string
  | ExternalError string

fun is_value_error :: "exn \<Rightarrow> bool" where
  "is_value_error (ValueError _) = True"
| "is_value_error (ValidationError _) = True"
| "is_value_error (ProviderConnectionUnavailable _) = True"
| "is_value_error (DuplicateCanonicalResourceScope _) = True"
| "is_value_error (DuplicateActiveOrganizationMembership _) = True"
| "is_value_error (OrganizationOnboardingAlreadyRequested _) = True"
| "is_value_error (OrganizationOnboardingActivationError _) = True"
| "is_value_error (TopologyValidationError _) = True"
| "is_value_error (CommandRouteUnavailable _) = True"
| "is_value_error (OrganizationInvitationNotUsable _) = True"
| "is_value_error (OrganizationInvitationRecipientMismatch _) = True"
| "is_value_error (OrganizationMembershipOrganizationInactive _) = True"
| "is_value_error (OrganizationMembershipNotActive _) = True"
| "is_value_error _ = False"

fun is_permission_error :: "exn \<Rightarrow> bool" where
  "is_permission_error (PermissionError _) = True"
| "is_permission_error (ProviderConnectionAccessDenied _) = True"
| "is_permission_error (OrganizationOnboardingReviewAccessDenied _) = True"
| "is_permission_error (ProvisionExecutionDenied _) = True"
| "is_permission_error (ProvisionApprovalDenied _) = True"
| "is_permission_error (BrowserSessionAuthenticationError _) = True"
| "is_permission_error (BrowserRuntimeActorResolutionError _) = True"
| "is_permission_error (CommandAuthenticationRequired _) = True"
| "is_permission_error _ = False"

text \<open>\<open>type(error).__name__\<close>; an error of code outside the repository carries its class name.\<close>

fun exn_name :: "exn \<Rightarrow> string" where
  "exn_name (ValueError _) = ''ValueError''"
| "exn_name (TypeError _) = ''TypeError''"
| "exn_name (KeyError _) = ''KeyError''"
| "exn_name (PermissionError _) = ''PermissionError''"
| "exn_name (ValidationError _) = ''ValidationError''"
| "exn_name (AssertionError _) = ''AssertionError''"
| "exn_name (ProviderConnectionUnavailable _) = ''ProviderConnectionUnavailable''"
| "exn_name (ProviderConnectionAccessDenied _) = ''ProviderConnectionAccessDenied''"
| "exn_name (DuplicateCanonicalResourceScope _) = ''DuplicateCanonicalResourceScope''"
| "exn_name (DuplicateActiveOrganizationMembership _) = ''DuplicateActiveOrganizationMembership''"
| "exn_name (OrganizationOnboardingAlreadyRequested _) = ''OrganizationOnboardingAlreadyRequested''"
| "exn_name (OrganizationOnboardingActivationError _) = ''OrganizationOnboardingActivationError''"
| "exn_name (OrganizationOnboardingReviewAccessDenied _) = ''OrganizationOnboardingReviewAccessDenied''"
| "exn_name (ProvisionExecutionDenied _) = ''ProvisionExecutionDenied''"
| "exn_name (ProvisionApprovalDenied _) = ''ProvisionApprovalDenied''"
| "exn_name (BrowserSessionAuthenticationError _) = ''BrowserSessionAuthenticationError''"
| "exn_name (BrowserRuntimeActorResolutionError _) = ''BrowserRuntimeActorResolutionError''"
| "exn_name (TopologyValidationError _) = ''TopologyValidationError''"
| "exn_name (CommandRouteUnavailable _) = ''CommandRouteUnavailable''"
| "exn_name (CommandAuthenticationRequired _) = ''CommandAuthenticationRequired''"
| "exn_name (OrganizationInvitationNotUsable _) = ''OrganizationInvitationNotUsable''"
| "exn_name (OrganizationInvitationRecipientMismatch _) = ''OrganizationInvitationRecipientMismatch''"
| "exn_name (OrganizationMembershipOrganizationInactive _) = ''OrganizationMembershipOrganizationInactive''"
| "exn_name (OrganizationMembershipNotActive _) = ''OrganizationMembershipNotActive''"
| "exn_name DeviceAuthorizationPending = ''DeviceAuthorizationPending''"
| "exn_name DeviceAuthorizationSlowDown = ''DeviceAuthorizationSlowDown''"
| "exn_name DeviceAuthorizationDenied = ''DeviceAuthorizationDenied''"
| "exn_name DeviceAuthorizationExpired = ''DeviceAuthorizationExpired''"
| "exn_name (InvalidTokenError _) = ''InvalidTokenError''"
| "exn_name (TimeoutError _) = ''TimeoutError''"
| "exn_name (RuntimeError _) = ''RuntimeError''"
| "exn_name (AttributeError _) = ''AttributeError''"
| "exn_name (IndexError _) = ''IndexError''"
| "exn_name (HTTPException _ _) = ''HTTPException''"
| "exn_name (ExternalError s) = s"

lemma exn_bases_disjoint: "\<not> (is_value_error e \<and> is_permission_error e)"
  by (cases e) simp_all

section \<open>Results\<close>

type_synonym 'a result = "exn + 'a"

fun bind_result :: "'a result \<Rightarrow> ('a \<Rightarrow> 'b result) \<Rightarrow> 'b result" where
  "bind_result (Inl e) f = Inl e"
| "bind_result (Inr x) f = f x"

lemma bind_result_eq_Inr [result_simps]:
  "bind_result r f = Inr y \<longleftrightarrow> (\<exists>x. r = Inr x \<and> f x = Inr y)"
  by (cases r) auto

lemma bind_result_eq_Inl [result_simps]:
  "bind_result r f = Inl e \<longleftrightarrow> r = Inl e \<or> (\<exists>x. r = Inr x \<and> f x = Inl e)"
  by (cases r) auto

lemma if_Inl_eq_Inr [result_simps]:
  "(if b then Inl e else r) = Inr y \<longleftrightarrow> \<not> b \<and> r = Inr y"
  by simp

lemma bind_result_cong [fundef_cong]:
  assumes "r = r'" and "\<And>x. r' = Inr x \<Longrightarrow> f x = g x"
  shows "bind_result r f = bind_result r' g"
  using assms by (cases r') auto

fun is_Inr :: "'a result \<Rightarrow> bool" where
  "is_Inr (Inr _) = True"
| "is_Inr (Inl _) = False"

lemma is_Inr_iff [result_simps]: "is_Inr r \<longleftrightarrow> (\<exists>x. r = Inr x)"
  by (cases r) auto

section \<open>Dictionaries\<close>

text \<open>
  A Python \<open>dict\<close> keeps its keys in insertion order; assigning to a present key keeps its
  place and \<open>pop\<close> removes it.  That is \<^const>\<open>AList.update\<close> and \<^const>\<open>AList.delete\<close> on an
  association list with distinct keys.
\<close>

type_synonym ('k, 'v) dict = "('k \<times> 'v) list"

definition dict_ok :: "('k, 'v) dict \<Rightarrow> bool" where
  "dict_ok d \<longleftrightarrow> distinct (map fst d)"

definition dict_get :: "('k, 'v) dict \<Rightarrow> 'k \<Rightarrow> 'v option" where
  "dict_get d k = map_of d k"

definition dict_set :: "'k \<Rightarrow> 'v \<Rightarrow> ('k, 'v) dict \<Rightarrow> ('k, 'v) dict" where
  "dict_set k v d = AList.update k v d"

definition dict_pop :: "'k \<Rightarrow> ('k, 'v) dict \<Rightarrow> ('k, 'v) dict" where
  "dict_pop k d = AList.delete k d"

definition dict_values :: "('k, 'v) dict \<Rightarrow> 'v list" where
  "dict_values d = map snd d"

text \<open>A dict comprehension \<open>{f x: g x for x in xs}\<close>: a later key overwrites an earlier one.\<close>

definition dict_of :: "('a \<Rightarrow> 'k) \<Rightarrow> ('a \<Rightarrow> 'v) \<Rightarrow> 'a list \<Rightarrow> ('k, 'v) dict" where
  "dict_of f g xs = foldl (\<lambda>d x. dict_set (f x) (g x) d) [] xs"

lemma dict_get_Nil [dict_simps]: "dict_get [] k = None"
  by (simp add: dict_get_def)

lemma dict_get_set [dict_simps]:
  "dict_get (dict_set k v d) k' = (if k' = k then Some v else dict_get d k')"
  by (simp add: dict_get_def dict_set_def update_conv')

lemma dict_get_pop [dict_simps]:
  "dict_get (dict_pop k d) k' = (if k' = k then None else dict_get d k')"
  by (simp add: dict_get_def dict_pop_def delete_conv')

lemma dict_ok_Nil [dict_simps]: "dict_ok []"
  by (simp add: dict_ok_def)

lemma dict_ok_set [dict_simps]: "dict_ok d \<Longrightarrow> dict_ok (dict_set k v d)"
  by (simp add: dict_ok_def dict_set_def distinct_update)

lemma dict_ok_pop [dict_simps]: "dict_ok d \<Longrightarrow> dict_ok (dict_pop k d)"
  by (simp add: dict_ok_def dict_pop_def distinct_delete)

lemma dict_values_iff:
  assumes "dict_ok d"
  shows "v \<in> set (dict_values d) \<longleftrightarrow> (\<exists>k. dict_get d k = Some v)"
proof
  assume "v \<in> set (dict_values d)"
  then obtain k where "(k, v) \<in> set d"
    by (auto simp: dict_values_def)
  with assms have "map_of d k = Some v"
    by (simp add: dict_ok_def)
  then show "\<exists>k. dict_get d k = Some v"
    by (auto simp: dict_get_def)
next
  assume "\<exists>k. dict_get d k = Some v"
  then show "v \<in> set (dict_values d)"
    by (force simp: dict_get_def dict_values_def dest: map_of_SomeD)
qed

lemma dict_get_in_values: "dict_get d k = Some v \<Longrightarrow> v \<in> set (dict_values d)"
  by (force simp: dict_get_def dict_values_def dest: map_of_SomeD)

lemma dict_get_foldl:
  "dict_get (foldl (\<lambda>d x. dict_set (f x) (g x) d) d0 xs) k =
    (case find (\<lambda>x. f x = k) (rev xs) of Some x \<Rightarrow> Some (g x) | None \<Rightarrow> dict_get d0 k)"
  by (induction xs rule: rev_induct) (auto simp: dict_simps)

lemma dict_get_of:
  "dict_get (dict_of f g xs) k =
    (case find (\<lambda>x. f x = k) (rev xs) of Some x \<Rightarrow> Some (g x) | None \<Rightarrow> None)"
  by (cases "find (\<lambda>x. f x = k) (rev xs)") (simp_all add: dict_of_def dict_get_foldl dict_get_Nil)

lemma dict_ok_of [dict_simps]: "dict_ok (dict_of f g xs)"
  unfolding dict_of_def by (induction xs rule: rev_induct) (auto simp: dict_simps)

lemma keys_dict_of: "set (map fst (dict_of f g xs)) = f ` set xs"
proof -
  have "set (map fst (foldl (\<lambda>d x. dict_set (f x) (g x) d) d0 xs))
      = fst ` set d0 \<union> f ` set xs" for d0
    by (induction xs arbitrary: d0) (auto simp: dict_set_def dom_update)
  then show ?thesis by (simp add: dict_of_def)
qed

lemma length_dict_of_iff_distinct: "length (dict_of f g xs) = length xs \<longleftrightarrow> distinct (map f xs)"
proof -
  have "length (dict_of f g xs) = card (set (map fst (dict_of f g xs)))"
    using dict_ok_of [of f g xs] by (metis dict_ok_def distinct_card length_map)
  also have "\<dots> = card (set (map f xs))"
    by (metis keys_dict_of list.set_map)
  finally show ?thesis
    by (metis card_distinct distinct_card length_map)
qed

lemma dict_get_set_fun: "dict_get (dict_set k v d) = (dict_get d)(k \<mapsto> v)"
  by (simp add: fun_eq_iff dict_simps)

lemma dict_get_Nil_fun: "dict_get [] = Map.empty"
  by (simp add: fun_eq_iff dict_simps)

lemma set_eq_singleton_distinct: "distinct xs \<Longrightarrow> set xs = {x} \<longleftrightarrow> xs = [x]"
proof (cases xs)
  case (Cons y ys)
  assume "distinct xs"
  with Cons show ?thesis by (cases ys) auto
qed simp

text \<open>A model with \<open>extra="forbid"\<close>: no key of the payload but these.\<close>

definition only_keys :: "string list \<Rightarrow> (string, 'v) dict \<Rightarrow> bool" where
  "only_keys ks d \<longleftrightarrow> list_all (\<lambda>k. k \<in> set ks) (map fst d)"

lemma find_append: "find P (xs @ ys) = (case find P xs of None \<Rightarrow> find P ys | Some x \<Rightarrow> Some x)"
  by (induction xs) auto

lemma find_SomeD: "find P xs = Some x \<Longrightarrow> x \<in> set xs \<and> P x"
  by (auto simp: find_Some_iff)

section \<open>Date-times\<close>

text \<open>
  A \<open>datetime\<close> is aware or naive; the number counts microseconds.  Comparing an aware with a
  naive value raises \<open>TypeError\<close>.
\<close>

datatype datetime = Aware int | Naive int

fun instant :: "datetime \<Rightarrow> int" where
  "instant (Aware t) = t"
| "instant (Naive t) = t"

fun is_aware :: "datetime \<Rightarrow> bool" where
  "is_aware (Aware _) = True"
| "is_aware (Naive _) = False"

definition mixed_awareness :: exn where
  "mixed_awareness = TypeError ''can't compare offset-naive and offset-aware datetimes''"

definition dt_less :: "datetime \<Rightarrow> datetime \<Rightarrow> bool result" where
  "dt_less a b = (if is_aware a = is_aware b then Inr (instant a < instant b)
                  else Inl mixed_awareness)"

definition dt_le :: "datetime \<Rightarrow> datetime \<Rightarrow> bool result" where
  "dt_le a b = (if is_aware a = is_aware b then Inr (instant a \<le> instant b)
                else Inl mixed_awareness)"

fun dt_add_seconds :: "datetime \<Rightarrow> int \<Rightarrow> datetime" where
  "dt_add_seconds (Aware t) n = Aware (t + n * 1000000)"
| "dt_add_seconds (Naive t) n = Naive (t + n * 1000000)"

lemma is_aware_add [simp]: "is_aware (dt_add_seconds a n) = is_aware a"
  by (cases a) simp_all

lemma instant_add [simp]: "instant (dt_add_seconds a n) = instant a + n * 1000000"
  by (cases a) simp_all

lemma is_aware_iff: "is_aware d \<longleftrightarrow> (\<exists>t. d = Aware t)"
  by (cases d) auto

lemma dt_less_Aware [simp]: "dt_less (Aware a) (Aware b) = Inr (a < b)"
  by (simp add: dt_less_def)

lemma dt_le_Aware [simp]: "dt_le (Aware a) (Aware b) = Inr (a \<le> b)"
  by (simp add: dt_le_def)

section \<open>Workflow graphs\<close>

text \<open>
  A node of a graph reads the graph state, returns it updated or raises, and may change the world;
  an edge runs the next node unless the first one raised.
\<close>

type_synonym ('s, 'w) node = "'s \<Rightarrow> 'w \<Rightarrow> 's result \<times> 'w"

definition and_then :: "('s, 'w) node \<Rightarrow> ('s, 'w) node \<Rightarrow> ('s, 'w) node" where
  "and_then f g s w = (case f s w of (Inl e, w1) \<Rightarrow> (Inl e, w1) | (Inr s1, w1) \<Rightarrow> g s1 w1)"

end
