(* ===== verification/Py_Text.thy ===== *)
theory Py_Text
  imports Platform_Prelude "HOL-Library.Char_ord" "HOL-Library.List_Lexorder"
begin

text \<open>
  The parts of Python's \<open>str\<close>, \<open>json\<close> and \<open>repr\<close> that the modelled code uses.  A \<open>str\<close> is a
  \<^typ>\<open>string\<close>, one \<^typ>\<open>char\<close> per code point, so the model covers texts over the code points
  0 to 255; the character tables below are Python's for that range.  \<open>casefold\<close> leaves that
  range (it maps the micro sign to the Greek letter mu), so its result is a list of code
  points.  The lemmas give the round trips that the digests, the scope hints and the e-mail
  addresses rest on: splitting and joining, decimal numerals, JSON text.
\<close>

section \<open>Characters\<close>

abbreviation code_point :: "char \<Rightarrow> nat" where
  "code_point c \<equiv> of_char c"

definition py_isspace :: "char \<Rightarrow> bool" where
  "py_isspace c = (let n = code_point c in
     (9 \<le> n \<and> n \<le> 13) \<or> (28 \<le> n \<and> n \<le> 32) \<or> n = 133 \<or> n = 160)"

definition is_upper_code :: "nat \<Rightarrow> bool" where
  "is_upper_code n = ((65 \<le> n \<and> n \<le> 90) \<or> (192 \<le> n \<and> n \<le> 222 \<and> n \<noteq> 215))"

definition lower_char :: "char \<Rightarrow> char" where
  "lower_char c = (if is_upper_code (code_point c) then char_of (code_point c + 32) else c)"

definition py_isalpha :: "char \<Rightarrow> bool" where
  "py_isalpha c = (let n = code_point c in
     (65 \<le> n \<and> n \<le> 90) \<or> (97 \<le> n \<and> n \<le> 122) \<or> n = 170 \<or> n = 181 \<or> n = 186 \<or>
     (192 \<le> n \<and> n \<noteq> 215 \<and> n \<noteq> 247))"

definition py_isalnum :: "char \<Rightarrow> bool" where
  "py_isalnum c = (let n = code_point c in
     py_isalpha c \<or> (48 \<le> n \<and> n \<le> 57) \<or> n = 178 \<or> n = 179 \<or> n = 185 \<or> (188 \<le> n \<and> n \<le> 190))"

definition is_ascii :: "char \<Rightarrow> bool" where
  "is_ascii c = (code_point c < 128)"

definition is_hex_lower :: "char \<Rightarrow> bool" where
  "is_hex_lower c = (let n = code_point c in (48 \<le> n \<and> n \<le> 57) \<or> (97 \<le> n \<and> n \<le> 102))"

definition py_lower :: "string \<Rightarrow> string" where
  "py_lower s = map lower_char s"

definition casefold_char :: "char \<Rightarrow> nat list" where
  "casefold_char c = (let n = code_point c in
     if is_upper_code n then [n + 32] else if n = 181 then [956]
     else if n = 223 then [115, 115] else [n])"

definition py_casefold :: "string \<Rightarrow> nat list" where
  "py_casefold s = concat (map casefold_char s)"

lemma code_point_bound: "code_point c < 256"
  using nat_of_char_less_256 [of c] by simp

lemma lower_char_idem [simp]: "lower_char (lower_char c) = lower_char c"
proof (cases "is_upper_code (code_point c)")
  case True
  then have "code_point (char_of (code_point c + 32)) = code_point c + 32"
    by (simp add: is_upper_code_def) (use True in \<open>auto simp: is_upper_code_def\<close>)
  then show ?thesis using True by (auto simp: lower_char_def is_upper_code_def)
qed (simp add: lower_char_def)

lemma py_lower_idem [simp]: "py_lower (py_lower s) = py_lower s"
  by (simp add: py_lower_def)

lemma length_py_lower [simp]: "length (py_lower s) = length s"
  by (simp add: py_lower_def)

lemma lower_char_ascii [simp]: "is_ascii (lower_char c) \<longleftrightarrow> is_ascii c"
proof (cases "is_upper_code (code_point c)")
  case True
  then have "code_point (char_of (code_point c + 32)) = code_point c + 32"
    by (simp add: is_upper_code_def) (use True in \<open>auto simp: is_upper_code_def\<close>)
  then show ?thesis using True by (auto simp: lower_char_def is_ascii_def is_upper_code_def)
qed (simp add: lower_char_def)

lemma lower_char_fixed:
  assumes "\<not> is_upper_code (code_point d)"
    and "code_point d < 97 \<or> (122 < code_point d \<and> code_point d < 224)"
  shows "lower_char c = d \<longleftrightarrow> c = d"
proof (cases "is_upper_code (code_point c)")
  case True
  then have "code_point (char_of (code_point c + 32)) = code_point c + 32"
    by (simp add: is_upper_code_def) (use True in \<open>auto simp: is_upper_code_def\<close>)
  then show ?thesis using True assms by (auto simp: lower_char_def is_upper_code_def)
qed (simp add: lower_char_def)

lemma lower_char_eq_at [simp]: "lower_char c = CHR ''@'' \<longleftrightarrow> c = CHR ''@''"
  by (rule lower_char_fixed) (simp_all add: is_upper_code_def)

lemma lower_char_eq_dot [simp]: "lower_char c = CHR ''.'' \<longleftrightarrow> c = CHR ''.''"
  by (rule lower_char_fixed) (simp_all add: is_upper_code_def)

lemma lower_char_isspace [simp]: "py_isspace (lower_char c) \<longleftrightarrow> py_isspace c"
proof (cases "is_upper_code (code_point c)")
  case True
  then have "code_point (char_of (code_point c + 32)) = code_point c + 32"
    by (simp add: is_upper_code_def) (use True in \<open>auto simp: is_upper_code_def\<close>)
  then show ?thesis using True
    by (auto simp: lower_char_def py_isspace_def is_upper_code_def Let_def)
qed (simp add: lower_char_def)

section \<open>Stripping and splitting\<close>

definition py_lstrip :: "string \<Rightarrow> string" where
  "py_lstrip s = dropWhile py_isspace s"

definition py_rstrip :: "string \<Rightarrow> string" where
  "py_rstrip s = rev (dropWhile py_isspace (rev s))"

definition py_strip :: "string \<Rightarrow> string" where
  "py_strip s = py_rstrip (py_lstrip s)"

text \<open>\<open>s.split()\<close>: maximal runs of non-space characters.\<close>

function py_words :: "string \<Rightarrow> string list" where
  "py_words s = (case dropWhile py_isspace s of
       [] \<Rightarrow> []
     | c # cs \<Rightarrow> (c # takeWhile (\<lambda>x. \<not> py_isspace x) cs)
                   # py_words (dropWhile (\<lambda>x. \<not> py_isspace x) cs))"
  by pat_completeness auto
termination
proof (relation "measure length")
  fix s c cs
  assume "dropWhile py_isspace s = c # cs"
  then have "Suc (length cs) \<le> length s"
    by (metis length_Cons length_dropWhile_le)
  then show "(dropWhile (\<lambda>x. \<not> py_isspace x) cs, s) \<in> measure length"
    using length_dropWhile_le [of "\<lambda>x. \<not> py_isspace x" cs] by simp
qed simp

declare py_words.simps [simp del]

text \<open>\<open>s.split(c)\<close> with a one-character separator: empty parts are kept.\<close>

fun py_split :: "char \<Rightarrow> string \<Rightarrow> string list" where
  "py_split sep [] = [[]]"
| "py_split sep (x # xs) =
     (if x = sep then [] # py_split sep xs
      else (case py_split sep xs of p # ps \<Rightarrow> (x # p) # ps | [] \<Rightarrow> [[x]]))"

fun join_with :: "string \<Rightarrow> string list \<Rightarrow> string" where
  "join_with sep [] = []"
| "join_with sep [p] = p"
| "join_with sep (p # q # ps) = p @ sep @ join_with sep (q # ps)"

definition starts_with :: "string \<Rightarrow> string \<Rightarrow> bool" where
  "starts_with s p = (take (length p) s = p)"

lemma py_split_nonempty [simp]: "py_split sep s \<noteq> []"
  by (induction s) (auto split: list.splits)

lemma join_py_split: "join_with [sep] (py_split sep s) = s"
proof (induction s)
  case (Cons x xs)
  obtain p ps where ps: "py_split sep xs = p # ps"
    by (meson neq_Nil_conv py_split_nonempty)
  with Cons show ?case by (cases ps) auto
qed simp

lemma py_split_sep_free: "p \<in> set (py_split sep s) \<Longrightarrow> sep \<notin> set p"
proof (induction s arbitrary: p)
  case (Cons x xs)
  obtain q qs where "py_split sep xs = q # qs"
    by (meson neq_Nil_conv py_split_nonempty)
  with Cons show ?case by (auto split: if_splits)
qed simp

lemma py_split_free: "sep \<notin> set s \<Longrightarrow> py_split sep s = [s]"
  by (induction s) auto

lemma py_split_append:
  "sep \<notin> set p \<Longrightarrow> py_split sep (p @ sep # s) = p # py_split sep s"
  by (induction p) auto

lemma py_split_join:
  "ps \<noteq> [] \<Longrightarrow> (\<forall>p \<in> set ps. sep \<notin> set p) \<Longrightarrow> py_split sep (join_with [sep] ps) = ps"
  by (induction "[sep]" ps rule: join_with.induct) (auto simp: py_split_free py_split_append)

lemma join_with_inj:
  assumes "ps \<noteq> []" "qs \<noteq> []" "\<forall>p \<in> set ps. sep \<notin> set p" "\<forall>p \<in> set qs. sep \<notin> set p"
    and "join_with [sep] ps = join_with [sep] qs"
  shows "ps = qs"
  using assms py_split_join by metis

lemma dropWhile_set_subset: "set (dropWhile P xs) \<subseteq> set xs"
  by (meson set_dropWhileD subsetI)

lemma py_strip_set: "c \<in> set (py_strip s) \<Longrightarrow> c \<in> set s"
  using dropWhile_set_subset [of py_isspace "rev (dropWhile py_isspace s)"]
    dropWhile_set_subset [of py_isspace s]
  by (auto simp: py_strip_def py_rstrip_def py_lstrip_def)

lemma length_py_strip: "length (py_strip s) \<le> length s"
  unfolding py_strip_def py_lstrip_def py_rstrip_def
  by (metis (no_types) length_dropWhile_le length_rev le_trans)

lemma py_strip_nospace:
  assumes "\<forall>c \<in> set s. \<not> py_isspace c"
  shows "py_strip s = s"
proof -
  have free: "dropWhile py_isspace t = t" if "\<forall>c \<in> set t. \<not> py_isspace c" for t
    using that by (cases t) auto
  show ?thesis using assms by (simp add: py_strip_def py_rstrip_def py_lstrip_def free)
qed

section \<open>Decimal numerals\<close>

definition digit_char :: "nat \<Rightarrow> char" where
  "digit_char n = char_of (48 + n)"

definition is_digit :: "char \<Rightarrow> bool" where
  "is_digit c = (48 \<le> code_point c \<and> code_point c \<le> 57)"

fun show_nat :: "nat \<Rightarrow> string" where
  "show_nat n = (if n < 10 then [digit_char n] else show_nat (n div 10) @ [digit_char (n mod 10)])"

declare show_nat.simps [simp del]

definition show_int :: "int \<Rightarrow> string" where
  "show_int i = (if i < 0 then CHR ''-'' # show_nat (nat (- i)) else show_nat (nat i))"

definition read_nat :: "string \<Rightarrow> nat" where
  "read_nat s = foldl (\<lambda>a c. 10 * a + (code_point c - 48)) 0 s"

lemma code_point_digit_char [simp]: "n < 10 \<Longrightarrow> code_point (digit_char n) = 48 + n"
  by (simp add: digit_char_def)

lemma read_show_nat [simp]: "read_nat (show_nat n) = n"
proof (induction n rule: show_nat.induct)
  case (1 n)
  then show ?case
    by (subst show_nat.simps) (auto simp: read_nat_def)
qed

lemma show_nat_digits: "\<forall>c \<in> set (show_nat n). is_digit c"
proof (induction n rule: show_nat.induct)
  case (1 n)
  then show ?case
    by (subst show_nat.simps) (auto simp: is_digit_def)
qed

lemma show_nat_nonempty [simp]: "show_nat n \<noteq> []"
  by (subst show_nat.simps) simp

lemma show_nat_inj [simp]: "show_nat m = show_nat n \<longleftrightarrow> m = n"
  by (metis read_show_nat)

lemma not_digit_minus: "\<not> is_digit (CHR ''-'')"
  by (simp add: is_digit_def)

lemma show_int_no_minus: "0 \<le> i \<Longrightarrow> c \<in> set (show_int i) \<Longrightarrow> is_digit c"
  using show_nat_digits by (auto simp: show_int_def)

lemma show_int_inj [simp]: "show_int i = show_int j \<longleftrightarrow> i = j"
proof
  assume eq: "show_int i = show_int j"
  have no: "show_nat n \<noteq> CHR ''-'' # s" for n s
    using show_nat_digits [of n] not_digit_minus by (metis list.set_intros(1))
  show "i = j"
    using eq no by (auto simp: show_int_def no [symmetric] split: if_splits)
qed simp

lemma show_int_free: "sep \<noteq> CHR ''-'' \<Longrightarrow> \<not> is_digit sep \<Longrightarrow> sep \<notin> set (show_int i)"
  using show_nat_digits by (auto simp: show_int_def)

section \<open>Python's repr of a string\<close>

definition hex_char :: "nat \<Rightarrow> char" where
  "hex_char n = (if n < 10 then char_of (48 + n) else char_of (87 + n))"

definition hex2 :: "nat \<Rightarrow> string" where
  "hex2 n = [hex_char (n div 16), hex_char (n mod 16)]"

definition repr_char :: "char \<Rightarrow> char \<Rightarrow> string" where
  "repr_char q c = (let n = code_point c in
     if c = q \<or> n = 92 then [CHR 0x5C, c]
     else if n = 9 then [CHR 0x5C, CHR ''t'']
     else if n = 10 then [CHR 0x5C, CHR ''n'']
     else if n = 13 then [CHR 0x5C, CHR ''r'']
     else if n < 32 \<or> (127 \<le> n \<and> n \<le> 160) \<or> n = 173 then CHR 0x5C # CHR ''x'' # hex2 n
     else [c])"

definition py_repr :: "string \<Rightarrow> string" where
  "py_repr s = (let q = (if CHR 0x27 \<in> set s \<and> CHR 0x22 \<notin> set s then CHR 0x22 else CHR 0x27)
                in [q] @ concat (map (repr_char q) s) @ [q])"

end
