(* ===== verification/Gateway_Schemas.thy ===== *)
theory Gateway_Schemas
  imports Py_Text
begin

text \<open>
  The data contracts of \<open>gateway/schemas.py\<close>, \<open>gateway/auth/schemas.py\<close> and
  \<open>gateway/approval.py\<close>: intents, scopes, the capability ladder with its hand-written order,
  grants, actors and approval requests.  A class becomes a record; a \<open>str\<close> enumeration becomes
  a datatype with its wire values; a field constraint becomes a check of the \<open>make_\<close> function
  that builds the value.
\<close>

section \<open>Intents and scopes (gateway/schemas.py)\<close>

datatype intent = PROVISION | INQUIRY | COMPLIANCE_CHECK

fun intent_value :: "intent \<Rightarrow> string" where
  "intent_value PROVISION = ''provision''"
| "intent_value INQUIRY = ''inquiry''"
| "intent_value COMPLIANCE_CHECK = ''compliance_check''"

definition all_intents :: "intent list" where
  "all_intents = [PROVISION, INQUIRY, COMPLIANCE_CHECK]"

definition intent_of_value :: "string \<Rightarrow> intent option" where
  "intent_of_value s = find (\<lambda>i. intent_value i = s) all_intents"

lemma intent_value_inj [simp]: "intent_value i = intent_value j \<longleftrightarrow> i = j"
  by (cases i; cases j) simp_all

lemma intent_of_value_value [simp]: "intent_of_value (intent_value i) = Some i"
  by (cases i) (simp_all add: intent_of_value_def all_intents_def)

lemma intent_of_value_SomeD: "intent_of_value s = Some i \<Longrightarrow> s = intent_value i"
  by (auto simp: intent_of_value_def dest: find_SomeD)

record scope =
  s_org :: string
  s_bu :: string
  s_project :: "string option"
  s_workspace :: "string option"

definition scope_org_bu :: "scope \<Rightarrow> string" where
  "scope_org_bu s = s_org s @ '':'' @ s_bu s"

record tenant_ref =
  tenant_org :: string
  tenant_bu :: string

definition make_tenant_ref :: "string \<Rightarrow> string \<Rightarrow> tenant_ref result" where
  "make_tenant_ref og b =
     (if og = [] \<or> b = [] then Inl (ValidationError ''TenantRef'')
      else Inr \<lparr>tenant_org = og, tenant_bu = b\<rparr>)"

definition tenant_org_bu :: "tenant_ref \<Rightarrow> string" where
  "tenant_org_bu t = tenant_org t @ '':'' @ tenant_bu t"

record scope_hint =
  hint_tenant :: tenant_ref
  hint_project :: "string option"
  hint_workspace :: "string option"

record clarification_question =
  q_field :: string
  q_question :: string
  q_choices :: "string list"

record intake_request =
  ir_raw_text :: string
  ir_clarification_round :: int

record intake_decision =
  d_intent :: "intent option"
  d_clarification_questions :: "clarification_question list"
  d_route :: "string option"
  d_ready_to_route :: bool
  d_mutation_requested :: bool
  d_approval_required :: bool
  d_unsupported_reason :: "string option"
  d_evidence :: "string list"

definition default_decision :: intake_decision where
  "default_decision = \<lparr>d_intent = None, d_clarification_questions = [], d_route = None,
     d_ready_to_route = False, d_mutation_requested = False, d_approval_required = False,
     d_unsupported_reason = None, d_evidence = []\<rparr>"

section \<open>The capability ladder (gateway/auth/schemas.py)\<close>

datatype capability =
  CAP_NONE | DESCRIBE | PLAN | PROPOSE_CHANGE | APPLY_LIMITED | APPLY_FULL | ADMIN

fun capability_value :: "capability \<Rightarrow> string" where
  "capability_value CAP_NONE = ''none''"
| "capability_value DESCRIBE = ''describe''"
| "capability_value PLAN = ''plan''"
| "capability_value PROPOSE_CHANGE = ''propose_change''"
| "capability_value APPLY_LIMITED = ''apply_limited''"
| "capability_value APPLY_FULL = ''apply_full''"
| "capability_value ADMIN = ''admin''"

definition capability_order :: "string list" where
  "capability_order = [''none'', ''describe'', ''plan'', ''propose_change'', ''apply_limited'',
     ''apply_full'', ''admin'']"

text \<open>\<open>_rank\<close>: the position of the value in the order tuple.\<close>

definition capability_rank :: "capability \<Rightarrow> nat" where
  "capability_rank c = length (takeWhile (\<lambda>v. v \<noteq> capability_value c) capability_order)"

lemma capability_rank_simps [simp]:
  "capability_rank CAP_NONE = 0" "capability_rank DESCRIBE = 1" "capability_rank PLAN = 2"
  "capability_rank PROPOSE_CHANGE = 3" "capability_rank APPLY_LIMITED = 4"
  "capability_rank APPLY_FULL = 5" "capability_rank ADMIN = 6"
  by (simp_all add: capability_rank_def capability_order_def)

lemma capability_rank_inj: "capability_rank c = capability_rank d \<longleftrightarrow> c = d"
  by (cases c; cases d) simp_all

text \<open>The four comparison methods compare ranks; they make the ladder a linear order, so the
  library's \<open>min\<close> is Python's.\<close>

instantiation capability :: linorder
begin

definition less_eq_capability :: "capability \<Rightarrow> capability \<Rightarrow> bool" where
  "less_eq_capability c d \<longleftrightarrow> capability_rank c \<le> capability_rank d"

definition less_capability :: "capability \<Rightarrow> capability \<Rightarrow> bool" where
  "less_capability c d \<longleftrightarrow> capability_rank c < capability_rank d"

instance
  by standard (auto simp: less_eq_capability_def less_capability_def capability_rank_inj)

end

lemma CAP_NONE_least [simp]: "CAP_NONE \<le> c"
  by (simp add: less_eq_capability_def)

lemma le_CAP_NONE [simp]: "c \<le> CAP_NONE \<longleftrightarrow> c = CAP_NONE"
  by (metis CAP_NONE_least antisym order_refl)

lemma CAP_NONE_less [simp]: "CAP_NONE < c \<longleftrightarrow> c \<noteq> CAP_NONE"
  by (metis CAP_NONE_least less_le)

record execution_grant =
  grant_scope :: scope
  grant_provider :: string
  grant_capability :: capability

record approval_grant =
  ag_scope :: scope
  ag_max_capability :: capability

record actor =
  a_user_id :: string
  a_email :: string
  a_execution_grants :: "execution_grant list"
  a_approval_grants :: "approval_grant list"
  a_resolved_at :: datetime

record actor_ref =
  ref_user_id :: string
  ref_email :: string

section \<open>Approval records (gateway/approval.py)\<close>

datatype approval_verdict = VERDICT_APPROVE | VERDICT_REJECT | VERDICT_CANCEL

record approval_record =
  ar_request_id :: string
  ar_approver_id :: string
  ar_verdict :: approval_verdict
  ar_timestamp :: datetime
  ar_plan_digest :: string
  ar_approval_digest :: string
  ar_scope :: scope
  ar_capability_required :: capability

record approval_request =
  aq_request_id :: string
  aq_scope :: scope
  aq_intent :: string
  aq_capability_required :: capability
  aq_plan_digest :: string
  aq_approval_digest :: string
  aq_vibe_diff :: string
  aq_requester :: actor_ref
  aq_approvals_so_far :: "approval_record list"
  aq_required_approvals :: int
  aq_approval_expires_at :: "datetime option"

definition check_approval_request :: "approval_request \<Rightarrow> approval_request result" where
  "check_approval_request r =
     (if aq_required_approvals r < 1 then Inl (ValidationError ''ApprovalRequest'') else Inr r)"

end
