(* ===== verification/Access_Ceiling.thy ===== *)
theory Access_Ceiling
  imports Gateway_Schemas
begin

text \<open>
  \<open>gateway/policy/ceiling.py\<close>: the \<open>effective_access\<close> invariant.  An actor's access to a scope
  is the lower of the best-matching execution grant and the best-matching policy ceiling, and
  either half is \<open>none\<close> when nothing matches.  Both halves select the most specific matching
  entries first; the locale \<open>specific_match\<close> states that selection once, over any entry type,
  and is interpreted on grants and on ceiling entries.
\<close>

section \<open>Entries and matching\<close>

record ceiling_entry =
  ce_scope :: scope
  ce_intent :: intent
  ce_ceiling :: capability

record org_bu_policy_config =
  pc_entries :: "ceiling_entry list"

definition wildcard :: "string option \<Rightarrow> bool" where
  "wildcard v \<longleftrightarrow> v = None \<or> v = Some ''*''"

definition specificity :: "scope \<Rightarrow> nat" where
  "specificity s = (if wildcard (s_project s) then 0 else 1) + (if wildcard (s_workspace s) then 0 else 1)"

definition scope_matches :: "scope \<Rightarrow> scope \<Rightarrow> bool" where
  "scope_matches e q =
     (if s_org e \<noteq> s_org q \<or> s_bu e \<noteq> s_bu q then False
      else if \<not> (wildcard (s_project e) \<or> s_project e = s_project q) then False
      else if \<not> (wildcard (s_workspace e) \<or> s_workspace e = s_workspace q) then False
      else True)"

lemma scope_matches_iff:
  "scope_matches e q \<longleftrightarrow> s_org e = s_org q \<and> s_bu e = s_bu q \<and>
     (wildcard (s_project e) \<or> s_project e = s_project q) \<and>
     (wildcard (s_workspace e) \<or> s_workspace e = s_workspace q)"
  by (auto simp: scope_matches_def)

lemma scope_matches_refl [simp]: "scope_matches s s"
  by (simp add: scope_matches_iff)

section \<open>The most specific matches\<close>

text \<open>\<open>matches\<close>, \<open>top\<close> and \<open>tied\<close> of both resolvers.\<close>

definition most_specific :: "('e \<Rightarrow> bool) \<Rightarrow> ('e \<Rightarrow> nat) \<Rightarrow> 'e list \<Rightarrow> 'e list" where
  "most_specific m sp es =
     (let matches = filter m es in
      if matches = [] then [] else filter (\<lambda>e. sp e = Max (sp ` set matches)) matches)"

locale specific_match =
  fixes matches :: "'e \<Rightarrow> bool"
    and spec :: "'e \<Rightarrow> nat"
    and tied :: "'e list \<Rightarrow> 'e list"
  assumes tied_iff: "e \<in> set (tied es) \<longleftrightarrow> e \<in> set es \<and> matches e \<and>
      (\<forall>e' \<in> set es. matches e' \<longrightarrow> spec e' \<le> spec e)"
begin

lemma tied_empty_iff: "tied es = [] \<longleftrightarrow> (\<forall>e \<in> set es. \<not> matches e)"
proof
  assume "tied es = []"
  show "\<forall>e \<in> set es. \<not> matches e"
  proof (rule ccontr)
    assume "\<not> (\<forall>e \<in> set es. \<not> matches e)"
    then have ne: "{e \<in> set es. matches e} \<noteq> {}" by auto
    obtain e where "e \<in> {e \<in> set es. matches e}"
      and "\<forall>e' \<in> {e \<in> set es. matches e}. spec e' \<le> spec e"
      using ne Max_in [of "spec ` {e \<in> set es. matches e}"]
        Max_ge [of "spec ` {e \<in> set es. matches e}"] by fastforce
    then have "e \<in> set (tied es)" by (simp add: tied_iff)
    with \<open>tied es = []\<close> show False by simp
  qed
next
  assume "\<forall>e \<in> set es. \<not> matches e"
  then have "e \<notin> set (tied es)" for e by (simp add: tied_iff)
  then show "tied es = []" by (meson list.set_sel(1))
qed

lemma tied_set_cong: "set es = set es' \<Longrightarrow> set (tied es) = set (tied es')"
  by (auto simp: tied_iff)

text \<open>A less specific entry cannot change the selection once something more specific matches.\<close>

lemma tied_dominated:
  assumes "e' \<in> set es" "matches e'" "spec e < spec e'"
  shows "set (tied (e # es)) = set (tied es)"
proof -
  have "\<not> spec e' \<le> spec e" using assms(3) by simp
  then show ?thesis
    using assms(1,2) by (auto simp: tied_iff) (meson assms(3) le_trans nless_le order.strict_implies_order)+
qed

lemma tied_unmatched: "\<not> matches e \<Longrightarrow> set (tied (e # es)) = set (tied es)"
  by (auto simp: tied_iff)

end

lemma most_specific_iff:
  "e \<in> set (most_specific m sp es) \<longleftrightarrow> e \<in> set es \<and> m e \<and>
     (\<forall>e' \<in> set es. m e' \<longrightarrow> sp e' \<le> sp e)"
proof (cases "filter m es = []")
  case True
  then show ?thesis by (auto simp: most_specific_def filter_empty_conv)
next
  case False
  let ?M = "sp ` set (filter m es)"
  have "finite ?M" "?M \<noteq> {}" using False by (simp, metis image_is_empty set_empty)
  then have "sp e = Max ?M \<longleftrightarrow> (\<forall>k \<in> ?M. k \<le> sp e)" if "e \<in> set (filter m es)"
    using that by (metis Max_ge Max_in antisym image_eqI)
  with False show ?thesis by (auto simp: most_specific_def Let_def)
qed

section \<open>The two halves\<close>

definition py_min :: "capability list \<Rightarrow> capability" where
  "py_min cs = (case cs of [] \<Rightarrow> CAP_NONE | c # rest \<Rightarrow> fold min rest c)"

definition matching_grants :: "scope \<Rightarrow> execution_grant list \<Rightarrow> execution_grant list" where
  "matching_grants s gs = most_specific (\<lambda>g. scope_matches (grant_scope g) s)
     (\<lambda>g. specificity (grant_scope g)) gs"

definition resolve_execution_capability :: "scope \<Rightarrow> execution_grant list \<Rightarrow> capability" where
  "resolve_execution_capability s gs =
     (let tied = matching_grants s gs in
      if tied = [] then CAP_NONE else py_min (map grant_capability tied))"

definition matching_entries :: "scope \<Rightarrow> intent \<Rightarrow> org_bu_policy_config \<Rightarrow> ceiling_entry list" where
  "matching_entries s i cfg = most_specific (\<lambda>e. ce_intent e = i \<and> scope_matches (ce_scope e) s)
     (\<lambda>e. specificity (ce_scope e)) (pc_entries cfg)"

definition ambiguous_ceiling :: exn where
  "ambiguous_ceiling = ValueError ''ambiguous policy ceiling''"

definition resolve_ceiling :: "scope \<Rightarrow> intent \<Rightarrow> org_bu_policy_config \<Rightarrow> capability result" where
  "resolve_ceiling s i cfg =
     (let tied = matching_entries s i cfg in
      case tied of
        [] \<Rightarrow> Inr CAP_NONE
      | e # _ \<Rightarrow> if card (ce_ceiling ` set tied) > 1 then Inl ambiguous_ceiling
                 else Inr (ce_ceiling e))"

definition effective_access ::
  "scope \<Rightarrow> intent \<Rightarrow> execution_grant list \<Rightarrow> org_bu_policy_config \<Rightarrow> capability result" where
  "effective_access s i gs policy =
     (let grant = resolve_execution_capability s gs in
      bind_result (resolve_ceiling s i policy) (\<lambda>ceiling. Inr (min grant ceiling)))"

interpretation grants: specific_match "\<lambda>g. scope_matches (grant_scope g) s"
  "\<lambda>g. specificity (grant_scope g)" "matching_grants s" for s
  by unfold_locales (simp add: matching_grants_def most_specific_iff)

interpretation ceilings: specific_match "\<lambda>e. ce_intent e = i \<and> scope_matches (ce_scope e) s"
  "\<lambda>e. specificity (ce_scope e)"
  "\<lambda>es. matching_entries s i \<lparr>pc_entries = es\<rparr>" for i s
  by unfold_locales (simp add: matching_entries_def most_specific_iff)

lemma py_min_Min: "cs \<noteq> [] \<Longrightarrow> py_min cs = Min (set cs)"
  by (cases cs) (simp_all add: py_min_def Min.set_eq_fold del: set_simps)

lemma resolve_execution_capability_eq:
  "resolve_execution_capability s gs =
     (if matching_grants s gs = [] then CAP_NONE
      else Min (grant_capability ` set (matching_grants s gs)))"
  by (simp add: resolve_execution_capability_def py_min_Min)

lemma resolve_execution_capability_cong:
  "set (matching_grants s gs) = set (matching_grants s gs')
    \<Longrightarrow> resolve_execution_capability s gs = resolve_execution_capability s gs'"
  by (metis resolve_execution_capability_eq set_empty)

lemma resolve_ceiling_Inr_iff:
  "resolve_ceiling s i cfg = Inr c \<longleftrightarrow>
     (if matching_entries s i cfg = [] then c = CAP_NONE
      else \<forall>e \<in> set (matching_entries s i cfg). ce_ceiling e = c)"
proof (cases "matching_entries s i cfg")
  case (Cons e es)
  have "card (ce_ceiling ` set (e # es)) > 1 \<longleftrightarrow> (\<exists>x \<in> set es. ce_ceiling x \<noteq> ce_ceiling e)"
  proof
    assume "card (ce_ceiling ` set (e # es)) > 1"
    show "\<exists>x \<in> set es. ce_ceiling x \<noteq> ce_ceiling e"
    proof (rule ccontr)
      assume "\<not> ?thesis"
      then have "ce_ceiling ` set (e # es) = {ce_ceiling e}" by auto
      then have "card (ce_ceiling ` set (e # es)) = 1" by (simp only: card.insert finite.emptyI card.empty) simp
      then show False using \<open>card (ce_ceiling ` set (e # es)) > 1\<close> by linarith
    qed
  next
    assume "\<exists>x \<in> set es. ce_ceiling x \<noteq> ce_ceiling e"
    then obtain x where "x \<in> set es" "ce_ceiling x \<noteq> ce_ceiling e" by blast
    then have "card {ce_ceiling x, ce_ceiling e} \<le> card (ce_ceiling ` set (e # es))"
      by (intro card_mono) auto
    then show "card (ce_ceiling ` set (e # es)) > 1"
      using \<open>ce_ceiling x \<noteq> ce_ceiling e\<close> by simp
  qed
  then show ?thesis using Cons by (auto simp: resolve_ceiling_def)
qed (auto simp: resolve_ceiling_def)

section \<open>Properties\<close>

definition best_grant :: "scope \<Rightarrow> execution_grant list \<Rightarrow> execution_grant \<Rightarrow> bool" where
  "best_grant s gs g \<longleftrightarrow> g \<in> set gs \<and> scope_matches (grant_scope g) s \<and>
     (\<forall>g' \<in> set gs. scope_matches (grant_scope g') s \<longrightarrow>
        specificity (grant_scope g') \<le> specificity (grant_scope g))"

definition best_entry :: "scope \<Rightarrow> intent \<Rightarrow> org_bu_policy_config \<Rightarrow> ceiling_entry \<Rightarrow> bool" where
  "best_entry s i cfg e \<longleftrightarrow> e \<in> set (pc_entries cfg) \<and> ce_intent e = i \<and> scope_matches (ce_scope e) s \<and>
     (\<forall>e' \<in> set (pc_entries cfg). ce_intent e' = i \<longrightarrow> scope_matches (ce_scope e') s \<longrightarrow>
        specificity (ce_scope e') \<le> specificity (ce_scope e))"

lemma set_matching_grants: "set (matching_grants s gs) = Collect (best_grant s gs)"
  by (auto simp: best_grant_def grants.tied_iff)

lemma set_matching_entries: "set (matching_entries s i cfg) = Collect (best_entry s i cfg)"
proof -
  have eq: "\<lparr>pc_entries = pc_entries cfg\<rparr> = cfg" by (cases cfg) simp
  show ?thesis
    using ceilings.tied_iff [where i = i and s = s and es = "pc_entries cfg", unfolded eq]
    by (auto simp: best_entry_def)
qed

lemma matching_grants_empty: "matching_grants s gs = [] \<longleftrightarrow> \<not> (\<exists>g. best_grant s gs g)"
  using set_matching_grants [of s gs] by (metis empty_Collect_eq set_empty)

lemma matching_entries_empty: "matching_entries s i cfg = [] \<longleftrightarrow> \<not> (\<exists>e. best_entry s i cfg e)"
  using set_matching_entries [of s i cfg] by (metis empty_Collect_eq set_empty)

lemma le_resolve_execution_capability:
  "k \<le> resolve_execution_capability s gs \<longleftrightarrow>
     k = CAP_NONE \<or> (\<exists>g. best_grant s gs g) \<and> (\<forall>g. best_grant s gs g \<longrightarrow> k \<le> grant_capability g)"
proof (cases "matching_grants s gs = []")
  case True
  then show ?thesis
    by (auto simp: resolve_execution_capability_eq matching_grants_empty)
next
  case False
  then have "k \<le> resolve_execution_capability s gs \<longleftrightarrow>
      (\<forall>g \<in> set (matching_grants s gs). k \<le> grant_capability g)"
    by (simp add: resolve_execution_capability_eq)
  also have "\<dots> \<longleftrightarrow> (\<forall>g. best_grant s gs g \<longrightarrow> k \<le> grant_capability g)"
    by (simp add: set_matching_grants)
  finally show ?thesis using False by (auto simp: matching_grants_empty)
qed

lemma le_resolve_ceiling:
  "resolve_ceiling s i cfg = Inr c \<Longrightarrow>
     k \<le> c \<longleftrightarrow> k = CAP_NONE \<or>
       (\<exists>e. best_entry s i cfg e) \<and> (\<forall>e. best_entry s i cfg e \<longrightarrow> k \<le> ce_ceiling e)"
  using set_matching_entries [of s i cfg]
  by (auto simp: resolve_ceiling_Inr_iff matching_entries_empty split: if_splits)

text \<open>
  C5. The effective access invariant: when \<open>effective_access\<close> returns a capability \<open>c\<close>, a level
  above \<open>none\<close> is within \<open>c\<close> exactly when some most specific execution grant and some most
  specific policy ceiling match the scope, and every one of them reaches that level.  So access
  is the minimum of both halves, ties between grants go to the lower one, and a missing half
  denies.
\<close>

theorem effective_access_is_minimum:
  assumes "effective_access s i gs policy = Inr c" and "k \<noteq> CAP_NONE"
  shows "k \<le> c \<longleftrightarrow>
    (\<exists>g. best_grant s gs g) \<and> (\<forall>g. best_grant s gs g \<longrightarrow> k \<le> grant_capability g) \<and>
    (\<exists>e. best_entry s i policy e) \<and> (\<forall>e. best_entry s i policy e \<longrightarrow> k \<le> ce_ceiling e)"
proof -
  obtain d where d: "resolve_ceiling s i policy = Inr d"
    and c: "c = min (resolve_execution_capability s gs) d"
    using assms(1) by (auto simp: effective_access_def result_simps)
  show ?thesis
    using assms(2) by (auto simp: c le_resolve_execution_capability le_resolve_ceiling [OF d])
qed

definition demo_scope :: scope where
  "demo_scope = \<lparr>s_org = ''aiq'', s_bu = ''it'', s_project = Some ''invoices'', s_workspace = Some ''dev''\<rparr>"

definition demo_wildcard :: scope where
  "demo_wildcard = \<lparr>s_org = ''aiq'', s_bu = ''it'', s_project = Some ''*'', s_workspace = None\<rparr>"

definition demo_grants :: "execution_grant list" where
  "demo_grants =
     [\<lparr>grant_scope = demo_wildcard, grant_provider = ''aws'', grant_capability = ADMIN\<rparr>,
      \<lparr>grant_scope = demo_scope, grant_provider = ''aws'', grant_capability = PLAN\<rparr>]"

definition demo_policy :: org_bu_policy_config where
  "demo_policy = \<lparr>pc_entries =
     [\<lparr>ce_scope = demo_wildcard, ce_intent = PROVISION, ce_ceiling = APPLY_LIMITED\<rparr>]\<rparr>"

lemmas demo_defs = demo_scope_def demo_wildcard_def demo_grants_def demo_policy_def

lemmas ceiling_eval = effective_access_def resolve_execution_capability_def resolve_ceiling_def
  matching_grants_def matching_entries_def most_specific_def scope_matches_def specificity_def
  wildcard_def py_min_def Let_def

lemma demo_effective_access: "effective_access demo_scope PROVISION demo_grants demo_policy = Inr PLAN"
  by (simp add: ceiling_eval demo_defs min_def less_eq_capability_def)

theorem effective_access_is_minimum_witness:
  "effective_access demo_scope PROVISION demo_grants demo_policy = Inr PLAN \<and>
   (\<exists>e. best_entry demo_scope PROVISION demo_policy e \<and> DESCRIBE \<le> ce_ceiling e)"
proof -
  have "DESCRIBE \<le> PLAN" by (simp add: less_eq_capability_def)
  then show ?thesis
    using effective_access_is_minimum [OF demo_effective_access, of DESCRIBE] demo_effective_access
    by auto
qed

text \<open>
  A grant that does not match, or that is less specific than a matching one, has no
  influence on the effective access, wherever it stands in the list: a wildcard grant cannot
  leak capability into a more specific scope.
\<close>

theorem wildcard_grant_cannot_leak:
  assumes "\<not> scope_matches (grant_scope g) s \<or>
    (\<exists>g' \<in> set (gs @ gs'). scope_matches (grant_scope g') s \<and>
       specificity (grant_scope g) < specificity (grant_scope g'))"
  shows "effective_access s i (gs @ g # gs') policy = effective_access s i (gs @ gs') policy"
proof -
  have "set (matching_grants s (gs @ g # gs')) = set (matching_grants s (g # gs @ gs'))"
    by (rule grants.tied_set_cong) auto
  also have "\<dots> = set (matching_grants s (gs @ gs'))"
    using assms grants.tied_dominated grants.tied_unmatched by blast
  finally have "resolve_execution_capability s (gs @ g # gs') = resolve_execution_capability s (gs @ gs')"
    by (rule resolve_execution_capability_cong)
  then show ?thesis by (simp add: effective_access_def)
qed

theorem wildcard_grant_cannot_leak_witness:
  "effective_access demo_scope PROVISION demo_grants demo_policy =
   effective_access demo_scope PROVISION (tl demo_grants) demo_policy"
  using wildcard_grant_cannot_leak [of "hd demo_grants" demo_scope "[]" "tl demo_grants" PROVISION demo_policy]
  by (simp add: demo_defs scope_matches_def specificity_def wildcard_def)

text \<open>
  C19. Resolving a ceiling fails exactly when two most specific matching entries disagree; the
  authoring bug is never resolved silently, and in every other case a value is returned.
\<close>

theorem ceiling_ambiguity_is_an_error:
  "resolve_ceiling s i cfg = Inl ambiguous_ceiling \<longleftrightarrow>
     (\<exists>e e'. best_entry s i cfg e \<and> best_entry s i cfg e' \<and> ce_ceiling e \<noteq> ce_ceiling e')"
proof -
  have "(\<exists>c. resolve_ceiling s i cfg = Inr c) \<longleftrightarrow>
      (\<forall>e e'. best_entry s i cfg e \<longrightarrow> best_entry s i cfg e' \<longrightarrow> ce_ceiling e = ce_ceiling e')"
    using set_matching_entries [of s i cfg] matching_entries_empty [of s i cfg]
    by (auto simp: resolve_ceiling_Inr_iff)
  moreover have "resolve_ceiling s i cfg = Inl x \<Longrightarrow> x = ambiguous_ceiling" for x
    by (auto simp: resolve_ceiling_def Let_def split: list.splits if_splits)
  ultimately show ?thesis
    by (metis Inl_Inr_False old.sum.exhaust)
qed

end
