(* ===== verification/Scope_Resolution.thy ===== *)
theory Scope_Resolution
  imports Access_Ceiling
begin

text \<open>
  \<open>gateway/scope.py\<close>, the deterministic per-run scope parser and resolver, and
  \<open>gateway/auth/grants.py\<close>, the mapping of verified identity-provider groups to approval
  grants.
\<close>

section \<open>Scope resolution (gateway/scope.py)\<close>

datatype scope_resolution_status = SCOPE_RESOLVED | SCOPE_CLARIFICATION_REQUIRED | SCOPE_UNAVAILABLE

record scope_resolution =
  sr_status :: scope_resolution_status
  sr_scope :: "scope option"
  sr_clarification :: "clarification_question option"
  sr_public_reason :: "string option"

definition falsy_text :: "string option \<Rightarrow> bool" where
  "falsy_text v \<longleftrightarrow> v = None \<or> v = Some []"

definition check_scope_resolution :: "scope_resolution \<Rightarrow> scope_resolution result" where
  "check_scope_resolution r =
     (if sr_status r = SCOPE_RESOLVED \<and> sr_scope r = None
      then Inl (ValidationError ''ScopeResolution'')
      else if sr_status r = SCOPE_CLARIFICATION_REQUIRED \<and> sr_clarification r = None
      then Inl (ValidationError ''ScopeResolution'')
      else if sr_status r = SCOPE_UNAVAILABLE \<and> falsy_text (sr_public_reason r)
      then Inl (ValidationError ''ScopeResolution'')
      else Inr r)"

definition parse_scope_hint :: "string \<Rightarrow> scope_hint result" where
  "parse_scope_hint value =
     (case py_split (CHR ''/'') value of
        [tenant, project, workspace] \<Rightarrow>
          if [] \<in> {tenant, project, workspace}
          then Inl (ValueError ''scope must use org:bu/project/workspace'')
          else (case py_split (CHR '':'') tenant of
              [og, bu] \<Rightarrow>
                if [] \<in> {og, bu} then Inl (ValueError ''scope tenant must use org:bu'')
                else bind_result (make_tenant_ref og bu) (\<lambda>t.
                  Inr \<lparr>hint_tenant = t, hint_project = Some project, hint_workspace = Some workspace\<rparr>)
            | _ \<Rightarrow> Inl (ValueError ''scope tenant must use org:bu''))
      | _ \<Rightarrow> Inl (ValueError ''scope must use org:bu/project/workspace''))"

text \<open>The canonical text a complete hint is parsed from.\<close>

definition hint_text :: "scope_hint \<Rightarrow> string" where
  "hint_text h = join_with ''/'' [tenant_org_bu (hint_tenant h),
     the (hint_project h), the (hint_workspace h)]"

definition well_formed_hint :: "scope_hint \<Rightarrow> bool" where
  "well_formed_hint h \<longleftrightarrow>
     (\<forall>part \<in> {tenant_org (hint_tenant h), tenant_bu (hint_tenant h)}.
        part \<noteq> [] \<and> CHR ''/'' \<notin> set part \<and> CHR '':'' \<notin> set part) \<and>
     (\<exists>p w. hint_project h = Some p \<and> hint_workspace h = Some w \<and>
        (\<forall>part \<in> {p, w}. part \<noteq> [] \<and> CHR ''/'' \<notin> set part))"

definition resolve_scope ::
  "scope_hint \<Rightarrow> scope list \<Rightarrow> execution_grant list \<Rightarrow> scope_resolution result" where
  "resolve_scope hint known_workspaces execution_grants =
     (if hint_project hint = None \<or> hint_workspace hint = None then
        check_scope_resolution \<lparr>sr_status = SCOPE_CLARIFICATION_REQUIRED, sr_scope = None,
          sr_clarification = Some \<lparr>q_field = ''scope'',
            q_question = ''Select the project and workspace for this request.'', q_choices = []\<rparr>,
          sr_public_reason = None\<rparr>
      else
        let requested = \<lparr>s_org = tenant_org (hint_tenant hint), s_bu = tenant_bu (hint_tenant hint),
              s_project = hint_project hint, s_workspace = hint_workspace hint\<rparr>;
            known = list_ex (\<lambda>candidate. candidate = requested) known_workspaces;
            capability = resolve_execution_capability requested execution_grants
        in if \<not> known \<or> capability = CAP_NONE then
             check_scope_resolution \<lparr>sr_status = SCOPE_UNAVAILABLE, sr_scope = None,
               sr_clarification = None, sr_public_reason = Some ''target not found or not accessible''\<rparr>
           else check_scope_resolution \<lparr>sr_status = SCOPE_RESOLVED, sr_scope = Some requested,
               sr_clarification = None, sr_public_reason = None\<rparr>)"

definition hint_scope :: "scope_hint \<Rightarrow> scope" where
  "hint_scope h = \<lparr>s_org = tenant_org (hint_tenant h), s_bu = tenant_bu (hint_tenant h),
     s_project = hint_project h, s_workspace = hint_workspace h\<rparr>"

lemma split_tenant:
  assumes "CHR '':'' \<notin> set og" "CHR '':'' \<notin> set bu"
  shows "py_split (CHR '':'') (og @ '':'' @ bu) = [og, bu]"
  using py_split_join [of "[og, bu]" "CHR '':''"] assms by simp

lemma split_hint:
  assumes "CHR ''/'' \<notin> set t" "CHR ''/'' \<notin> set p" "CHR ''/'' \<notin> set w"
  shows "py_split (CHR ''/'') (t @ ''/'' @ p @ ''/'' @ w) = [t, p, w]"
  using py_split_join [of "[t, p, w]" "CHR ''/''"] assms by simp

lemma parse_hint_text:
  assumes "well_formed_hint h"
  shows "parse_scope_hint (hint_text h) = Inr h"
proof -
  obtain p w where hp: "hint_project h = Some p" and hw: "hint_workspace h = Some w"
    and pw: "p \<noteq> []" "w \<noteq> []" "CHR ''/'' \<notin> set p" "CHR ''/'' \<notin> set w"
    using assms by (auto simp: well_formed_hint_def)
  let ?t = "hint_tenant h"
  have t: "tenant_org ?t \<noteq> []" "tenant_bu ?t \<noteq> []"
    "CHR ''/'' \<notin> set (tenant_org ?t)" "CHR ''/'' \<notin> set (tenant_bu ?t)"
    "CHR '':'' \<notin> set (tenant_org ?t)" "CHR '':'' \<notin> set (tenant_bu ?t)"
    using assms by (auto simp: well_formed_hint_def)
  have "py_split (CHR ''/'') (hint_text h) = [tenant_org ?t @ '':'' @ tenant_bu ?t, p, w]"
    using split_hint [of "tenant_org ?t @ '':'' @ tenant_bu ?t" p w] t pw hp hw
    by (simp add: hint_text_def tenant_org_bu_def)
  moreover have "py_split (CHR '':'') (tenant_org ?t @ '':'' @ tenant_bu ?t) = [tenant_org ?t, tenant_bu ?t]"
    using t by (intro split_tenant)
  ultimately show ?thesis
    using t pw hp hw by (cases h) (simp add: parse_scope_hint_def make_tenant_ref_def)
qed

lemma parse_scope_hint_InrD:
  assumes "parse_scope_hint v = Inr h"
  shows "well_formed_hint h \<and> hint_text h = v"
proof -
  obtain t p w where sp: "py_split (CHR ''/'') v = [t, p, w]" and ne: "t \<noteq> []" "p \<noteq> []" "w \<noteq> []"
    using assms by (auto simp: parse_scope_hint_def split: list.splits if_splits)
  obtain og bu where st: "py_split (CHR '':'') t = [og, bu]" and ne2: "og \<noteq> []" "bu \<noteq> []"
    using assms sp ne by (auto simp: parse_scope_hint_def split: list.splits if_splits)
  have h: "h = \<lparr>hint_tenant = \<lparr>tenant_org = og, tenant_bu = bu\<rparr>, hint_project = Some p, hint_workspace = Some w\<rparr>"
    using assms sp ne st ne2 by (simp add: parse_scope_hint_def make_tenant_ref_def)
  have t: "t = og @ '':'' @ bu"
    using join_py_split [of "CHR '':''" t] st by simp
  have v: "v = t @ ''/'' @ p @ ''/'' @ w"
    using join_py_split [of "CHR ''/''" v] sp by simp
  have slash: "CHR ''/'' \<notin> set x" if "x \<in> {t, p, w}" for x
    using py_split_sep_free [of x "CHR ''/''" v] sp that by auto
  have org_bu: "CHR ''/'' \<notin> set og \<and> CHR ''/'' \<notin> set bu"
    using slash [of t] by (simp add: t)
  have colon: "CHR '':'' \<notin> set x" if "x \<in> {og, bu}" for x
    using py_split_sep_free [of x "CHR '':''" t] st that by auto
  show ?thesis
    using ne ne2 slash [of p] slash [of w] colon [of og] colon [of bu] org_bu t v by (auto simp: h well_formed_hint_def hint_text_def tenant_org_bu_def)
qed

text \<open>
  C9. The canonical scope syntax round-trips: parsing a text succeeds with a hint exactly when
  the hint is complete, none of its parts is empty or contains a separator, and the text is the
  hint printed as \<open>org:bu/project/workspace\<close>.  Every other text is rejected.
\<close>

theorem parse_scope_hint_round_trip:
  "parse_scope_hint v = Inr h \<longleftrightarrow> well_formed_hint h \<and> v = hint_text h"
  using parse_scope_hint_InrD parse_hint_text by blast

lemma resolve_scope_status:
  "\<exists>r. resolve_scope hint known gs = Inr r \<and>
     (sr_status r = SCOPE_RESOLVED \<longleftrightarrow> hint_project hint \<noteq> None \<and> hint_workspace hint \<noteq> None \<and>
        hint_scope hint \<in> set known \<and> resolve_execution_capability (hint_scope hint) gs \<noteq> CAP_NONE)"
  by (auto simp: resolve_scope_def hint_scope_def check_scope_resolution_def falsy_text_def
      list_ex_iff Let_def)

text \<open>
  C6. Scope resolution: the resolver always answers; it reveals a target exactly when the hint
  is complete, the workspace is a known one and some grant visible to the actor matches it, and
  the target revealed is the requested one.  For a complete hint every other outcome is one and
  the same answer, whether the target is unknown or only not granted.
\<close>

theorem resolve_scope_reveals_only_granted_targets:
  "\<exists>r. resolve_scope hint known gs = Inr r \<and>
     (if hint_project hint = None \<or> hint_workspace hint = None
      then sr_status r = SCOPE_CLARIFICATION_REQUIRED \<and> sr_scope r = None
      else if hint_scope hint \<in> set known \<and> (\<exists>g. best_grant (hint_scope hint) gs g) \<and>
          (\<forall>g. \<not> (best_grant (hint_scope hint) gs g \<and> grant_capability g = CAP_NONE))
      then r = \<lparr>sr_status = SCOPE_RESOLVED, sr_scope = Some (hint_scope hint),
                sr_clarification = None, sr_public_reason = None\<rparr>
      else r = \<lparr>sr_status = SCOPE_UNAVAILABLE, sr_scope = None, sr_clarification = None,
                sr_public_reason = Some ''target not found or not accessible''\<rparr>)"
proof -
  have one: "DESCRIBE \<le> c \<longleftrightarrow> c \<noteq> CAP_NONE" for c
    by (cases c) (simp_all add: less_eq_capability_def)
  have "resolve_execution_capability (hint_scope hint) gs \<noteq> CAP_NONE \<longleftrightarrow>
      (\<exists>g. best_grant (hint_scope hint) gs g) \<and>
      (\<forall>g. \<not> (best_grant (hint_scope hint) gs g \<and> grant_capability g = CAP_NONE))"
    using le_resolve_execution_capability [of DESCRIBE "hint_scope hint" gs] by (auto simp: one)
  then show ?thesis
    by (auto simp: resolve_scope_def hint_scope_def check_scope_resolution_def falsy_text_def
        list_ex_iff Let_def)
qed

section \<open>Group mappings (gateway/auth/grants.py)\<close>

record group_grant_mapping =
  gm_group :: string
  gm_grant_type :: string
  gm_scope :: scope
  gm_capability :: capability

definition check_group_grant_mapping :: "group_grant_mapping \<Rightarrow> group_grant_mapping result" where
  "check_group_grant_mapping m =
     (if gm_grant_type m \<noteq> ''approval'' then Inl (ValidationError ''GroupGrantMapping'') else Inr m)"

record grant_mapping_config =
  mc_mappings :: "group_grant_mapping list"

record grant_resolution =
  gr_execution_grants :: "execution_grant list"
  gr_approval_grants :: "approval_grant list"
  gr_evidence :: "string list"

definition or_star :: "string option \<Rightarrow> string" where
  "or_star v = (if falsy_text v then ''*'' else the v)"

definition group_evidence :: "group_grant_mapping \<Rightarrow> string" where
  "group_evidence m = ''group '' @ py_repr (gm_group m) @ '' resolved to approval grant for '' @
     scope_org_bu (gm_scope m) @ ''/'' @ or_star (s_project (gm_scope m)) @ ''/'' @
     or_star (s_workspace (gm_scope m))"

fun resolve_mappings ::
  "string set \<Rightarrow> group_grant_mapping list \<Rightarrow> grant_resolution \<Rightarrow> grant_resolution" where
  "resolve_mappings group_set [] res = res"
| "resolve_mappings group_set (m # ms) res =
     (if gm_group m \<notin> group_set then resolve_mappings group_set ms res
      else resolve_mappings group_set ms
        (res\<lparr>gr_approval_grants := gr_approval_grants res @
               [\<lparr>ag_scope = gm_scope m, ag_max_capability = gm_capability m\<rparr>],
             gr_evidence := gr_evidence res @ [group_evidence m]\<rparr>))"

definition resolve_group_grants :: "string list \<Rightarrow> grant_mapping_config \<Rightarrow> grant_resolution" where
  "resolve_group_grants groups config = resolve_mappings (set groups) (mc_mappings config)
     \<lparr>gr_execution_grants = [], gr_approval_grants = [], gr_evidence = []\<rparr>"

lemma resolve_mappings_eq:
  "resolve_mappings G ms res =
     res\<lparr>gr_approval_grants := gr_approval_grants res @
           map (\<lambda>m. \<lparr>ag_scope = gm_scope m, ag_max_capability = gm_capability m\<rparr>)
             (filter (\<lambda>m. gm_group m \<in> G) ms),
         gr_evidence := gr_evidence res @ map group_evidence (filter (\<lambda>m. gm_group m \<in> G) ms)\<rparr>"
  by (induction G ms res rule: resolve_mappings.induct) simp_all

text \<open>
  Identity-provider groups never mint execution rights: resolving groups yields no execution
  grant, and exactly one approval grant and one line of evidence per configured mapping whose
  group the session carries, in configuration order and with the mapping's scope and capability.
\<close>

theorem group_grants_are_approvals_only:
  "resolve_group_grants groups config =
     \<lparr>gr_execution_grants = [],
      gr_approval_grants = map (\<lambda>m. \<lparr>ag_scope = gm_scope m, ag_max_capability = gm_capability m\<rparr>)
        (filter (\<lambda>m. gm_group m \<in> set groups) (mc_mappings config)),
      gr_evidence = map group_evidence
        (filter (\<lambda>m. gm_group m \<in> set groups) (mc_mappings config))\<rparr>"
  by (simp add: resolve_group_grants_def resolve_mappings_eq)

end
