(* ===== verification/Scope_Registry.thy ===== *)
theory Scope_Registry
  imports Gateway_Schemas
begin

text \<open>
  \<open>gateway/resource_scope_registry.py\<close>: the logical ownership hierarchy (organization, business
  unit, team, project, environment), its validators and canonical path, and the reviewed
  registry.  The locale \<open>scope_registry\<close> is the \<open>ReviewedResourceScopeRegistry\<close> protocol with
  the laws its clients rely on; the in-memory registry interprets it.
\<close>

section \<open>Hierarchy records and validation\<close>

datatype resource_scope_state = RS_DRAFT | RS_ACTIVE | RS_SUSPENDED | RS_RETIRED

text \<open>\<open>_slug\<close>: a nonempty text of at most 63 lower-case characters, an initial letter, and then
  only alphanumeric characters and hyphens.\<close>

definition slug :: "string \<Rightarrow> string result" where
  "slug v =
     (if v = [] \<or> length v > 63 \<or> v \<noteq> py_lower v
      then Inl (ValueError ''scope path segments must be lowercase slugs'')
      else if \<not> py_isalpha (hd v) \<or> list_ex (\<lambda>c. \<not> (py_isalnum c \<or> c = CHR ''-'')) v
      then Inl (ValueError ''scope path segments must use lowercase letters, digits, and hyphens'')
      else Inr v)"

record organization =
  org_id :: string
  org_slug :: string
  org_state :: resource_scope_state

record business_unit =
  bu_id :: string
  bu_org_id :: string
  bu_slug :: string
  bu_state :: resource_scope_state

record team =
  team_id :: string
  team_bu_id :: string
  team_slug :: string
  team_state :: resource_scope_state

record platformops_project =
  project_id :: string
  project_team_id :: string
  project_slug :: string
  project_state :: resource_scope_state

record environment =
  env_id :: string
  env_project_id :: string
  env_slug :: string
  env_state :: resource_scope_state

record resource_scope =
  rs_scope_id :: string
  rs_organization :: organization
  rs_business_unit :: business_unit
  rs_team :: team
  rs_project :: platformops_project
  rs_environment :: environment
  rs_state :: resource_scope_state
  rs_version :: int
  rs_canonical_path :: string

definition check_fields :: "string \<Rightarrow> (string \<times> nat) list \<Rightarrow> string \<Rightarrow> 'a \<Rightarrow> 'a result" where
  "check_fields cls mins s x =
     (if list_ex (\<lambda>(v, n). length v < n) mins \<or> \<not> is_Inr (slug s) then Inl (ValidationError cls)
      else Inr x)"

definition check_organization :: "organization \<Rightarrow> organization result" where
  "check_organization r = check_fields ''Organization'' [(org_id r, 5)] (org_slug r) r"

definition check_business_unit :: "business_unit \<Rightarrow> business_unit result" where
  "check_business_unit r = check_fields ''BusinessUnit'' [(bu_id r, 4), (bu_org_id r, 5)] (bu_slug r) r"

definition check_team :: "team \<Rightarrow> team result" where
  "check_team r = check_fields ''Team'' [(team_id r, 5), (team_bu_id r, 4)] (team_slug r) r"

definition check_project :: "platformops_project \<Rightarrow> platformops_project result" where
  "check_project r =
     check_fields ''PlatformOpsProject'' [(project_id r, 8), (project_team_id r, 5)] (project_slug r) r"

definition check_environment :: "environment \<Rightarrow> environment result" where
  "check_environment r =
     check_fields ''Environment'' [(env_id r, 4), (env_project_id r, 8)] (env_slug r) r"

definition canonical_path :: "resource_scope \<Rightarrow> string" where
  "canonical_path s = ''org:'' @ org_slug (rs_organization s) @ '':bu:'' @ bu_slug (rs_business_unit s) @
     '':team:'' @ team_slug (rs_team s) @ '':project:'' @ project_slug (rs_project s) @
     '':env:'' @ env_slug (rs_environment s)"

text \<open>Building a \<open>ResourceScope\<close>: the parts are built first, then the fields are checked, then
  the after-validator checks the parent links and overwrites the path.\<close>

definition make_resource_scope :: "resource_scope \<Rightarrow> resource_scope result" where
  "make_resource_scope s =
     bind_result (check_organization (rs_organization s)) (\<lambda>_.
     bind_result (check_business_unit (rs_business_unit s)) (\<lambda>_.
     bind_result (check_team (rs_team s)) (\<lambda>_.
     bind_result (check_project (rs_project s)) (\<lambda>_.
     bind_result (check_environment (rs_environment s)) (\<lambda>_.
       if length (rs_scope_id s) < 8 \<or> rs_version s < 1 then Inl (ValidationError ''ResourceScope'')
       else if bu_org_id (rs_business_unit s) \<noteq> org_id (rs_organization s)
       then Inl (ValidationError ''business unit must belong to organization'')
       else if team_bu_id (rs_team s) \<noteq> bu_id (rs_business_unit s)
       then Inl (ValidationError ''team must belong to business unit'')
       else if project_team_id (rs_project s) \<noteq> team_id (rs_team s)
       then Inl (ValidationError ''project must belong to team'')
       else if env_project_id (rs_environment s) \<noteq> project_id (rs_project s)
       then Inl (ValidationError ''environment must belong to project'')
       else Inr (s\<lparr>rs_canonical_path := canonical_path s\<rparr>))))))"

definition is_complete_and_active :: "resource_scope \<Rightarrow> bool" where
  "is_complete_and_active s \<longleftrightarrow> rs_state s = RS_ACTIVE \<and>
     list_all (\<lambda>st. st = RS_ACTIVE) [org_state (rs_organization s), bu_state (rs_business_unit s),
       team_state (rs_team s), project_state (rs_project s), env_state (rs_environment s)]"

definition non_routable_resource_scope_fixture :: "resource_scope \<Rightarrow> resource_scope" where
  "non_routable_resource_scope_fixture s = s\<lparr>rs_state := RS_DRAFT\<rparr>"

text \<open>The slugs a path is made of.\<close>

definition scope_slugs :: "resource_scope \<Rightarrow> string list" where
  "scope_slugs s = [org_slug (rs_organization s), bu_slug (rs_business_unit s), team_slug (rs_team s),
     project_slug (rs_project s), env_slug (rs_environment s)]"

definition valid_scope :: "resource_scope \<Rightarrow> bool" where
  "valid_scope s \<longleftrightarrow> make_resource_scope s = Inr s"

lemma slug_no_colon: "slug v = Inr w \<Longrightarrow> CHR '':'' \<notin> set v"
  by (auto simp: slug_def list_ex_iff py_isalnum_def py_isalpha_def split: if_splits)

lemma check_fields_slug: "check_fields c m s x = Inr y \<Longrightarrow> CHR '':'' \<notin> set s"
  by (auto simp: check_fields_def result_simps slug_no_colon split: if_splits)

lemma make_resource_scope_slugs:
  assumes "make_resource_scope s = Inr t"
  shows "v \<in> set (scope_slugs s) \<Longrightarrow> CHR '':'' \<notin> set v"
  using assms
  by (auto simp: make_resource_scope_def scope_slugs_def result_simps check_organization_def
      check_business_unit_def check_team_def check_project_def check_environment_def
      dest: check_fields_slug)

lemma make_resource_scope_idem: "make_resource_scope s = Inr t \<Longrightarrow> valid_scope t"
  unfolding valid_scope_def
  by (auto simp: make_resource_scope_def result_simps canonical_path_def split: if_splits)

lemma valid_scope_path: "valid_scope s \<Longrightarrow> rs_canonical_path s = canonical_path s"
  by (cases s) (auto simp: valid_scope_def make_resource_scope_def result_simps canonical_path_def)

definition path_segments :: "resource_scope \<Rightarrow> string list" where
  "path_segments s =
     [''org'', org_slug (rs_organization s), ''bu'', bu_slug (rs_business_unit s), ''team'',
      team_slug (rs_team s), ''project'', project_slug (rs_project s), ''env'', env_slug (rs_environment s)]"

lemma canonical_path_join: "canonical_path s = join_with [CHR '':''] (path_segments s)"
  by (simp add: canonical_path_def path_segments_def)

lemma path_segments_free:
  "make_resource_scope s = Inr t \<Longrightarrow> \<forall>v \<in> set (path_segments s). CHR '':'' \<notin> set v"
  using make_resource_scope_slugs [of s t] by (auto simp: path_segments_def scope_slugs_def)

lemma path_segments_eq: "path_segments s = path_segments t \<longleftrightarrow> scope_slugs s = scope_slugs t"
  by (simp add: path_segments_def scope_slugs_def)

text \<open>
  The canonical path names the hierarchy: two validated scopes have the same canonical path
  exactly when they agree on all five slugs, because a validated slug cannot contain the
  separator.
\<close>

theorem canonical_path_identifies_slugs:
  assumes "make_resource_scope s = Inr s'" and "make_resource_scope t = Inr t'"
  shows "rs_canonical_path s' = rs_canonical_path t' \<longleftrightarrow> scope_slugs s = scope_slugs t"
proof -
  have path: "rs_canonical_path s' = canonical_path s" "rs_canonical_path t' = canonical_path t"
    using assms by (auto simp: make_resource_scope_def result_simps)
  have "canonical_path s = canonical_path t \<longleftrightarrow> path_segments s = path_segments t"
    unfolding canonical_path_join
    using join_with_inj [OF _ _ path_segments_free [OF assms(1)] path_segments_free [OF assms(2)]]
    by (auto simp: path_segments_def)
  then show ?thesis by (simp add: path path_segments_eq)
qed


section \<open>The reviewed registry\<close>

text \<open>
  \<open>_by_scope_id\<close> and \<open>_scope_id_by_path\<close>.  The lock makes each operation one step, so a state
  passed from operation to operation is all a client can observe.
\<close>

record scope_registry_state =
  reg_by_scope_id :: "(string, resource_scope) dict"
  reg_scope_id_by_path :: "(string, string) dict"

definition empty_scope_registry :: scope_registry_state where
  "empty_scope_registry = \<lparr>reg_by_scope_id = [], reg_scope_id_by_path = []\<rparr>"

definition duplicate_scope_path :: exn where
  "duplicate_scope_path = DuplicateCanonicalResourceScope ''canonical Resource Scope path already exists''"

definition register_reviewed_scope ::
  "resource_scope \<Rightarrow> scope_registry_state \<Rightarrow> unit result \<times> scope_registry_state" where
  "register_reviewed_scope s st =
     (let existing = dict_get (reg_scope_id_by_path st) (rs_canonical_path s) in
      if existing \<noteq> None \<and> existing \<noteq> Some (rs_scope_id s) then (Inl duplicate_scope_path, st)
      else
        let paths = (case dict_get (reg_by_scope_id st) (rs_scope_id s) of
               None \<Rightarrow> reg_scope_id_by_path st
             | Some previous \<Rightarrow> dict_pop (rs_canonical_path previous) (reg_scope_id_by_path st))
        in (Inr (), \<lparr>reg_by_scope_id = dict_set (rs_scope_id s) s (reg_by_scope_id st),
              reg_scope_id_by_path = dict_set (rs_canonical_path s) (rs_scope_id s) paths\<rparr>))"

definition resolve_active_scope :: "scope_registry_state \<Rightarrow> string \<Rightarrow> resource_scope option" where
  "resolve_active_scope st i =
     (case dict_get (reg_by_scope_id st) i of
        None \<Rightarrow> None
      | Some s \<Rightarrow> if is_complete_and_active s then Some s else None)"

text \<open>
  What a registry promises, on plain maps: a registration replaces the record under its id
  unless another id already owns the canonical path.
\<close>

definition spec_register :: "resource_scope \<Rightarrow> (string \<rightharpoonup> resource_scope) \<Rightarrow> (string \<rightharpoonup> resource_scope)" where
  "spec_register s m =
     (if \<exists>i t. m i = Some t \<and> rs_canonical_path t = rs_canonical_path s \<and> i \<noteq> rs_scope_id s then m
      else m(rs_scope_id s \<mapsto> s))"

text \<open>
  The protocol.  \<open>stored\<close> is the record a registry holds under an id, whether routable or not;
  \<open>inv\<close> is the registry's own invariant.
\<close>

locale scope_registry =
  fixes register :: "resource_scope \<Rightarrow> 'st \<Rightarrow> unit result \<times> 'st"
    and resolve :: "'st \<Rightarrow> string \<Rightarrow> resource_scope option"
    and stored :: "'st \<Rightarrow> string \<Rightarrow> resource_scope option"
    and inv :: "'st \<Rightarrow> bool"
  assumes resolve_law: "inv st \<Longrightarrow> resolve st i = Some s \<longleftrightarrow> stored st i = Some s \<and> is_complete_and_active s"
    and stored_id: "inv st \<Longrightarrow> stored st i = Some s \<Longrightarrow> rs_scope_id s = i"
    and register_inv: "inv st \<Longrightarrow> inv (snd (register s st))"
    and register_stored: "inv st \<Longrightarrow> fst (register s st) = Inr () \<Longrightarrow>
      stored (snd (register s st)) = (stored st)(rs_scope_id s \<mapsto> s)"
    and register_error: "inv st \<Longrightarrow> fst (register s st) = Inl e \<Longrightarrow> snd (register s st) = st"
    and register_iff: "inv st \<Longrightarrow> fst (register s st) = Inr () \<longleftrightarrow>
      (\<forall>i t. stored st i = Some t \<longrightarrow> rs_canonical_path t = rs_canonical_path s \<longrightarrow> i = rs_scope_id s)"
begin

definition unique_paths :: "'st \<Rightarrow> bool" where
  "unique_paths st \<longleftrightarrow> (\<forall>i j s t. stored st i = Some s \<longrightarrow> stored st j = Some t \<longrightarrow>
     rs_canonical_path s = rs_canonical_path t \<longrightarrow> i = j)"

lemma register_cases:
  assumes "inv st"
  obtains (ok) "fst (register s st) = Inr ()" "stored (snd (register s st)) = (stored st)(rs_scope_id s \<mapsto> s)"
  | (error) e where "fst (register s st) = Inl e" "snd (register s st) = st"
  using assms register_error register_stored by (cases "fst (register s st)") auto

lemma register_unique_paths:
  assumes "inv st" "unique_paths st"
  shows "unique_paths (snd (register s st))"
  using assms(1)
proof (cases rule: register_cases [of st s])
  case ok
  then show ?thesis
    using assms register_iff [OF assms(1), of s] unfolding unique_paths_def
    by (auto split: if_splits)
next
  case (error e)
  with assms show ?thesis by simp
qed

text \<open>Every sequence of registrations, failed ones included.\<close>

fun run_register :: "resource_scope list \<Rightarrow> 'st \<Rightarrow> 'st" where
  "run_register [] st = st"
| "run_register (s # ss) st = run_register ss (snd (register s st))"

lemma run_register_inv:
  "inv st \<Longrightarrow> unique_paths st \<Longrightarrow> inv (run_register ss st) \<and> unique_paths (run_register ss st)"
  by (induction ss arbitrary: st) (simp_all add: register_inv register_unique_paths)

lemma register_spec:
  assumes "inv st"
  shows "stored (snd (register s st)) = spec_register s (stored st)"
  using assms
proof (cases rule: register_cases [of st s])
  case ok
  then show ?thesis using register_iff [OF assms, of s] by (auto simp: spec_register_def)
next
  case (error e)
  then have "fst (register s st) \<noteq> Inr ()" by simp
  then show ?thesis using error register_iff [OF assms, of s] by (auto simp: spec_register_def)
qed

lemma stored_run: "inv st \<Longrightarrow> stored (run_register ss st) = fold spec_register ss (stored st)"
  by (induction ss arbitrary: st) (simp_all add: register_inv register_spec)

lemma resolve_after_register:
  assumes "inv st" "fst (register s st) = Inr ()"
  shows "resolve (snd (register s st)) (rs_scope_id s) = (if is_complete_and_active s then Some s else None)"
proof -
  have "resolve (snd (register s st)) (rs_scope_id s) = Some t \<longleftrightarrow> t = s \<and> is_complete_and_active t" for t
    using resolve_law [OF register_inv] register_stored assms by auto
  then show ?thesis by (metis not_None_eq)
qed

end

definition scope_registry_ok :: "scope_registry_state \<Rightarrow> bool" where
  "scope_registry_ok st \<longleftrightarrow>
     (\<forall>i s. dict_get (reg_by_scope_id st) i = Some s \<longrightarrow> rs_scope_id s = i) \<and>
     (\<forall>p i. dict_get (reg_scope_id_by_path st) p = Some i \<longleftrightarrow>
        (\<exists>s. dict_get (reg_by_scope_id st) i = Some s \<and> rs_canonical_path s = p))"

lemma scope_registry_ok_empty: "scope_registry_ok empty_scope_registry"
  by (simp add: scope_registry_ok_def empty_scope_registry_def dict_simps)

text \<open>The index after a registration, on maps: the old path of the id goes, the new one comes.\<close>

lemma reindex:
  assumes index: "\<And>p i. paths p = Some i \<longleftrightarrow> (\<exists>t. ids i = Some t \<and> path t = p)"
    and free: "paths (path s) = None \<or> paths (path s) = Some k"
    and popped: "\<And>p. popped p = (if \<exists>t. ids k = Some t \<and> path t = p then None else paths p)"
  shows "(popped(path s \<mapsto> k)) p = Some i \<longleftrightarrow> (\<exists>t. (ids(k \<mapsto> s)) i = Some t \<and> path t = p)"
proof (cases "p = path s")
  case True
  then have "i \<noteq> k \<Longrightarrow> ids i = Some t \<Longrightarrow> path t \<noteq> p" for t
    using index [of "path s" i] free by auto
  with True show ?thesis by auto
next
  case False
  have "i \<noteq> k \<Longrightarrow> popped p = Some i \<longleftrightarrow> paths p = Some i"
    using popped [of p] index [of p i] index [of p k] by auto
  moreover have "popped p \<noteq> Some k"
    using popped [of p] index [of p k] by auto
  ultimately show ?thesis using False index [of p i] by (cases "i = k") auto
qed

lemma register_reviewed_scope_ok:
  assumes ok: "scope_registry_ok st"
  shows "scope_registry_ok (snd (register_reviewed_scope s st))"
proof -
  define popped where "popped = dict_get (case dict_get (reg_by_scope_id st) (rs_scope_id s) of
      None \<Rightarrow> reg_scope_id_by_path st
    | Some previous \<Rightarrow> dict_pop (rs_canonical_path previous) (reg_scope_id_by_path st))"
  have "popped p = (if \<exists>t. dict_get (reg_by_scope_id st) (rs_scope_id s) = Some t \<and> rs_canonical_path t = p
      then None else dict_get (reg_scope_id_by_path st) p)" for p
    by (simp add: popped_def dict_simps split: option.split)
  moreover have "dict_get (reg_scope_id_by_path st) p = Some i \<longleftrightarrow>
      (\<exists>t. dict_get (reg_by_scope_id st) i = Some t \<and> rs_canonical_path t = p)" for p i
    using ok unfolding scope_registry_ok_def by blast
  ultimately have index: "(popped(rs_canonical_path s \<mapsto> rs_scope_id s)) p = Some i \<longleftrightarrow>
      (\<exists>t. ((dict_get (reg_by_scope_id st))(rs_scope_id s \<mapsto> s)) i = Some t \<and> rs_canonical_path t = p)"
    if "dict_get (reg_scope_id_by_path st) (rs_canonical_path s) = None \<or>
        dict_get (reg_scope_id_by_path st) (rs_canonical_path s) = Some (rs_scope_id s)" for p i
    using that by (intro reindex) simp_all
  have get: "dict_get (dict_set k v d) = (dict_get d)(k \<mapsto> v)" for k v and d :: "(string, 'z) dict"
    by (simp add: fun_eq_iff dict_simps)
  show ?thesis
  proof (cases "dict_get (reg_scope_id_by_path st) (rs_canonical_path s) = None \<or>
      dict_get (reg_scope_id_by_path st) (rs_canonical_path s) = Some (rs_scope_id s)")
    case False
    then have "snd (register_reviewed_scope s st) = st"
      by (simp add: register_reviewed_scope_def Let_def)
    with ok show ?thesis by simp
  next
    case True
    then have paths: "dict_get (reg_scope_id_by_path (snd (register_reviewed_scope s st)))
        = popped(rs_canonical_path s \<mapsto> rs_scope_id s)"
      and by_id: "dict_get (reg_by_scope_id (snd (register_reviewed_scope s st)))
        = (dict_get (reg_by_scope_id st))(rs_scope_id s \<mapsto> s)"
      by (auto simp: register_reviewed_scope_def popped_def Let_def get)
    have ids: "((dict_get (reg_by_scope_id st))(rs_scope_id s \<mapsto> s)) i = Some t \<Longrightarrow> rs_scope_id t = i" for i t
      using ok by (auto simp: scope_registry_ok_def split: if_splits)
    show ?thesis
      unfolding scope_registry_ok_def paths by_id using ids index [OF True] by blast
  qed
qed

lemma register_reviewed_scope_iff:
  assumes "scope_registry_ok st"
  shows "fst (register_reviewed_scope s st) = Inr () \<longleftrightarrow>
    (\<forall>i t. dict_get (reg_by_scope_id st) i = Some t \<longrightarrow>
       rs_canonical_path t = rs_canonical_path s \<longrightarrow> i = rs_scope_id s)"
proof -
  have "dict_get (reg_scope_id_by_path st) p = Some i \<longleftrightarrow>
      (\<exists>t. dict_get (reg_by_scope_id st) i = Some t \<and> rs_canonical_path t = p)" for p i
    using assms unfolding scope_registry_ok_def by blast
  moreover have "fst (register_reviewed_scope s st) = Inr () \<longleftrightarrow>
      (\<forall>i. dict_get (reg_scope_id_by_path st) (rs_canonical_path s) = Some i \<longrightarrow> i = rs_scope_id s)"
    by (cases "dict_get (reg_scope_id_by_path st) (rs_canonical_path s)")
      (auto simp: register_reviewed_scope_def Let_def)
  ultimately show ?thesis by blast
qed

lemma resolve_active_scope_iff:
  "resolve_active_scope st i = Some s \<longleftrightarrow>
     dict_get (reg_by_scope_id st) i = Some s \<and> is_complete_and_active s"
  by (auto simp: resolve_active_scope_def split: option.splits)

lemma register_reviewed_scope_results:
  "fst (register_reviewed_scope s st) = Inr () \<Longrightarrow>
     dict_get (reg_by_scope_id (snd (register_reviewed_scope s st)))
       = (dict_get (reg_by_scope_id st))(rs_scope_id s \<mapsto> s)"
  "fst (register_reviewed_scope s st) = Inl e \<Longrightarrow> snd (register_reviewed_scope s st) = st"
  by (auto simp: register_reviewed_scope_def Let_def dict_simps fun_eq_iff split: if_splits)

interpretation memory_scopes: scope_registry register_reviewed_scope resolve_active_scope
  "\<lambda>st. dict_get (reg_by_scope_id st)" scope_registry_ok
  by unfold_locales (simp_all add: resolve_active_scope_iff register_reviewed_scope_ok
      register_reviewed_scope_iff register_reviewed_scope_results, simp add: scope_registry_ok_def)

lemma empty_unique_paths: "memory_scopes.unique_paths empty_scope_registry"
  by (simp add: memory_scopes.unique_paths_def empty_scope_registry_def dict_simps)

text \<open>
  The in-memory registry refines the specification: after any sequence of registrations,
  rejected ones included, it holds exactly what the specification on maps holds, and it resolves
  an id exactly to the stored record when that record and all five of its hierarchy levels are
  active.
\<close>

theorem scope_registry_refines:
  "resolve_active_scope (memory_scopes.run_register ss empty_scope_registry) i =
     (case fold spec_register ss Map.empty i of
        Some s \<Rightarrow> if is_complete_and_active s then Some s else None
      | None \<Rightarrow> None)"
proof -
  have "dict_get (reg_by_scope_id empty_scope_registry) = Map.empty"
    by (simp add: empty_scope_registry_def fun_eq_iff dict_simps)
  then show ?thesis
    using memory_scopes.stored_run [OF scope_registry_ok_empty, of ss]
    by (simp add: resolve_active_scope_def)
qed

text \<open>
  A canonical path is owned by one scope id: after any sequence of registrations no two ids
  resolve to scopes with the same canonical path, and a resolved scope carries the id it is
  resolved by.
\<close>

theorem scope_registry_paths_are_unique:
  assumes "resolve_active_scope (memory_scopes.run_register ss empty_scope_registry) i = Some s"
    and "resolve_active_scope (memory_scopes.run_register ss empty_scope_registry) j = Some t"
    and "rs_canonical_path s = rs_canonical_path t"
  shows "i = j \<and> s = t \<and> rs_scope_id s = i"
proof -
  let ?st = "memory_scopes.run_register ss empty_scope_registry"
  have ok: "scope_registry_ok ?st" "memory_scopes.unique_paths ?st"
    using memory_scopes.run_register_inv [OF scope_registry_ok_empty empty_unique_paths] by auto
  have "i = j"
    using ok(2) assms unfolding memory_scopes.unique_paths_def resolve_active_scope_iff by blast
  then show ?thesis
    using assms memory_scopes.stored_id [OF ok(1), of i s] by (simp add: resolve_active_scope_iff)
qed

definition demo_resource_scope :: resource_scope where
  "demo_resource_scope =
     \<lparr>rs_scope_id = ''scope_01'',
      rs_organization = \<lparr>org_id = ''org_1'', org_slug = ''aiq'', org_state = RS_ACTIVE\<rparr>,
      rs_business_unit = \<lparr>bu_id = ''bu_1'', bu_org_id = ''org_1'', bu_slug = ''it'', bu_state = RS_ACTIVE\<rparr>,
      rs_team = \<lparr>team_id = ''team1'', team_bu_id = ''bu_1'', team_slug = ''web'', team_state = RS_ACTIVE\<rparr>,
      rs_project = \<lparr>project_id = ''project1'', project_team_id = ''team1'', project_slug = ''site'',
        project_state = RS_ACTIVE\<rparr>,
      rs_environment = \<lparr>env_id = ''env1'', env_project_id = ''project1'', env_slug = ''dev'',
        env_state = RS_ACTIVE\<rparr>,
      rs_state = RS_ACTIVE, rs_version = 1,
      rs_canonical_path = ''org:aiq:bu:it:team:web:project:site:env:dev''\<rparr>"

lemma demo_resource_scope_valid: "make_resource_scope demo_resource_scope = Inr demo_resource_scope"
  by code_simp

lemma demo_resource_scope_active: "is_complete_and_active demo_resource_scope"
  by (simp add: demo_resource_scope_def is_complete_and_active_def)

theorem canonical_path_identifies_slugs_witness:
  "rs_canonical_path demo_resource_scope = rs_canonical_path demo_resource_scope"
  using canonical_path_identifies_slugs [OF demo_resource_scope_valid demo_resource_scope_valid] by simp

theorem scope_registry_paths_are_unique_witness:
  "resolve_active_scope (memory_scopes.run_register [demo_resource_scope] empty_scope_registry)
     ''scope_01'' = Some demo_resource_scope \<and> rs_scope_id demo_resource_scope = ''scope_01''"
proof -
  have r: "resolve_active_scope (memory_scopes.run_register [demo_resource_scope] empty_scope_registry)
     ''scope_01'' = Some demo_resource_scope"
    using demo_resource_scope_active
    by (simp add: resolve_active_scope_iff register_reviewed_scope_def empty_scope_registry_def dict_simps)
      (simp add: demo_resource_scope_def)
  then show ?thesis using scope_registry_paths_are_unique [OF r r refl] by simp
qed

end
