(* ===== verification/Org_Membership.thy ===== *)
theory Org_Membership
  imports Gateway_Schemas
begin

text \<open>
  \<open>gateway/organization_membership.py\<close>: the membership record and the in-memory membership
  store.  Invitations and the PostgreSQL repository are modelled with the registration records
  they join.
\<close>

datatype membership_state =
  MEMBER_PENDING | MEMBER_ACTIVE | MEMBER_REJECTED | MEMBER_REVOKED | MEMBER_EXPIRED

datatype membership_source = FROM_INVITATION | FROM_TENANT_IDP | FROM_SCIM

text \<open>A role reference is its nonempty \<open>role_id\<close>.\<close>

record organization_membership =
  om_membership_id :: string
  om_user_subject :: string
  om_organization_id :: string
  om_source :: membership_source
  om_role_refs :: "string list"
  om_state :: membership_state
  om_version :: int
  om_created_at :: datetime

definition check_membership :: "organization_membership \<Rightarrow> organization_membership result" where
  "check_membership m =
     (if length (om_membership_id m) < 8 \<or> om_user_subject m = [] \<or> om_organization_id m = [] \<or>
         [] \<in> set (om_role_refs m) \<or> om_version m < 1
      then Inl (ValidationError ''OrganizationMembership'') else Inr m)"

definition membership_key :: "organization_membership \<Rightarrow> string \<times> string" where
  "membership_key m = (om_user_subject m, om_organization_id m)"

record membership_store =
  ms_memberships :: "(string, organization_membership) dict"
  ms_active :: "(string \<times> string, string) dict"

definition empty_membership_store :: membership_store where
  "empty_membership_store = \<lparr>ms_memberships = [], ms_active = []\<rparr>"

definition duplicate_membership :: exn where
  "duplicate_membership = DuplicateActiveOrganizationMembership ''active membership already exists''"

definition save_membership ::
  "organization_membership \<Rightarrow> membership_store \<Rightarrow> unit result \<times> membership_store" where
  "save_membership m st =
     (let key = membership_key m in
      if om_state m = MEMBER_ACTIVE \<and> dict_get (ms_active st) key \<noteq> None
      then (Inl duplicate_membership, st)
      else
        let saved = st\<lparr>ms_memberships := dict_set (om_membership_id m) m (ms_memberships st)\<rparr> in
        if om_state m = MEMBER_ACTIVE
        then (Inr (), saved\<lparr>ms_active := dict_set key (om_membership_id m) (ms_active saved)\<rparr>)
        else (Inr (), saved))"

fun save_all :: "organization_membership list \<Rightarrow> membership_store \<Rightarrow> membership_store" where
  "save_all [] st = st"
| "save_all (m # ms) st = save_all ms (snd (save_membership m st))"

definition membership_store_ok :: "membership_store \<Rightarrow> bool" where
  "membership_store_ok st \<longleftrightarrow> (\<forall>i m. dict_get (ms_memberships st) i = Some m \<longrightarrow>
     om_membership_id m = i \<and>
     (om_state m = MEMBER_ACTIVE \<longrightarrow> dict_get (ms_active st) (membership_key m) = Some i))"

lemma save_membership_ok: "membership_store_ok st \<Longrightarrow> membership_store_ok (snd (save_membership m st))"
  unfolding membership_store_ok_def save_membership_def
  by (auto simp: Let_def dict_simps) (metis option.distinct(1))+

lemma save_all_ok: "membership_store_ok st \<Longrightarrow> membership_store_ok (save_all ms st)"
  by (induction ms arbitrary: st) (simp_all add: save_membership_ok)

lemma membership_store_ok_empty: "membership_store_ok empty_membership_store"
  by (simp add: membership_store_ok_def empty_membership_store_def dict_simps)

text \<open>
  One active affiliation per user and organization: whatever sequence of memberships is
  saved, two active memberships in the store with the same user and organization are the same
  record.
\<close>

theorem one_active_membership:
  assumes "dict_get (ms_memberships (save_all ms empty_membership_store)) i = Some m"
    and "dict_get (ms_memberships (save_all ms empty_membership_store)) j = Some n"
    and "om_state m = MEMBER_ACTIVE" "om_state n = MEMBER_ACTIVE" "membership_key m = membership_key n"
  shows "i = j \<and> m = n"
  using assms save_all_ok [OF membership_store_ok_empty, of ms]
  unfolding membership_store_ok_def by (metis option.inject)

text \<open>The active index is never cleared, so revoking a membership does not free its place: the
  store keeps refusing an active membership of that user and organization.\<close>

lemma active_index_grows:
  "dict_get (ms_active st) k \<noteq> None \<Longrightarrow> dict_get (ms_active (save_all ms st)) k \<noteq> None"
proof (induction ms arbitrary: st)
  case (Cons m ms)
  have "dict_get (ms_active (snd (save_membership m st))) k \<noteq> None"
    using Cons.prems by (simp add: save_membership_def Let_def dict_simps)
  then show ?case using Cons.IH by simp
qed simp

lemma revoked_membership_keeps_its_slot:
  assumes "fst (save_membership m st) = Inr ()" "om_state m = MEMBER_ACTIVE"
    and "om_state n = MEMBER_ACTIVE" "membership_key n = membership_key m"
  shows "fst (save_membership n (save_all ms (snd (save_membership m st)))) = Inl duplicate_membership"
proof -
  have "dict_get (ms_active (snd (save_membership m st))) (membership_key m) \<noteq> None"
    using assms by (auto simp: save_membership_def Let_def dict_simps split: if_splits)
  from active_index_grows [OF this, of ms] assms show ?thesis
    by (simp add: save_membership_def Let_def)
qed

definition demo_membership :: organization_membership where
  "demo_membership = \<lparr>om_membership_id = ''member_1'', om_user_subject = ''alice'',
     om_organization_id = ''org_1'', om_source = FROM_INVITATION, om_role_refs = [],
     om_state = MEMBER_ACTIVE, om_version = 1, om_created_at = Aware 0\<rparr>"

theorem one_active_membership_witness:
  "dict_get (ms_memberships (save_all [demo_membership] empty_membership_store)) ''member_1''
     = Some demo_membership"
proof -
  have s: "dict_get (ms_memberships (save_all [demo_membership] empty_membership_store)) ''member_1''
     = Some demo_membership"
    by (simp add: save_membership_def empty_membership_store_def Let_def dict_simps)
      (simp add: demo_membership_def)
  then show ?thesis
    using one_active_membership [OF s s _ _ refl] by (simp add: demo_membership_def)
qed

end
