(* ===== verification/Scope_Access.thy ===== *)
theory Scope_Access
  imports Scope_Registry Org_Membership
begin

text \<open>
  \<open>gateway/resource_scope_access.py\<close>, the role bindings and their deterministic evaluator, and
  \<open>gateway/resource_scope_governance.py\<close>, the guardrail evaluator that can only narrow it.
  The lookups the authorizer is given (memberships, affiliations, identity groups) are its
  arguments.
\<close>

section \<open>Principals, actions and bindings\<close>

datatype principal_kind = PRINCIPAL_USER | PRINCIPAL_IDENTITY_GROUP | PRINCIPAL_SERVICE

datatype scope_action = SCOPE_VIEW | REQUEST_PROVISION | APPROVE_PROVISION | SCOPE_ADMIN

datatype role_binding_state = ROLE_ACTIVE | ROLE_REVOKED

datatype target_kind =
  T_SCOPE | T_ORGANIZATION | T_BUSINESS_UNIT | T_TEAM | T_PROJECT | T_ENVIRONMENT

fun target_kind_value :: "target_kind \<Rightarrow> string" where
  "target_kind_value T_SCOPE = ''scope''"
| "target_kind_value T_ORGANIZATION = ''organization''"
| "target_kind_value T_BUSINESS_UNIT = ''business_unit''"
| "target_kind_value T_TEAM = ''team''"
| "target_kind_value T_PROJECT = ''project''"
| "target_kind_value T_ENVIRONMENT = ''environment''"

record principal_reference =
  pr_kind :: principal_kind
  pr_principal_id :: string

record binding_target =
  bt_kind :: target_kind
  bt_resource_id :: string
  bt_inherit :: bool

text \<open>The conditions of a binding are its \<open>environment_ids\<close>.\<close>

record role_binding =
  rb_binding_id :: string
  rb_principal :: principal_reference
  rb_actions :: "scope_action set"
  rb_target :: binding_target
  rb_environment_ids :: "string list"
  rb_state :: role_binding_state
  rb_version :: int

definition check_role_binding :: "role_binding \<Rightarrow> role_binding result" where
  "check_role_binding b =
     (if length (rb_binding_id b) < 10 \<or> pr_principal_id (rb_principal b) = [] \<or> rb_actions b = {} \<or>
         bt_resource_id (rb_target b) = [] \<or> rb_version b < 1
      then Inl (ValidationError ''ResourceScopeRoleBinding'')
      else if bt_kind (rb_target b) \<in> {T_SCOPE, T_ENVIRONMENT} \<and> bt_inherit (rb_target b)
      then Inl (ValidationError (''a '' @ target_kind_value (bt_kind (rb_target b)) @
             '' target has no descendant Resource Scope''))
      else Inr b)"

type_synonym role_binding_store = "(string, role_binding) dict"

definition make_role_binding_store :: "role_binding list \<Rightarrow> role_binding_store" where
  "make_role_binding_store bs = dict_of rb_binding_id (\<lambda>b. b) bs"

definition active_role_bindings :: "role_binding_store \<Rightarrow> role_binding list" where
  "active_role_bindings st = filter (\<lambda>b. rb_state b = ROLE_ACTIVE) (dict_values st)"

definition replace_role_binding :: "role_binding \<Rightarrow> role_binding_store \<Rightarrow> role_binding_store" where
  "replace_role_binding b st = dict_set (rb_binding_id b) b st"

section \<open>The authorizer\<close>

record access_request =
  areq_principal :: principal_reference
  areq_action :: scope_action
  areq_scope_id :: string

definition check_access_request :: "access_request \<Rightarrow> access_request result" where
  "check_access_request r =
     (if pr_principal_id (areq_principal r) = [] \<or> length (areq_scope_id r) < 8
      then Inl (ValidationError ''ResourceScopeAuthorizationRequest'') else Inr r)"

record access_decision =
  ad_allowed :: bool
  ad_matched_binding_ids :: "string list"

record access_lookups =
  lk_membership :: "string \<Rightarrow> string \<Rightarrow> organization_membership option"
  lk_affiliations :: "(principal_reference \<Rightarrow> string \<Rightarrow> bool) option"
  lk_identity_groups :: "(principal_reference \<Rightarrow> string set) option"

text \<open>\<open>ancestor_ids.get(kind)\<close>.\<close>

fun ancestor_id :: "resource_scope \<Rightarrow> target_kind \<Rightarrow> string option" where
  "ancestor_id s T_ORGANIZATION = Some (org_id (rs_organization s))"
| "ancestor_id s T_BUSINESS_UNIT = Some (bu_id (rs_business_unit s))"
| "ancestor_id s T_TEAM = Some (team_id (rs_team s))"
| "ancestor_id s T_PROJECT = Some (project_id (rs_project s))"
| "ancestor_id s _ = None"

definition target_matches :: "binding_target \<Rightarrow> resource_scope \<Rightarrow> bool" where
  "target_matches t s =
     (if bt_kind t = T_SCOPE then bt_resource_id t = rs_scope_id s
      else if bt_kind t = T_ENVIRONMENT then bt_resource_id t = env_id (rs_environment s)
      else if \<not> bt_inherit t then False
      else ancestor_id s (bt_kind t) = Some (bt_resource_id t))"

definition principal_matches :: "access_lookups \<Rightarrow> principal_reference \<Rightarrow> access_request \<Rightarrow> bool" where
  "principal_matches lk bp r =
     (if bp = areq_principal r then True
      else pr_kind bp = PRINCIPAL_IDENTITY_GROUP \<and>
        (case lk_identity_groups lk of
           None \<Rightarrow> False
         | Some groups \<Rightarrow> pr_principal_id bp \<in> groups (areq_principal r)))"

definition binding_allows ::
  "access_lookups \<Rightarrow> role_binding \<Rightarrow> access_request \<Rightarrow> resource_scope \<Rightarrow> bool" where
  "binding_allows lk b r s =
     (if areq_action r \<notin> rb_actions b \<or> \<not> principal_matches lk (rb_principal b) r then False
      else if rb_environment_ids b \<noteq> [] \<and> env_id (rs_environment s) \<notin> set (rb_environment_ids b) then False
      else target_matches (rb_target b) s)"

definition has_active_membership ::
  "access_lookups \<Rightarrow> principal_reference \<Rightarrow> resource_scope \<Rightarrow> bool" where
  "has_active_membership lk p s =
     (if pr_kind p \<noteq> PRINCIPAL_USER
      then (case lk_affiliations lk of
              None \<Rightarrow> False
            | Some affiliated \<Rightarrow> affiliated p (org_id (rs_organization s)))
      else lk_membership lk (pr_principal_id p) (org_id (rs_organization s)) \<noteq> None)"

definition authorize ::
  "(string \<Rightarrow> resource_scope option) \<Rightarrow> role_binding list \<Rightarrow> access_lookups \<Rightarrow> access_request
     \<Rightarrow> access_decision" where
  "authorize resolve_active bindings lk r =
     (case resolve_active (areq_scope_id r) of
        None \<Rightarrow> \<lparr>ad_allowed = False, ad_matched_binding_ids = []\<rparr>
      | Some s \<Rightarrow>
          if \<not> has_active_membership lk (areq_principal r) s
          then \<lparr>ad_allowed = False, ad_matched_binding_ids = []\<rparr>
          else
            let matched = map rb_binding_id (filter (\<lambda>b. binding_allows lk b r s) bindings) in
            \<lparr>ad_allowed = (matched \<noteq> []), ad_matched_binding_ids = matched\<rparr>)"

text \<open>The chain of resources a scope is reached through, from the scope to the organization.\<close>

definition scope_chain :: "resource_scope \<Rightarrow> (target_kind \<times> string) set" where
  "scope_chain s =
     {(T_ORGANIZATION, org_id (rs_organization s)), (T_BUSINESS_UNIT, bu_id (rs_business_unit s)),
      (T_TEAM, team_id (rs_team s)), (T_PROJECT, project_id (rs_project s)),
      (T_ENVIRONMENT, env_id (rs_environment s)), (T_SCOPE, rs_scope_id s)}"

lemma target_matches_iff:
  "target_matches t s \<longleftrightarrow> (bt_kind t, bt_resource_id t) \<in> scope_chain s \<and>
     (bt_kind t \<in> {T_SCOPE, T_ENVIRONMENT} \<or> bt_inherit t)"
  by (cases "bt_kind t") (auto simp: target_matches_def scope_chain_def)

lemma authorize_allowed_iff:
  "ad_allowed (authorize res bs lk r) \<longleftrightarrow>
     (\<exists>s. res (areq_scope_id r) = Some s \<and> has_active_membership lk (areq_principal r) s \<and>
        (\<exists>b \<in> set bs. binding_allows lk b r s))"
  by (auto simp: authorize_def Let_def filter_empty_conv split: option.splits)

lemma authorize_denied_silent:
  "\<not> ad_allowed (authorize res bs lk r) \<Longrightarrow> ad_matched_binding_ids (authorize res bs lk r) = []"
  by (auto simp: authorize_def Let_def split: option.splits)

text \<open>
  C12. Access is granted only inside the hierarchy: the authorizer over the reviewed registry and
  the binding store allows a request exactly when the scope id resolves to a complete and active
  scope, the principal is affiliated with the owning organization, and some active binding for
  the action names the principal or one of its identity groups, admits the environment, and
  targets a resource on the scope's own chain, an ancestor only if the binding inherits.
\<close>

theorem authorize_iff_reviewed_binding:
  "ad_allowed (authorize (resolve_active_scope reg) (active_role_bindings st) lk r) \<longleftrightarrow>
     (\<exists>s b. dict_get (reg_by_scope_id reg) (areq_scope_id r) = Some s \<and> is_complete_and_active s \<and>
        (if pr_kind (areq_principal r) = PRINCIPAL_USER
         then lk_membership lk (pr_principal_id (areq_principal r)) (org_id (rs_organization s)) \<noteq> None
         else \<exists>f. lk_affiliations lk = Some f \<and> f (areq_principal r) (org_id (rs_organization s))) \<and>
        b \<in> set (dict_values st) \<and> rb_state b = ROLE_ACTIVE \<and> areq_action r \<in> rb_actions b \<and>
        (rb_principal b = areq_principal r \<or>
         pr_kind (rb_principal b) = PRINCIPAL_IDENTITY_GROUP \<and>
           (\<exists>g. lk_identity_groups lk = Some g \<and> pr_principal_id (rb_principal b) \<in> g (areq_principal r))) \<and>
        (rb_environment_ids b = [] \<or> env_id (rs_environment s) \<in> set (rb_environment_ids b)) \<and>
        (bt_kind (rb_target b), bt_resource_id (rb_target b)) \<in> scope_chain s \<and>
        (bt_kind (rb_target b) \<in> {T_SCOPE, T_ENVIRONMENT} \<or> bt_inherit (rb_target b)))"
proof -
  have member: "has_active_membership lk p s \<longleftrightarrow>
      (if pr_kind p = PRINCIPAL_USER then lk_membership lk (pr_principal_id p) (org_id (rs_organization s)) \<noteq> None
       else \<exists>f. lk_affiliations lk = Some f \<and> f p (org_id (rs_organization s)))" for p s
    by (auto simp: has_active_membership_def split: option.splits)
  have allows: "binding_allows lk b r s \<longleftrightarrow> areq_action r \<in> rb_actions b \<and>
      (rb_principal b = areq_principal r \<or> pr_kind (rb_principal b) = PRINCIPAL_IDENTITY_GROUP \<and>
         (\<exists>g. lk_identity_groups lk = Some g \<and> pr_principal_id (rb_principal b) \<in> g (areq_principal r))) \<and>
      (rb_environment_ids b = [] \<or> env_id (rs_environment s) \<in> set (rb_environment_ids b)) \<and>
      target_matches (rb_target b) s" for b s
    by (auto simp: binding_allows_def principal_matches_def split: option.splits)
  show ?thesis
    unfolding authorize_allowed_iff member allows target_matches_iff resolve_active_scope_iff
    by (auto simp: active_role_bindings_def)
qed

lemma update_filtered_out:
  "distinct (map fst st) \<Longrightarrow> \<not> P v \<Longrightarrow>
    filter P (map snd (AList.update k v st)) = filter P (map snd (AList.delete k st))"
proof (induction st)
  case (Cons kv st)
  then have "fst kv = k \<longrightarrow> AList.delete k st = st"
    by (intro impI delete_id) auto
  with Cons show ?case by (cases kv) auto
qed simp

text \<open>
  Revocation takes effect at once: once a stored binding is replaced by its revoked version,
  every decision is the one the store without that binding gives, matched bindings included.
\<close>

theorem revoked_binding_grants_nothing:
  "authorize res (active_role_bindings
       (replace_role_binding (b\<lparr>rb_state := ROLE_REVOKED\<rparr>) (make_role_binding_store bs))) lk r =
   authorize res (active_role_bindings (dict_pop (rb_binding_id b) (make_role_binding_store bs))) lk r"
  using dict_ok_of [of rb_binding_id "\<lambda>b. b" bs]
  by (simp add: active_role_bindings_def replace_role_binding_def make_role_binding_store_def
      dict_values_def dict_set_def dict_pop_def dict_ok_def update_filtered_out)

section \<open>Governance guardrails (gateway/resource_scope_governance.py)\<close>

record governance_policy =
  gp_target_kind :: target_kind
  gp_target_id :: string
  gp_allowed_providers :: "string set"
  gp_denied_actions :: "scope_action set"
  gp_require_approval :: bool

definition check_governance_policy :: "governance_policy \<Rightarrow> governance_policy result" where
  "check_governance_policy p =
     (if gp_target_id p = [] then Inl (ValidationError ''ResourceScopeGovernancePolicy'') else Inr p)"

definition applicable_policies :: "governance_policy list \<Rightarrow> resource_scope \<Rightarrow> governance_policy list" where
  "applicable_policies ps s = filter (\<lambda>p. (gp_target_kind p, gp_target_id p) \<in> scope_chain s) ps"

record governance_request =
  greq_scope :: resource_scope
  greq_provider :: string
  greq_action :: scope_action
  greq_approval_present :: bool

definition check_governance_request :: "governance_request \<Rightarrow> governance_request result" where
  "check_governance_request r =
     (if greq_provider r = [] then Inl (ValidationError ''ResourceScopeGovernanceRequest'') else Inr r)"

record governance_decision =
  gd_allowed :: bool
  gd_approval_required :: bool
  gd_matched_policy_targets :: "string list"

definition policy_target_text :: "governance_policy \<Rightarrow> string" where
  "policy_target_text p = target_kind_value (gp_target_kind p) @ '':'' @ gp_target_id p"

definition evaluate_governance :: "governance_policy list \<Rightarrow> governance_request \<Rightarrow> governance_decision" where
  "evaluate_governance all_policies r =
     (let policies = applicable_policies all_policies (greq_scope r);
          matched = map policy_target_text policies;
          restrictions = filter (\<lambda>a. a \<noteq> {}) (map gp_allowed_providers policies)
      in if list_ex (\<lambda>p. greq_action r \<in> gp_denied_actions p) policies
         then \<lparr>gd_allowed = False, gd_approval_required = False, gd_matched_policy_targets = matched\<rparr>
         else if restrictions \<noteq> [] \<and> greq_provider r \<notin> \<Inter> (set restrictions)
         then \<lparr>gd_allowed = False, gd_approval_required = False, gd_matched_policy_targets = matched\<rparr>
         else if greq_action r = REQUEST_PROVISION \<and> list_ex gp_require_approval policies \<and>
             \<not> greq_approval_present r
         then \<lparr>gd_allowed = False, gd_approval_required = True, gd_matched_policy_targets = matched\<rparr>
         else \<lparr>gd_allowed = True, gd_approval_required = False, gd_matched_policy_targets = matched\<rparr>)"

text \<open>What one policy forbids outright, and what it makes wait for an approval.\<close>

definition policy_forbids :: "governance_policy \<Rightarrow> governance_request \<Rightarrow> bool" where
  "policy_forbids p r \<longleftrightarrow> greq_action r \<in> gp_denied_actions p \<or>
     gp_allowed_providers p \<noteq> {} \<and> greq_provider r \<notin> gp_allowed_providers p"

definition policy_withholds :: "governance_policy \<Rightarrow> governance_request \<Rightarrow> bool" where
  "policy_withholds p r \<longleftrightarrow>
     greq_action r = REQUEST_PROVISION \<and> gp_require_approval p \<and> \<not> greq_approval_present r"

lemma evaluate_governance_eq:
  "evaluate_governance ps r =
     (let qs = applicable_policies ps (greq_scope r);
          forbidden = (\<exists>p \<in> set qs. policy_forbids p r);
          withheld = (\<exists>p \<in> set qs. policy_withholds p r)
      in \<lparr>gd_allowed = (\<not> forbidden \<and> \<not> withheld), gd_approval_required = (\<not> forbidden \<and> withheld),
          gd_matched_policy_targets = map policy_target_text qs\<rparr>)"
proof -
  let ?qs = "applicable_policies ps (greq_scope r)"
  let ?rs = "filter (\<lambda>a. a \<noteq> {}) (map gp_allowed_providers ?qs)"
  have "(\<exists>p \<in> set ?qs. policy_forbids p r) \<longleftrightarrow> (\<exists>p \<in> set ?qs. greq_action r \<in> gp_denied_actions p) \<or>
      (?rs \<noteq> [] \<and> greq_provider r \<notin> \<Inter> (set ?rs))"
    by (auto simp: policy_forbids_def filter_empty_conv)
  then show ?thesis
    by (auto simp: evaluate_governance_def Let_def policy_withholds_def list_ex_iff)
qed

text \<open>
  Guardrails compose by narrowing: a request passes a list of policies exactly when it passes
  every policy of the list alone, so a policy added anywhere in the hierarchy can only deny or
  withhold; and approval is asked for exactly when nothing forbids the request and some policy
  withholds it.
\<close>

theorem guardrails_only_narrow:
  "gd_allowed (evaluate_governance ps r) = list_all (\<lambda>p. gd_allowed (evaluate_governance [p] r)) ps \<and>
   gd_approval_required (evaluate_governance ps r) =
     (list_ex (\<lambda>p. gd_approval_required (evaluate_governance [p] r)) ps \<and>
      list_all (\<lambda>p. gd_allowed (evaluate_governance [p] r) \<or> gd_approval_required (evaluate_governance [p] r)) ps)"
  by (auto simp: evaluate_governance_eq Let_def applicable_policies_def list_all_iff list_ex_iff)

end
