(* ===== verification/Provider_Bindings.thy ===== *)
theory Provider_Bindings
  imports Gateway_Schemas
begin

text \<open>
  \<open>gateway/resource_scope_bindings.py\<close>: the registry that maps a Resource Scope to the cloud
  container its work runs in, and the resolver that picks the one eligible binding.  The locale
  \<open>binding_registry\<close> is the \<open>ResourceScopeBindingRegistry\<close> protocol with its laws.
\<close>

section \<open>Bindings\<close>

datatype cloud_provider = AWS | GCP | AZURE

fun cloud_provider_value :: "cloud_provider \<Rightarrow> string" where
  "cloud_provider_value AWS = ''aws''"
| "cloud_provider_value GCP = ''gcp''"
| "cloud_provider_value AZURE = ''azure''"

datatype container_type = AWS_ACCOUNT | GCP_PROJECT | AZURE_SUBSCRIPTION

datatype provider_binding_state = BIND_DRAFT | BIND_ACTIVE | BIND_SUSPENDED | BIND_RETIRED

record container_binding =
  cb_binding_id :: string
  cb_scope_id :: string
  cb_provider :: cloud_provider
  cb_container_type :: container_type
  cb_container_reference :: string
  cb_execution_identity_reference :: string
  cb_provider_workspace :: "string option"
  cb_state :: provider_binding_state
  cb_version :: int

fun expected_container_type :: "cloud_provider \<Rightarrow> container_type" where
  "expected_container_type AWS = AWS_ACCOUNT"
| "expected_container_type GCP = GCP_PROJECT"
| "expected_container_type AZURE = AZURE_SUBSCRIPTION"

definition check_container_binding :: "container_binding \<Rightarrow> container_binding result" where
  "check_container_binding b =
     (if length (cb_binding_id b) < 10 \<or> length (cb_scope_id b) < 8 \<or> cb_container_reference b = [] \<or>
         cb_execution_identity_reference b = [] \<or> cb_provider_workspace b = Some [] \<or> cb_version b < 1
      then Inl (ValidationError ''CloudResourceContainerBinding'')
      else if cb_container_type b \<noteq> expected_container_type (cb_provider b)
      then Inl (ValidationError ''provider must use its matching Cloud Resource Container type'')
      else Inr b)"

section \<open>The registry\<close>

type_synonym binding_registry_state = "(string, container_binding) dict"

definition register_reviewed_binding ::
  "container_binding \<Rightarrow> binding_registry_state \<Rightarrow> binding_registry_state" where
  "register_reviewed_binding b st = dict_set (cb_binding_id b) b st"

definition set_binding_state ::
  "string \<Rightarrow> provider_binding_state \<Rightarrow> binding_registry_state \<Rightarrow> unit result \<times> binding_registry_state" where
  "set_binding_state i new st =
     (case dict_get st i of
        None \<Rightarrow> (Inl (ValueError ''Cloud Resource Container binding does not exist''), st)
      | Some b \<Rightarrow> (Inr (), dict_set i (b\<lparr>cb_state := new\<rparr>) st))"

definition active_container_bindings :: "binding_registry_state \<Rightarrow> string \<Rightarrow> container_binding list" where
  "active_container_bindings st scope_id =
     filter (\<lambda>b. cb_scope_id b = scope_id \<and> cb_state b = BIND_ACTIVE) (dict_values st)"

datatype binding_op = RegisterBinding container_binding | SetBindingState string provider_binding_state

text \<open>What a binding registry promises, on maps from binding ids.\<close>

fun spec_binding_op ::
  "binding_op \<Rightarrow> (string \<rightharpoonup> container_binding) \<Rightarrow> (string \<rightharpoonup> container_binding)" where
  "spec_binding_op (RegisterBinding b) m = m(cb_binding_id b \<mapsto> b)"
| "spec_binding_op (SetBindingState i new) m =
     (case m i of None \<Rightarrow> m | Some b \<Rightarrow> m(i \<mapsto> b\<lparr>cb_state := new\<rparr>))"

locale binding_registry =
  fixes register :: "container_binding \<Rightarrow> 'st \<Rightarrow> 'st"
    and set_state :: "string \<Rightarrow> provider_binding_state \<Rightarrow> 'st \<Rightarrow> unit result \<times> 'st"
    and active :: "'st \<Rightarrow> string \<Rightarrow> container_binding list"
    and stored :: "'st \<Rightarrow> string \<Rightarrow> container_binding option"
    and inv :: "'st \<Rightarrow> bool"
  assumes register_law: "inv st \<Longrightarrow> inv (register b st) \<and>
      stored (register b st) = spec_binding_op (RegisterBinding b) (stored st)"
    and set_state_law: "inv st \<Longrightarrow> inv (snd (set_state i new st)) \<and>
      stored (snd (set_state i new st)) = spec_binding_op (SetBindingState i new) (stored st) \<and>
      (is_Inr (fst (set_state i new st)) \<longleftrightarrow> stored st i \<noteq> None)"
    and active_law: "inv st \<Longrightarrow> set (active st s) =
      {b. cb_scope_id b = s \<and> cb_state b = BIND_ACTIVE \<and> stored st (cb_binding_id b) = Some b}"
    and active_distinct: "inv st \<Longrightarrow> distinct (map cb_binding_id (active st s))"
begin

fun run :: "binding_op list \<Rightarrow> 'st \<Rightarrow> 'st" where
  "run [] st = st"
| "run (RegisterBinding b # ops) st = run ops (register b st)"
| "run (SetBindingState i new # ops) st = run ops (snd (set_state i new st))"

lemma run_law: "inv st \<Longrightarrow> inv (run ops st) \<and> stored (run ops st) = fold spec_binding_op ops (stored st)"
  by (induction ops st rule: run.induct) (auto simp: register_law set_state_law)

lemma suspended_inactive:
  "inv st \<Longrightarrow> new \<noteq> BIND_ACTIVE \<Longrightarrow> b \<in> set (active (snd (set_state i new st)) s) \<Longrightarrow> cb_binding_id b \<noteq> i"
  by (auto simp: set_state_law active_law split: option.splits if_splits)

text \<open>Selecting by a predicate gives exactly one binding exactly when one stored binding fits.\<close>

lemma filter_active_single:
  assumes "inv st"
  shows "filter P (active st s) = [b] \<longleftrightarrow>
    {b. cb_scope_id b = s \<and> cb_state b = BIND_ACTIVE \<and> stored st (cb_binding_id b) = Some b \<and> P b} = {b}"
proof -
  have "set (filter P (active st s)) =
      {b. cb_scope_id b = s \<and> cb_state b = BIND_ACTIVE \<and> stored st (cb_binding_id b) = Some b \<and> P b}"
    using active_law [OF assms] by auto
  moreover have "distinct (filter P (active st s))"
    using active_distinct [OF assms, of s] by (simp add: distinct_map)
  ultimately show ?thesis
    by (metis set_eq_singleton_distinct)
qed

end

section \<open>The resolver\<close>

datatype binding_resolution_status = BINDING_RESOLVED | BINDING_NON_ROUTABLE

record binding_profile =
  bp_profile_id :: string
  bp_eligible_providers :: "cloud_provider set"

definition check_binding_profile :: "binding_profile \<Rightarrow> binding_profile result" where
  "check_binding_profile p =
     (if bp_profile_id p = [] \<or> bp_eligible_providers p = {}
      then Inl (ValidationError ''ProvisioningBindingProfile'') else Inr p)"

record binding_request =
  br_scope_id :: string
  br_profile_id :: string

definition check_binding_request :: "binding_request \<Rightarrow> binding_request result" where
  "check_binding_request r =
     (if length (br_scope_id r) < 8 \<or> br_profile_id r = []
      then Inl (ValidationError ''ProvisioningBindingRequest'') else Inr r)"

record binding_resolution =
  bres_status :: binding_resolution_status
  bres_binding :: "container_binding option"

definition check_binding_resolution :: "binding_resolution \<Rightarrow> binding_resolution result" where
  "check_binding_resolution r =
     (if (bres_status r = BINDING_RESOLVED) \<noteq> (bres_binding r \<noteq> None)
      then Inl (ValidationError ''resolved status requires exactly one binding'') else Inr r)"

definition resolve_binding ::
  "(string \<Rightarrow> container_binding list) \<Rightarrow> string \<Rightarrow> binding_profile \<Rightarrow> binding_resolution result" where
  "resolve_binding active_bindings scope_id profile =
     (let eligible = filter (\<lambda>b. cb_provider b \<in> bp_eligible_providers profile) (active_bindings scope_id) in
      case eligible of
        [b] \<Rightarrow> check_binding_resolution \<lparr>bres_status = BINDING_RESOLVED, bres_binding = Some b\<rparr>
      | _ \<Rightarrow> check_binding_resolution \<lparr>bres_status = BINDING_NON_ROUTABLE, bres_binding = None\<rparr>)"

lemma resolve_binding_cases:
  "resolve_binding act s p =
     (if \<exists>b. filter (\<lambda>b. cb_provider b \<in> bp_eligible_providers p) (act s) = [b]
      then Inr \<lparr>bres_status = BINDING_RESOLVED,
        bres_binding = Some (hd (filter (\<lambda>b. cb_provider b \<in> bp_eligible_providers p) (act s)))\<rparr>
      else Inr \<lparr>bres_status = BINDING_NON_ROUTABLE, bres_binding = None\<rparr>)"
  by (auto simp: resolve_binding_def check_binding_resolution_def split: list.splits)

section \<open>The in-memory registry keeps its promises\<close>

definition binding_registry_ok :: "binding_registry_state \<Rightarrow> bool" where
  "binding_registry_ok st \<longleftrightarrow> dict_ok st \<and> (\<forall>i b. dict_get st i = Some b \<longrightarrow> cb_binding_id b = i)"

lemma register_reviewed_binding_law:
  "binding_registry_ok st \<Longrightarrow> binding_registry_ok (register_reviewed_binding b st) \<and>
     dict_get (register_reviewed_binding b st) = spec_binding_op (RegisterBinding b) (dict_get st)"
  by (auto simp: binding_registry_ok_def register_reviewed_binding_def dict_simps dict_get_set_fun
      split: if_splits)

lemma set_binding_state_law:
  "binding_registry_ok st \<Longrightarrow> binding_registry_ok (snd (set_binding_state i new st)) \<and>
     dict_get (snd (set_binding_state i new st)) = spec_binding_op (SetBindingState i new) (dict_get st) \<and>
     (is_Inr (fst (set_binding_state i new st)) \<longleftrightarrow> dict_get st i \<noteq> None)"
  by (cases "dict_get st i")
    (auto simp: binding_registry_ok_def set_binding_state_def dict_simps dict_get_set_fun split: if_splits)

lemma active_container_bindings_set:
  "binding_registry_ok st \<Longrightarrow> set (active_container_bindings st s) =
     {b. cb_scope_id b = s \<and> cb_state b = BIND_ACTIVE \<and> dict_get st (cb_binding_id b) = Some b}"
  by (auto simp: active_container_bindings_def binding_registry_ok_def dict_values_iff)

lemma active_container_bindings_distinct:
  assumes "binding_registry_ok st"
  shows "distinct (map cb_binding_id (active_container_bindings st s))"
proof -
  have "cb_binding_id (snd x) = fst x" if "x \<in> set st" for x
  proof -
    have "dict_get st (fst x) = Some (snd x)"
      using that assms by (simp add: binding_registry_ok_def dict_ok_def dict_get_def)
    then show ?thesis using assms unfolding binding_registry_ok_def by blast
  qed
  then have "map cb_binding_id (dict_values st) = map fst st"
    by (simp add: dict_values_def)
  then have "distinct (map cb_binding_id (dict_values st))"
    using assms by (simp add: binding_registry_ok_def dict_ok_def)
  then show ?thesis by (simp add: active_container_bindings_def distinct_map_filter)
qed

interpretation memory_bindings: binding_registry register_reviewed_binding set_binding_state
  active_container_bindings dict_get binding_registry_ok
  by unfold_locales
    (simp_all only: register_reviewed_binding_law set_binding_state_law active_container_bindings_set
      active_container_bindings_distinct)

lemma binding_registry_ok_Nil: "binding_registry_ok []"
  by (simp add: binding_registry_ok_def dict_simps)

text \<open>
  Routing is never ambiguous: after any sequence of registrations and state changes, the
  resolver routes to a binding exactly when it is the only registered, active binding of the
  scope whose provider the profile admits; with none or several the answer is non-routable, and
  the resolver never raises.
\<close>

theorem binding_resolution_is_unambiguous:
  "resolve_binding (active_container_bindings (memory_bindings.run ops [])) s profile =
     (let m = fold spec_binding_op ops Map.empty;
          fit = {b. cb_scope_id b = s \<and> cb_state b = BIND_ACTIVE \<and> m (cb_binding_id b) = Some b \<and>
            cb_provider b \<in> bp_eligible_providers profile}
      in if \<exists>b. fit = {b}
         then Inr \<lparr>bres_status = BINDING_RESOLVED, bres_binding = Some (the_elem fit)\<rparr>
         else Inr \<lparr>bres_status = BINDING_NON_ROUTABLE, bres_binding = None\<rparr>)"
proof -
  have st: "binding_registry_ok (memory_bindings.run ops [])"
    "dict_get (memory_bindings.run ops []) = fold spec_binding_op ops Map.empty"
    using memory_bindings.run_law [OF binding_registry_ok_Nil, of ops]
    by (simp_all add: dict_get_Nil_fun)
  let ?fit = "{b. cb_scope_id b = s \<and> cb_state b = BIND_ACTIVE \<and>
    fold spec_binding_op ops Map.empty (cb_binding_id b) = Some b \<and> cb_provider b \<in> bp_eligible_providers profile}"
  let ?act = "filter (\<lambda>b. cb_provider b \<in> bp_eligible_providers profile)
    (active_container_bindings (memory_bindings.run ops []) s)"
  have one: "?act = [b] \<longleftrightarrow> ?fit = {b}" for b
    using memory_bindings.filter_active_single [OF st(1)] by (simp only: st(2))
  have head: "hd ?act = the_elem ?fit" if "?fit = {b}" for b
  proof -
    have "?act = [b]" using that one by blast
    then show ?thesis unfolding that by simp
  qed
  then show ?thesis
    unfolding resolve_binding_cases Let_def one by (intro if_cong refl) (elim exE, simp only: head)
qed

end
