(* ===== verification/Resolved_Context.thy ===== *)
theory Resolved_Context
  imports Scope_Access Provider_Bindings
begin

text \<open>
  \<open>gateway/resolved_resource_scope.py\<close>: the sealed snapshot of one authorization and routing
  decision.  SHA-256 is an argument, a function from text to hex digest: nothing is assumed of
  it, so the digest properties conclude equal contents or that the two texts collide.
\<close>

section \<open>Sealed digests\<close>

text \<open>
  A record sealed by a digest of its text.  A hash maps many texts to one digest, so what can be
  proved is about the two texts at hand: when the text determines the contents on a class of
  records, equal digests on that class mean equal contents, or these very two texts collide.
\<close>

definition collides :: "(string \<Rightarrow> string) \<Rightarrow> string \<Rightarrow> string \<Rightarrow> bool" where
  "collides sha x y \<longleftrightarrow> x \<noteq> y \<and> sha x = sha y"

locale sealing =
  fixes text_of :: "'a \<Rightarrow> string"
    and sealable :: "'a \<Rightarrow> bool"
    and contents :: "'a \<Rightarrow> 'c"
  assumes text_determines: "sealable x \<Longrightarrow> sealable y \<Longrightarrow> text_of x = text_of y \<Longrightarrow> contents x = contents y"
begin

lemma same_digest:
  assumes "sealable x" "sealable y" "sha (text_of x) = sha (text_of y)"
  shows "contents x = contents y \<or> collides sha (text_of x) (text_of y)"
proof (cases "text_of x = text_of y")
  case True
  then show ?thesis using assms(1,2) text_determines by blast
next
  case False
  then show ?thesis using assms(3) unfolding collides_def by blast
qed

end

section \<open>The context\<close>

record binding_version =
  bv_binding_id :: string
  bv_version :: int

definition check_binding_version :: "binding_version \<Rightarrow> binding_version result" where
  "check_binding_version b =
     (if length (bv_binding_id b) < 10 \<or> bv_version b < 1
      then Inl (ValidationError ''ResolvedBindingVersion'') else Inr b)"

record resolved_context =
  rc_scope_id :: string
  rc_canonical_path :: string
  rc_scope_version :: int
  rc_binding_versions :: "binding_version list"
  rc_matched_grant_ids :: "string list"
  rc_matched_guardrail_ids :: "string list"
  rc_resolution_digest :: string

definition rc_binding_ids :: "resolved_context \<Rightarrow> string list" where
  "rc_binding_ids c = map bv_binding_id (rc_binding_versions c)"

text \<open>\<open>_digest_values\<close>: the parts joined by the unit separator.\<close>

definition unit_separator :: char where
  "unit_separator = CHR 0x1F"

definition digest_parts :: "resolved_context \<Rightarrow> string list" where
  "digest_parts c = [rc_scope_id c, rc_canonical_path c, show_int (rc_scope_version c)] @
     map (\<lambda>b. bv_binding_id b @ '':'' @ show_int (bv_version b)) (rc_binding_versions c) @
     map (\<lambda>g. ''grant:'' @ g) (rc_matched_grant_ids c) @
     map (\<lambda>g. ''guardrail:'' @ g) (rc_matched_guardrail_ids c)"

definition digest_text :: "resolved_context \<Rightarrow> string" where
  "digest_text c = join_with [unit_separator] (digest_parts c)"

definition digest_context :: "(string \<Rightarrow> string) \<Rightarrow> resolved_context \<Rightarrow> string" where
  "digest_context sha c = sha (digest_text c)"

definition check_resolved_context ::
  "(string \<Rightarrow> string) \<Rightarrow> resolved_context \<Rightarrow> resolved_context result" where
  "check_resolved_context sha c =
     (if length (rc_scope_id c) < 8 \<or> rc_canonical_path c = [] \<or> rc_scope_version c < 1 \<or>
         rc_binding_versions c = [] \<or>
         list_ex (\<lambda>b. \<not> is_Inr (check_binding_version b)) (rc_binding_versions c) \<or>
         length (rc_resolution_digest c) \<noteq> 64
      then Inl (ValidationError ''ResolvedResourceScopeContext'')
      else if length (remdups (rc_binding_ids c)) \<noteq> length (rc_binding_ids c)
      then Inl (ValidationError ''resolved binding IDs must be unique'')
      else if rc_resolution_digest c \<noteq> digest_context sha c
      then Inl (ValidationError ''resolved context digest does not match its sealed contents'')
      else Inr c)"

definition seal_context ::
  "(string \<Rightarrow> string) \<Rightarrow> resource_scope \<Rightarrow> access_decision \<Rightarrow> governance_decision \<Rightarrow> container_binding
     \<Rightarrow> resolved_context result" where
  "seal_context sha s authorization governance b =
     (if \<not> is_complete_and_active s
      then Inl (ValueError ''only an active complete Resource Scope can be sealed'')
      else if \<not> ad_allowed authorization \<or> (\<not> gd_allowed governance \<and> \<not> gd_approval_required governance)
      then Inl (ValueError ''only an allowed or approval-required governance decision can be sealed'')
      else if cb_scope_id b \<noteq> rs_scope_id s \<or> cb_state b \<noteq> BIND_ACTIVE
      then Inl (ValueError ''only an active binding for the resolved Resource Scope can be sealed'')
      else bind_result (check_binding_version \<lparr>bv_binding_id = cb_binding_id b, bv_version = cb_version b\<rparr>)
        (\<lambda>bv.
          let c = \<lparr>rc_scope_id = rs_scope_id s, rc_canonical_path = rs_canonical_path s,
                rc_scope_version = rs_version s, rc_binding_versions = [bv],
                rc_matched_grant_ids = ad_matched_binding_ids authorization,
                rc_matched_guardrail_ids = gd_matched_policy_targets governance,
                rc_resolution_digest = ''''\<rparr>
          in check_resolved_context sha (c\<lparr>rc_resolution_digest := digest_context sha c\<rparr>)))"

definition requires_fresh_resolution ::
  "resolved_context \<Rightarrow> resource_scope option \<Rightarrow> container_binding list \<Rightarrow> bool" where
  "requires_fresh_resolution c scope_now bindings =
     (case scope_now of
        None \<Rightarrow> True
      | Some s \<Rightarrow>
          if \<not> is_complete_and_active s then True
          else if rs_scope_id s \<noteq> rc_scope_id c \<or> rs_canonical_path s \<noteq> rc_canonical_path c \<or>
            rs_version s \<noteq> rc_scope_version c then True
          else
            let current_versions = dict_of cb_binding_id cb_version
                  (filter (\<lambda>b. cb_scope_id b = rs_scope_id s \<and> cb_state b = BIND_ACTIVE) bindings)
            in list_ex (\<lambda>v. dict_get current_versions (bv_binding_id v) \<noteq> Some (bv_version v))
                 (rc_binding_versions c))"

lemma digest_ignores_digest [simp]:
  "digest_context sha (c\<lparr>rc_resolution_digest := d\<rparr>) = digest_context sha c"
  by (simp add: digest_context_def digest_text_def digest_parts_def)

lemma check_resolved_context_Inr:
  "check_resolved_context sha c = Inr d \<Longrightarrow> d = c \<and> rc_resolution_digest c = digest_context sha c"
  by (auto simp: check_resolved_context_def split: if_splits)

lemma seal_context_Inr:
  assumes "seal_context sha s a g b = Inr c"
  shows "is_complete_and_active s" "ad_allowed a" "gd_allowed g \<or> gd_approval_required g"
    "cb_scope_id b = rs_scope_id s" "cb_state b = BIND_ACTIVE" "check_resolved_context sha c = Inr c"
    "rc_scope_id c = rs_scope_id s" "rc_canonical_path c = rs_canonical_path s"
    "rc_scope_version c = rs_version s"
    "rc_binding_versions c = [\<lparr>bv_binding_id = cb_binding_id b, bv_version = cb_version b\<rparr>]"
    "rc_matched_grant_ids c = ad_matched_binding_ids a"
    "rc_matched_guardrail_ids c = gd_matched_policy_targets g"
proof -
  show "is_complete_and_active s" "ad_allowed a" "gd_allowed g \<or> gd_approval_required g"
    "cb_scope_id b = rs_scope_id s" "cb_state b = BIND_ACTIVE"
    using assms by (auto simp: seal_context_def split: if_splits)
  define c0 where "c0 = \<lparr>rc_scope_id = rs_scope_id s, rc_canonical_path = rs_canonical_path s,
      rc_scope_version = rs_version s,
      rc_binding_versions = [\<lparr>bv_binding_id = cb_binding_id b, bv_version = cb_version b\<rparr>],
      rc_matched_grant_ids = ad_matched_binding_ids a,
      rc_matched_guardrail_ids = gd_matched_policy_targets g, rc_resolution_digest = []\<rparr>"
  have sealed: "check_resolved_context sha (c0\<lparr>rc_resolution_digest := digest_context sha c0\<rparr>) = Inr c"
    using assms by (simp add: seal_context_def check_binding_version_def c0_def split: if_splits)
  then have "c = c0\<lparr>rc_resolution_digest := digest_context sha c0\<rparr>"
    by (blast dest: check_resolved_context_Inr)
  with sealed show "check_resolved_context sha c = Inr c"
    "rc_scope_id c = rs_scope_id s" "rc_canonical_path c = rs_canonical_path s"
    "rc_scope_version c = rs_version s"
    "rc_binding_versions c = [\<lparr>bv_binding_id = cb_binding_id b, bv_version = cb_version b\<rparr>]"
    "rc_matched_grant_ids c = ad_matched_binding_ids a"
    "rc_matched_guardrail_ids c = gd_matched_policy_targets g"
    by (simp_all add: c0_def)
qed

section \<open>The digest determines a sealed context\<close>

text \<open>What the digest is taken over.\<close>

definition context_contents ::
  "resolved_context \<Rightarrow> string \<times> string \<times> int \<times> binding_version list \<times> string list \<times> string list" where
  "context_contents c = (rc_scope_id c, rc_canonical_path c, rc_scope_version c, rc_binding_versions c,
     rc_matched_grant_ids c, rc_matched_guardrail_ids c)"

text \<open>The shape \<open>seal\<close> gives: one binding, and no separator inside a field.\<close>

definition separator_free :: "resolved_context \<Rightarrow> bool" where
  "separator_free c \<longleftrightarrow> length (rc_binding_versions c) = 1 \<and>
     (\<forall>v \<in> {rc_scope_id c, rc_canonical_path c} \<union> bv_binding_id ` set (rc_binding_versions c) \<union>
        set (rc_matched_grant_ids c) \<union> set (rc_matched_guardrail_ids c). unit_separator \<notin> set v)"

lemma unit_separator_facts [simp]:
  "unit_separator \<noteq> CHR '':''" "unit_separator \<noteq> CHR ''g''" "unit_separator \<noteq> CHR ''-''"
  "\<not> is_digit unit_separator"
  by (simp_all add: unit_separator_def is_digit_def)

lemma unit_separator_show_int [simp]: "unit_separator \<notin> set (show_int i)"
  by (rule show_int_free) simp_all

lemma unit_separator_notin_text [simp]:
  "unit_separator \<notin> set ''grant:''" "unit_separator \<notin> set ''guardrail:''"
  by (simp_all add: unit_separator_def)

lemma digest_parts_free: "separator_free c \<Longrightarrow> \<forall>p \<in> set (digest_parts c). unit_separator \<notin> set p"
  using unit_separator_show_int by (auto simp: separator_free_def digest_parts_def unit_separator_def)

lemma split_at_last_colon:
  assumes "a @ CHR '':'' # show_int i = b @ CHR '':'' # show_int j"
  shows "a = b \<and> i = j"
proof -
  have free: "CHR '':'' \<notin> set (show_int k)" for k
    by (rule show_int_free) (simp_all add: is_digit_def)
  have tail: "takeWhile (\<lambda>x. x \<noteq> CHR '':'') (rev (p @ CHR '':'' # show_int k)) = rev (show_int k)" for p k
    using free [of k] by (simp add: takeWhile_append takeWhile_eq_all_conv)
  have "rev (show_int i) = rev (show_int j)"
    using tail [of a i] tail [of b j] unfolding assms by simp
  then have "i = j" by simp
  with assms show ?thesis by simp
qed

lemma grants_then_guardrails:
  "map (\<lambda>g. ''grant:'' @ g) gs @ map (\<lambda>g. ''guardrail:'' @ g) ps =
   map (\<lambda>g. ''grant:'' @ g) hs @ map (\<lambda>g. ''guardrail:'' @ g) qs \<longleftrightarrow> gs = hs \<and> ps = qs"
proof (induction gs arbitrary: hs)
  case Nil
  show ?case
  proof (cases hs)
    case Nil
    then show ?thesis by (simp add: inj_map_eq_map inj_on_def)
  next
    case (Cons h ks)
    then show ?thesis by (cases ps) simp_all
  qed
next
  case (Cons g gs)
  show ?case
  proof (cases hs)
    case Nil
    then show ?thesis by (cases qs) simp_all
  next
    case (Cons h ks)
    with Cons.IH show ?thesis by simp
  qed
qed

interpretation context_seal: sealing digest_text separator_free context_contents
proof
  fix c d
  assume free: "separator_free c" "separator_free d" and same: "digest_text c = digest_text d"
  have parts: "digest_parts c = digest_parts d"
    using same join_with_inj [OF _ _ digest_parts_free [OF free(1)] digest_parts_free [OF free(2)]]
    by (simp add: digest_text_def digest_parts_def)
  obtain v w where vw: "rc_binding_versions c = [v]" "rc_binding_versions d = [w]"
    using free by (auto simp: separator_free_def length_Suc_conv)
  have "bv_binding_id v @ CHR '':'' # show_int (bv_version v) = bv_binding_id w @ CHR '':'' # show_int (bv_version w)"
    using parts vw by (simp add: digest_parts_def)
  then have "v = w" using split_at_last_colon by (intro binding_version.equality) auto
  then show "context_contents c = context_contents d"
    using parts vw grants_then_guardrails [of "rc_matched_grant_ids c" "rc_matched_guardrail_ids c"
        "rc_matched_grant_ids d" "rc_matched_guardrail_ids d"]
    by (simp add: digest_parts_def context_contents_def)
qed

text \<open>Without that shape the text is ambiguous: a second binding and a matched grant can read the
  same.\<close>

lemma digest_text_ambiguous:
  "digest_text (c\<lparr>rc_binding_versions := [v, \<lparr>bv_binding_id = ''grant:abcdef'', bv_version = 1\<rparr>],
       rc_matched_grant_ids := []\<rparr>) =
   digest_text (c\<lparr>rc_binding_versions := [v], rc_matched_grant_ids := [''abcdef:1'']\<rparr>)"
proof -
  have "show_int 1 = ''1''" by code_simp
  then show ?thesis by (simp add: digest_text_def digest_parts_def)
qed

text \<open>
  Sealing captures exactly one authorized decision: a context is produced only for an active
  scope, an allowed authorization, a governance decision that allows or awaits approval, and an
  active binding of that very scope; the context then holds the versions of scope and binding
  and the matched grants and guardrails, passes its own validator, and the registry records it
  was sealed from do not require a fresh resolution.
\<close>

theorem seal_context_captures_decision:
  assumes "seal_context sha s a g b = Inr c"
  shows "is_complete_and_active s \<and> ad_allowed a \<and> (gd_allowed g \<or> gd_approval_required g) \<and>
    context_contents c = (rs_scope_id s, rs_canonical_path s, rs_version s,
      [\<lparr>bv_binding_id = cb_binding_id b, bv_version = cb_version b\<rparr>],
      ad_matched_binding_ids a, gd_matched_policy_targets g) \<and>
    check_resolved_context sha c = Inr c \<and> \<not> requires_fresh_resolution c (Some s) [b]"
  using seal_context_Inr [OF assms]
  by (simp add: context_contents_def requires_fresh_resolution_def dict_of_def dict_simps)

text \<open>
  A sealed context cannot be altered unnoticed: if two contexts of the shape \<open>seal\<close> produces
  both pass the validator with the same digest, their contents are the same, unless the two
  digested texts are different and collide under the hash function.
\<close>

theorem sealed_context_tamper_evident:
  assumes "check_resolved_context sha c = Inr c" "check_resolved_context sha d = Inr d"
    and "separator_free c" "separator_free d" "rc_resolution_digest c = rc_resolution_digest d"
  shows "context_contents c = context_contents d \<or> collides sha (digest_text c) (digest_text d)"
proof -
  have "sha (digest_text c) = sha (digest_text d)"
    using assms by (simp add: check_resolved_context_def digest_context_def split: if_splits)
  then show ?thesis by (rule context_seal.same_digest [OF assms(3,4)])
qed

text \<open>
  Staleness is detected: a context is still fresh exactly when the scope is there, complete
  and active with the sealed identity, path and version, and every sealed binding version is the
  version of the last listed active binding of that scope with its id.
\<close>

theorem fresh_context_iff_versions_current:
  "\<not> requires_fresh_resolution c scope_now bindings \<longleftrightarrow>
     (\<exists>s. scope_now = Some s \<and> is_complete_and_active s \<and> rs_scope_id s = rc_scope_id c \<and>
        rs_canonical_path s = rc_canonical_path c \<and> rs_version s = rc_scope_version c \<and>
        list_all (\<lambda>v. \<exists>b. find (\<lambda>b. cb_binding_id b = bv_binding_id v)
             (rev (filter (\<lambda>b. cb_scope_id b = rs_scope_id s \<and> cb_state b = BIND_ACTIVE) bindings)) = Some b \<and>
             cb_version b = bv_version v) (rc_binding_versions c))"
  by (auto simp: requires_fresh_resolution_def Let_def list_all_iff list_ex_iff dict_get_of
      split: option.splits)

section \<open>A concrete decision\<close>

definition demo_digest :: "string \<Rightarrow> string" where
  "demo_digest t = take 64 (t @ replicate 64 (CHR ''0''))"

definition demo_binding :: container_binding where
  "demo_binding = \<lparr>cb_binding_id = ''binding_01'', cb_scope_id = ''scope_01'', cb_provider = AWS,
     cb_container_type = AWS_ACCOUNT, cb_container_reference = ''123456789012'',
     cb_execution_identity_reference = ''role/platformops'', cb_provider_workspace = None,
     cb_state = BIND_ACTIVE, cb_version = 2\<rparr>"

definition demo_authorization :: access_decision where
  "demo_authorization = \<lparr>ad_allowed = True, ad_matched_binding_ids = [''scopebind_1'']\<rparr>"

definition demo_governance :: governance_decision where
  "demo_governance = \<lparr>gd_allowed = False, gd_approval_required = True,
     gd_matched_policy_targets = [''organization:org_1'']\<rparr>"

definition demo_context :: resolved_context where
  "demo_context = \<lparr>rc_scope_id = ''scope_01'',
     rc_canonical_path = ''org:aiq:bu:it:team:web:project:site:env:dev'', rc_scope_version = 1,
     rc_binding_versions = [\<lparr>bv_binding_id = ''binding_01'', bv_version = 2\<rparr>],
     rc_matched_grant_ids = [''scopebind_1''], rc_matched_guardrail_ids = [''organization:org_1''],
     rc_resolution_digest = ''scope_01'' @ [unit_separator] @
       ''org:aiq:bu:it:team:web:project:site:env:dev'' @ [unit_separator] @ ''1'' @
       [unit_separator] @ ''binding_0''\<rparr>"

lemma demo_seal: "seal_context demo_digest demo_resource_scope demo_authorization demo_governance demo_binding
  = Inr demo_context"
  by code_simp

theorem seal_context_captures_decision_witness:
  "seal_context demo_digest demo_resource_scope demo_authorization demo_governance demo_binding
     = Inr demo_context \<and> \<not> requires_fresh_resolution demo_context (Some demo_resource_scope) [demo_binding]"
  using seal_context_captures_decision [OF demo_seal] demo_seal by blast

theorem sealed_context_tamper_evident_witness:
  "check_resolved_context demo_digest demo_context = Inr demo_context \<and>
   \<not> collides demo_digest (digest_text demo_context) (digest_text demo_context)"
proof -
  have ok: "check_resolved_context demo_digest demo_context = Inr demo_context" by code_simp
  moreover have "separator_free demo_context"
    by (simp add: separator_free_def demo_context_def unit_separator_def)
  ultimately show ?thesis
    using sealed_context_tamper_evident [OF ok ok] by (simp add: collides_def)
qed

end
