(* ===== verification/Json_Text.thy ===== *)
theory Json_Text
  imports Py_Text
begin

text \<open>
  \<open>json.dumps(value, sort_keys=True, separators=(",", ":"))\<close> with the default
  \<open>ensure_ascii=True\<close>, for the values the code seals: strings, integers and objects.  The text
  is injective up to the order of object keys, so two payloads with the same text are the same
  payload; every digest property rests on that.
\<close>

datatype json =
    JStr string
  | JInt int
  | JObj "(string \<times> json) list"

section \<open>Encoding\<close>

definition json_char :: "char \<Rightarrow> string" where
  "json_char c = (let n = code_point c in
     if n = 34 \<or> n = 92 then [CHR 0x5C, c]
     else if n = 10 then [CHR 0x5C, CHR ''n'']
     else if n = 13 then [CHR 0x5C, CHR ''r'']
     else if n = 9 then [CHR 0x5C, CHR ''t'']
     else if n = 8 then [CHR 0x5C, CHR ''b'']
     else if n = 12 then [CHR 0x5C, CHR ''f'']
     else if n < 32 \<or> 127 \<le> n then [CHR 0x5C, CHR ''u'', CHR ''0'', CHR ''0''] @ hex2 n
     else [c])"

definition json_string :: "string \<Rightarrow> string" where
  "json_string s = CHR 0x22 # concat (map json_char s) @ [CHR 0x22]"

fun json_text :: "json \<Rightarrow> string"
  and json_members :: "(string \<times> json) list \<Rightarrow> string" where
  "json_text (JStr s) = json_string s"
| "json_text (JInt i) = show_int i"
| "json_text (JObj kvs) = CHR ''{'' # json_members kvs @ ''}''"
| "json_members [] = []"
| "json_members [(k, v)] = json_string k @ CHR '':'' # json_text v"
| "json_members ((k, v) # kv # kvs) =
     json_string k @ CHR '':'' # json_text v @ CHR '','' # json_members (kv # kvs)"

text \<open>\<open>sort_keys\<close> orders the members of every object by key before the text is written.\<close>

fun json_sorted :: "json \<Rightarrow> json" where
  "json_sorted (JStr s) = JStr s"
| "json_sorted (JInt i) = JInt i"
| "json_sorted (JObj kvs) = JObj (sort_key fst (map (\<lambda>(k, v). (k, json_sorted v)) kvs))"

definition json_dumps :: "json \<Rightarrow> string" where
  "json_dumps v = json_text (json_sorted v)"

section \<open>Decoding one character\<close>

definition unhex :: "char \<Rightarrow> nat" where
  "unhex c = (if code_point c \<le> 57 then code_point c - 48 else code_point c - 87)"

lemma unhex_hex [simp]: "n < 16 \<Longrightarrow> unhex (hex_char n) = n"
  by (simp add: unhex_def hex_char_def)

fun read_char :: "string \<Rightarrow> (char \<times> string) option" where
  "read_char [] = None"
| "read_char (c # s) =
     (if code_point c \<noteq> 92 then Some (c, s)
      else (case s of
          [] \<Rightarrow> None
        | e # t \<Rightarrow>
            if e = CHR ''n'' then Some (char_of (10 :: nat), t)
            else if e = CHR ''r'' then Some (char_of (13 :: nat), t)
            else if e = CHR ''t'' then Some (char_of (9 :: nat), t)
            else if e = CHR ''b'' then Some (char_of (8 :: nat), t)
            else if e = CHR ''f'' then Some (char_of (12 :: nat), t)
            else if e = CHR ''u'' then
              (case t of _ # _ # a # b # u \<Rightarrow> Some (char_of (16 * unhex a + unhex b), u)
               | _ \<Rightarrow> None)
            else Some (e, t)))"

lemma char_of_code_point: "code_point c = n \<Longrightarrow> char_of n = c"
  by (metis char_of_char)

lemma read_json_char: "read_char (json_char c @ s) = Some (c, s)"
proof -
  let ?n = "code_point c"
  have lit: "char_of n = c" if "?n = n" for n
    using that by (rule char_of_code_point)
  have div: "?n div 16 < 16"
    using code_point_bound [of c] by (simp add: div_less_iff_less_mult)
  have hex: "char_of (16 * (?n div 16) + ?n mod 16) = c"
    by (simp add: lit)
  consider "?n = 34" | "?n = 92" | "?n = 10" | "?n = 13" | "?n = 9" | "?n = 8" | "?n = 12"
    | "?n \<notin> {34, 92, 10, 13, 9, 8, 12}"
    by auto
  then show ?thesis
    using div hex by cases (auto simp: json_char_def Let_def hex2_def intro: lit)
qed

lemma json_char_head: "\<exists>d t. json_char c = d # t \<and> d \<noteq> CHR 0x22"
  by (auto simp: json_char_def Let_def)

section \<open>Injectivity\<close>

lemma json_chars_inj:
  "concat (map json_char s) @ CHR 0x22 # r = concat (map json_char t) @ CHR 0x22 # r'
    \<Longrightarrow> s = t \<and> r = r'"
proof (induction s arbitrary: t)
  case Nil
  show ?case
  proof (cases t)
    case Nil
    with Nil.prems show ?thesis by simp
  next
    case (Cons d u)
    with Nil.prems json_char_head [of d] show ?thesis by auto
  qed
next
  case (Cons c s)
  show ?case
  proof (cases t)
    case Nil
    with Cons.prems json_char_head [of c] show ?thesis by auto
  next
    case (Cons d u)
    have "read_char (json_char c @ concat (map json_char s) @ CHR 0x22 # r)
        = read_char (json_char d @ concat (map json_char u) @ CHR 0x22 # r')"
      using Cons.prems Cons by simp
    then have "c = d" "concat (map json_char s) @ CHR 0x22 # r = concat (map json_char u) @ CHR 0x22 # r'"
      by (simp_all add: read_json_char)
    with Cons.IH [of u] Cons show ?thesis by simp
  qed
qed

lemma json_string_inj:
  "json_string s @ r = json_string t @ r' \<Longrightarrow> s = t \<and> r = r'"
  using json_chars_inj [of s r t r'] by (simp add: json_string_def)

definition no_digit_head :: "string \<Rightarrow> bool" where
  "no_digit_head r = (case r of [] \<Rightarrow> True | c # _ \<Rightarrow> \<not> is_digit c)"

lemma show_nat_append_inj:
  assumes "show_nat m @ r = show_nat n @ r'" "no_digit_head r" "no_digit_head r'"
  shows "m = n \<and> r = r'"
proof -
  have tw: "takeWhile is_digit (show_nat k @ q) = show_nat k" if "no_digit_head q" for k q
    using that show_nat_digits [of k]
    by (cases q) (simp_all add: no_digit_head_def takeWhile_append2)
  have "show_nat m = show_nat n"
    using tw assms by metis
  with assms(1) show ?thesis by simp
qed

lemma show_nat_head: "\<exists>c t. show_nat n = c # t \<and> is_digit c"
  using show_nat_digits [of n] by (cases "show_nat n") auto

lemma show_int_append_inj:
  assumes "show_int i @ r = show_int j @ r'" "no_digit_head r" "no_digit_head r'"
  shows "i = j \<and> r = r'"
proof -
  have no: "CHR ''-'' # s \<noteq> show_nat n @ q" for n q s
    using show_nat_head [of n] not_digit_minus by auto
  show ?thesis
  proof (cases "i < 0")
    case True
    then have "j < 0"
      using assms(1) no by (auto simp: show_int_def split: if_splits)
    with True assms show ?thesis
      using show_nat_append_inj [of "nat (- i)" r "nat (- j)" r'] by (auto simp: show_int_def)
  next
    case False
    then have "\<not> j < 0"
      using assms(1) no [symmetric] by (auto simp: show_int_def split: if_splits)
    with False assms show ?thesis
      using show_nat_append_inj [of "nat i" r "nat j" r'] by (auto simp: show_int_def)
  qed
qed

text \<open>A value's text, followed by anything that does not continue a number, determines both.\<close>

lemma json_text_head:
  "\<exists>c t. json_text v = c # t \<and>
    (case v of JStr _ \<Rightarrow> c = CHR 0x22 | JInt _ \<Rightarrow> c = CHR ''-'' \<or> is_digit c | JObj _ \<Rightarrow> c = CHR ''{'')"
proof (cases v)
  case (JInt i)
  then show ?thesis
    using show_nat_head [of "nat i"] by (auto simp: show_int_def)
qed (simp_all add: json_string_def)

lemma no_digit_heads [simp]:
  "no_digit_head (CHR '','' # s)" "no_digit_head (CHR ''}'' # s)" "no_digit_head []"
  by (simp_all add: no_digit_head_def is_digit_def)

lemma json_string_ne [simp]: "json_string k @ s \<noteq> CHR ''}'' # t" "CHR ''}'' # t \<noteq> json_string k @ s"
  by (simp_all add: json_string_def)

lemma json_members_head: "\<exists>s. json_members ((k, v) # kvs) = json_string k @ s"
  by (cases kvs) simp_all

lemma json_text_append_inj:
  "json_text v @ r = json_text w @ r' \<Longrightarrow> no_digit_head r \<Longrightarrow> no_digit_head r' \<Longrightarrow> v = w \<and> r = r'"
  "json_members kvs @ CHR ''}'' # q = json_members kws @ CHR ''}'' # q' \<Longrightarrow> kvs = kws \<and> q = q'"
proof (induction v and kvs arbitrary: w r r' and kws q q' rule: json_text_json_members.induct)
  case (1 s)
  show ?case
  proof (cases w)
    case (JStr t)
    with "1.prems" show ?thesis
      using json_string_inj [of s r t r'] by simp
  next
    case (JInt j)
    with "1.prems" json_text_head [of "JInt j"] show ?thesis
      by (auto simp: json_string_def is_digit_def)
  next
    case (JObj kvs)
    with "1.prems" show ?thesis by (simp add: json_string_def)
  qed
next
  case (2 i)
  obtain c t where ct: "show_int i = c # t" "c = CHR ''-'' \<or> is_digit c"
    using json_text_head [of "JInt i"] by auto
  show ?case
  proof (cases w)
    case (JInt j)
    with "2.prems" show ?thesis
      using show_int_append_inj [of i r j r'] by simp
  qed (use "2.prems" ct in \<open>auto simp: json_string_def is_digit_def\<close>)
next
  case (3 kvs)
  note eq = "3.prems"(1) and ih = "3.IH"
  show ?case
  proof (cases w)
    case (JStr t)
    with eq show ?thesis by (simp add: json_string_def)
  next
    case (JInt j)
    with eq json_text_head [of "JInt j"] show ?thesis by (auto simp: is_digit_def)
  next
    case (JObj kws)
    with eq have "json_members kvs @ CHR ''}'' # r = json_members kws @ CHR ''}'' # r'" by simp
    from ih [OF this] JObj show ?thesis by simp
  qed
next
  case (4 kws q q')
  show ?case
  proof (cases kws)
    case (Cons kv rest)
    obtain k v where "kv = (k, v)" by (cases kv)
    then obtain s where "json_members kws = json_string k @ s"
      using json_members_head [of k v rest] Cons by auto
    with "4.prems" show ?thesis by simp
  qed (use "4.prems" in simp)
next
  case (5 k v kws q q')
  consider (empty) "kws = []" | (one) k' v' where "kws = [(k', v')]"
    | (more) k' v' kv' kvs' where "kws = (k', v') # kv' # kvs'"
    by (metis neq_Nil_conv surj_pair)
  then show ?case
  proof cases
    case empty
    with "5.prems" show ?thesis by auto
  next
    case (one k' v')
    with "5.prems" have "k = k' \<and> CHR '':'' # json_text v @ CHR ''}'' # q = CHR '':'' # json_text v' @ CHR ''}'' # q'"
      by (intro json_string_inj) simp
    with "5.IH" [of "CHR ''}'' # q" v' "CHR ''}'' # q'"] one show ?thesis by simp
  next
    case (more k' v' kv' kvs')
    with "5.prems" have "k = k' \<and> CHR '':'' # json_text v @ CHR ''}'' # q
        = CHR '':'' # json_text v' @ CHR '','' # json_members (kv' # kvs') @ CHR ''}'' # q'"
      by (intro json_string_inj) simp
    with "5.IH" [of "CHR ''}'' # q" v' "CHR '','' # json_members (kv' # kvs') @ CHR ''}'' # q'"]
    show ?thesis by simp
  qed
next
  case (6 k v kv kvs kws q q')
  consider (empty) "kws = []" | (one) k' v' where "kws = [(k', v')]"
    | (more) k' v' kv' kvs' where "kws = (k', v') # kv' # kvs'"
    by (metis neq_Nil_conv surj_pair)
  then show ?case
  proof cases
    case empty
    with "6.prems" show ?thesis by auto
  next
    case (one k' v')
    with "6.prems" have "k = k' \<and> CHR '':'' # json_text v @ CHR '','' # json_members (kv # kvs) @ CHR ''}'' # q
        = CHR '':'' # json_text v' @ CHR ''}'' # q'"
      by (intro json_string_inj) simp
    with "6.IH"(1) [of "CHR '','' # json_members (kv # kvs) @ CHR ''}'' # q" v' "CHR ''}'' # q'"]
    show ?thesis by simp
  next
    case (more k' v' kv' kvs')
    with "6.prems" have "k = k' \<and> CHR '':'' # json_text v @ CHR '','' # json_members (kv # kvs) @ CHR ''}'' # q
        = CHR '':'' # json_text v' @ CHR '','' # json_members (kv' # kvs') @ CHR ''}'' # q'"
      by (intro json_string_inj) simp
    with "6.IH"(1) [of "CHR '','' # json_members (kv # kvs) @ CHR ''}'' # q" v'
        "CHR '','' # json_members (kv' # kvs') @ CHR ''}'' # q'"]
      "6.IH"(2) [of q "kv' # kvs'" q'] more
    show ?thesis by simp
  qed
qed

theorem json_text_inj: "json_text v = json_text w \<longleftrightarrow> v = w"
  using json_text_append_inj(1) [of v "[]" w "[]"] by auto

theorem json_dumps_inj: "json_dumps v = json_dumps w \<longleftrightarrow> json_sorted v = json_sorted w"
  by (simp add: json_dumps_def json_text_inj)

section \<open>Objects of strings\<close>

text \<open>A \<open>dict[str, str]\<close> as a JSON object: two of them with distinct keys have the same text
  exactly when they are the same mapping.\<close>

definition json_str_dict :: "(string, string) dict \<Rightarrow> json" where
  "json_str_dict d = JObj (map (\<lambda>(k, v). (k, JStr v)) d)"

lemma sort_key_fst_eq_iff:
  assumes "distinct (map fst xs)" "distinct (map fst ys)"
  shows "sort_key fst xs = sort_key fst (ys :: ('k :: linorder \<times> 'v) list) \<longleftrightarrow> map_of xs = map_of ys"
proof
  assume "sort_key fst xs = sort_key fst ys"
  then have "set xs = set ys" by (metis set_sort)
  then show "map_of xs = map_of ys" using assms by (simp add: map_of_inject_set)
next
  assume "map_of xs = map_of ys"
  then have "set xs = set ys" using assms by (simp add: map_of_inject_set)
  then have "set (sort_key fst xs) = set (sort_key fst ys)" by simp
  then show "sort_key fst xs = sort_key fst ys"
    using assms by (intro map_sorted_distinct_set_unique [of fst])
      (auto simp: distinct_map inj_on_def)
qed

end
