(* ===== verification/Provision_Plan.thy ===== *)
theory Provision_Plan
  imports Resolved_Context Json_Text
begin

text \<open>
  The provisioning control path: \<open>workflows/provision/preflight.py\<close> evaluates a request,
  \<open>gateway/provision_plan.py\<close> seals the plan, \<open>workflows/provision/approval_graph.py\<close> reviews
  it, and \<open>gateway/provision_execution.py\<close> is the last gate before an executor.  The executor
  and the approval repository are arguments; the executor transforms a state of the outside
  world, so "nothing was executed" is that state unchanged.
\<close>

section \<open>Preflight\<close>

datatype preflight_status = PF_READY | PF_APPROVAL_REQUIRED | PF_DENIED | PF_NON_ROUTABLE

record preflight_request =
  pf_authorization :: access_request
  pf_profile :: binding_profile

record preflight_result =
  pf_status :: preflight_status
  pf_resolved_context :: "resolved_context option"

definition check_preflight_result :: "preflight_result \<Rightarrow> preflight_result result" where
  "check_preflight_result r =
     (if (pf_status r \<in> {PF_READY, PF_APPROVAL_REQUIRED}) \<noteq> (pf_resolved_context r \<noteq> None)
      then Inl (ValidationError ''only a ready or approval-required preflight result contains a resolved context'')
      else Inr r)"

record preflight_services =
  sv_resolve_active :: "string \<Rightarrow> resource_scope option"
  sv_authorize :: "access_request \<Rightarrow> access_decision"
  sv_active_bindings :: "string \<Rightarrow> container_binding list"
  sv_governance :: "governance_request \<Rightarrow> governance_decision"

definition preflight_evaluate ::
  "(string \<Rightarrow> string) \<Rightarrow> preflight_services \<Rightarrow> preflight_request \<Rightarrow> preflight_result result" where
  "preflight_evaluate sha sv r =
     (case sv_resolve_active sv (areq_scope_id (pf_authorization r)) of
        None \<Rightarrow> check_preflight_result \<lparr>pf_status = PF_NON_ROUTABLE, pf_resolved_context = None\<rparr>
      | Some s \<Rightarrow>
          let authorization = sv_authorize sv (pf_authorization r) in
          if \<not> ad_allowed authorization
          then check_preflight_result \<lparr>pf_status = PF_DENIED, pf_resolved_context = None\<rparr>
          else bind_result (resolve_binding (sv_active_bindings sv) (rs_scope_id s) (pf_profile r))
            (\<lambda>binding.
              case (bres_status binding, bres_binding binding) of
                (BINDING_RESOLVED, Some b) \<Rightarrow>
                  let governance = sv_governance sv \<lparr>greq_scope = s,
                        greq_provider = cloud_provider_value (cb_provider b),
                        greq_action = areq_action (pf_authorization r), greq_approval_present = False\<rparr>
                  in if \<not> gd_allowed governance \<and> \<not> gd_approval_required governance
                     then check_preflight_result \<lparr>pf_status = PF_DENIED, pf_resolved_context = None\<rparr>
                     else bind_result (seal_context sha s authorization governance b) (\<lambda>context.
                       if gd_approval_required governance
                       then check_preflight_result
                         \<lparr>pf_status = PF_APPROVAL_REQUIRED, pf_resolved_context = Some context\<rparr>
                       else check_preflight_result
                         \<lparr>pf_status = PF_READY, pf_resolved_context = Some context\<rparr>)
              | _ \<Rightarrow> check_preflight_result \<lparr>pf_status = PF_NON_ROUTABLE, pf_resolved_context = None\<rparr>))"

section \<open>Sealed plans\<close>

definition digest_json :: "(string \<Rightarrow> string) \<Rightarrow> json \<Rightarrow> string" where
  "digest_json sha v = sha (json_dumps v)"

record trusted_policy =
  tp_profile_id :: string
  tp_version :: int

definition check_trusted_policy :: "trusted_policy \<Rightarrow> trusted_policy result" where
  "check_trusted_policy p =
     (if tp_profile_id p = [] \<or> tp_version p < 1 then Inl (ValidationError ''TrustedProvisionPolicy'')
      else Inr p)"

definition policy_json :: "trusted_policy \<Rightarrow> json" where
  "policy_json p = JObj [(''profile_id'', JStr (tp_profile_id p)), (''version'', JInt (tp_version p))]"

definition policy_digest :: "(string \<Rightarrow> string) \<Rightarrow> trusted_policy \<Rightarrow> string" where
  "policy_digest sha p = digest_json sha (policy_json p)"

text \<open>The plan inputs are a nonempty dictionary of strings.\<close>

type_synonym plan_inputs = "(string, string) dict"

definition check_plan_inputs :: "plan_inputs \<Rightarrow> plan_inputs result" where
  "check_plan_inputs d = (if d = [] then Inl (ValidationError ''ProvisionPlanInputs'') else Inr d)"

record sealed_plan =
  sp_context :: resolved_context
  sp_policy :: trusted_policy
  sp_inputs :: plan_inputs
  sp_plan_digest :: string
  sp_approval_digest :: string

definition plan_json :: "string \<times> string \<times> plan_inputs \<Rightarrow> json" where
  "plan_json = (\<lambda>(context_digest, pol_digest, inputs).
     JObj [(''context_digest'', JStr context_digest), (''policy_digest'', JStr pol_digest),
       (''inputs'', json_str_dict inputs)])"

definition approval_json :: "string \<times> string \<times> string \<Rightarrow> json" where
  "approval_json = (\<lambda>(context_digest, pol_digest, plan_digest).
     JObj [(''context_digest'', JStr context_digest), (''policy_digest'', JStr pol_digest),
       (''plan_digest'', JStr plan_digest)])"

definition sealed_digests ::
  "(string \<Rightarrow> string) \<Rightarrow> resolved_context \<Rightarrow> trusted_policy \<Rightarrow> plan_inputs \<Rightarrow> string \<times> string" where
  "sealed_digests sha c p i =
     (let plan_digest = digest_json sha (plan_json (rc_resolution_digest c, policy_digest sha p, i));
          approval_digest = digest_json sha (approval_json (rc_resolution_digest c, policy_digest sha p, plan_digest))
      in (plan_digest, approval_digest))"

definition hex64 :: "string \<Rightarrow> bool" where
  "hex64 s \<longleftrightarrow> length s = 64 \<and> list_all is_hex_lower s"

definition check_sealed_plan :: "(string \<Rightarrow> string) \<Rightarrow> sealed_plan \<Rightarrow> sealed_plan result" where
  "check_sealed_plan sha p =
     (if \<not> hex64 (sp_plan_digest p) \<or> \<not> hex64 (sp_approval_digest p)
      then Inl (ValidationError ''SealedProvisionPlan'')
      else if (sp_plan_digest p, sp_approval_digest p) \<noteq> sealed_digests sha (sp_context p) (sp_policy p) (sp_inputs p)
      then Inl (ValidationError ''plan or approval digest does not match sealed inputs, policy, and context'')
      else Inr p)"

definition seal_plan ::
  "(string \<Rightarrow> string) \<Rightarrow> resolved_context \<Rightarrow> trusted_policy \<Rightarrow> plan_inputs \<Rightarrow> sealed_plan result" where
  "seal_plan sha c p i =
     (let digests = sealed_digests sha c p i in
      check_sealed_plan sha \<lparr>sp_context = c, sp_policy = p, sp_inputs = i,
        sp_plan_digest = fst digests, sp_approval_digest = snd digests\<rparr>)"

record plan_approval =
  pa_plan_digest :: string
  pa_approval_digest :: string
  pa_approved_by :: principal_reference

definition check_plan_approval :: "plan_approval \<Rightarrow> plan_approval result" where
  "check_plan_approval a =
     (if \<not> hex64 (pa_plan_digest a) \<or> \<not> hex64 (pa_approval_digest a)
      then Inl (ValidationError ''ProvisionApprovalDigest'') else Inr a)"

definition approval_for_plan :: "sealed_plan \<Rightarrow> principal_reference \<Rightarrow> plan_approval result" where
  "approval_for_plan p who = check_plan_approval \<lparr>pa_plan_digest = sp_plan_digest p,
     pa_approval_digest = sp_approval_digest p, pa_approved_by = who\<rparr>"

definition approval_matches :: "plan_approval \<Rightarrow> sealed_plan \<Rightarrow> bool" where
  "approval_matches a p \<longleftrightarrow> pa_plan_digest a = sp_plan_digest p \<and> pa_approval_digest a = sp_approval_digest p"

section \<open>Review of a plan\<close>

record approval_response =
  resp_verdict :: string
  resp_plan_digest :: string
  resp_approval_digest :: string

record approval_state =
  as_plan :: sealed_plan
  as_requester :: principal_reference
  as_reviewer :: "principal_reference option"
  as_approved :: "bool option"
  as_approval :: "plan_approval option"

text \<open>What the interrupted graph shows the reviewer.\<close>

definition review_interrupt :: "approval_state \<Rightarrow> (string, string) dict" where
  "review_interrupt st = [(''plan_digest'', sp_plan_digest (as_plan st)),
     (''approval_digest'', sp_approval_digest (as_plan st)),
     (''scope_id'', rc_scope_id (sp_context (as_plan st)))]"

definition review_plan ::
  "(access_request \<Rightarrow> access_decision) \<Rightarrow> approval_state \<Rightarrow> approval_response \<Rightarrow> approval_state result" where
  "review_plan auth st response =
     (let plan = as_plan st in
      case as_reviewer st of
        None \<Rightarrow> Inl (ProvisionApprovalDenied ''gateway-authenticated reviewer is required'')
      | Some reviewer \<Rightarrow>
          if reviewer = as_requester st
          then Inl (ProvisionApprovalDenied ''requester cannot approve their own provision plan'')
          else if resp_verdict response \<noteq> ''approve'' then Inr (st\<lparr>as_approved := Some False\<rparr>)
          else bind_result (check_plan_approval \<lparr>pa_plan_digest = resp_plan_digest response,
                 pa_approval_digest = resp_approval_digest response, pa_approved_by = reviewer\<rparr>) (\<lambda>a.
            if \<not> approval_matches a plan
            then Inl (ProvisionApprovalDenied ''approval does not match the sealed provision plan'')
            else bind_result (check_access_request \<lparr>areq_principal = reviewer,
                   areq_action = APPROVE_PROVISION, areq_scope_id = rc_scope_id (sp_context plan)\<rparr>) (\<lambda>req.
              if \<not> ad_allowed (auth req)
              then Inl (ProvisionApprovalDenied ''reviewer lacks provision approval permission'')
              else bind_result (approval_for_plan plan reviewer) (\<lambda>approval.
                Inr (st\<lparr>as_approved := Some True, as_approval := Some approval\<rparr>)))))"

section \<open>The execution gate\<close>

record execution_evidence =
  ev_plan_digest :: string
  ev_approval_digest :: string
  ev_context_digest :: string
  ev_binding_ids :: "string list"
  ev_approved_by :: principal_reference
  ev_recorded_at :: datetime

definition check_execution_evidence :: "execution_evidence \<Rightarrow> execution_evidence result" where
  "check_execution_evidence e =
     (if length (ev_plan_digest e) \<noteq> 64 \<or> length (ev_approval_digest e) \<noteq> 64 \<or> length (ev_context_digest e) \<noteq> 64
      then Inl (ValidationError ''ProvisionExecutionEvidence'') else Inr e)"

definition execute_gate ::
  "(sealed_plan \<Rightarrow> 'w \<Rightarrow> unit result \<times> 'w) \<Rightarrow> (governance_request \<Rightarrow> governance_decision)
     \<Rightarrow> (string \<Rightarrow> plan_approval option) \<Rightarrow> sealed_plan \<Rightarrow> resource_scope option \<Rightarrow> container_binding list
     \<Rightarrow> datetime \<Rightarrow> 'w \<Rightarrow> execution_evidence result \<times> 'w" where
  "execute_gate executor governance approvals plan scope_now bindings now w =
     (case approvals (sp_plan_digest plan) of
        None \<Rightarrow> (Inl (ProvisionExecutionDenied ''approval does not match the sealed provision plan''), w)
      | Some approval \<Rightarrow>
          if \<not> approval_matches approval plan
          then (Inl (ProvisionExecutionDenied ''approval does not match the sealed provision plan''), w)
          else if requires_fresh_resolution (sp_context plan) scope_now bindings
          then (Inl (ProvisionExecutionDenied
                 ''resolved scope context changed; a fresh provision run is required''), w)
          else (case scope_now of
              None \<Rightarrow> (Inl (ProvisionExecutionDenied ''resolved scope context is unavailable''), w)
            | Some s \<Rightarrow>
                let binding_by_id = dict_of cb_binding_id (\<lambda>b. b) bindings in
                if length (rc_binding_ids (sp_context plan)) \<noteq> 1
                then (Inl (ProvisionExecutionDenied
                       ''execution requires exactly one resolved provider binding''), w)
                else (case dict_get binding_by_id (hd (rc_binding_ids (sp_context plan))) of
                    None \<Rightarrow> (Inl (ProvisionExecutionDenied ''resolved provider binding is unavailable''), w)
                  | Some b \<Rightarrow>
                      if \<not> gd_allowed (governance \<lparr>greq_scope = s,
                            greq_provider = cloud_provider_value (cb_provider b),
                            greq_action = REQUEST_PROVISION, greq_approval_present = True\<rparr>)
                      then (Inl (ProvisionExecutionDenied
                             ''current governance does not permit execution; a fresh provision run is required''), w)
                      else (case executor plan w of
                          (Inl e, w') \<Rightarrow> (Inl e, w')
                        | (Inr _, w') \<Rightarrow>
                            (check_execution_evidence \<lparr>ev_plan_digest = sp_plan_digest plan,
                               ev_approval_digest = sp_approval_digest plan,
                               ev_context_digest = rc_resolution_digest (sp_context plan),
                               ev_binding_ids = rc_binding_ids (sp_context plan),
                               ev_approved_by = pa_approved_by approval, ev_recorded_at = now\<rparr>, w')))))"

section \<open>The digests determine policy, inputs and plan\<close>

lemma json_sorted_str_dict:
  "json_sorted (json_str_dict d) = JObj (sort_key fst (map (\<lambda>(k, v). (k, JStr v)) d))"
  by (simp add: json_str_dict_def comp_def case_prod_unfold)

lemma json_str_dict_inj:
  assumes "dict_ok d" "dict_ok e" "json_sorted (json_str_dict d) = json_sorted (json_str_dict e)"
  shows "map_of d = map_of e"
proof -
  let ?f = "\<lambda>(k :: string, v). (k, JStr v)"
  have keys: "fst \<circ> ?f = fst" by auto
  have "map_of (map ?f d) = map_of (map ?f e)"
    using assms sort_key_fst_eq_iff [of "map ?f d" "map ?f e"]
    by (simp add: json_sorted_str_dict keys dict_ok_def)
  then have "map_option JStr \<circ> map_of d = map_option JStr \<circ> map_of e"
    by (simp add: map_of_map)
  then show ?thesis
    by (metis (no_types, lifting) comp_apply ext json.inject(1) option.inj_map_strong)
qed

interpretation policy_seal: sealing "\<lambda>p. json_dumps (policy_json p)" "\<lambda>_. True" "\<lambda>p. p :: trusted_policy"
  by unfold_locales (simp add: json_dumps_inj policy_json_def)

interpretation plan_seal: sealing "\<lambda>x. json_dumps (plan_json x)" "\<lambda>(_, _, i). dict_ok i"
  "\<lambda>(c, p, i). (c, p, map_of i)"
proof
  fix x y :: "string \<times> string \<times> plan_inputs"
  obtain c p i d q j where xy: "x = (c, p, i)" "y = (d, q, j)" by (metis prod_cases3)
  assume "case x of (_, _, i) \<Rightarrow> dict_ok i" "case y of (_, _, i) \<Rightarrow> dict_ok i"
    and "json_dumps (plan_json x) = json_dumps (plan_json y)"
  then show "(case x of (c, p, i) \<Rightarrow> (c, p, map_of i)) = (case y of (c, p, i) \<Rightarrow> (c, p, map_of i))"
    using json_str_dict_inj [of i j] by (simp add: xy json_dumps_inj plan_json_def)
qed

lemma check_sealed_plan_Inr:
  "check_sealed_plan sha p = Inr q \<Longrightarrow> q = p \<and> hex64 (sp_plan_digest p) \<and> hex64 (sp_approval_digest p) \<and>
     sp_plan_digest p = sha (json_dumps (plan_json
       (rc_resolution_digest (sp_context p), sha (json_dumps (policy_json (sp_policy p))), sp_inputs p)))"
  by (auto simp: check_sealed_plan_def sealed_digests_def Let_def digest_json_def policy_digest_def
      split: if_splits)

text \<open>The three texts a plan seals, the last through the digest of its context.\<close>

definition policy_text :: "sealed_plan \<Rightarrow> string" where
  "policy_text p = json_dumps (policy_json (sp_policy p))"

definition plan_text :: "(string \<Rightarrow> string) \<Rightarrow> sealed_plan \<Rightarrow> string" where
  "plan_text sha p = json_dumps (plan_json
     (rc_resolution_digest (sp_context p), sha (policy_text p), sp_inputs p))"

lemma plan_digest_determines:
  assumes "check_sealed_plan sha p = Inr p" "check_sealed_plan sha q = Inr q"
    and "dict_ok (sp_inputs p)" "dict_ok (sp_inputs q)" "sp_plan_digest p = sp_plan_digest q"
  shows "rc_resolution_digest (sp_context p) = rc_resolution_digest (sp_context q) \<and>
      sp_policy p = sp_policy q \<and> map_of (sp_inputs p) = map_of (sp_inputs q) \<or>
    collides sha (plan_text sha p) (plan_text sha q) \<or> collides sha (policy_text p) (policy_text q)"
proof -
  let ?x = "\<lambda>p. (rc_resolution_digest (sp_context p), sha (policy_text p), sp_inputs p)"
  have "sha (json_dumps (plan_json (?x p))) = sha (json_dumps (plan_json (?x q)))"
    using check_sealed_plan_Inr [OF assms(1)] check_sealed_plan_Inr [OF assms(2)] assms(5)
    unfolding policy_text_def by metis
  then have "(case ?x p of (c, p, i) \<Rightarrow> (c, p, map_of i)) = (case ?x q of (c, p, i) \<Rightarrow> (c, p, map_of i)) \<or>
      collides sha (json_dumps (plan_json (?x p))) (json_dumps (plan_json (?x q)))"
    using assms(3,4) by (intro plan_seal.same_digest) auto
  moreover have "sp_policy p = sp_policy q \<or> collides sha (policy_text p) (policy_text q)"
    if "sha (policy_text p) = sha (policy_text q)"
    using that unfolding policy_text_def by (intro policy_seal.same_digest) auto
  ultimately show ?thesis by (auto simp: plan_text_def)
qed

text \<open>
  C1. An approval cannot be moved to another plan: if one approval matches two sealed plans with
  validated contexts, the plans have the same policy, the same inputs (dictionaries, so no key
  occurs twice) and contexts digested from the same text, unless two of the texts they were sealed
  from are different and collide under the hash.  The context text does not determine every
  context the validator accepts (\<open>digest_text_ambiguous\<close>); when both contexts have one binding, as
  \<open>seal\<close> makes them, and no unit separator in the scope id, the path or an id (\<open>separator_free\<close>),
  the same text means the same scope, versions, binding, grants and guardrails.
\<close>

theorem approval_is_bound_to_one_plan:
  assumes "check_sealed_plan sha p = Inr p" "check_sealed_plan sha q = Inr q"
    and "check_resolved_context sha (sp_context p) = Inr (sp_context p)"
    and "check_resolved_context sha (sp_context q) = Inr (sp_context q)"
    and "dict_ok (sp_inputs p)" "dict_ok (sp_inputs q)"
    and "approval_matches a p" "approval_matches a q"
  shows "sp_policy p = sp_policy q \<and> map_of (sp_inputs p) = map_of (sp_inputs q) \<and>
      digest_text (sp_context p) = digest_text (sp_context q) \<and>
      (separator_free (sp_context p) \<and> separator_free (sp_context q) \<longrightarrow>
         context_contents (sp_context p) = context_contents (sp_context q)) \<or>
    collides sha (plan_text sha p) (plan_text sha q) \<or> collides sha (policy_text p) (policy_text q) \<or>
    collides sha (digest_text (sp_context p)) (digest_text (sp_context q))"
proof -
  have "sp_plan_digest p = sp_plan_digest q"
    using assms(7,8) by (simp add: approval_matches_def)
  from plan_digest_determines [OF assms(1,2,5,6) this]
  consider (same) "rc_resolution_digest (sp_context p) = rc_resolution_digest (sp_context q)"
      "sp_policy p = sp_policy q" "map_of (sp_inputs p) = map_of (sp_inputs q)"
    | (collision) "collides sha (plan_text sha p) (plan_text sha q) \<or> collides sha (policy_text p) (policy_text q)"
    by blast
  then show ?thesis
  proof cases
    case same
    then have "sha (digest_text (sp_context p)) = sha (digest_text (sp_context q))"
      using check_resolved_context_Inr [OF assms(3)] check_resolved_context_Inr [OF assms(4)]
      by (simp add: digest_context_def)
    then have "digest_text (sp_context p) = digest_text (sp_context q) \<or>
        collides sha (digest_text (sp_context p)) (digest_text (sp_context q))"
      unfolding collides_def by blast
    with same(2,3) context_seal.text_determines show ?thesis by blast
  qed blast
qed

section \<open>Review and execution\<close>

text \<open>
  C11. Plan approval takes a second, authorized person: a review ends in an approval exactly when an
  authenticated reviewer other than the requester answers \<open>approve\<close> with the plan's own two
  digests and holds the approval permission on the plan's scope; the recorded approval is then the
  plan's, signed by that reviewer.
\<close>

theorem plan_review_exactly_when:
  assumes "check_sealed_plan sha (as_plan st) = Inr (as_plan st)" "as_approved st = None"
  shows "review_plan auth st response = Inr st' \<and> as_approved st' = Some True \<longleftrightarrow>
    (\<exists>reviewer. as_reviewer st = Some reviewer \<and> reviewer \<noteq> as_requester st \<and>
       resp_verdict response = ''approve'' \<and>
       resp_plan_digest response = sp_plan_digest (as_plan st) \<and>
       resp_approval_digest response = sp_approval_digest (as_plan st) \<and>
       pr_principal_id reviewer \<noteq> [] \<and> 8 \<le> length (rc_scope_id (sp_context (as_plan st))) \<and>
       ad_allowed (auth \<lparr>areq_principal = reviewer, areq_action = APPROVE_PROVISION,
         areq_scope_id = rc_scope_id (sp_context (as_plan st))\<rparr>) \<and>
       st' = st\<lparr>as_approved := Some True, as_approval := Some \<lparr>pa_plan_digest = sp_plan_digest (as_plan st),
         pa_approval_digest = sp_approval_digest (as_plan st), pa_approved_by = reviewer\<rparr>\<rparr>)"
  using check_sealed_plan_Inr [OF assms(1)]
  by (cases "as_reviewer st")
    (auto simp: review_plan_def Let_def result_simps check_plan_approval_def approval_matches_def
      check_access_request_def approval_for_plan_def split: if_splits)

text \<open>The binding of the sealed id as the gate looks it up: the last one listed.\<close>

definition listed_binding :: "container_binding list \<Rightarrow> string \<Rightarrow> container_binding option" where
  "listed_binding bs i = find (\<lambda>b. cb_binding_id b = i) (rev bs)"

lemma execute_gate_cases:
  obtains (closed) m where
      "execute_gate ex gov ap plan sc bs now w = (Inl (ProvisionExecutionDenied m), w)"
  | (opened) a s i b where "ap (sp_plan_digest plan) = Some a" "approval_matches a plan" "sc = Some s"
      "\<not> requires_fresh_resolution (sp_context plan) (Some s) bs"
      "rc_binding_ids (sp_context plan) = [i]" "listed_binding bs i = Some b"
      "gd_allowed (gov \<lparr>greq_scope = s, greq_provider = cloud_provider_value (cb_provider b),
         greq_action = REQUEST_PROVISION, greq_approval_present = True\<rparr>)"
proof (cases "\<exists>m. execute_gate ex gov ap plan sc bs now w = (Inl (ProvisionExecutionDenied m), w)")
  case True
  then show ?thesis using closed by blast
next
  case False
  obtain a where a: "ap (sp_plan_digest plan) = Some a"
    using False by (cases "ap (sp_plan_digest plan)") (simp_all add: execute_gate_def)
  have m: "approval_matches a plan"
    using False a by (cases "approval_matches a plan") (simp_all add: execute_gate_def)
  have f: "\<not> requires_fresh_resolution (sp_context plan) sc bs"
    using False a m by (cases "requires_fresh_resolution (sp_context plan) sc bs") (simp_all add: execute_gate_def)
  obtain s where s: "sc = Some s"
    using f by (cases sc) (simp_all add: requires_fresh_resolution_def)
  have "length (rc_binding_ids (sp_context plan)) = 1"
    using False a m f s
    by (cases "length (rc_binding_ids (sp_context plan)) = 1") (simp_all add: execute_gate_def)
  then obtain i where i: "rc_binding_ids (sp_context plan) = [i]"
    by (auto simp: length_Suc_conv)
  have look: "dict_get (dict_of cb_binding_id (\<lambda>b. b) bs) i = listed_binding bs i"
    by (simp add: dict_get_of listed_binding_def split: option.split)
  obtain b where b: "listed_binding bs i = Some b"
    using False a m f s i look by (cases "listed_binding bs i") (simp_all add: execute_gate_def)
  have "gd_allowed (gov \<lparr>greq_scope = s, greq_provider = cloud_provider_value (cb_provider b),
         greq_action = REQUEST_PROVISION, greq_approval_present = True\<rparr>)"
    using False a m f s i b look
    by (cases "gd_allowed (gov \<lparr>greq_scope = s, greq_provider = cloud_provider_value (cb_provider b),
         greq_action = REQUEST_PROVISION, greq_approval_present = True\<rparr>)") (simp_all add: execute_gate_def)
  then show ?thesis using opened a m s f i b by blast
qed

lemma listed_binding_current:
  assumes "distinct (map cb_binding_id bs)" "find P (rev (filter Q bs)) = Some b'"
    and "P = (\<lambda>b. cb_binding_id b = i)" "listed_binding bs i = Some b"
  shows "b' = b"
proof -
  have "b' \<in> set bs" "cb_binding_id b' = i" using assms(2,3) by (auto dest: find_SomeD)
  moreover have "b \<in> set bs" "cb_binding_id b = i"
    using assms(4) by (auto simp: listed_binding_def dest: find_SomeD)
  ultimately show ?thesis using assms(1) by (metis distinct_map inj_onD)
qed

text \<open>
  C2. The execution gate is the last word: whenever the outside world changes, the repository holds
  an approval matching both digests of the plan, the scope and the one sealed binding are still
  active at exactly the sealed versions, and governance, asked with the approval present, permits
  provisioning on that binding's provider now.  With any of these missing, nothing is executed.
  (Binding ids are distinct, the primary key of the bindings.)
\<close>

theorem gate_executes_only_current_approved_plans:
  assumes "snd (execute_gate executor gov approvals plan sc bs now w) \<noteq> w"
    and "distinct (map cb_binding_id bs)"
  shows "\<exists>a s b. approvals (sp_plan_digest plan) = Some a \<and> approval_matches a plan \<and> sc = Some s \<and>
    is_complete_and_active s \<and> rs_scope_id s = rc_scope_id (sp_context plan) \<and>
    rs_canonical_path s = rc_canonical_path (sp_context plan) \<and> rs_version s = rc_scope_version (sp_context plan) \<and>
    b \<in> set bs \<and> cb_scope_id b = rs_scope_id s \<and> cb_state b = BIND_ACTIVE \<and>
    rc_binding_versions (sp_context plan) = [\<lparr>bv_binding_id = cb_binding_id b, bv_version = cb_version b\<rparr>] \<and>
    gd_allowed (gov \<lparr>greq_scope = s, greq_provider = cloud_provider_value (cb_provider b),
      greq_action = REQUEST_PROVISION, greq_approval_present = True\<rparr>)"
proof (cases rule: execute_gate_cases [of executor gov approvals plan sc bs now w])
  case (closed m)
  with assms(1) show ?thesis by simp
next
  case (opened a s i b)
  obtain v where v: "rc_binding_versions (sp_context plan) = [v]" "bv_binding_id v = i"
    using opened(5) by (auto simp: rc_binding_ids_def)
  let ?Q = "\<lambda>b. cb_scope_id b = rs_scope_id s \<and> cb_state b = BIND_ACTIVE"
  have fresh: "is_complete_and_active s" "rs_scope_id s = rc_scope_id (sp_context plan)"
    "rs_canonical_path s = rc_canonical_path (sp_context plan)" "rs_version s = rc_scope_version (sp_context plan)"
    "dict_get (dict_of cb_binding_id cb_version (filter ?Q bs)) i = Some (bv_version v)"
    using opened(4) v by (auto simp: requires_fresh_resolution_def Let_def split: if_splits)
  obtain b' where b': "find (\<lambda>b. cb_binding_id b = i) (rev (filter ?Q bs)) = Some b'" "cb_version b' = bv_version v"
    using fresh(5) by (auto simp: dict_get_of split: option.splits)
  have "b' = b"
    by (rule listed_binding_current [OF assms(2) b'(1) refl opened(6)])
  moreover have "b' \<in> set bs" "?Q b'" "cb_binding_id b' = i"
    using b'(1) by (auto dest: find_SomeD)
  moreover have "v = \<lparr>bv_binding_id = i, bv_version = cb_version b'\<rparr>"
    using v b'(2) by simp
  ultimately show ?thesis using opened(1-3,7) fresh v by blast
qed

section \<open>Preflight is total and exact\<close>

text \<open>
  What preflight relies on: resolved scopes are validated and active, listed bindings are
  validated active bindings of the scope asked for.
\<close>

locale preflight_environment =
  fixes sv :: preflight_services
  assumes resolve_valid: "sv_resolve_active sv i = Some s \<Longrightarrow> is_complete_and_active s \<and> valid_scope s"
    and bindings_valid: "b \<in> set (sv_active_bindings sv i) \<Longrightarrow>
      cb_scope_id b = i \<and> cb_state b = BIND_ACTIVE \<and> check_container_binding b = Inr b"
begin

text \<open>The governance question preflight asks.\<close>

definition ask :: "preflight_request \<Rightarrow> resource_scope \<Rightarrow> container_binding \<Rightarrow> governance_decision" where
  "ask r s b = sv_governance sv \<lparr>greq_scope = s, greq_provider = cloud_provider_value (cb_provider b),
     greq_action = areq_action (pf_authorization r), greq_approval_present = False\<rparr>"

definition eligible :: "preflight_request \<Rightarrow> resource_scope \<Rightarrow> container_binding list" where
  "eligible r s = filter (\<lambda>b. cb_provider b \<in> bp_eligible_providers (pf_profile r))
     (sv_active_bindings sv (rs_scope_id s))"

lemma seal_succeeds:
  assumes "\<And>t. length (sha t) = 64" "sv_resolve_active sv i = Some s"
    and "b \<in> set (sv_active_bindings sv (rs_scope_id s))" "ad_allowed a" "gd_allowed g \<or> gd_approval_required g"
  shows "\<exists>c. seal_context sha s a g b = Inr c"
proof -
  have "8 \<le> length (rs_scope_id s)" "1 \<le> rs_version s" "rs_canonical_path s \<noteq> []"
    using resolve_valid [OF assms(2)] valid_scope_path [of s]
    by (auto simp: valid_scope_def make_resource_scope_def result_simps canonical_path_def)
  moreover have "10 \<le> length (cb_binding_id b)" "1 \<le> cb_version b"
    using bindings_valid [OF assms(3)] by (auto simp: check_container_binding_def split: if_splits)
  ultimately show ?thesis
    using assms resolve_valid [OF assms(2)] bindings_valid [OF assms(3)]
    by (simp add: seal_context_def check_binding_version_def check_resolved_context_def rc_binding_ids_def
        digest_context_def digest_text_def digest_parts_def result_simps)
qed

lemma preflight_outcome:
  assumes len: "\<And>t. length (sha t) = 64"
  shows "preflight_evaluate sha sv r =
    (case sv_resolve_active sv (areq_scope_id (pf_authorization r)) of
       None \<Rightarrow> Inr \<lparr>pf_status = PF_NON_ROUTABLE, pf_resolved_context = None\<rparr>
     | Some s \<Rightarrow>
         let a = sv_authorize sv (pf_authorization r) in
         if \<not> ad_allowed a then Inr \<lparr>pf_status = PF_DENIED, pf_resolved_context = None\<rparr>
         else (case eligible r s of
             [b] \<Rightarrow>
               if gd_approval_required (ask r s b)
               then Inr \<lparr>pf_status = PF_APPROVAL_REQUIRED,
                 pf_resolved_context = Some (projr (seal_context sha s a (ask r s b) b))\<rparr>
               else if gd_allowed (ask r s b)
               then Inr \<lparr>pf_status = PF_READY,
                 pf_resolved_context = Some (projr (seal_context sha s a (ask r s b) b))\<rparr>
               else Inr \<lparr>pf_status = PF_DENIED, pf_resolved_context = None\<rparr>
           | _ \<Rightarrow> Inr \<lparr>pf_status = PF_NON_ROUTABLE, pf_resolved_context = None\<rparr>))"
proof (cases "sv_resolve_active sv (areq_scope_id (pf_authorization r))")
  case None
  then show ?thesis by (simp add: preflight_evaluate_def check_preflight_result_def)
next
  case (Some s)
  let ?a = "sv_authorize sv (pf_authorization r)"
  show ?thesis
  proof (cases "ad_allowed ?a \<and> (\<exists>b. eligible r s = [b])")
    case False
    show ?thesis
    proof (cases "ad_allowed ?a")
      case True
      with False have many: "eligible r s \<noteq> [b]" for b by blast
      then have "resolve_binding (sv_active_bindings sv) (rs_scope_id s) (pf_profile r) =
          Inr \<lparr>bres_status = BINDING_NON_ROUTABLE, bres_binding = None\<rparr>"
        by (simp add: resolve_binding_cases eligible_def)
      with Some True many show ?thesis
        by (simp add: preflight_evaluate_def check_preflight_result_def Let_def split: list.split)
    qed (simp add: Some preflight_evaluate_def check_preflight_result_def)
  next
    case True
    then obtain b where b: "eligible r s = [b]" and a: "ad_allowed ?a" by blast
    then have "b \<in> set (eligible r s)" by simp
    then have mem: "b \<in> set (sv_active_bindings sv (rs_scope_id s))"
      by (simp add: eligible_def)
    show ?thesis
    proof (cases "gd_allowed (ask r s b) \<or> gd_approval_required (ask r s b)")
      case True
      obtain c where "seal_context sha s ?a (ask r s b) b = Inr c"
        using seal_succeeds [of sha, OF _ Some mem a True] len by blast
      with Some a b True show ?thesis
        by (simp add: preflight_evaluate_def check_preflight_result_def resolve_binding_def
            check_binding_resolution_def eligible_def ask_def Let_def)
    next
      case False
      with Some a b show ?thesis
        by (simp add: preflight_evaluate_def check_preflight_result_def resolve_binding_def
            check_binding_resolution_def eligible_def ask_def Let_def)
    qed
  qed
qed

end

text \<open>The services over the in-memory registries, after any history of validated records.\<close>

definition built :: "('a \<Rightarrow> 'a result) \<Rightarrow> 'a list \<Rightarrow> 'a list" where
  "built mk xs = concat (map (\<lambda>x. case mk x of Inl _ \<Rightarrow> [] | Inr y \<Rightarrow> [y]) xs)"

fun check_binding_op :: "binding_op \<Rightarrow> binding_op result" where
  "check_binding_op (RegisterBinding b) = bind_result (check_container_binding b) (\<lambda>c. Inr (RegisterBinding c))"
| "check_binding_op (SetBindingState i st) = Inr (SetBindingState i st)"

definition memory_services ::
  "resource_scope list \<Rightarrow> binding_op list \<Rightarrow> access_lookups \<Rightarrow> role_binding list \<Rightarrow> governance_policy list
     \<Rightarrow> preflight_services" where
  "memory_services scopes ops lk roles policies =
     (let reg = memory_scopes.run_register (built make_resource_scope scopes) empty_scope_registry;
          bnd = memory_bindings.run (built check_binding_op ops) []
      in \<lparr>sv_resolve_active = resolve_active_scope reg,
          sv_authorize = authorize (resolve_active_scope reg)
            (active_role_bindings (make_role_binding_store roles)) lk,
          sv_active_bindings = active_container_bindings bnd,
          sv_governance = evaluate_governance policies\<rparr>)"

lemma set_built: "y \<in> set (built mk xs) \<longleftrightarrow> (\<exists>x \<in> set xs. mk x = Inr y)"
  by (force simp: built_def split: sum.splits)

lemma check_container_binding_Inr:
  "check_container_binding b = Inr c \<Longrightarrow> c = b \<and> check_container_binding b = Inr b \<and>
     check_container_binding (b\<lparr>cb_state := st\<rparr>) = Inr (b\<lparr>cb_state := st\<rparr>)"
  by (auto simp: check_container_binding_def split: if_splits)

lemma spec_register_from: "fold spec_register ss m i = Some s \<Longrightarrow> s \<in> set ss \<or> m i = Some s"
  by (induction ss arbitrary: m) (force simp: spec_register_def split: if_splits)+

lemma spec_binding_checked:
  "\<forall>op \<in> set ops. check_binding_op op = Inr op \<Longrightarrow> \<forall>i b. m i = Some b \<longrightarrow> check_container_binding b = Inr b
    \<Longrightarrow> fold spec_binding_op ops m i = Some b \<Longrightarrow> check_container_binding b = Inr b"
proof (induction ops arbitrary: m)
  case (Cons op ops)
  have "check_container_binding c = Inr c" if "spec_binding_op op m j = Some c" for j c
  proof (cases op)
    case (RegisterBinding d)
    with that Cons.prems show ?thesis
      by (auto simp: result_simps split: if_splits dest: check_container_binding_Inr)
  next
    case (SetBindingState k st)
    with that Cons.prems(2) show ?thesis
      by (auto split: if_splits option.splits dest: check_container_binding_Inr)
  qed
  then show ?case using Cons.IH [of "spec_binding_op op m"] Cons.prems by simp
qed simp

lemma check_binding_op_idem: "check_binding_op op = Inr op' \<Longrightarrow> check_binding_op op' = Inr op'"
  by (cases op) (auto simp: result_simps dest: check_container_binding_Inr)

interpretation memory_env: preflight_environment "memory_services scopes ops lk roles policies"
  for scopes ops lk roles policies
proof
  fix i s
  let ?ss = "built make_resource_scope scopes"
  assume "sv_resolve_active (memory_services scopes ops lk roles policies) i = Some s"
  then have "is_complete_and_active s" "fold spec_register ?ss Map.empty i = Some s"
    using memory_scopes.stored_run [OF scope_registry_ok_empty, of ?ss]
    by (simp_all add: memory_services_def Let_def resolve_active_scope_iff empty_scope_registry_def dict_get_Nil_fun)
  then show "is_complete_and_active s \<and> valid_scope s"
    using spec_register_from [of ?ss Map.empty i s] by (auto simp: set_built dest: make_resource_scope_idem)
next
  fix i b
  let ?ops = "built check_binding_op ops"
  assume b: "b \<in> set (sv_active_bindings (memory_services scopes ops lk roles policies) i)"
  have ok: "binding_registry_ok (memory_bindings.run ?ops [])"
    "dict_get (memory_bindings.run ?ops []) = fold spec_binding_op ?ops Map.empty"
    using memory_bindings.run_law [OF binding_registry_ok_Nil, of ?ops] by (simp_all add: dict_get_Nil_fun)
  have "fold spec_binding_op ?ops Map.empty (cb_binding_id b) = Some b" "cb_scope_id b = i" "cb_state b = BIND_ACTIVE"
    using b memory_bindings.active_law [OF ok(1), of i] by (auto simp: memory_services_def Let_def ok(2))
  moreover have "check_container_binding b = Inr b"
    by (rule spec_binding_checked [OF _ _ calculation(1)]) (auto simp: set_built dest: check_binding_op_idem)
  ultimately show "cb_scope_id b = i \<and> cb_state b = BIND_ACTIVE \<and> check_container_binding b = Inr b" by simp
qed

text \<open>
  C10. Preflight always answers, and it produces a context exactly when it should: over registries
  with any history, with a digest of 64 characters, no request makes it raise; it is ready exactly
  when the scope resolves, the principal is authorized, exactly one eligible active binding exists
  and governance allows the action on that binding's provider without an approval; and it waits
  for approval in exactly the cases where governance asks for one.
\<close>

theorem preflight_is_total_and_exact:
  assumes "\<And>t. length (sha t) = 64"
  shows "\<exists>res. preflight_evaluate sha (memory_services scopes ops lk roles policies) r = Inr res \<and>
    (let sv = memory_services scopes ops lk roles policies;
         routed = (\<lambda>s b. sv_resolve_active sv (areq_scope_id (pf_authorization r)) = Some s \<and>
           ad_allowed (sv_authorize sv (pf_authorization r)) \<and> memory_env.eligible scopes ops lk roles policies r s = [b]);
         governed = memory_env.ask scopes ops lk roles policies r
     in (pf_status res = PF_READY) = (\<exists>s b. routed s b \<and> gd_allowed (governed s b)) \<and>
        (pf_status res = PF_APPROVAL_REQUIRED) = (\<exists>s b. routed s b \<and> gd_approval_required (governed s b)))"
proof -
  have gov: "sv_governance (memory_services scopes ops lk roles policies) = evaluate_governance policies"
    by (simp add: memory_services_def Let_def)
  have "gd_allowed (memory_env.ask scopes ops lk roles policies r s b) \<Longrightarrow>
      \<not> gd_approval_required (memory_env.ask scopes ops lk roles policies r s b)" for s b
    unfolding memory_env.ask_def gov by (simp add: evaluate_governance_eq Let_def)
  then show ?thesis
    by (auto simp: memory_env.preflight_outcome [OF assms] Let_def split: option.split list.split)
qed

section \<open>A concrete run\<close>

definition demo_hex :: "string \<Rightarrow> string" where
  "demo_hex t = replicate 64 (CHR ''0'')"

definition demo_plan_context :: resolved_context where
  "demo_plan_context = demo_context\<lparr>rc_resolution_digest := demo_hex ''''\<rparr>"

definition demo_policy_ref :: trusted_policy where
  "demo_policy_ref = \<lparr>tp_profile_id = ''aws-static-web'', tp_version = 1\<rparr>"

definition demo_plan :: sealed_plan where
  "demo_plan = \<lparr>sp_context = demo_plan_context, sp_policy = demo_policy_ref,
     sp_inputs = [(''region'', ''eu-west-1'')], sp_plan_digest = demo_hex ''plan'',
     sp_approval_digest = demo_hex ''approval''\<rparr>"

definition demo_reviewer :: principal_reference where
  "demo_reviewer = \<lparr>pr_kind = PRINCIPAL_USER, pr_principal_id = ''bob''\<rparr>"

definition demo_approval :: plan_approval where
  "demo_approval = \<lparr>pa_plan_digest = sp_plan_digest demo_plan,
     pa_approval_digest = sp_approval_digest demo_plan, pa_approved_by = demo_reviewer\<rparr>"

definition demo_executor :: "sealed_plan \<Rightarrow> sealed_plan list \<Rightarrow> unit result \<times> sealed_plan list" where
  "demo_executor plan done_plans = (Inr (), done_plans @ [plan])"

lemma hex64_demo_hex: "hex64 (demo_hex t)"
  by (simp add: hex64_def demo_hex_def is_hex_lower_def list_all_iff)

lemma demo_plan_ok: "check_sealed_plan demo_hex demo_plan = Inr demo_plan"
  by (simp add: check_sealed_plan_def demo_plan_def hex64_demo_hex sealed_digests_def digest_json_def)
    (simp add: demo_hex_def)

lemma demo_plan_context_ok: "check_resolved_context demo_hex (sp_context demo_plan) = Inr (sp_context demo_plan)"
  by (simp add: demo_plan_def demo_plan_context_def demo_context_def check_resolved_context_def
      check_binding_version_def rc_binding_ids_def digest_context_def) (simp add: demo_hex_def)

lemma demo_plan_fresh: "\<not> requires_fresh_resolution (sp_context demo_plan) (Some demo_resource_scope) [demo_binding]"
  by (simp add: demo_plan_def demo_plan_context_def demo_context_def requires_fresh_resolution_def
      demo_resource_scope_def demo_binding_def is_complete_and_active_def dict_of_def dict_simps)

theorem approval_is_bound_to_one_plan_witness:
  "approval_matches demo_approval demo_plan \<and> separator_free (sp_context demo_plan) \<and>
   \<not> collides demo_hex (plan_text demo_hex demo_plan) (plan_text demo_hex demo_plan)"
proof -
  have "dict_ok (sp_inputs demo_plan)" by (simp add: demo_plan_def dict_ok_def)
  moreover have "separator_free (sp_context demo_plan)"
    by (simp add: demo_plan_def demo_plan_context_def separator_free_def demo_context_def unit_separator_def)
  moreover have "approval_matches demo_approval demo_plan"
    by (simp add: approval_matches_def demo_approval_def)
  ultimately show ?thesis
    using approval_is_bound_to_one_plan [OF demo_plan_ok demo_plan_ok demo_plan_context_ok demo_plan_context_ok]
    by (simp add: collides_def)
qed

definition demo_review :: approval_state where
  "demo_review = \<lparr>as_plan = demo_plan, as_requester = \<lparr>pr_kind = PRINCIPAL_USER, pr_principal_id = ''alice''\<rparr>,
     as_reviewer = Some demo_reviewer, as_approved = None, as_approval = None\<rparr>"

theorem plan_review_exactly_when_witness:
  "review_plan (\<lambda>_. demo_authorization) demo_review \<lparr>resp_verdict = ''approve'',
       resp_plan_digest = sp_plan_digest demo_plan, resp_approval_digest = sp_approval_digest demo_plan\<rparr>
     = Inr (demo_review\<lparr>as_approved := Some True, as_approval := Some demo_approval\<rparr>)"
proof -
  have "check_sealed_plan demo_hex (as_plan demo_review) = Inr (as_plan demo_review)"
    using demo_plan_ok by (simp add: demo_review_def)
  moreover have "as_approved demo_review = None" by (simp add: demo_review_def)
  moreover have "rc_scope_id (sp_context demo_plan) = ''scope_01''"
    by (simp add: demo_plan_def demo_plan_context_def demo_context_def)
  ultimately show ?thesis
    using plan_review_exactly_when [of demo_hex demo_review "\<lambda>_. demo_authorization"
        "\<lparr>resp_verdict = ''approve'', resp_plan_digest = sp_plan_digest demo_plan,
          resp_approval_digest = sp_approval_digest demo_plan\<rparr>"
        "demo_review\<lparr>as_approved := Some True, as_approval := Some demo_approval\<rparr>"]
    by (simp add: demo_review_def demo_reviewer_def demo_authorization_def demo_approval_def)
qed

theorem gate_executes_only_current_approved_plans_witness:
  "snd (execute_gate demo_executor (evaluate_governance []) (\<lambda>_. Some demo_approval) demo_plan
      (Some demo_resource_scope) [demo_binding] (Aware 0) []) = [demo_plan] \<and>
   approval_matches demo_approval demo_plan"
proof -
  have run: "snd (execute_gate demo_executor (evaluate_governance []) (\<lambda>_. Some demo_approval) demo_plan
      (Some demo_resource_scope) [demo_binding] (Aware 0) []) = [demo_plan]"
    using demo_plan_fresh
    by (simp add: execute_gate_def demo_approval_def approval_matches_def demo_executor_def
        rc_binding_ids_def dict_of_def dict_simps evaluate_governance_eq applicable_policies_def)
      (simp add: demo_plan_def demo_plan_context_def demo_context_def demo_binding_def)
  then show ?thesis
    using gate_executes_only_current_approved_plans [of demo_executor "evaluate_governance []"
        "\<lambda>_. Some demo_approval" demo_plan "Some demo_resource_scope" "[demo_binding]" "Aware 0" "[]"]
    by simp
qed

definition demo_lookups :: access_lookups where
  "demo_lookups = \<lparr>lk_membership = (\<lambda>_ _. Some demo_membership), lk_affiliations = None,
     lk_identity_groups = None\<rparr>"

definition demo_request :: preflight_request where
  "demo_request = \<lparr>pf_authorization = \<lparr>areq_principal = demo_reviewer, areq_action = REQUEST_PROVISION,
       areq_scope_id = ''scope_01''\<rparr>,
     pf_profile = \<lparr>bp_profile_id = ''aws-static-web'', bp_eligible_providers = {AWS}\<rparr>\<rparr>"

theorem preflight_is_total_and_exact_witness:
  "\<exists>res. preflight_evaluate demo_hex (memory_services [demo_resource_scope] [RegisterBinding demo_binding]
     demo_lookups [] []) demo_request = Inr res"
proof -
  have "length (demo_hex t) = 64" for t by (simp add: demo_hex_def)
  then show ?thesis
    using preflight_is_total_and_exact [of demo_hex "[demo_resource_scope]" "[RegisterBinding demo_binding]"
        demo_lookups "[]" "[]" demo_request] by blast
qed

end
