(* ===== verification/Provider_Connections.thy ===== *)
theory Provider_Connections
  imports Provider_Bindings
begin

text \<open>
  \<open>gateway/provider_connections.py\<close>: the control-plane boundary to cloud providers.  Inventory
  inquiry is read only, attachments and bootstraps are proposals that somebody else approves.
  Adapters do the provider's I/O; they are arguments, records of functions that transform a
  state of the provider, so what a service asks of a provider is visible in that state.
\<close>

section \<open>Records\<close>

datatype connection_state = CONN_PENDING | CONN_VERIFIED | CONN_ACTIVE | CONN_SUSPENDED

record provider_connection =
  pc_connection_id :: string
  pc_organization_id :: string
  pc_provider :: cloud_provider
  pc_boundary_ref :: string
  pc_discovery_identity_ref :: string
  pc_state :: connection_state
  pc_version :: int

definition check_provider_connection :: "provider_connection \<Rightarrow> provider_connection result" where
  "check_provider_connection c =
     (if length (pc_connection_id c) < 7 \<or> pc_organization_id c = [] \<or> pc_boundary_ref c = [] \<or>
         pc_discovery_identity_ref c = [] \<or> pc_version c < 1
      then Inl (ValidationError ''ProviderConnection'') else Inr c)"

definition connection_is_active :: "provider_connection \<Rightarrow> bool" where
  "connection_is_active c \<longleftrightarrow> pc_state c = CONN_ACTIVE"

definition require_active :: "provider_connection \<Rightarrow> unit result" where
  "require_active c =
     (if \<not> connection_is_active c
      then Inl (ProviderConnectionUnavailable
             (''provider connection '' @ py_repr (pc_connection_id c) @ '' is not active''))
      else Inr ())"

record container_candidate =
  cc_provider :: cloud_provider
  cc_boundary_ref :: string
  cc_container_ref :: string
  cc_display_name :: string

definition check_candidate :: "container_candidate \<Rightarrow> container_candidate result" where
  "check_candidate c =
     (if cc_boundary_ref c = [] \<or> cc_container_ref c = [] \<or> cc_display_name c = []
      then Inl (ValidationError ''ProviderContainerCandidate'') else Inr c)"

datatype attachment_state = ATT_PENDING_REVIEW | ATT_APPROVED | ATT_REJECTED

record attachment_request =
  at_request_id :: string
  at_resource_scope_id :: string
  at_connection_id :: string
  at_candidate :: container_candidate
  at_requested_by :: string
  at_state :: attachment_state
  at_reviewed_by :: "string option"
  at_version :: int

definition check_attachment_request :: "attachment_request \<Rightarrow> attachment_request result" where
  "check_attachment_request r =
     (if length (at_request_id r) < 8 \<or> at_resource_scope_id r = [] \<or> length (at_connection_id r) < 7 \<or>
         at_requested_by r = [] \<or> at_version r < 1
      then Inl (ValidationError ''ContainerAttachmentRequest'') else Inr r)"

record attachment_binding =
  ab_binding_id :: string
  ab_resource_scope_id :: string
  ab_connection_id :: string
  ab_candidate :: container_candidate
  ab_attachment_request_id :: string
  ab_version :: int

definition check_attachment_binding :: "attachment_binding \<Rightarrow> attachment_binding result" where
  "check_attachment_binding b =
     (if length (ab_binding_id b) < 9 \<or> ab_resource_scope_id b = [] \<or> length (ab_connection_id b) < 7 \<or>
         length (ab_attachment_request_id b) < 8 \<or> ab_version b < 1
      then Inl (ValidationError ''CloudResourceContainerBinding'') else Inr b)"

datatype bootstrap_state = BOOT_PENDING_APPROVAL | BOOT_APPROVED | BOOT_CREATED

record bootstrap_request =
  bo_request_id :: string
  bo_connection_id :: string
  bo_requested_display_name :: string
  bo_requested_by :: string
  bo_state :: bootstrap_state
  bo_approved_by :: "string option"
  bo_created_candidate :: "container_candidate option"
  bo_version :: int

definition check_bootstrap_request :: "bootstrap_request \<Rightarrow> bootstrap_request result" where
  "check_bootstrap_request r =
     (if length (bo_request_id r) < 11 \<or> length (bo_connection_id r) < 7 \<or>
         bo_requested_display_name r = [] \<or> bo_requested_by r = [] \<or> bo_version r < 1
      then Inl (ValidationError ''ProviderContainerBootstrapRequest'') else Inr r)"

datatype container_resolution_status = CONTAINER_READY | CONTAINER_SETUP_REQUIRED

record container_resolution =
  cres_status :: container_resolution_status
  cres_binding :: "attachment_binding option"

definition resolution_from_binding :: "attachment_binding option \<Rightarrow> container_resolution" where
  "resolution_from_binding b =
     (if b = None then \<lparr>cres_status = CONTAINER_SETUP_REQUIRED, cres_binding = None\<rparr>
      else \<lparr>cres_status = CONTAINER_READY, cres_binding = b\<rparr>)"

section \<open>Adapters and their registries\<close>

record 'w provider_adapter =
  pa_provider :: cloud_provider
  pa_verify_boundary :: "provider_connection \<Rightarrow> 'w \<Rightarrow> bool result \<times> 'w"
  pa_list_candidates :: "provider_connection \<Rightarrow> 'w \<Rightarrow> container_candidate list result \<times> 'w"

record 'w bootstrap_adapter =
  ba_provider :: cloud_provider
  ba_create_container :: "provider_connection \<Rightarrow> string \<Rightarrow> 'w \<Rightarrow> container_candidate result \<times> 'w"

definition make_adapter_registry ::
  "'w provider_adapter list \<Rightarrow> (cloud_provider, 'w provider_adapter) dict result" where
  "make_adapter_registry adapters =
     (let d = dict_of pa_provider (\<lambda>a. a) adapters in
      if length d \<noteq> length adapters
      then Inl (ValueError ''only one provider adapter may be registered per provider'') else Inr d)"

definition adapter_for_connection ::
  "(cloud_provider, 'w provider_adapter) dict \<Rightarrow> provider_connection \<Rightarrow> 'w provider_adapter result" where
  "adapter_for_connection d c =
     bind_result (require_active c) (\<lambda>_.
       case dict_get d (pc_provider c) of
         Some a \<Rightarrow> Inr a
       | None \<Rightarrow> Inl (ProviderConnectionUnavailable
           (''no adapter is configured for provider '' @ py_repr (cloud_provider_value (pc_provider c)))))"

definition make_bootstrap_registry ::
  "'w bootstrap_adapter list \<Rightarrow> (cloud_provider, 'w bootstrap_adapter) dict result" where
  "make_bootstrap_registry adapters =
     (let d = dict_of ba_provider (\<lambda>a. a) adapters in
      if length d \<noteq> length adapters
      then Inl (ValueError ''only one bootstrap adapter may be registered per provider'') else Inr d)"

definition bootstrap_adapter_for_connection ::
  "(cloud_provider, 'w bootstrap_adapter) dict \<Rightarrow> provider_connection \<Rightarrow> 'w bootstrap_adapter result" where
  "bootstrap_adapter_for_connection d c =
     bind_result (require_active c) (\<lambda>_.
       case dict_get d (pc_provider c) of
         Some a \<Rightarrow> Inr a
       | None \<Rightarrow> Inl (ProviderConnectionUnavailable
           (''no bootstrap adapter is configured for provider '' @
            py_repr (cloud_provider_value (pc_provider c)))))"

section \<open>The inquiry service\<close>

definition access_denied :: "string \<Rightarrow> exn" where
  "access_denied m = ProviderConnectionAccessDenied m"

definition inquire ::
  "(cloud_provider, 'w provider_adapter) dict \<Rightarrow> (string \<Rightarrow> string \<Rightarrow> bool) \<Rightarrow> string
     \<Rightarrow> provider_connection \<Rightarrow> 'w \<Rightarrow> container_candidate list result \<times> 'w" where
  "inquire adapters may_inquire actor_id c w =
     (if \<not> may_inquire actor_id (pc_organization_id c)
      then (Inl (access_denied ''organization administrator permission is required for provider inquiry''), w)
      else case adapter_for_connection adapters c of
          Inl e \<Rightarrow> (Inl e, w)
        | Inr a \<Rightarrow>
            (case pa_list_candidates a c w of
               (Inl e, w') \<Rightarrow> (Inl e, w')
             | (Inr candidates, w') \<Rightarrow>
                 (Inr (filter (\<lambda>k. cc_provider k = pc_provider c \<and> cc_boundary_ref k = pc_boundary_ref c)
                    candidates), w')))"

section \<open>The attachment service\<close>

record attachment_authorizer =
  may_request_attachment :: "string \<Rightarrow> string \<Rightarrow> string \<Rightarrow> bool"
  may_review_attachment :: "string \<Rightarrow> string \<Rightarrow> string \<Rightarrow> bool"

definition require_connection_candidate ::
  "provider_connection \<Rightarrow> container_candidate \<Rightarrow> unit result" where
  "require_connection_candidate c k =
     (if cc_provider k \<noteq> pc_provider c \<or> cc_boundary_ref k \<noteq> pc_boundary_ref c
      then Inl (ValueError ''container candidate is outside the connection boundary'') else Inr ())"

definition request_attachment ::
  "attachment_authorizer \<Rightarrow> string \<Rightarrow> string \<Rightarrow> provider_connection \<Rightarrow> string \<Rightarrow> container_candidate
     \<Rightarrow> attachment_request result" where
  "request_attachment auth fresh actor_id c scope_id k =
     bind_result (require_active c) (\<lambda>_.
     bind_result (require_connection_candidate c k) (\<lambda>_.
       if \<not> may_request_attachment auth actor_id (pc_organization_id c) scope_id
       then Inl (access_denied ''scope administrator permission is required to request attachment'')
       else check_attachment_request \<lparr>at_request_id = fresh, at_resource_scope_id = scope_id,
         at_connection_id = pc_connection_id c, at_candidate = k, at_requested_by = actor_id,
         at_state = ATT_PENDING_REVIEW, at_reviewed_by = None, at_version = 1\<rparr>))"

definition approve_attachment ::
  "attachment_authorizer \<Rightarrow> string \<Rightarrow> string \<Rightarrow> provider_connection \<Rightarrow> attachment_request
     \<Rightarrow> (attachment_request \<times> attachment_binding) result" where
  "approve_attachment auth fresh actor_id c r =
     bind_result (require_active c) (\<lambda>_.
       if at_state r \<noteq> ATT_PENDING_REVIEW
       then Inl (ValueError ''only a pending attachment request can be approved'')
       else if at_connection_id r \<noteq> pc_connection_id c
       then Inl (ValueError ''attachment request does not belong to this connection'')
       else if actor_id = at_requested_by r
       then Inl (access_denied ''requester cannot approve their own attachment'')
       else bind_result (require_connection_candidate c (at_candidate r)) (\<lambda>_.
         if \<not> may_review_attachment auth actor_id (pc_organization_id c) (at_resource_scope_id r)
         then Inl (access_denied ''scope administrator permission is required to approve attachment'')
         else
           let approved = r\<lparr>at_state := ATT_APPROVED, at_reviewed_by := Some actor_id,
                 at_version := at_version r + 1\<rparr> in
           bind_result (check_attachment_binding \<lparr>ab_binding_id = fresh,
               ab_resource_scope_id = at_resource_scope_id approved,
               ab_connection_id = at_connection_id approved, ab_candidate = at_candidate approved,
               ab_attachment_request_id = at_request_id approved, ab_version = 1\<rparr>)
             (\<lambda>b. Inr (approved, b))))"

section \<open>The bootstrap service\<close>

record bootstrap_authorizer =
  may_request_bootstrap :: "string \<Rightarrow> string \<Rightarrow> bool"
  may_approve_bootstrap :: "string \<Rightarrow> string \<Rightarrow> bool"

definition request_bootstrap ::
  "bootstrap_authorizer \<Rightarrow> (provider_connection \<Rightarrow> bool) \<Rightarrow> string \<Rightarrow> string \<Rightarrow> provider_connection \<Rightarrow> string
     \<Rightarrow> bootstrap_request result" where
  "request_bootstrap auth policy fresh actor_id c display_name =
     bind_result (require_active c) (\<lambda>_.
       if \<not> policy c
       then Inl (access_denied ''organization policy does not permit provider-container bootstrap'')
       else if \<not> may_request_bootstrap auth actor_id (pc_organization_id c)
       then Inl (access_denied ''organization administrator permission is required to request bootstrap'')
       else check_bootstrap_request \<lparr>bo_request_id = fresh, bo_connection_id = pc_connection_id c,
         bo_requested_display_name = display_name, bo_requested_by = actor_id,
         bo_state = BOOT_PENDING_APPROVAL, bo_approved_by = None, bo_created_candidate = None,
         bo_version = 1\<rparr>)"

definition approve_bootstrap ::
  "bootstrap_authorizer \<Rightarrow> string \<Rightarrow> provider_connection \<Rightarrow> bootstrap_request \<Rightarrow> bootstrap_request result" where
  "approve_bootstrap auth actor_id c r =
     bind_result (require_active c) (\<lambda>_.
       if bo_connection_id r \<noteq> pc_connection_id c
       then Inl (ValueError ''bootstrap request does not belong to this connection'')
       else if bo_state r \<noteq> BOOT_PENDING_APPROVAL
       then Inl (ValueError ''only a pending bootstrap request can be approved'')
       else if actor_id = bo_requested_by r
       then Inl (access_denied ''requester cannot approve their own bootstrap'')
       else if \<not> may_approve_bootstrap auth actor_id (pc_organization_id c)
       then Inl (access_denied ''organization administrator permission is required to approve bootstrap'')
       else Inr (r\<lparr>bo_state := BOOT_APPROVED, bo_approved_by := Some actor_id,
              bo_version := bo_version r + 1\<rparr>))"

definition create_container ::
  "(cloud_provider, 'w bootstrap_adapter) dict \<Rightarrow> provider_connection \<Rightarrow> bootstrap_request \<Rightarrow> 'w
     \<Rightarrow> bootstrap_request result \<times> 'w" where
  "create_container adapters c r w =
     (case require_active c of
        Inl e \<Rightarrow> (Inl e, w)
      | Inr _ \<Rightarrow>
          if bo_connection_id r \<noteq> pc_connection_id c
          then (Inl (ValueError ''bootstrap request does not belong to this connection''), w)
          else if bo_state r \<noteq> BOOT_APPROVED
          then (Inl (ValueError ''bootstrap request requires recorded approval''), w)
          else case bootstrap_adapter_for_connection adapters c of
              Inl e \<Rightarrow> (Inl e, w)
            | Inr a \<Rightarrow>
                (case ba_create_container a c (bo_requested_display_name r) w of
                   (Inl e, w') \<Rightarrow> (Inl e, w')
                 | (Inr k, w') \<Rightarrow>
                     (bind_result (require_connection_candidate c k) (\<lambda>_.
                        Inr (r\<lparr>bo_state := BOOT_CREATED, bo_created_candidate := Some k,
                               bo_version := bo_version r + 1\<rparr>)), w')))"

section \<open>The scripted adapters\<close>

record fake_adapter_calls =
  fa_verification_calls :: "string list"
  fa_inquiry_calls :: "string list"

definition adapter_mismatch :: exn where
  "adapter_mismatch = ValueError ''connection provider does not match adapter provider''"

definition fake_provider_adapter ::
  "cloud_provider \<Rightarrow> string set \<Rightarrow> container_candidate list \<Rightarrow> fake_adapter_calls provider_adapter" where
  "fake_provider_adapter p verified candidates =
     \<lparr>pa_provider = p,
      pa_verify_boundary = (\<lambda>c w.
        if pc_provider c \<noteq> p then (Inl adapter_mismatch, w)
        else (Inr (pc_boundary_ref c \<in> verified),
              w\<lparr>fa_verification_calls := fa_verification_calls w @ [pc_connection_id c]\<rparr>)),
      pa_list_candidates = (\<lambda>c w.
        if pc_provider c \<noteq> p then (Inl adapter_mismatch, w)
        else (Inr (filter (\<lambda>k. cc_provider k = pc_provider c \<and> cc_boundary_ref k = pc_boundary_ref c) candidates),
              w\<lparr>fa_inquiry_calls := fa_inquiry_calls w @ [pc_connection_id c]\<rparr>))\<rparr>"

definition fake_bootstrap_adapter :: "cloud_provider \<Rightarrow> (string \<times> string) list bootstrap_adapter" where
  "fake_bootstrap_adapter p =
     \<lparr>ba_provider = p,
      ba_create_container = (\<lambda>c display_name calls.
        if pc_provider c \<noteq> p then (Inl adapter_mismatch, calls)
        else
          let calls' = calls @ [(pc_connection_id c, display_name)] in
          (check_candidate \<lparr>cc_provider = pc_provider c, cc_boundary_ref = pc_boundary_ref c,
             cc_container_ref = ''fake:'' @ pc_connection_id c @ '':'' @ show_nat (length calls'),
             cc_display_name = display_name\<rparr>, calls'))\<rparr>"

lemma require_active_Inr: "require_active c = Inr u \<longleftrightarrow> pc_state c = CONN_ACTIVE"
  by (cases u) (simp add: require_active_def connection_is_active_def)

lemma require_connection_candidate_Inr:
  "require_connection_candidate c k = Inr u \<longleftrightarrow>
     cc_provider k = pc_provider c \<and> cc_boundary_ref k = pc_boundary_ref c"
  by (cases u) (simp add: require_connection_candidate_def)

lemmas connection_guards = require_active_Inr require_connection_candidate_Inr

section \<open>Four eyes\<close>

text \<open>
  What an approval operation promises: it only takes a pending request to an approved one, it
  records who approved, that is not who asked, and the version moves by one.
\<close>

locale reviewed_request =
  fixes approve :: "string \<Rightarrow> 'r \<Rightarrow> 'r result"
    and pending :: "'r \<Rightarrow> bool"
    and requested_by :: "'r \<Rightarrow> string"
    and approved_by :: "'r \<Rightarrow> string option"
    and version :: "'r \<Rightarrow> int"
  assumes approve_law: "approve a r = Inr r' \<Longrightarrow>
      pending r \<and> \<not> pending r' \<and> a \<noteq> requested_by r \<and> requested_by r' = requested_by r \<and>
      approved_by r' = Some a \<and> version r' = version r + 1"
begin

lemma no_self_approval: "\<exists>e. approve (requested_by r) r = Inl e"
  using approve_law [of "requested_by r" r] by (cases "approve (requested_by r) r") auto

lemma approved_once: "approve a r = Inr r' \<Longrightarrow> \<exists>e. approve b r' = Inl e"
  using approve_law [of a r r'] approve_law [of b r'] by (cases "approve b r'") auto

lemma approver_differs: "approve a r = Inr r' \<Longrightarrow> approved_by r' = Some b \<Longrightarrow> b \<noteq> requested_by r'"
  using approve_law by fastforce

end

definition approve_attachment_request ::
  "attachment_authorizer \<Rightarrow> string \<Rightarrow> provider_connection \<Rightarrow> string \<Rightarrow> attachment_request
     \<Rightarrow> attachment_request result" where
  "approve_attachment_request auth fresh c a r =
     bind_result (approve_attachment auth fresh a c r) (\<lambda>(approved, _). Inr approved)"

interpretation attachments: reviewed_request "approve_attachment_request auth fresh c"
  "\<lambda>r. at_state r = ATT_PENDING_REVIEW" at_requested_by at_reviewed_by at_version for auth fresh c
  by unfold_locales
    (auto simp: approve_attachment_request_def approve_attachment_def result_simps Let_def)

interpretation bootstraps: reviewed_request "\<lambda>a r. approve_bootstrap auth a c r"
  "\<lambda>r. bo_state r = BOOT_PENDING_APPROVAL" bo_requested_by bo_approved_by bo_version for auth c
  by unfold_locales (auto simp: approve_bootstrap_def result_simps)

section \<open>Properties\<close>

text \<open>
  Inventory inquiry is bounded and read by administrators only: an inquiry returns exactly the
  adapter's candidates of the connection's own provider and boundary, for an organization
  administrator, an active connection and a configured adapter; and the provider is not even
  asked unless the actor is authorized and the connection active.
\<close>

theorem inquiry_is_bounded:
  "(inquire adapters may a c w = (Inr ks, w') \<longleftrightarrow>
      may a (pc_organization_id c) \<and> pc_state c = CONN_ACTIVE \<and>
      (\<exists>ad candidates. dict_get adapters (pc_provider c) = Some ad \<and>
         pa_list_candidates ad c w = (Inr candidates, w') \<and>
         ks = filter (\<lambda>k. cc_provider k = pc_provider c \<and> cc_boundary_ref k = pc_boundary_ref c) candidates)) \<and>
   (snd (inquire adapters may a c w) = w \<or> may a (pc_organization_id c) \<and> pc_state c = CONN_ACTIVE)"
proof (cases "may a (pc_organization_id c) \<and> pc_state c = CONN_ACTIVE")
  case True
  then have "require_active c = Inr ()" by (simp add: require_active_Inr)
  with True show ?thesis
    by (auto simp: inquire_def adapter_for_connection_def split: option.splits prod.splits sum.splits)
next
  case False
  then have "inquire adapters may a c w = (fst (inquire adapters may a c w), w) \<and>
      \<not> is_Inr (fst (inquire adapters may a c w))"
    by (auto simp: inquire_def adapter_for_connection_def require_active_def connection_is_active_def)
  with False show ?thesis by (metis is_Inr.simps(1) fst_conv snd_conv)
qed

text \<open>
  Attaching a container takes two people: approving succeeds exactly for a pending request of
  an active connection, a candidate inside the connection's boundary, and a reviewer who is not
  the requester and whom the authorizer admits for that very scope; the result is the same
  request marked approved by that reviewer, and a binding of exactly its scope, connection and
  candidate.
\<close>

theorem approve_attachment_exactly_when:
  "approve_attachment auth fresh a c r = Inr (r', b) \<longleftrightarrow>
     pc_state c = CONN_ACTIVE \<and> at_state r = ATT_PENDING_REVIEW \<and> at_connection_id r = pc_connection_id c \<and>
     a \<noteq> at_requested_by r \<and> cc_provider (at_candidate r) = pc_provider c \<and>
     cc_boundary_ref (at_candidate r) = pc_boundary_ref c \<and>
     may_review_attachment auth a (pc_organization_id c) (at_resource_scope_id r) \<and>
     r' = r\<lparr>at_state := ATT_APPROVED, at_reviewed_by := Some a, at_version := at_version r + 1\<rparr> \<and>
     b = \<lparr>ab_binding_id = fresh, ab_resource_scope_id = at_resource_scope_id r,
          ab_connection_id = pc_connection_id c, ab_candidate = at_candidate r,
          ab_attachment_request_id = at_request_id r, ab_version = 1\<rparr> \<and>
     is_Inr (check_attachment_binding b)"
  by (auto simp: approve_attachment_def result_simps connection_guards Let_def check_attachment_binding_def
      split: if_splits)

text \<open>The life of one bootstrap request against a provider whose state starts as \<open>w0\<close>; every step
  may be made by another actor, with whatever connection record the caller holds at that time.\<close>

inductive bootstrap_reach ::
  "bootstrap_authorizer \<Rightarrow> (provider_connection \<Rightarrow> bool) \<Rightarrow> (cloud_provider, 'w bootstrap_adapter) dict
     \<Rightarrow> 'w \<Rightarrow> bootstrap_request \<Rightarrow> 'w \<Rightarrow> bool"
  for auth policy adapters w0 where
  requested: "request_bootstrap auth policy fresh a c name = Inr r
    \<Longrightarrow> bootstrap_reach auth policy adapters w0 r w0"
| approved: "bootstrap_reach auth policy adapters w0 r w \<Longrightarrow> approve_bootstrap auth a c r = Inr r'
    \<Longrightarrow> bootstrap_reach auth policy adapters w0 r' w"
| created: "bootstrap_reach auth policy adapters w0 r w \<Longrightarrow> create_container adapters c r w = (Inr r', w')
    \<Longrightarrow> bootstrap_reach auth policy adapters w0 r' w'"
| create_failed: "bootstrap_reach auth policy adapters w0 r w \<Longrightarrow> create_container adapters c r w = (Inl e, w')
    \<Longrightarrow> bootstrap_reach auth policy adapters w0 r w'"

definition bootstrap_consented ::
  "bootstrap_authorizer \<Rightarrow> (provider_connection \<Rightarrow> bool) \<Rightarrow> bootstrap_request \<Rightarrow> bool" where
  "bootstrap_consented auth policy r \<longleftrightarrow>
     (\<exists>c (d :: provider_connection) approver. pc_connection_id c = bo_connection_id r \<and> pc_connection_id d = bo_connection_id r \<and>
        policy c \<and> may_request_bootstrap auth (bo_requested_by r) (pc_organization_id c) \<and>
        bo_approved_by r = Some approver \<and> approver \<noteq> bo_requested_by r \<and>
        may_approve_bootstrap auth approver (pc_organization_id d))"

definition bootstrap_invariant ::
  "bootstrap_authorizer \<Rightarrow> (provider_connection \<Rightarrow> bool) \<Rightarrow> 'w \<Rightarrow> bootstrap_request \<Rightarrow> 'w \<Rightarrow> bool" where
  "bootstrap_invariant auth policy w0 r w \<longleftrightarrow>
     (\<exists>c. pc_connection_id c = bo_connection_id r \<and> policy c \<and>
        may_request_bootstrap auth (bo_requested_by r) (pc_organization_id c)) \<and>
     (case bo_state r of
        BOOT_PENDING_APPROVAL \<Rightarrow> w = w0 \<and> bo_version r = 1 \<and> bo_created_candidate r = None
      | BOOT_APPROVED \<Rightarrow> bootstrap_consented auth policy r \<and> bo_version r = 2 \<and> bo_created_candidate r = None
      | BOOT_CREATED \<Rightarrow> bootstrap_consented auth policy r \<and> bo_version r = 3 \<and> bo_created_candidate r \<noteq> None)"

lemma request_bootstrap_Inr:
  "request_bootstrap auth policy fresh a c name = Inr r \<Longrightarrow>
     policy c \<and> may_request_bootstrap auth a (pc_organization_id c) \<and>
     r = \<lparr>bo_request_id = fresh, bo_connection_id = pc_connection_id c, bo_requested_display_name = name,
          bo_requested_by = a, bo_state = BOOT_PENDING_APPROVAL, bo_approved_by = None,
          bo_created_candidate = None, bo_version = 1\<rparr>"
  by (auto simp: request_bootstrap_def result_simps check_bootstrap_request_def split: if_splits)

lemma approve_bootstrap_Inr:
  "approve_bootstrap auth a c r = Inr r' \<Longrightarrow>
     pc_connection_id c = bo_connection_id r \<and> bo_state r = BOOT_PENDING_APPROVAL \<and> a \<noteq> bo_requested_by r \<and>
     may_approve_bootstrap auth a (pc_organization_id c) \<and>
     r' = r\<lparr>bo_state := BOOT_APPROVED, bo_approved_by := Some a, bo_version := bo_version r + 1\<rparr>"
  by (auto simp: approve_bootstrap_def result_simps)

lemma create_container_untouched:
  "bo_state r \<noteq> BOOT_APPROVED \<Longrightarrow> \<exists>e. create_container adapters c r w = (Inl e, w)"
  by (auto simp: create_container_def split: sum.splits)

lemma create_container_Inr:
  "create_container adapters c r w = (Inr r', w') \<Longrightarrow>
     bo_state r = BOOT_APPROVED \<and>
     (\<exists>k. r' = r\<lparr>bo_state := BOOT_CREATED, bo_created_candidate := Some k, bo_version := bo_version r + 1\<rparr> \<and>
        cc_provider k = pc_provider c \<and> cc_boundary_ref k = pc_boundary_ref c)"
  by (auto simp: create_container_def result_simps connection_guards split: sum.splits if_splits prod.splits)

lemma bootstrap_consented_created:
  "bootstrap_consented auth policy (r\<lparr>bo_state := s, bo_created_candidate := k, bo_version := v\<rparr>)
     = bootstrap_consented auth policy r"
  by (simp add: bootstrap_consented_def)

lemma bootstrap_reach_invariant:
  "bootstrap_reach auth policy adapters w0 r w \<Longrightarrow> bootstrap_invariant auth policy w0 r w"
proof (induction rule: bootstrap_reach.induct)
  case (requested fresh a c name r)
  from request_bootstrap_Inr [OF requested] show ?case by (auto simp: bootstrap_invariant_def)
next
  case (approved r w a c r')
  then obtain d where "pc_connection_id d = bo_connection_id r" "policy d"
    "may_request_bootstrap auth (bo_requested_by r) (pc_organization_id d)"
    by (auto simp: bootstrap_invariant_def)
  with approve_bootstrap_Inr [OF approved(2)] approved(3) show ?case
    by (auto simp: bootstrap_invariant_def bootstrap_consented_def)
next
  case (created r w c r' w')
  with create_container_Inr [OF created(2)] show ?case
    by (auto simp: bootstrap_invariant_def bootstrap_consented_created)
next
  case (create_failed r w c e w')
  then show ?case
    using create_container_untouched [of r adapters c w]
    by (cases "bo_state r") (auto simp: bootstrap_invariant_def)
qed

text \<open>
  C13. No cloud container without consent: however a bootstrap request is driven, if the provider's
  state was touched or the request is marked created, then organization policy permitted it, an
  authorized requester proposed it, a different, authorized person approved it, and the record
  names that person.
\<close>

theorem bootstrap_requires_consent:
  assumes "bootstrap_reach auth policy adapters w0 r w"
    and "w \<noteq> w0 \<or> bo_state r = BOOT_CREATED"
  shows "bootstrap_consented auth policy r \<and> (bo_version r = 2 \<or> bo_version r = 3)"
  using bootstrap_reach_invariant [OF assms(1)] assms(2)
  by (cases "bo_state r") (auto simp: bootstrap_invariant_def)

definition demo_connection :: provider_connection where
  "demo_connection = \<lparr>pc_connection_id = ''pconn_1'', pc_organization_id = ''org_1'', pc_provider = AWS,
     pc_boundary_ref = ''ou-1'', pc_discovery_identity_ref = ''role/read'', pc_state = CONN_ACTIVE,
     pc_version = 1\<rparr>"

definition demo_bootstrap_authorizer :: bootstrap_authorizer where
  "demo_bootstrap_authorizer = \<lparr>may_request_bootstrap = (\<lambda>a _. a = ''alice''),
     may_approve_bootstrap = (\<lambda>a _. a = ''bob'')\<rparr>"

definition demo_bootstrap :: bootstrap_request where
  "demo_bootstrap = \<lparr>bo_request_id = ''bootstrap_1'', bo_connection_id = ''pconn_1'',
     bo_requested_display_name = ''sandbox'', bo_requested_by = ''alice'', bo_state = BOOT_PENDING_APPROVAL,
     bo_approved_by = None, bo_created_candidate = None, bo_version = 1\<rparr>"

definition demo_adapters :: "(cloud_provider, (string \<times> string) list bootstrap_adapter) dict" where
  "demo_adapters = [(AWS, fake_bootstrap_adapter AWS)]"

definition demo_approved :: bootstrap_request where
  "demo_approved = demo_bootstrap\<lparr>bo_state := BOOT_APPROVED, bo_approved_by := Some ''bob'', bo_version := 2\<rparr>"

definition demo_created :: bootstrap_request where
  "demo_created = demo_approved\<lparr>bo_state := BOOT_CREATED, bo_version := 3,
     bo_created_candidate := Some \<lparr>cc_provider = AWS, cc_boundary_ref = ''ou-1'',
       cc_container_ref = ''fake:pconn_1:1'', cc_display_name = ''sandbox''\<rparr>\<rparr>"

lemma demo_bootstrap_steps:
  "request_bootstrap demo_bootstrap_authorizer (\<lambda>_. True) ''bootstrap_1'' ''alice'' demo_connection ''sandbox''
     = Inr demo_bootstrap"
  "approve_bootstrap demo_bootstrap_authorizer ''bob'' demo_connection demo_bootstrap = Inr demo_approved"
  "create_container demo_adapters demo_connection demo_approved [] = (Inr demo_created, [(''pconn_1'', ''sandbox'')])"
  by code_simp+

theorem bootstrap_requires_consent_witness:
  "bootstrap_reach demo_bootstrap_authorizer (\<lambda>_. True) demo_adapters [] demo_created [(''pconn_1'', ''sandbox'')] \<and>
   bootstrap_consented demo_bootstrap_authorizer (\<lambda>_. True) demo_created"
proof -
  have r: "bootstrap_reach demo_bootstrap_authorizer (\<lambda>_. True) demo_adapters [] demo_created
      [(''pconn_1'', ''sandbox'')]"
    by (rule bootstrap_reach.created [OF bootstrap_reach.approved [OF bootstrap_reach.requested
          [OF demo_bootstrap_steps(1)] demo_bootstrap_steps(2)] demo_bootstrap_steps(3)])
  then show ?thesis using bootstrap_requires_consent [OF r] by simp
qed

end
