(* ===== verification/Registration.thy ===== *)
theory Registration
  imports Gateway_Schemas
begin

text \<open>
  The records and stores of \<open>gateway/auth/registration.py\<close>: canonical email addresses, user
  accounts and contacts, verification attempts with their in-memory store and the PostgreSQL
  one of \<open>gateway/auth/postgres.py\<close>, and the sliding-window rate limiter.  The IDNA codec for
  domains outside ASCII is an argument; its ASCII path is written out.
\<close>

section \<open>Canonical email addresses\<close>

text \<open>\<open>domain.encode("idna").decode("ascii")\<close>: an ASCII domain is returned as it is when every
  label but the last has 1 to 63 characters and the last has fewer than 64.  Bytes outside ASCII,
  should the codec return any, do not decode.\<close>

definition idna_encode :: "(string \<Rightarrow> string option) \<Rightarrow> string \<Rightarrow> string option" where
  "idna_encode idna domain =
     (if list_all is_ascii domain
      then (let labels = py_split (CHR ''.'') domain in
            if domain = [] then Some []
            else if list_all (\<lambda>l. 0 < length l \<and> length l < 64) (butlast labels) \<and> length (last labels) < 64
            then Some domain else None)
      else (case idna domain of None \<Rightarrow> None | Some e \<Rightarrow> if list_all is_ascii e then Some e else None))"

definition canonicalize_email :: "(string \<Rightarrow> string option) \<Rightarrow> string \<Rightarrow> (string \<times> string) result" where
  "canonicalize_email idna value =
     (let submitted = py_strip value in
      case py_split (CHR ''@'') submitted of
        [local_part, domain] \<Rightarrow>
          if local_part = [] \<or> domain = [] \<or> list_ex py_isspace submitted
          then Inl (ValueError ''email must contain a local part and domain without whitespace'')
          else (case idna_encode idna domain of
              None \<Rightarrow> Inl (ValueError ''email domain must be valid IDNA'')
            | Some encoded \<Rightarrow>
                let canonical_domain = py_lower encoded in
                if canonical_domain = [] \<or> hd canonical_domain = CHR ''.'' \<or> last canonical_domain = CHR ''.''
                then Inl (ValueError ''email domain is invalid'')
                else Inr (local_part, canonical_domain))
      | _ \<Rightarrow> Inl (ValueError ''email must contain exactly one @''))"

definition canonical_text :: "string \<times> string \<Rightarrow> string" where
  "canonical_text = (\<lambda>(local_part, domain). local_part @ ''@'' @ domain)"

definition canonical_email :: "(string \<Rightarrow> string option) \<Rightarrow> string \<Rightarrow> string result" where
  "canonical_email idna value = bind_result (canonicalize_email idna value) (\<lambda>p. Inr (canonical_text p))"

lemma idna_encode_ascii: "idna_encode idna domn = Some enc \<Longrightarrow> list_all is_ascii enc \<and> (list_all is_ascii domn \<longrightarrow> enc = domn)"
  by (auto simp: idna_encode_def Let_def split: if_splits option.splits)

lemma canonicalize_email_parts:
  assumes "canonicalize_email idna v = Inr (l, d)"
  obtains domn enc where "py_strip v = l @ CHR ''@'' # domn" "idna_encode idna domn = Some enc" "d = py_lower enc"
    "l \<noteq> []" "domn \<noteq> []" "CHR ''@'' \<notin> set l" "CHR ''@'' \<notin> set domn" "\<not> list_ex py_isspace (py_strip v)"
    "hd d \<noteq> CHR ''.''" "last d \<noteq> CHR ''.''" "list_all is_ascii d" "d \<noteq> []"
proof -
  obtain domn where sp: "py_split (CHR ''@'') (py_strip v) = [l, domn]"
    and ne: "l \<noteq> []" "domn \<noteq> []" "\<not> list_ex py_isspace (py_strip v)"
    using assms(1) by (auto simp: canonicalize_email_def Let_def split: list.splits if_splits option.splits)
  obtain enc where enc: "idna_encode idna domn = Some enc" "d = py_lower enc"
    "hd d \<noteq> CHR ''.''" "last d \<noteq> CHR ''.''" "d \<noteq> []"
    using assms(1) sp ne by (auto simp: canonicalize_email_def Let_def split: if_splits option.splits)
  have v: "py_strip v = l @ CHR ''@'' # domn"
    using join_py_split [of "CHR ''@''" "py_strip v"] sp by simp
  have free: "CHR ''@'' \<notin> set l" "CHR ''@'' \<notin> set domn"
    using py_split_sep_free [of _ "CHR ''@''" "py_strip v"] sp by auto
  have "list_all is_ascii d" using idna_encode_ascii [OF enc(1)] by (simp add: enc(2) py_lower_def list_all_iff)
  then show thesis using that [OF v enc(1,2) ne(1,2) free ne(3) enc(3,4)] enc(5) by blast
qed

lemma canonicalize_email_Inr:
  assumes "canonicalize_email idna v = Inr (l, d)" "list_all is_ascii v"
  shows "\<exists>domn. py_strip v = l @ CHR ''@'' # domn \<and> d = py_lower domn \<and> CHR ''@'' \<notin> set l \<and> CHR ''@'' \<notin> set domn \<and>
    list_all is_ascii domn"
proof -
  obtain domn enc where v: "py_strip v = l @ CHR ''@'' # domn" "idna_encode idna domn = Some enc" "d = py_lower enc"
    "CHR ''@'' \<notin> set l" "CHR ''@'' \<notin> set domn"
    using canonicalize_email_parts [OF assms(1)] by metis
  have "c \<in> set domn \<Longrightarrow> is_ascii c" for c
    using py_strip_set [of c v] assms(2) v by (auto simp: list_all_iff)
  then have ascii: "list_all is_ascii domn" by (simp add: list_all_iff)
  then show ?thesis using v idna_encode_ascii [OF v(2)] by blast
qed

lemma idna_encode_lower:
  assumes "list_all is_ascii domn" "idna_encode idna domn = Some domn"
  shows "idna_encode idna (py_lower domn) = Some (py_lower domn)"
proof (cases "domn = []")
  case True
  with assms show ?thesis by (simp add: py_lower_def)
next
  case False
  have split: "py_split (CHR ''.'') (py_lower s) = map py_lower (py_split (CHR ''.'') s)" for s
  proof (induction s)
    case (Cons c s)
    then show ?case
      by (cases "py_split (CHR ''.'') s") (auto simp: py_lower_def)
  qed (simp add: py_lower_def)
  have ends: "last (map py_lower (py_split (CHR ''.'') s)) = py_lower (last (py_split (CHR ''.'') s))" for s
    by (simp add: last_map)
  have nil: "py_lower s = [] \<longleftrightarrow> s = []" for s by (simp add: py_lower_def)
  have "list_all is_ascii (py_lower domn)"
    using assms(1) by (simp add: py_lower_def list_all_iff)
  then show ?thesis
    using assms False
    by (auto simp: idna_encode_def Let_def list_all_iff nil split ends map_butlast [symmetric] split: if_splits)
qed

lemma py_lower_at: "CHR ''@'' \<in> set (py_lower s) \<longleftrightarrow> CHR ''@'' \<in> set s"
  by (induction s) (auto simp: py_lower_def eq_commute [of "CHR ''@''"])

lemma list_ex_lower_space [simp]: "list_ex py_isspace (py_lower s) = list_ex py_isspace s"
  by (simp add: py_lower_def list_ex_iff)

lemma canonicalize_email_fixed_domain:
  assumes "canonicalize_email idna v = Inr (l, d)" "py_strip v = l @ CHR ''@'' # dv" "CHR ''@'' \<notin> set l" "list_all is_ascii dv"
  shows "canonicalize_email idna (canonical_text (l, d)) = Inr (l, d)"
proof -
  obtain dw enc where dw: "py_strip v = l @ CHR ''@'' # dw" "idna_encode idna dw = Some enc" "d = py_lower enc"
    "l \<noteq> []" "dw \<noteq> []" "CHR ''@'' \<notin> set l" "CHR ''@'' \<notin> set dw" "\<not> list_ex py_isspace (py_strip v)"
    "hd d \<noteq> CHR ''.''" "last d \<noteq> CHR ''.''"
    using canonicalize_email_parts [OF assms(1)] by metis
  have ascii: "list_all is_ascii dw" using dw(1) assms(2,4) by simp
  then have d: "d = py_lower dw" "idna_encode idna dw = Some dw" using idna_encode_ascii [OF dw(2)] dw(2,3) by auto
  have nospace: "\<not> list_ex py_isspace (l @ CHR ''@'' # py_lower dw)"
    using dw(1,8) by simp
  have "py_strip (l @ CHR ''@'' # py_lower dw) = l @ CHR ''@'' # py_lower dw"
    by (rule py_strip_nospace) (use nospace in \<open>auto simp: list_ex_iff\<close>)
  moreover have "py_split (CHR ''@'') (l @ CHR ''@'' # py_lower dw) = [l, py_lower dw]"
    using py_split_join [of "[l, py_lower dw]" "CHR ''@''"] dw(6,7) by (simp add: py_lower_at)
  moreover have "py_lower dw \<noteq> []" using dw(5) by (simp add: py_lower_def)
  ultimately show ?thesis
    using nospace dw(4,5,9,10) d idna_encode_lower [OF ascii d(2)]
    by (simp add: canonicalize_email_def canonical_text_def Let_def)
qed

lemma canonicalize_email_fixed:
  assumes "list_all is_ascii v" "canonicalize_email idna v = Inr (l, d)"
  shows "canonicalize_email idna (canonical_text (l, d)) = Inr (l, d)"
  using canonicalize_email_fixed_domain [OF assms(2)] canonicalize_email_Inr [OF assms(2,1)] by blast

text \<open>The domain of a canonical text is ASCII whatever the codec does, so a canonical text that
  canonicalizes at all settles after that one further time.\<close>

lemma first_separator: "x \<notin> set xs \<Longrightarrow> x \<notin> set xs' \<Longrightarrow> xs @ x # ys = xs' @ x # ys' \<Longrightarrow> xs = xs' \<and> ys = ys'"
proof (induction xs arbitrary: xs')
  case Nil
  then show ?case by (cases xs') simp_all
next
  case (Cons c xs)
  then show ?case by (cases xs') auto
qed

lemma py_strip_word:
  assumes "l \<noteq> []" "\<not> py_isspace (hd l)"
  obtains zs where "l @ s = py_strip (l @ s) @ zs"
proof -
  have "py_lstrip (l @ s) = l @ s" using assms by (cases l) (simp_all add: py_lstrip_def)
  then have strip: "py_strip (l @ s) = py_rstrip (l @ s)" by (simp add: py_strip_def)
  have "x = py_rstrip x @ rev (takeWhile py_isspace (rev x))" for x
    unfolding py_rstrip_def rev_append [symmetric] takeWhile_dropWhile_id rev_rev_ident ..
  from this [of "l @ s"] show thesis by (rule that [unfolded strip])
qed

lemma canonicalize_email_twice:
  assumes "canonicalize_email idna v = Inr (l, d)" "canonicalize_email idna (canonical_text (l, d)) = Inr (m, e)"
  shows "canonicalize_email idna (canonical_text (m, e)) = Inr (m, e)"
proof -
  obtain dv where v: "py_strip v = l @ CHR ''@'' # dv" "l \<noteq> []" "CHR ''@'' \<notin> set l" "\<not> list_ex py_isspace (py_strip v)"
    "list_all is_ascii d"
    using canonicalize_email_parts [OF assms(1)] by metis
  obtain dw where w: "py_strip (canonical_text (l, d)) = m @ CHR ''@'' # dw" "CHR ''@'' \<notin> set m"
    using canonicalize_email_parts [OF assms(2)] by metis
  have "\<not> py_isspace (hd l)" using v(1,2,4) by (cases l) simp_all
  then obtain zs where "l @ CHR ''@'' # d = py_strip (l @ CHR ''@'' # d) @ zs" by (rule py_strip_word [OF v(2)])
  then have "l @ CHR ''@'' # d = m @ CHR ''@'' # (dw @ zs)" using w(1) by (simp add: canonical_text_def)
  then have "d = dw @ zs" using first_separator [OF v(3) w(2)] by blast
  then have "list_all is_ascii dw" using v(5) by simp
  then show ?thesis by (rule canonicalize_email_fixed_domain [OF assms(2) w])
qed

text \<open>
  Canonicalization settles which addresses are one mailbox: for ASCII texts the canonical form
  is a fixed point, and two addresses get the same canonical form exactly when their local parts
  are the same text and their domains differ at most in letter case.
\<close>

theorem canonical_email_identifies_mailbox:
  assumes "list_all is_ascii v" "canonicalize_email idna v = Inr (l, d)"
    and "list_all is_ascii w" "canonicalize_email idna w = Inr (m, e)"
  shows "canonicalize_email idna (canonical_text (l, d)) = Inr (l, d) \<and>
    (canonical_text (l, d) = canonical_text (m, e) \<longleftrightarrow>
      (\<exists>dv dw. py_strip v = l @ CHR ''@'' # dv \<and> py_strip w = m @ CHR ''@'' # dw \<and> l = m \<and>
         py_lower dv = py_lower dw))"
proof -
  obtain dv where dv: "py_strip v = l @ CHR ''@'' # dv" "d = py_lower dv"
    "CHR ''@'' \<notin> set l" "CHR ''@'' \<notin> set dv"
    using canonicalize_email_Inr [OF assms(2,1)] by blast
  obtain dw where dw: "py_strip w = m @ CHR ''@'' # dw" "e = py_lower dw"
    "CHR ''@'' \<notin> set m" "CHR ''@'' \<notin> set dw"
    using canonicalize_email_Inr [OF assms(4,3)] by blast
  have at: "CHR ''@'' \<notin> set (py_lower s)" if "CHR ''@'' \<notin> set s" for s
    using that by (simp add: py_lower_at)
  have "l @ CHR ''@'' # d = m @ CHR ''@'' # e \<longleftrightarrow> l = m \<and> d = e"
    using dv(3) at [OF dv(4)] dv(2) dw(3) at [OF dw(4)] dw(2)
    by (metis append_Cons_eq_iff)
  then show ?thesis using canonicalize_email_fixed [OF assms(1,2)] dv dw by (auto simp: canonical_text_def)
qed

theorem canonical_email_identifies_mailbox_witness:
  "canonical_text (''a'', ''b.c'') = canonical_text (''a'', ''b.c'') \<and>
   canonicalize_email (\<lambda>_. None) (canonical_text (''a'', ''b.c'')) = Inr (''a'', ''b.c'')"
proof -
  have "list_all is_ascii ''a@B.c''" "canonicalize_email (\<lambda>_. None) ''a@B.c'' = Inr (''a'', ''b.c'')"
    "list_all is_ascii '' a@b.C''" "canonicalize_email (\<lambda>_. None) '' a@b.C'' = Inr (''a'', ''b.c'')"
    by code_simp+
  from canonical_email_identifies_mailbox [OF this] show ?thesis by simp
qed

section \<open>Accounts, contacts and verification attempts\<close>

record user_account =
  ua_issuer :: string
  ua_subject :: string
  ua_created_at :: datetime

definition check_user_account :: "user_account \<Rightarrow> user_account result" where
  "check_user_account a =
     (if length (ua_subject a) < 5 then Inl (ValidationError ''UserAccount'')
      else if ua_issuer a \<noteq> ''platformops''
      then Inl (ValidationError ''user accounts must use the PlatformOps issuer'') else Inr a)"

record email_contact =
  ec_contact_id :: string
  ec_user_subject :: string
  ec_email :: string
  ec_canonical_email :: string
  ec_canonical_domain :: string
  ec_verified_at :: datetime

definition make_email_contact ::
  "(string \<Rightarrow> string option) \<Rightarrow> string \<Rightarrow> string \<Rightarrow> string \<Rightarrow> datetime \<Rightarrow> email_contact result" where
  "make_email_contact idna contact_id subject email_text verified_at =
     (if length contact_id < 9 \<or> length subject < 5 then Inl (ValidationError ''VerifiedEmailContact'')
      else bind_result (canonicalize_email idna email_text) (\<lambda>(l, d).
        Inr \<lparr>ec_contact_id = contact_id, ec_user_subject = subject, ec_email = email_text,
             ec_canonical_email = canonical_text (l, d), ec_canonical_domain = d,
             ec_verified_at = verified_at\<rparr>))"

record verification_attempt =
  va_attempt_id :: string
  va_canonical_email :: string
  va_token_digest :: string
  va_expires_at :: datetime
  va_created_at :: datetime
  va_consumed_at :: "datetime option"
  va_invalidated_at :: "datetime option"

definition naive_option :: "datetime option \<Rightarrow> bool" where
  "naive_option t = (case t of None \<Rightarrow> False | Some u \<Rightarrow> \<not> is_aware u)"

definition make_verification_attempt ::
  "(string \<Rightarrow> string option) \<Rightarrow> verification_attempt \<Rightarrow> verification_attempt result" where
  "make_verification_attempt idna a =
     (if length (va_attempt_id a) < 8 \<or> length (va_token_digest a) \<noteq> 64 \<or>
         \<not> list_all is_hex_lower (va_token_digest a)
      then Inl (ValidationError ''VerificationAttempt'')
      else bind_result (canonicalize_email idna (va_canonical_email a)) (\<lambda>p.
        if \<not> is_aware (va_expires_at a) then Inl (ValidationError ''expires_at must be timezone-aware'')
        else if \<not> is_aware (va_created_at a) then Inl (ValidationError ''created_at must be timezone-aware'')
        else if naive_option (va_consumed_at a) then Inl (ValidationError ''consumed_at must be timezone-aware'')
        else if naive_option (va_invalidated_at a)
        then Inl (ValidationError ''invalidated_at must be timezone-aware'')
        else if instant (va_expires_at a) \<le> instant (va_created_at a)
        then Inl (ValidationError ''expires_at must be after created_at'')
        else if va_consumed_at a \<noteq> None \<and> va_invalidated_at a \<noteq> None
        then Inl (ValidationError ''attempt cannot be both consumed and invalidated'')
        else Inr (a\<lparr>va_canonical_email := canonical_text p\<rparr>)))"

definition attempt_is_expired :: "verification_attempt \<Rightarrow> datetime \<Rightarrow> bool result" where
  "attempt_is_expired a now =
     (if \<not> is_aware now then Inl (ValueError ''now must be timezone-aware'')
      else dt_le (va_expires_at a) now)"

definition attempt_is_consumed :: "verification_attempt \<Rightarrow> bool" where
  "attempt_is_consumed a \<longleftrightarrow> va_consumed_at a \<noteq> None"

text \<open>Neither consumed nor invalidated; expiry is judged separately.\<close>

definition attempt_open :: "verification_attempt \<Rightarrow> bool" where
  "attempt_open a \<longleftrightarrow> \<not> attempt_is_consumed a \<and> va_invalidated_at a = None"

section \<open>The in-memory attempt store\<close>

text \<open>A saved attempt is a record of its own, as the service makes it; the store then changes its
  copy in place.\<close>

record attempt_store =
  st_attempts :: "(string, verification_attempt) dict"
  st_active_ids :: "(string, string) dict"

definition empty_attempt_store :: attempt_store where
  "empty_attempt_store = \<lparr>st_attempts = [], st_active_ids = []\<rparr>"

definition save_new_attempt ::
  "verification_attempt \<Rightarrow> datetime \<Rightarrow> attempt_store \<Rightarrow> unit result \<times> attempt_store" where
  "save_new_attempt a now st =
     (let finish = (\<lambda>d. (Inr (), \<lparr>st_attempts = dict_set (va_attempt_id a) a d,
            st_active_ids = dict_set (va_canonical_email a) (va_attempt_id a) (st_active_ids st)\<rparr>))
      in case dict_get (st_active_ids st) (va_canonical_email a) of
           None \<Rightarrow> finish (st_attempts st)
         | Some previous_id \<Rightarrow>
             (case dict_get (st_attempts st) previous_id of
                None \<Rightarrow> (Inl (KeyError previous_id), st)
              | Some previous \<Rightarrow>
                  finish (if attempt_open previous
                    then dict_set previous_id (previous\<lparr>va_invalidated_at := Some now\<rparr>) (st_attempts st)
                    else st_attempts st)))"

fun first_active ::
  "string \<Rightarrow> datetime \<Rightarrow> verification_attempt list \<Rightarrow> verification_attempt option result" where
  "first_active digest now [] = Inr None"
| "first_active digest now (a # as) =
     (if va_token_digest a = digest \<and> attempt_open a
      then bind_result (attempt_is_expired a now) (\<lambda>expired.
        if expired then first_active digest now as else Inr (Some a))
      else first_active digest now as)"

definition find_active_by_digest ::
  "attempt_store \<Rightarrow> string \<Rightarrow> datetime \<Rightarrow> verification_attempt option result" where
  "find_active_by_digest st digest now = first_active digest now (dict_values (st_attempts st))"

definition consume_email_by_digest ::
  "string \<Rightarrow> datetime \<Rightarrow> attempt_store \<Rightarrow> string option result \<times> attempt_store" where
  "consume_email_by_digest digest now st =
     (case first_active digest now (dict_values (st_attempts st)) of
        Inl e \<Rightarrow> (Inl e, st)
      | Inr None \<Rightarrow> (Inr None, st)
      | Inr (Some a) \<Rightarrow> (Inr (Some (va_canonical_email a)),
          st\<lparr>st_attempts := dict_set (va_attempt_id a) (a\<lparr>va_consumed_at := Some now\<rparr>) (st_attempts st)\<rparr>))"

definition consume_by_digest :: "string \<Rightarrow> datetime \<Rightarrow> attempt_store \<Rightarrow> bool result \<times> attempt_store" where
  "consume_by_digest digest now st =
     (case consume_email_by_digest digest now st of (r, st') \<Rightarrow>
        (bind_result r (\<lambda>found. Inr (found \<noteq> None)), st'))"

section \<open>The in-memory user store\<close>

record user_store =
  us_accounts :: "(string, user_account) dict"
  us_contacts :: "(string, email_contact) dict"

definition create_or_recover_verified_user ::
  "(string \<Rightarrow> string option) \<Rightarrow> string \<Rightarrow> string \<Rightarrow> datetime \<Rightarrow> string \<Rightarrow> datetime \<Rightarrow> user_store
     \<Rightarrow> user_account result \<times> user_store" where
  "create_or_recover_verified_user idna fresh_subject fresh_contact created_at email_text verified_at st =
     (case canonical_email idna email_text of
        Inl e \<Rightarrow> (Inl e, st)
      | Inr canonical \<Rightarrow>
          (case dict_get (us_contacts st) canonical of
             Some contact \<Rightarrow>
               (case dict_get (us_accounts st) (ec_user_subject contact) of
                  Some account \<Rightarrow> (Inr account, st)
                | None \<Rightarrow> (Inl (KeyError (ec_user_subject contact)), st))
           | None \<Rightarrow>
               (case bind_result (check_user_account \<lparr>ua_issuer = ''platformops'', ua_subject = fresh_subject,
                       ua_created_at = created_at\<rparr>) (\<lambda>account.
                     bind_result (make_email_contact idna fresh_contact (ua_subject account) email_text verified_at)
                       (\<lambda>contact. Inr (account, contact))) of
                  Inl e \<Rightarrow> (Inl e, st)
                | Inr (account, contact) \<Rightarrow>
                    (Inr account, \<lparr>us_accounts = dict_set (ua_subject account) account (us_accounts st),
                       us_contacts = dict_set canonical contact (us_contacts st)\<rparr>))))"

definition get_verified_contact ::
  "(string \<Rightarrow> string option) \<Rightarrow> string \<Rightarrow> user_store \<Rightarrow> email_contact option result" where
  "get_verified_contact idna email_text st =
     bind_result (canonical_email idna email_text) (\<lambda>canonical. Inr (dict_get (us_contacts st) canonical))"

section \<open>The PostgreSQL attempt table (gateway/auth/postgres.py)\<close>

text \<open>The rows of \<open>auth_verification_attempts\<close>; a method is one transaction.\<close>

type_synonym attempt_table = "verification_attempt list"

definition attempt_integrity_error :: exn where
  "attempt_integrity_error = ExternalError ''psycopg.errors.IntegrityError''"

definition invalidate_row :: "string \<Rightarrow> datetime \<Rightarrow> verification_attempt \<Rightarrow> verification_attempt" where
  "invalidate_row email_text now r =
     (if va_canonical_email r = email_text \<and> attempt_open r then r\<lparr>va_invalidated_at := Some now\<rparr> else r)"

definition pg_save_new_attempt ::
  "verification_attempt \<Rightarrow> datetime \<Rightarrow> attempt_table \<Rightarrow> unit result \<times> attempt_table" where
  "pg_save_new_attempt a now rows =
     (if list_ex (\<lambda>r. va_attempt_id r = va_attempt_id a) rows \<or> length (va_token_digest a) \<noteq> 64 \<or>
         (va_consumed_at a \<noteq> None \<and> va_invalidated_at a \<noteq> None)
      then (Inl attempt_integrity_error, rows)
      else (Inr (), map (invalidate_row (va_canonical_email a) now) rows @ [a]))"

text \<open>The \<open>WHERE\<close> clause of both statements: an open attempt of the digest that expires later.\<close>

definition live_row :: "string \<Rightarrow> datetime \<Rightarrow> verification_attempt \<Rightarrow> bool" where
  "live_row digest now r \<longleftrightarrow> va_token_digest r = digest \<and> instant now < instant (va_expires_at r) \<and> attempt_open r"

definition pg_find_active_by_digest ::
  "(string \<Rightarrow> string option) \<Rightarrow> attempt_table \<Rightarrow> string \<Rightarrow> datetime \<Rightarrow> verification_attempt option result" where
  "pg_find_active_by_digest idna rows digest now =
     (case find (live_row digest now) rows of
        None \<Rightarrow> Inr None
      | Some r \<Rightarrow> bind_result (make_verification_attempt idna r) (\<lambda>a. Inr (Some a)))"

definition consume_row :: "string \<Rightarrow> datetime \<Rightarrow> verification_attempt \<Rightarrow> verification_attempt" where
  "consume_row digest now r = (if live_row digest now r then r\<lparr>va_consumed_at := Some now\<rparr> else r)"

definition pg_consume_email_by_digest ::
  "string \<Rightarrow> datetime \<Rightarrow> attempt_table \<Rightarrow> string option result \<times> attempt_table" where
  "pg_consume_email_by_digest digest now rows =
     (Inr (map_option va_canonical_email (find (live_row digest now) rows)), map (consume_row digest now) rows)"

section \<open>What an attempt repository promises\<close>

text \<open>
  \<open>opened\<close> is the set of attempts neither consumed nor invalidated, \<open>fresh\<close> says that an attempt
  id is unused.  A save closes every other attempt of its address; a token is consumed only while
  it is live, and then it is no longer open.
\<close>

definition live_attempt :: "string \<Rightarrow> int \<Rightarrow> verification_attempt \<Rightarrow> bool" where
  "live_attempt digest t a \<longleftrightarrow> va_token_digest a = digest \<and> t < instant (va_expires_at a)"

locale attempt_repository =
  fixes idna :: "string \<Rightarrow> string option"
    and save :: "verification_attempt \<Rightarrow> datetime \<Rightarrow> 'st \<Rightarrow> unit result \<times> 'st"
    and find_active :: "'st \<Rightarrow> string \<Rightarrow> datetime \<Rightarrow> verification_attempt option result"
    and consume :: "string \<Rightarrow> datetime \<Rightarrow> 'st \<Rightarrow> string option result \<times> 'st"
    and opened :: "'st \<Rightarrow> verification_attempt set"
    and fresh :: "'st \<Rightarrow> string \<Rightarrow> bool"
    and inv :: "'st \<Rightarrow> bool"
  assumes finite_opened: "finite (opened st)"
    and save_law: "inv st \<Longrightarrow> make_verification_attempt idna a = Inr a \<Longrightarrow> fresh st (va_attempt_id a) \<Longrightarrow>
      fst (save a (Aware t) st) = Inr () \<and> inv (snd (save a (Aware t) st)) \<and>
      opened (snd (save a (Aware t) st)) =
        {b \<in> opened st. va_canonical_email b \<noteq> va_canonical_email a} \<union> {b. b = a \<and> attempt_open a}"
    and find_law: "inv st \<Longrightarrow> \<exists>r. find_active st d (Aware t) = Inr r \<and>
      (case r of None \<Rightarrow> \<forall>a \<in> opened st. \<not> live_attempt d t a
       | Some a \<Rightarrow> a \<in> opened st \<and> live_attempt d t a)"
    and consume_law: "inv st \<Longrightarrow> \<exists>r. fst (consume d (Aware t) st) = Inr r \<and> inv (snd (consume d (Aware t) st)) \<and>
      (case r of None \<Rightarrow> snd (consume d (Aware t) st) = st \<and> (\<forall>a \<in> opened st. \<not> live_attempt d t a)
       | Some e \<Rightarrow> \<exists>a \<in> opened st. live_attempt d t a \<and> va_canonical_email a = e \<and>
           opened (snd (consume d (Aware t) st)) \<subseteq> opened st - {a})"
begin

text \<open>Histories that count, for one digest, the attempts saved with it and the times it was
  consumed.\<close>

inductive history :: "string \<Rightarrow> 'st \<Rightarrow> 'st \<Rightarrow> nat \<Rightarrow> nat \<Rightarrow> bool" for d st0 where
  history_start: "history d st0 st0 0 0"
| history_save: "history d st0 st m n \<Longrightarrow> make_verification_attempt idna a = Inr a \<Longrightarrow>
    fresh st (va_attempt_id a) \<Longrightarrow>
    history d st0 (snd (save a (Aware t) st)) (if va_token_digest a = d then Suc m else m) n"
| history_consume: "history d st0 st m n \<Longrightarrow> fst (consume d' (Aware t) st) = Inr r \<Longrightarrow>
    history d st0 (snd (consume d' (Aware t) st)) m (if d' = d \<and> r \<noteq> None then Suc n else n)"

definition open_with :: "string \<Rightarrow> 'st \<Rightarrow> verification_attempt set" where
  "open_with d st = {a \<in> opened st. va_token_digest a = d}"

lemma history_count:
  assumes "history d st0 st m n" "inv st0" "opened st0 = {}"
  shows "inv st \<and> card (open_with d st) + n \<le> m"
  using assms
proof (induction rule: history.induct)
  case history_start
  then show ?case by (simp add: open_with_def)
next
  case (history_save st m n a t)
  then have ih: "inv st" "card (open_with d st) + n \<le> m" by auto
  note law = save_law [OF ih(1) history_save(2,3), of t]
  have "open_with d (snd (save a (Aware t) st)) \<subseteq>
      open_with d st \<union> (if va_token_digest a = d then {a} else {})"
    using law by (auto simp: open_with_def)
  then have "card (open_with d (snd (save a (Aware t) st))) \<le>
      card (open_with d st \<union> (if va_token_digest a = d then {a} else {}))"
    by (intro card_mono) (simp_all add: open_with_def finite_opened)
  also have "\<dots> \<le> card (open_with d st) + (if va_token_digest a = d then 1 else 0)"
    using card_Un_le [of "open_with d st" "if va_token_digest a = d then {a} else {}"] by (simp split: if_splits)
  finally show ?case using law ih(2) by (simp split: if_splits)
next
  case (history_consume st m n d' t r)
  then have ih: "inv st" "card (open_with d st) + n \<le> m" by auto
  note law = consume_law [OF ih(1), of d' t]
  show ?case
  proof (cases r)
    case None
    with law history_consume(2) ih show ?thesis by auto
  next
    case (Some e)
    then obtain a where a: "a \<in> opened st" "live_attempt d' t a"
      and sub: "opened (snd (consume d' (Aware t) st)) \<subseteq> opened st - {a}"
      and inv': "inv (snd (consume d' (Aware t) st))"
      using law history_consume(2) by auto
    show ?thesis
    proof (cases "d' = d")
      case True
      then have "open_with d (snd (consume d' (Aware t) st)) \<subset> open_with d st"
        using a sub by (auto simp: open_with_def live_attempt_def)
      then have "card (open_with d (snd (consume d' (Aware t) st))) < card (open_with d st)"
        by (intro psubset_card_mono) (simp_all add: open_with_def finite_opened)
      with True Some ih(2) inv' show ?thesis by simp
    next
      case False
      have "card (open_with d (snd (consume d' (Aware t) st))) \<le> card (open_with d st)"
        using sub by (intro card_mono) (auto simp: open_with_def finite_opened)
      with False ih(2) inv' show ?thesis by simp
    qed
  qed
qed

lemma one_open_attempt_after_save:
  assumes "inv st" "make_verification_attempt idna a = Inr a" "fresh st (va_attempt_id a)"
    and "b \<in> opened (snd (save a (Aware t) st))" "va_canonical_email b = va_canonical_email a"
  shows "b = a"
  using save_law [OF assms(1-3), of t] assms(4,5) by auto

end

section \<open>Both stores keep the promises\<close>

definition attempt_store_ok :: "attempt_store \<Rightarrow> bool" where
  "attempt_store_ok st \<longleftrightarrow> dict_ok (st_attempts st) \<and>
     (\<forall>i a. dict_get (st_attempts st) i = Some a \<longrightarrow> va_attempt_id a = i \<and> is_aware (va_expires_at a) \<and>
        (attempt_open a \<longrightarrow> dict_get (st_active_ids st) (va_canonical_email a) = Some i)) \<and>
     (\<forall>e i. dict_get (st_active_ids st) e = Some i \<longrightarrow>
        (\<exists>a. dict_get (st_attempts st) i = Some a \<and> va_canonical_email a = e))"

definition opened_attempts :: "attempt_store \<Rightarrow> verification_attempt set" where
  "opened_attempts st = {a \<in> set (dict_values (st_attempts st)). attempt_open a}"

definition fresh_attempt_id :: "attempt_store \<Rightarrow> string \<Rightarrow> bool" where
  "fresh_attempt_id st i \<longleftrightarrow> dict_get (st_attempts st) i = None"

lemma make_verification_attempt_fixed:
  "make_verification_attempt idna a = Inr a \<Longrightarrow> is_aware (va_expires_at a) \<and> is_aware (va_created_at a) \<and>
     \<not> naive_option (va_consumed_at a) \<and> length (va_token_digest a) = 64 \<and>
     (va_consumed_at a = None \<or> va_invalidated_at a = None)"
  by (auto simp: make_verification_attempt_def result_simps)

lemma first_active_law:
  assumes "\<forall>a \<in> set as. is_aware (va_expires_at a)"
  shows "\<exists>r. first_active d (Aware t) as = Inr r \<and>
    (case r of None \<Rightarrow> \<forall>a \<in> set as. \<not> (attempt_open a \<and> live_attempt d t a)
     | Some a \<Rightarrow> a \<in> set as \<and> attempt_open a \<and> live_attempt d t a)"
  using assms
proof (induction as)
  case (Cons a as)
  then obtain r where r: "first_active d (Aware t) as = Inr r"
    "case r of None \<Rightarrow> \<forall>a \<in> set as. \<not> (attempt_open a \<and> live_attempt d t a)
     | Some a \<Rightarrow> a \<in> set as \<and> attempt_open a \<and> live_attempt d t a"
    by auto
  obtain e where "va_expires_at a = Aware e" using Cons.prems by (auto simp: is_aware_iff)
  then have "attempt_is_expired a (Aware t) = Inr (\<not> t < instant (va_expires_at a))"
    by (auto simp: attempt_is_expired_def)
  with r show ?case
    by (cases "va_token_digest a = d \<and> attempt_open a"; cases r) (auto simp: live_attempt_def)
qed simp

lemma opened_attempts_iff:
  "attempt_store_ok st \<Longrightarrow> a \<in> opened_attempts st \<longleftrightarrow>
     dict_get (st_attempts st) (va_attempt_id a) = Some a \<and> attempt_open a"
  unfolding opened_attempts_def attempt_store_ok_def by (auto simp: dict_values_iff)

lemma attempt_store_okD:
  assumes "attempt_store_ok st" "dict_get (st_attempts st) i = Some b"
  shows "va_attempt_id b = i \<and> is_aware (va_expires_at b) \<and>
    (attempt_open b \<longrightarrow> dict_get (st_active_ids st) (va_canonical_email b) = Some i)"
  using assms unfolding attempt_store_ok_def by blast

lemma attempt_store_ok_tracked:
  assumes "attempt_store_ok st" "dict_get (st_active_ids st) e = Some i"
  shows "\<exists>b. dict_get (st_attempts st) i = Some b \<and> va_canonical_email b = e"
  using assms unfolding attempt_store_ok_def by blast

lemma closed_attempt [simp]:
  "\<not> attempt_open (b\<lparr>va_invalidated_at := Some now\<rparr>)" "\<not> attempt_open (b\<lparr>va_consumed_at := Some now\<rparr>)"
  by (simp_all add: attempt_open_def attempt_is_consumed_def)

lemma invalidate_row_fields [simp]:
  "va_attempt_id (invalidate_row e now b) = va_attempt_id b"
  "va_canonical_email (invalidate_row e now b) = va_canonical_email b"
  "va_expires_at (invalidate_row e now b) = va_expires_at b"
  "va_token_digest (invalidate_row e now b) = va_token_digest b"
  by (simp_all add: invalidate_row_def)

lemma open_invalidate_row [simp]:
  "attempt_open (invalidate_row e now b) \<longleftrightarrow> attempt_open b \<and> va_canonical_email b \<noteq> e"
  by (auto simp: invalidate_row_def)

lemma invalidate_row_open: "attempt_open (invalidate_row e now b) \<Longrightarrow> invalidate_row e now b = b"
  by (auto simp: invalidate_row_def split: if_splits)

text \<open>Invalidating the one tracked attempt is invalidating every open attempt of the address.\<close>

lemma save_new_attempt_maps:
  assumes ok: "attempt_store_ok st" and fresh: "fresh_attempt_id st (va_attempt_id a)"
  shows "fst (save_new_attempt a now st) = Inr () \<and> dict_ok (st_attempts (snd (save_new_attempt a now st))) \<and>
    dict_get (st_active_ids (snd (save_new_attempt a now st))) =
      (dict_get (st_active_ids st))(va_canonical_email a \<mapsto> va_attempt_id a) \<and>
    dict_get (st_attempts (snd (save_new_attempt a now st))) =
      (\<lambda>i. if i = va_attempt_id a then Some a
           else map_option (invalidate_row (va_canonical_email a) now) (dict_get (st_attempts st) i))"
proof -
  have d: "dict_ok (st_attempts st)" using ok by (simp add: attempt_store_ok_def)
  have untouched: "map_option (invalidate_row (va_canonical_email a) now) (dict_get (st_attempts st) i)
      = dict_get (st_attempts st) i" if "dict_get (st_active_ids st) (va_canonical_email a) \<noteq> Some i" for i
  proof (cases "dict_get (st_attempts st) i")
    case (Some c)
    then have "\<not> (va_canonical_email c = va_canonical_email a \<and> attempt_open c)"
      using attempt_store_okD [OF ok Some] that by auto
    then show ?thesis by (auto simp: Some invalidate_row_def)
  qed simp
  show ?thesis
  proof (cases "dict_get (st_active_ids st) (va_canonical_email a)")
    case None
    then show ?thesis
      using d untouched by (simp add: save_new_attempt_def Let_def dict_simps dict_get_set_fun fun_eq_iff)
  next
    case (Some k)
    then obtain b where b: "dict_get (st_attempts st) k = Some b" "va_canonical_email b = va_canonical_email a"
      using attempt_store_ok_tracked [OF ok] by blast
    then have "k \<noteq> va_attempt_id a" using fresh by (auto simp: fresh_attempt_id_def)
    have "map_option (invalidate_row (va_canonical_email a) now) (dict_get (st_attempts st) i) =
        (if i = k \<and> attempt_open b then Some (b\<lparr>va_invalidated_at := Some now\<rparr>) else dict_get (st_attempts st) i)" for i
      by (cases "i = k") (use b Some untouched in \<open>auto simp: invalidate_row_def\<close>)
    then show ?thesis
      using Some b d \<open>k \<noteq> va_attempt_id a\<close>
      by (simp add: save_new_attempt_def Let_def dict_simps dict_get_set_fun fun_eq_iff)
  qed
qed

lemma save_new_attempt_ok:
  assumes ok: "attempt_store_ok st" and aware: "is_aware (va_expires_at a)"
    and fresh: "fresh_attempt_id st (va_attempt_id a)"
  shows "attempt_store_ok (snd (save_new_attempt a now st))"
proof -
  let ?st = "snd (save_new_attempt a now st)"
  have maps: "dict_ok (st_attempts ?st)"
    "dict_get (st_active_ids ?st) = (dict_get (st_active_ids st))(va_canonical_email a \<mapsto> va_attempt_id a)"
    "dict_get (st_attempts ?st) = (\<lambda>i. if i = va_attempt_id a then Some a
       else map_option (invalidate_row (va_canonical_email a) now) (dict_get (st_attempts st) i))"
    using save_new_attempt_maps [OF ok fresh, of now] by auto
  have "va_attempt_id b = i \<and> is_aware (va_expires_at b) \<and>
      (attempt_open b \<longrightarrow> dict_get (st_active_ids ?st) (va_canonical_email b) = Some i)"
    if get: "dict_get (st_attempts ?st) i = Some b" for i b
  proof (cases "i = va_attempt_id a")
    case True
    then have "b = a" using get by (simp add: maps(3))
    with True aware show ?thesis by (simp add: maps(2))
  next
    case False
    then obtain c where c: "dict_get (st_attempts st) i = Some c" "b = invalidate_row (va_canonical_email a) now c"
      using get by (auto simp: maps(3))
    then show ?thesis using attempt_store_okD [OF ok c(1)] by (auto simp: maps(2))
  qed
  moreover have "\<exists>b. dict_get (st_attempts ?st) i = Some b \<and> va_canonical_email b = e"
    if get: "dict_get (st_active_ids ?st) e = Some i" for e i
  proof (cases "e = va_canonical_email a")
    case True
    with get show ?thesis by (simp add: maps)
  next
    case False
    then obtain b where "dict_get (st_attempts st) i = Some b" "va_canonical_email b = e"
      using get attempt_store_ok_tracked [OF ok] by (auto simp: maps(2))
    moreover from this have "i \<noteq> va_attempt_id a" using fresh by (auto simp: fresh_attempt_id_def)
    ultimately show ?thesis by (simp add: maps(3))
  qed
  ultimately show ?thesis using maps(1) unfolding attempt_store_ok_def by blast
qed

lemma save_new_attempt_memory:
  assumes ok: "attempt_store_ok st" and valid: "make_verification_attempt idna a = Inr a"
    and fresh: "fresh_attempt_id st (va_attempt_id a)"
  shows "fst (save_new_attempt a (Aware t) st) = Inr () \<and> attempt_store_ok (snd (save_new_attempt a (Aware t) st)) \<and>
    opened_attempts (snd (save_new_attempt a (Aware t) st)) =
      {b \<in> opened_attempts st. va_canonical_email b \<noteq> va_canonical_email a} \<union> {b. b = a \<and> attempt_open a}"
proof -
  let ?st = "snd (save_new_attempt a (Aware t) st)"
  have maps: "fst (save_new_attempt a (Aware t) st) = Inr ()"
    "dict_get (st_attempts ?st) = (\<lambda>i. if i = va_attempt_id a then Some a
       else map_option (invalidate_row (va_canonical_email a) (Aware t)) (dict_get (st_attempts st) i))"
    using save_new_attempt_maps [OF ok fresh, of "Aware t"] by auto
  have ok': "attempt_store_ok ?st"
    using make_verification_attempt_fixed [OF valid] by (intro save_new_attempt_ok ok fresh) simp
  have "b \<in> opened_attempts ?st \<longleftrightarrow>
      b \<in> opened_attempts st \<and> va_canonical_email b \<noteq> va_canonical_email a \<or> b = a \<and> attempt_open a" for b
  proof (cases "va_attempt_id b = va_attempt_id a")
    case True
    then have "b \<notin> opened_attempts st"
      using fresh by (simp add: opened_attempts_iff [OF ok] fresh_attempt_id_def)
    with True show ?thesis by (auto simp: opened_attempts_iff [OF ok'] maps(2))
  next
    case False
    then have ne: "b \<noteq> a" by auto
    have "dict_get (st_attempts ?st) (va_attempt_id b) = Some b \<and> attempt_open b \<longleftrightarrow>
        dict_get (st_attempts st) (va_attempt_id b) = Some b \<and> attempt_open b \<and>
        va_canonical_email b \<noteq> va_canonical_email a"
    proof (cases "dict_get (st_attempts st) (va_attempt_id b)")
      case (Some c)
      have "invalidate_row (va_canonical_email a) (Aware t) c = b \<and> attempt_open b \<longleftrightarrow>
          c = b \<and> attempt_open b \<and> va_canonical_email b \<noteq> va_canonical_email a"
        by (metis invalidate_row_open open_invalidate_row)
      with False Some show ?thesis by (simp add: maps(2))
    qed (simp add: maps(2) False)
    then show ?thesis using ne by (auto simp: opened_attempts_iff [OF ok'] opened_attempts_iff [OF ok])
  qed
  then show ?thesis using maps(1) ok' by blast
qed

lemma consume_memory:
  assumes ok: "attempt_store_ok st"
  shows "\<exists>r. fst (consume_email_by_digest d (Aware t) st) = Inr r \<and>
    attempt_store_ok (snd (consume_email_by_digest d (Aware t) st)) \<and>
    (case r of None \<Rightarrow> snd (consume_email_by_digest d (Aware t) st) = st \<and>
         (\<forall>a \<in> opened_attempts st. \<not> live_attempt d t a)
     | Some e \<Rightarrow> \<exists>a \<in> opened_attempts st. live_attempt d t a \<and> va_canonical_email a = e \<and>
         opened_attempts (snd (consume_email_by_digest d (Aware t) st)) \<subseteq> opened_attempts st - {a})"
proof -
  have "\<forall>a \<in> set (dict_values (st_attempts st)). is_aware (va_expires_at a)"
    using ok attempt_store_okD [OF ok] by (auto simp: attempt_store_ok_def dict_values_iff)
  from first_active_law [OF this, of d t] obtain r where
    r: "first_active d (Aware t) (dict_values (st_attempts st)) = Inr r"
      "case r of None \<Rightarrow> \<forall>a \<in> set (dict_values (st_attempts st)). \<not> (attempt_open a \<and> live_attempt d t a)
       | Some a \<Rightarrow> a \<in> set (dict_values (st_attempts st)) \<and> attempt_open a \<and> live_attempt d t a"
    by blast
  show ?thesis
  proof (cases r)
    case None
    with r ok show ?thesis by (auto simp: consume_email_by_digest_def opened_attempts_def)
  next
    case (Some a)
    let ?st = "st\<lparr>st_attempts := dict_set (va_attempt_id a) (a\<lparr>va_consumed_at := Some (Aware t)\<rparr>) (st_attempts st)\<rparr>"
    have out: "consume_email_by_digest d (Aware t) st = (Inr (Some (va_canonical_email a)), ?st)"
      using r(1) Some by (simp add: consume_email_by_digest_def)
    have a: "a \<in> opened_attempts st" "live_attempt d t a" "dict_get (st_attempts st) (va_attempt_id a) = Some a"
      using r(2) Some opened_attempts_iff [OF ok, of a] by (auto simp: opened_attempts_def)
    have get: "dict_get (st_attempts ?st) = (dict_get (st_attempts st))(va_attempt_id a \<mapsto>
        a\<lparr>va_consumed_at := Some (Aware t)\<rparr>)"
      by (simp add: dict_get_set_fun)
    have ok': "attempt_store_ok ?st"
    proof -
      have "va_attempt_id b = i \<and> is_aware (va_expires_at b) \<and>
          (attempt_open b \<longrightarrow> dict_get (st_active_ids ?st) (va_canonical_email b) = Some i)"
        if "dict_get (st_attempts ?st) i = Some b" for i b
        using that attempt_store_okD [OF ok, of i b] attempt_store_okD [OF ok a(3)]
        by (auto simp: dict_simps split: if_splits)
      moreover have "\<exists>b. dict_get (st_attempts ?st) i = Some b \<and> va_canonical_email b = e"
        if "dict_get (st_active_ids ?st) e = Some i" for e i
        using that attempt_store_ok_tracked [OF ok, of e i] a(3) by (auto simp: dict_simps)
      moreover have "dict_ok (st_attempts ?st)" using ok by (simp add: attempt_store_ok_def dict_simps)
      ultimately show ?thesis unfolding attempt_store_ok_def by blast
    qed
    have "a\<lparr>va_consumed_at := Some (Aware t)\<rparr> \<noteq> a"
      using a(1) closed_attempt(2) by (metis opened_attempts_iff [OF ok])
    then have "opened_attempts ?st \<subseteq> opened_attempts st - {a}"
      using a(3) by (auto simp: opened_attempts_iff [OF ok'] opened_attempts_iff [OF ok] dict_simps split: if_splits)
    with out ok' a show ?thesis by auto
  qed
qed

interpretation memory_attempts: attempt_repository idna save_new_attempt find_active_by_digest
  consume_email_by_digest opened_attempts fresh_attempt_id attempt_store_ok for idna
proof
  fix st a t d
  show "finite (opened_attempts st)" by (simp add: opened_attempts_def)
  assume ok: "attempt_store_ok st"
  show "fst (save_new_attempt a (Aware t) st) = Inr () \<and> attempt_store_ok (snd (save_new_attempt a (Aware t) st)) \<and>
      opened_attempts (snd (save_new_attempt a (Aware t) st)) =
        {b \<in> opened_attempts st. va_canonical_email b \<noteq> va_canonical_email a} \<union> {b. b = a \<and> attempt_open a}"
    if "make_verification_attempt idna a = Inr a" "fresh_attempt_id st (va_attempt_id a)"
    using save_new_attempt_memory [OF ok that] .
  have "\<forall>a \<in> set (dict_values (st_attempts st)). is_aware (va_expires_at a)"
    using ok attempt_store_okD [OF ok] by (auto simp: attempt_store_ok_def dict_values_iff)
  from first_active_law [OF this, of d t] obtain r where
    r: "find_active_by_digest st d (Aware t) = Inr r"
    "case r of None \<Rightarrow> \<forall>a \<in> set (dict_values (st_attempts st)). \<not> (attempt_open a \<and> live_attempt d t a)
     | Some a \<Rightarrow> a \<in> set (dict_values (st_attempts st)) \<and> attempt_open a \<and> live_attempt d t a"
    unfolding find_active_by_digest_def by blast
  have "case r of None \<Rightarrow> \<forall>a \<in> opened_attempts st. \<not> live_attempt d t a
       | Some a \<Rightarrow> a \<in> opened_attempts st \<and> live_attempt d t a"
    using r(2) by (cases r) (simp_all add: opened_attempts_def)
  with r(1) show "\<exists>r. find_active_by_digest st d (Aware t) = Inr r \<and>
      (case r of None \<Rightarrow> \<forall>a \<in> opened_attempts st. \<not> live_attempt d t a
       | Some a \<Rightarrow> a \<in> opened_attempts st \<and> live_attempt d t a)"
    by blast
qed (rule consume_memory)

section \<open>The table keeps them too\<close>

definition attempt_table_ok :: "(string \<Rightarrow> string option) \<Rightarrow> attempt_table \<Rightarrow> bool" where
  "attempt_table_ok idna rows \<longleftrightarrow> distinct (map va_attempt_id rows) \<and>
     (\<forall>r \<in> set rows. make_verification_attempt idna r = Inr r)"

definition opened_rows :: "attempt_table \<Rightarrow> verification_attempt set" where
  "opened_rows rows = {r \<in> set rows. attempt_open r}"

definition fresh_row_id :: "attempt_table \<Rightarrow> string \<Rightarrow> bool" where
  "fresh_row_id rows i \<longleftrightarrow> i \<notin> va_attempt_id ` set rows"

lemma canonical_email_fixed: "r\<lparr>va_canonical_email := e\<rparr> = r \<Longrightarrow> va_canonical_email r = e"
  by (cases r) auto

lemma make_attempt_updates:
  assumes "make_verification_attempt idna r = Inr r" "attempt_open r"
  shows "make_verification_attempt idna (r\<lparr>va_invalidated_at := Some (Aware t)\<rparr>)
      = Inr (r\<lparr>va_invalidated_at := Some (Aware t)\<rparr>)"
    and "make_verification_attempt idna (r\<lparr>va_consumed_at := Some (Aware t)\<rparr>)
      = Inr (r\<lparr>va_consumed_at := Some (Aware t)\<rparr>)"
proof -
  obtain p where p: "canonicalize_email idna (va_canonical_email r) = Inr p" "canonical_text p = va_canonical_email r"
    using assms(1) by (auto simp: make_verification_attempt_def result_simps dest!: canonical_email_fixed split: if_splits)
  then show "make_verification_attempt idna (r\<lparr>va_invalidated_at := Some (Aware t)\<rparr>)
      = Inr (r\<lparr>va_invalidated_at := Some (Aware t)\<rparr>)"
    and "make_verification_attempt idna (r\<lparr>va_consumed_at := Some (Aware t)\<rparr>)
      = Inr (r\<lparr>va_consumed_at := Some (Aware t)\<rparr>)"
    using assms by (auto simp: make_verification_attempt_def naive_option_def attempt_open_def
        attempt_is_consumed_def split: if_splits)
qed

interpretation postgres_attempts: attempt_repository idna pg_save_new_attempt
  "pg_find_active_by_digest idna" pg_consume_email_by_digest opened_rows fresh_row_id "attempt_table_ok idna" for idna
proof
  fix rows a t d
  show "finite (opened_rows rows)" by (simp add: opened_rows_def)
  assume ok: "attempt_table_ok idna rows"
  show "fst (pg_save_new_attempt a (Aware t) rows) = Inr () \<and>
      attempt_table_ok idna (snd (pg_save_new_attempt a (Aware t) rows)) \<and>
      opened_rows (snd (pg_save_new_attempt a (Aware t) rows)) =
        {b \<in> opened_rows rows. va_canonical_email b \<noteq> va_canonical_email a} \<union> {b. b = a \<and> attempt_open a}"
    if valid: "make_verification_attempt idna a = Inr a" and fresh: "fresh_row_id rows (va_attempt_id a)"
  proof -
    let ?f = "invalidate_row (va_canonical_email a) (Aware t)"
    have "\<not> list_ex (\<lambda>r. va_attempt_id r = va_attempt_id a) rows"
      using fresh by (auto simp: list_ex_iff fresh_row_id_def image_iff)
    then have out: "pg_save_new_attempt a (Aware t) rows = (Inr (), map ?f rows @ [a])"
      using make_verification_attempt_fixed [OF valid] by (auto simp: pg_save_new_attempt_def)
    have "va_attempt_id \<circ> ?f = va_attempt_id" by (simp add: fun_eq_iff)
    then have "distinct (map va_attempt_id (map ?f rows @ [a]))"
      using ok fresh by (simp add: attempt_table_ok_def fresh_row_id_def)
    moreover have "make_verification_attempt idna (?f r) = Inr (?f r)" if "r \<in> set rows" for r
      using that ok make_attempt_updates(1) by (auto simp: invalidate_row_def attempt_table_ok_def)
    ultimately have "attempt_table_ok idna (map ?f rows @ [a])"
      using valid by (auto simp: attempt_table_ok_def)
    moreover have "opened_rows (map ?f rows @ [a]) =
        {b \<in> opened_rows rows. va_canonical_email b \<noteq> va_canonical_email a} \<union> {b. b = a \<and> attempt_open a}"
      by (auto simp: opened_rows_def image_iff) (auto simp: invalidate_row_def)
    ultimately show ?thesis using out by simp
  qed
  have live: "live_row d (Aware t) r \<longleftrightarrow> attempt_open r \<and> live_attempt d t r" for r
    by (auto simp: live_row_def live_attempt_def)
  show "\<exists>r. pg_find_active_by_digest idna rows d (Aware t) = Inr r \<and>
      (case r of None \<Rightarrow> \<forall>a \<in> opened_rows rows. \<not> live_attempt d t a
       | Some a \<Rightarrow> a \<in> opened_rows rows \<and> live_attempt d t a)"
    using ok live by (auto simp: pg_find_active_by_digest_def opened_rows_def find_None_iff attempt_table_ok_def
        split: option.splits dest!: find_SomeD)
  show "\<exists>r. fst (pg_consume_email_by_digest d (Aware t) rows) = Inr r \<and>
      attempt_table_ok idna (snd (pg_consume_email_by_digest d (Aware t) rows)) \<and>
      (case r of None \<Rightarrow> snd (pg_consume_email_by_digest d (Aware t) rows) = rows \<and>
           (\<forall>a \<in> opened_rows rows. \<not> live_attempt d t a)
       | Some e \<Rightarrow> \<exists>a \<in> opened_rows rows. live_attempt d t a \<and> va_canonical_email a = e \<and>
           opened_rows (snd (pg_consume_email_by_digest d (Aware t) rows)) \<subseteq> opened_rows rows - {a})"
  proof -
    let ?f = "consume_row d (Aware t)"
    have id: "va_attempt_id (?f r) = va_attempt_id r" for r by (simp add: consume_row_def)
    then have "va_attempt_id \<circ> ?f = va_attempt_id" by (simp add: fun_eq_iff)
    moreover have "make_verification_attempt idna (?f r) = Inr (?f r)" if "r \<in> set rows" for r
      using that ok make_attempt_updates(2) live by (auto simp: consume_row_def attempt_table_ok_def)
    ultimately have ok': "attempt_table_ok idna (map ?f rows)"
      using ok by (auto simp: attempt_table_ok_def)
    show ?thesis
    proof (cases "find (live_row d (Aware t)) rows")
      case None
      then have none: "\<forall>r \<in> set rows. \<not> live_row d (Aware t) r" by (simp add: find_None_iff)
      then have "map ?f rows = rows" by (intro map_idI) (simp add: consume_row_def)
      then show ?thesis using None ok' none live
        by (auto simp: pg_consume_email_by_digest_def opened_rows_def)
    next
      case (Some r)
      then have r: "r \<in> set rows" "live_row d (Aware t) r" by (auto dest: find_SomeD)
      have "opened_rows (map ?f rows) \<subseteq> opened_rows rows - {r}"
        using r(2) by (auto simp: opened_rows_def consume_row_def split: if_splits)
      then show ?thesis using Some r ok' live
        by (auto simp: pg_consume_email_by_digest_def opened_rows_def)
    qed
  qed
qed

end
