(* ===== verification/User_Accounts.thy ===== *)
theory User_Accounts
  imports Registration
begin

text \<open>
  The user and contact tables of \<open>gateway/auth/postgres.py\<close> and their agreement with the in-memory
  user store, and the transaction that consumes an attempt and creates its user at once.  The one
  value of \<open>UserStatus\<close> is left out of the rows.
\<close>

section \<open>The tables\<close>

record user_tables =
  ut_accounts :: "user_account list"
  ut_contacts :: "email_contact list"

definition account_of :: "user_tables \<Rightarrow> string \<Rightarrow> user_account option" where
  "account_of t subject = find (\<lambda>a. ua_subject a = subject) (ut_accounts t)"

text \<open>The \<open>JOIN\<close> on the canonical address.\<close>

definition account_of_email :: "user_tables \<Rightarrow> string \<Rightarrow> user_account option" where
  "account_of_email t canonical =
     (case find (\<lambda>c. ec_canonical_email c = canonical \<and> account_of t (ec_user_subject c) \<noteq> None) (ut_contacts t) of
        None \<Rightarrow> None
      | Some c \<Rightarrow> account_of t (ec_user_subject c))"

text \<open>Both inserts with their keys and the foreign key; either failure rolls both back.\<close>

definition insert_user :: "user_account \<Rightarrow> email_contact \<Rightarrow> user_tables \<Rightarrow> unit result \<times> user_tables" where
  "insert_user a c t =
     (if list_ex (\<lambda>r. ua_subject r = ua_subject a) (ut_accounts t) \<or>
         list_ex (\<lambda>r. ec_contact_id r = ec_contact_id c \<or> ec_canonical_email r = ec_canonical_email c) (ut_contacts t) \<or>
         \<not> list_ex (\<lambda>r. ua_subject r = ec_user_subject c) (ut_accounts t @ [a])
      then (Inl attempt_integrity_error, t)
      else (Inr (), \<lparr>ut_accounts = ut_accounts t @ [a], ut_contacts = ut_contacts t @ [c]\<rparr>))"

definition pg_create_or_recover_verified_user ::
  "(string \<Rightarrow> string option) \<Rightarrow> string \<Rightarrow> string \<Rightarrow> datetime \<Rightarrow> string \<Rightarrow> datetime \<Rightarrow> user_tables
     \<Rightarrow> user_account result \<times> user_tables" where
  "pg_create_or_recover_verified_user idna fresh_subject fresh_contact created_at email_text verified_at t =
     (case canonical_email idna email_text of
        Inl e \<Rightarrow> (Inl e, t)
      | Inr canonical \<Rightarrow>
          (case account_of_email t canonical of
             Some a \<Rightarrow> (check_user_account a, t)
           | None \<Rightarrow>
               (case bind_result (check_user_account \<lparr>ua_issuer = ''platformops'', ua_subject = fresh_subject,
                       ua_created_at = created_at\<rparr>) (\<lambda>account.
                     bind_result (make_email_contact idna fresh_contact (ua_subject account) email_text verified_at)
                       (\<lambda>contact. Inr (account, contact))) of
                  Inl e \<Rightarrow> (Inl e, t)
                | Inr (account, contact) \<Rightarrow>
                    (case insert_user account contact t of
                       (Inl e, t') \<Rightarrow> (Inl e, t')
                     | (Inr _, t') \<Rightarrow> (Inr account, t')))))"

section \<open>Consuming an attempt and creating its user\<close>

definition pg_get_attempt ::
  "(string \<Rightarrow> string option) \<Rightarrow> attempt_table \<Rightarrow> string \<Rightarrow> verification_attempt option result" where
  "pg_get_attempt idna rows attempt_id =
     (case find (\<lambda>r. va_attempt_id r = attempt_id) rows of
        None \<Rightarrow> Inr None
      | Some r \<Rightarrow> bind_result (make_verification_attempt idna r) (\<lambda>a. Inr (Some a)))"

definition consume_attempt_row :: "string \<Rightarrow> string \<Rightarrow> datetime \<Rightarrow> verification_attempt \<Rightarrow> verification_attempt" where
  "consume_attempt_row attempt_id digest now r =
     (if va_attempt_id r = attempt_id then consume_row digest now r else r)"

text \<open>One transaction: when creating the user fails, the attempt is not consumed either.\<close>

definition consume_attempt_create_or_recover_user ::
  "(string \<Rightarrow> string option) \<Rightarrow> string \<Rightarrow> string \<Rightarrow> datetime \<Rightarrow> string \<Rightarrow> string \<Rightarrow> datetime
     \<Rightarrow> attempt_table \<times> user_tables \<Rightarrow> user_account option result \<times> attempt_table \<times> user_tables" where
  "consume_attempt_create_or_recover_user idna fresh_subject fresh_contact created_at attempt_id digest now =
     (\<lambda>(rows, t).
       case find (\<lambda>r. va_attempt_id r = attempt_id \<and> live_row digest now r) rows of
         None \<Rightarrow> (Inr None, rows, t)
       | Some r \<Rightarrow>
           (case pg_create_or_recover_verified_user idna fresh_subject fresh_contact created_at
                   (va_canonical_email r) now t of
              (Inl e, _) \<Rightarrow> (Inl e, rows, t)
            | (Inr a, t') \<Rightarrow> (Inr (Some a), map (consume_attempt_row attempt_id digest now) rows, t')))"

section \<open>The tables refine the in-memory store\<close>

text \<open>The store's dictionaries read as maps are the tables read by key.\<close>

definition users_match :: "user_tables \<Rightarrow> user_store \<Rightarrow> bool" where
  "users_match t m \<longleftrightarrow>
     (\<forall>s. dict_get (us_accounts m) s = account_of t s) \<and>
     (\<forall>e. dict_get (us_contacts m) e = find (\<lambda>c. ec_canonical_email c = e) (ut_contacts t)) \<and>
     (\<forall>c \<in> set (ut_contacts t). account_of t (ec_user_subject c) \<noteq> None) \<and>
     (\<forall>a \<in> set (ut_accounts t). check_user_account a = Inr a)"

definition fresh_user :: "user_tables \<Rightarrow> string \<Rightarrow> string \<Rightarrow> bool" where
  "fresh_user t subject contact_id \<longleftrightarrow>
     subject \<notin> ua_subject ` set (ut_accounts t) \<and> contact_id \<notin> ec_contact_id ` set (ut_contacts t)"

lemma make_email_contact_Inr:
  "make_email_contact idna i s e v = Inr c \<Longrightarrow> canonical_email idna e = Inr (ec_canonical_email c) \<and>
     ec_contact_id c = i \<and> ec_user_subject c = s"
  by (auto simp: make_email_contact_def canonical_email_def result_simps split: if_splits)

lemma check_user_account_Inr: "check_user_account a = Inr b \<Longrightarrow> b = a"
  by (auto simp: check_user_account_def split: if_splits)

lemma match_account_of_email:
  assumes "users_match t m"
  shows "account_of_email t e = (case dict_get (us_contacts m) e of None \<Rightarrow> None
    | Some c \<Rightarrow> dict_get (us_accounts m) (ec_user_subject c))"
proof -
  have "find (\<lambda>c. ec_canonical_email c = e \<and> account_of t (ec_user_subject c) \<noteq> None) (ut_contacts t) =
      find (\<lambda>c. ec_canonical_email c = e) (ut_contacts t)"
    using assms by (intro find_cong) (auto simp: users_match_def)
  then show ?thesis using assms by (simp add: account_of_email_def users_match_def split: option.splits)
qed

lemma match_insert:
  assumes match: "users_match t m" and fresh: "fresh_user t (ua_subject a) (ec_contact_id c)"
    and "ec_user_subject c = ua_subject a" "check_user_account a = Inr a"
    and absent: "dict_get (us_contacts m) (ec_canonical_email c) = None"
  shows "\<exists>t'. insert_user a c t = (Inr (), t') \<and>
    users_match t' \<lparr>us_accounts = dict_set (ua_subject a) a (us_accounts m),
      us_contacts = dict_set (ec_canonical_email c) c (us_contacts m)\<rparr>"
proof -
  let ?t = "\<lparr>ut_accounts = ut_accounts t @ [a], ut_contacts = ut_contacts t @ [c]\<rparr>"
  have new: "account_of t (ua_subject a) = None"
    using fresh by (auto simp: account_of_def fresh_user_def find_None_iff image_iff)
  have nocontact: "find (\<lambda>r. ec_canonical_email r = ec_canonical_email c) (ut_contacts t) = None"
    using match absent by (simp add: users_match_def)
  have acc: "account_of ?t s = (if s = ua_subject a then Some a else account_of t s)" for s
    using new by (auto simp: account_of_def find_append split: option.splits)
  have "insert_user a c t = (Inr (), ?t)"
    using fresh nocontact assms(3)
    by (auto simp: insert_user_def fresh_user_def list_ex_iff find_None_iff image_iff)
  moreover have "users_match ?t \<lparr>us_accounts = dict_set (ua_subject a) a (us_accounts m),
      us_contacts = dict_set (ec_canonical_email c) c (us_contacts m)\<rparr>"
    using match assms(3,4) nocontact
    by (auto simp: users_match_def acc dict_simps find_append split: option.splits)
  ultimately show ?thesis by blast
qed

text \<open>
  C37. The durable user repository refines the in-memory one: when tables and store hold the same
  accounts and contacts, creating or recovering the user of any address with unused generated
  ids gives the same account, or the same error, and leaves tables and store in agreement.
\<close>

theorem postgres_users_refine_memory:
  assumes "users_match t m" "fresh_user t subject contact_id"
  shows "fst (pg_create_or_recover_verified_user idna subject contact_id created e now t) =
      fst (create_or_recover_verified_user idna subject contact_id created e now m) \<and>
    users_match (snd (pg_create_or_recover_verified_user idna subject contact_id created e now t))
      (snd (create_or_recover_verified_user idna subject contact_id created e now m))"
proof (cases "canonical_email idna e")
  case (Inl x)
  with assms show ?thesis
    by (simp add: pg_create_or_recover_verified_user_def create_or_recover_verified_user_def)
next
  case (Inr canonical)
  show ?thesis
  proof (cases "dict_get (us_contacts m) canonical")
    case (Some c)
    then have "c \<in> set (ut_contacts t)"
      using assms(1) by (auto simp: users_match_def dest!: find_SomeD)
    then obtain a where a: "account_of t (ec_user_subject c) = Some a" "check_user_account a = Inr a"
      using assms(1) unfolding users_match_def account_of_def by (metis find_SomeD option.exhaust)
    then have "dict_get (us_accounts m) (ec_user_subject c) = Some a"
      using assms(1) by (simp add: users_match_def)
    with Some Inr a assms(1) show ?thesis
      by (simp add: pg_create_or_recover_verified_user_def create_or_recover_verified_user_def
          match_account_of_email [OF assms(1)])
  next
    case None
    let ?made = "bind_result (check_user_account \<lparr>ua_issuer = ''platformops'', ua_subject = subject,
        ua_created_at = created\<rparr>) (\<lambda>account. bind_result (make_email_contact idna contact_id (ua_subject account) e now)
          (\<lambda>contact. Inr (account, contact)))"
    show ?thesis
    proof (cases ?made)
      case (Inl x)
      with Inr None assms(1) show ?thesis
        by (simp add: pg_create_or_recover_verified_user_def create_or_recover_verified_user_def
            match_account_of_email [OF assms(1)])
    next
      case (Inr p)
      then obtain a c where p: "p = (a, c)"
        "check_user_account \<lparr>ua_issuer = ''platformops'', ua_subject = subject, ua_created_at = created\<rparr> = Inr a"
        "make_email_contact idna contact_id (ua_subject a) e now = Inr c"
        by (auto simp: result_simps)
      note a = check_user_account_Inr [OF p(2)]
      note c = make_email_contact_Inr [OF p(3)]
      have canon: "ec_canonical_email c = canonical" using c \<open>canonical_email idna e = Inr canonical\<close> by simp
      obtain t' where "insert_user a c t = (Inr (), t')"
        "users_match t' \<lparr>us_accounts = dict_set (ua_subject a) a (us_accounts m),
          us_contacts = dict_set canonical c (us_contacts m)\<rparr>"
        using match_insert [OF assms(1), of a c] assms(2) a c None p(2) canon by auto
      then show ?thesis
        using \<open>canonical_email idna e = Inr canonical\<close> None Inr p(1)
        by (simp add: pg_create_or_recover_verified_user_def create_or_recover_verified_user_def
            match_account_of_email [OF assms(1)])
    qed
  qed
qed

theorem postgres_users_refine_memory_witness:
  "users_match \<lparr>ut_accounts = [], ut_contacts = []\<rparr> \<lparr>us_accounts = [], us_contacts = []\<rparr> \<and>
   fst (pg_create_or_recover_verified_user (\<lambda>_. None) ''usr_1'' ''contact_1'' (Aware 0) ''a@b.c'' (Aware 0)
       \<lparr>ut_accounts = [], ut_contacts = []\<rparr>) =
     fst (create_or_recover_verified_user (\<lambda>_. None) ''usr_1'' ''contact_1'' (Aware 0) ''a@b.c'' (Aware 0)
       \<lparr>us_accounts = [], us_contacts = []\<rparr>)"
  using postgres_users_refine_memory [of "\<lparr>ut_accounts = [], ut_contacts = []\<rparr>"
      "\<lparr>us_accounts = [], us_contacts = []\<rparr>" "''usr_1''" "''contact_1''" "\<lambda>_. None" "Aware 0" "''a@b.c''" "Aware 0"]
  by (simp add: users_match_def fresh_user_def account_of_def dict_simps)

section \<open>A mailbox keeps its account\<close>

text \<open>
  A verified mailbox has one account for good: once an address has been given an account, every
  address with the same canonical form is given that account again, whatever ids and times are
  generated, and nothing is stored.
\<close>

theorem mailbox_keeps_its_account:
  assumes "create_or_recover_verified_user idna s i created e now st = (Inr a, st')"
    and "canonical_email idna e' = canonical_email idna e"
    and "\<forall>x c. dict_get (us_contacts st) x = Some c \<longrightarrow> dict_get (us_accounts st) (ec_user_subject c) \<noteq> None"
  shows "create_or_recover_verified_user idna s' i' created' e' now' st' = (Inr a, st')"
proof -
  obtain canonical where canon: "canonical_email idna e = Inr canonical"
    using assms(1) by (auto simp: create_or_recover_verified_user_def split: sum.splits)
  show ?thesis
  proof (cases "dict_get (us_contacts st) canonical")
    case (Some c)
    then show ?thesis
      using assms canon by (auto simp: create_or_recover_verified_user_def split: option.splits)
  next
    case None
    then obtain c where c: "make_email_contact idna i (ua_subject a) e now = Inr c"
      and st': "st' = \<lparr>us_accounts = dict_set (ua_subject a) a (us_accounts st),
        us_contacts = dict_set canonical c (us_contacts st)\<rparr>"
      using assms(1) canon
      by (auto simp: create_or_recover_verified_user_def result_simps split: sum.splits)
    show ?thesis
      using make_email_contact_Inr [OF c] assms(2) canon
      by (simp add: create_or_recover_verified_user_def st' dict_simps)
  qed
qed

theorem mailbox_keeps_its_account_witness:
  "\<exists>a st'. create_or_recover_verified_user (\<lambda>_. None) ''usr_1'' ''contact_1'' (Aware 0) ''a@B.c'' (Aware 0)
      \<lparr>us_accounts = [], us_contacts = []\<rparr> = (Inr a, st') \<and>
     create_or_recover_verified_user (\<lambda>_. None) ''usr_2'' ''contact_2'' (Aware 1) '' a@b.c'' (Aware 1) st' = (Inr a, st')"
proof -
  have "is_Inr (fst (create_or_recover_verified_user (\<lambda>_. None) ''usr_1'' ''contact_1'' (Aware 0) ''a@B.c'' (Aware 0)
      \<lparr>us_accounts = [], us_contacts = []\<rparr>))"
    by code_simp
  then have "\<exists>a st'. create_or_recover_verified_user (\<lambda>_. None) ''usr_1'' ''contact_1'' (Aware 0) ''a@B.c'' (Aware 0)
      \<lparr>us_accounts = [], us_contacts = []\<rparr> = (Inr a, st')"
    by (metis is_Inr_iff prod.collapse)
  then obtain a st' where first: "create_or_recover_verified_user (\<lambda>_. None) ''usr_1'' ''contact_1'' (Aware 0)
      ''a@B.c'' (Aware 0) \<lparr>us_accounts = [], us_contacts = []\<rparr> = (Inr a, st')"
    by blast
  moreover have "canonical_email (\<lambda>_. None) '' a@b.c'' = canonical_email (\<lambda>_. None) ''a@B.c''" by code_simp
  ultimately show ?thesis
    using mailbox_keeps_its_account [OF first, of "'' a@b.c''" "''usr_2''" "''contact_2''" "Aware 1" "Aware 1"]
    by (auto simp: dict_simps)
qed

end
