(* ===== verification/Rate_Limiter.thy ===== *)
theory Rate_Limiter
  imports Platform_Prelude
begin

text \<open>
  The in-memory registration rate limiter of \<open>gateway/auth/registration.py\<close>: a sliding window per
  canonical address and per source.  The code prunes a key's list when it next accepts a request
  of that key; the reference keeps every accepted request and counts those inside the window.
\<close>

section \<open>The limiter\<close>

record rate_limiter =
  rl_max_per_email :: int
  rl_max_per_source :: int
  rl_window :: int
  rl_email_attempts :: "(string, datetime list) dict"
  rl_source_attempts :: "(string, datetime list) dict"

definition make_rate_limiter :: "int \<Rightarrow> int \<Rightarrow> int \<Rightarrow> rate_limiter" where
  "make_rate_limiter max_per_email max_per_source window_seconds =
     \<lparr>rl_max_per_email = max_per_email, rl_max_per_source = max_per_source, rl_window = window_seconds,
      rl_email_attempts = [], rl_source_attempts = []\<rparr>"

text \<open>\<open>[attempt for attempt in attempts.get(key, []) if attempt + window > now]\<close>; comparing an
  aware with a naive time raises.\<close>

fun keep_recent :: "int \<Rightarrow> datetime \<Rightarrow> datetime list \<Rightarrow> datetime list result" where
  "keep_recent window now [] = Inr []"
| "keep_recent window now (a # as) =
     bind_result (dt_less now (dt_add_seconds a window)) (\<lambda>recent.
       bind_result (keep_recent window now as) (\<lambda>rest. Inr (if recent then a # rest else rest)))"

definition recent_attempts ::
  "int \<Rightarrow> (string, datetime list) dict \<Rightarrow> string \<Rightarrow> datetime \<Rightarrow> datetime list result" where
  "recent_attempts window attempts key now =
     keep_recent window now (case dict_get attempts key of None \<Rightarrow> [] | Some as \<Rightarrow> as)"

definition truthy_source :: "string option \<Rightarrow> string option" where
  "truthy_source source = (case source of Some [] \<Rightarrow> None | _ \<Rightarrow> source)"

definition rate_allow ::
  "string \<Rightarrow> string option \<Rightarrow> datetime \<Rightarrow> rate_limiter \<Rightarrow> bool result \<times> rate_limiter" where
  "rate_allow canonical_email source now st =
     (case bind_result (recent_attempts (rl_window st) (rl_email_attempts st) canonical_email now) (\<lambda>emails.
             bind_result (case truthy_source source of None \<Rightarrow> Inr []
                | Some s \<Rightarrow> recent_attempts (rl_window st) (rl_source_attempts st) s now) (\<lambda>sources.
               Inr (emails, sources))) of
        Inl e \<Rightarrow> (Inl e, st)
      | Inr (emails, sources) \<Rightarrow>
          if rl_max_per_email st \<le> int (length emails) \<or> rl_max_per_source st \<le> int (length sources)
          then (Inr False, st)
          else (Inr True, st\<lparr>rl_email_attempts := dict_set canonical_email (emails @ [now]) (rl_email_attempts st),
                  rl_source_attempts := (case truthy_source source of None \<Rightarrow> rl_source_attempts st
                     | Some s \<Rightarrow> dict_set s (sources @ [now]) (rl_source_attempts st))\<rparr>))"

text \<open>A sequence of requests: address, source, and the time in microseconds.\<close>

type_synonym rate_request = "string \<times> string option \<times> int"

fun request_time :: "rate_request \<Rightarrow> int" where
  "request_time (email_text, source, t) = t"

fun limit_run :: "rate_limiter \<Rightarrow> rate_request list \<Rightarrow> bool result list" where
  "limit_run st [] = []"
| "limit_run st ((email_text, source, t) # rs) =
     (case rate_allow email_text source (Aware t) st of (r, st') \<Rightarrow> r # limit_run st' rs)"

section \<open>The reference\<close>

definition inside :: "int \<Rightarrow> int \<Rightarrow> int \<Rightarrow> bool" where
  "inside window t u \<longleftrightarrow> t < u + window * 1000000"

definition email_times :: "string \<Rightarrow> rate_request list \<Rightarrow> int list" where
  "email_times key log = map request_time (filter (\<lambda>(e, _, _). e = key) log)"

definition source_times :: "string \<Rightarrow> rate_request list \<Rightarrow> int list" where
  "source_times key log = map request_time (filter (\<lambda>(_, s, _). truthy_source s = Some key) log)"

definition reference_allows :: "rate_limiter \<Rightarrow> rate_request list \<Rightarrow> rate_request \<Rightarrow> bool" where
  "reference_allows lim log = (\<lambda>(email_text, source, t).
     int (length (filter (inside (rl_window lim) t) (email_times email_text log))) < rl_max_per_email lim \<and>
     (case truthy_source source of None \<Rightarrow> 0
      | Some s \<Rightarrow> int (length (filter (inside (rl_window lim) t) (source_times s log)))) < rl_max_per_source lim)"

fun reference_run :: "rate_limiter \<Rightarrow> rate_request list \<Rightarrow> rate_request list \<Rightarrow> bool list" where
  "reference_run lim log [] = []"
| "reference_run lim log (r # rs) =
     reference_allows lim log r # reference_run lim (if reference_allows lim log r then log @ [r] else log) rs"

section \<open>The pruned lists agree with the whole log\<close>

lemma length_filter_mono: "(\<And>x. P x \<Longrightarrow> Q x) \<Longrightarrow> length (filter P xs) \<le> length (filter Q xs)"
  by (induction xs) auto

lemma keep_recent_Aware:
  "keep_recent window (Aware t) (map Aware us) = Inr (map Aware (filter (inside window t) us))"
  by (induction us) (auto simp: inside_def)

lemma filter_inside_later:
  "t \<le> t' \<Longrightarrow> filter (\<lambda>u. inside w t u \<and> inside w t' u) us = filter (inside w t') us"
  by (induction us) (auto simp: inside_def)

text \<open>From time \<open>T\<close> on, a pruned list and the whole list have the same recent entries.\<close>

definition agrees :: "int \<Rightarrow> int \<Rightarrow> (string, datetime list) dict \<Rightarrow> (string \<Rightarrow> int list) \<Rightarrow> bool" where
  "agrees w T d f \<longleftrightarrow> (\<forall>k. \<exists>us. (case dict_get d k of None \<Rightarrow> [] | Some as \<Rightarrow> as) = map Aware us \<and>
     (\<forall>t \<ge> T. filter (inside w t) us = filter (inside w t) (f k)))"

lemma agrees_recent:
  assumes "agrees w T d f" "T \<le> t"
  shows "recent_attempts w d k (Aware t) = Inr (map Aware (filter (inside w t) (f k)))"
proof -
  obtain us where us: "(case dict_get d k of None \<Rightarrow> [] | Some as \<Rightarrow> as) = map Aware us"
    "\<forall>t \<ge> T. filter (inside w t) us = filter (inside w t) (f k)"
    using assms(1) unfolding agrees_def by blast
  show ?thesis using us(2) assms(2) by (simp add: recent_attempts_def us(1) keep_recent_Aware)
qed

lemma agrees_later: "agrees w T d f \<Longrightarrow> T \<le> t \<Longrightarrow> agrees w t d f"
  unfolding agrees_def by (meson order_trans)

lemma agrees_accept:
  assumes "agrees w T d f" "T \<le> t"
  shows "agrees w t (dict_set k (map Aware (filter (inside w t) (f k)) @ [Aware t]) d) (f(k := f k @ [t]))"
  unfolding agrees_def
proof
  fix k'
  show "\<exists>us. (case dict_get (dict_set k (map Aware (filter (inside w t) (f k)) @ [Aware t]) d) k' of
      None \<Rightarrow> [] | Some as \<Rightarrow> as) = map Aware us \<and>
     (\<forall>t' \<ge> t. filter (inside w t') us = filter (inside w t') ((f(k := f k @ [t])) k'))"
  proof (cases "k' = k")
    case True
    have "\<forall>t' \<ge> t. filter (inside w t') (filter (inside w t) (f k) @ [t]) = filter (inside w t') (f k @ [t])"
      by (simp add: filter_inside_later)
    then show ?thesis using True
      by (intro exI [of _ "filter (inside w t) (f k) @ [t]"]) (simp add: dict_simps)
  next
    case False
    obtain us where "(case dict_get d k' of None \<Rightarrow> [] | Some as \<Rightarrow> as) = map Aware us"
      "\<forall>t \<ge> T. filter (inside w t) us = filter (inside w t) (f k')"
      using assms(1) unfolding agrees_def by blast
    then show ?thesis using False assms(2) by (intro exI [of _ us]) (simp add: dict_simps)
  qed
qed

text \<open>The limits are those of \<open>lim\<close>, and both dictionaries agree with the log.\<close>

definition limiter_agrees :: "rate_limiter \<Rightarrow> int \<Rightarrow> rate_limiter \<Rightarrow> rate_request list \<Rightarrow> bool" where
  "limiter_agrees lim T st log \<longleftrightarrow>
     rl_max_per_email st = rl_max_per_email lim \<and> rl_max_per_source st = rl_max_per_source lim \<and>
     rl_window st = rl_window lim \<and>
     agrees (rl_window lim) T (rl_email_attempts st) (\<lambda>k. email_times k log) \<and>
     agrees (rl_window lim) T (rl_source_attempts st) (\<lambda>k. source_times k log)"

lemma email_times_snoc:
  "(\<lambda>k. email_times k (log @ [(e, s, t)])) = (\<lambda>k. email_times k log)(e := email_times e log @ [t])"
  by (auto simp: email_times_def fun_eq_iff)

lemma source_times_snoc:
  "(\<lambda>k. source_times k (log @ [(e, s, t)])) =
     (case truthy_source s of None \<Rightarrow> (\<lambda>k. source_times k log)
      | Some k \<Rightarrow> (\<lambda>k. source_times k log)(k := source_times k log @ [t]))"
  by (auto simp: source_times_def fun_eq_iff split: option.splits)

lemma rate_allow_step:
  assumes "limiter_agrees lim T st log" "T \<le> t"
  shows "fst (rate_allow e s (Aware t) st) = Inr (reference_allows lim log (e, s, t)) \<and>
    limiter_agrees lim t (snd (rate_allow e s (Aware t) st))
      (if reference_allows lim log (e, s, t) then log @ [(e, s, t)] else log)"
proof -
  let ?w = "rl_window lim"
  have lim: "rl_max_per_email st = rl_max_per_email lim" "rl_max_per_source st = rl_max_per_source lim"
    "rl_window st = ?w"
    and ag: "agrees ?w T (rl_email_attempts st) (\<lambda>k. email_times k log)"
      "agrees ?w T (rl_source_attempts st) (\<lambda>k. source_times k log)"
    using assms(1) by (auto simp: limiter_agrees_def)
  note recents = agrees_recent [OF ag(1) assms(2)] agrees_recent [OF ag(2) assms(2)]
  show ?thesis
  proof (cases "truthy_source s")
    case None
    then show ?thesis
      using agrees_accept [OF ag(1) assms(2)] agrees_later [OF ag(1) assms(2)] agrees_later [OF ag(2) assms(2)]
      by (simp add: rate_allow_def recents lim limiter_agrees_def reference_allows_def email_times_snoc
          source_times_snoc not_le)
  next
    case (Some k)
    then show ?thesis
      using agrees_accept [OF ag(1) assms(2)] agrees_accept [OF ag(2) assms(2)]
        agrees_later [OF ag(1) assms(2)] agrees_later [OF ag(2) assms(2)]
      by (simp add: rate_allow_def recents lim limiter_agrees_def reference_allows_def email_times_snoc
          source_times_snoc not_le)
  qed
qed

lemma limit_run_reference:
  assumes "limiter_agrees lim T st log" "sorted (T # map request_time rs)"
  shows "limit_run st rs = map Inr (reference_run lim log rs)"
  using assms
proof (induction rs arbitrary: st log T)
  case (Cons r rs)
  obtain e s t where r: "r = (e, s, t)" by (cases r)
  have "T \<le> t" "sorted (t # map request_time rs)" using Cons.prems(2) r by auto
  then have step: "fst (rate_allow e s (Aware t) st) = Inr (reference_allows lim log (e, s, t))"
    "limit_run (snd (rate_allow e s (Aware t) st)) rs =
      map Inr (reference_run lim (if reference_allows lim log (e, s, t) then log @ [(e, s, t)] else log) rs)"
    using rate_allow_step [OF Cons.prems(1), of t e s] Cons.IH by blast+
  then show ?case by (simp add: r split_beta)
qed simp

lemma limit_run_from_start:
  assumes "sorted (map request_time rs)"
  shows "limit_run (make_rate_limiter m n w) rs = map Inr (reference_run (make_rate_limiter m n w) [] rs)"
proof (cases rs)
  case (Cons r rs')
  have "limiter_agrees (make_rate_limiter m n w) (request_time r) (make_rate_limiter m n w) []"
    by (simp add: limiter_agrees_def make_rate_limiter_def agrees_def dict_simps email_times_def source_times_def)
  from limit_run_reference [OF this, of rs] show ?thesis
    using assms Cons by auto
qed simp

text \<open>
  C36. The rate limiter is the sliding-window limiter: for any sequence of requests whose times never
  go back, the pruned per-key lists give exactly the decisions of the reference that counts, for
  each request, all the accepted requests of its address and of its source inside the window.
\<close>

theorem rate_limiter_is_sliding_window:
  assumes "sorted (map request_time rs)"
  shows "limit_run (make_rate_limiter m n w) rs = map Inr (reference_run (make_rate_limiter m n w) [] rs)"
  using assms by (rule limit_run_from_start)

theorem rate_limiter_is_sliding_window_witness:
  "limit_run (make_rate_limiter 1 10 1) [(''a@b'', None, 0), (''a@b'', None, 5), (''a@b'', None, 1000000)]
     = [Inr True, Inr False, Inr True]"
  using rate_limiter_is_sliding_window [of "[(''a@b'', None, 0), (''a@b'', None, 5), (''a@b'', None, 1000000)]" 1 10 1]
  by (simp add: reference_allows_def make_rate_limiter_def email_times_def source_times_def inside_def
      truthy_source_def)

section \<open>The bound a caller can rely on\<close>

definition accepted_in :: "int \<Rightarrow> int \<Rightarrow> string \<Rightarrow> (rate_request \<times> bool result) list \<Rightarrow> (rate_request \<times> bool result) list" where
  "accepted_in lo hi key decided =
     filter (\<lambda>((e, _, u), d). e = key \<and> d = Inr True \<and> lo < u \<and> u \<le> hi) decided"

lemma reference_run_bound:
  assumes "sorted (T # map request_time rs)" "\<forall>r \<in> set log. request_time r \<le> T"
    and "\<forall>t. int (length (filter (\<lambda>u. t - rl_window lim * 1000000 < u \<and> u \<le> t) (email_times k log))) \<le> max 0 (rl_max_per_email lim)"
  shows "int (length (filter (\<lambda>u. t - rl_window lim * 1000000 < u \<and> u \<le> t) (email_times k log)) +
      length (accepted_in (t - rl_window lim * 1000000) t k (zip rs (map Inr (reference_run lim log rs)))))
    \<le> max 0 (rl_max_per_email lim)"
  using assms
proof (induction rs arbitrary: log T)
  case Nil
  then show ?case by (simp add: accepted_in_def)
next
  case (Cons r rs)
  obtain e s u where r: "r = (e, s, u)" by (cases r)
  let ?W = "rl_window lim * 1000000"
  let ?ok = "reference_allows lim log (e, s, u)"
  let ?log = "if ?ok then log @ [(e, s, u)] else log"
  have times: "T \<le> u" "sorted (u # map request_time rs)" using Cons.prems(1) r by auto
  have old: "\<forall>r \<in> set ?log. request_time r \<le> u" using Cons.prems(2) times(1) by auto
  have split: "int (length (filter (\<lambda>v. t - ?W < v \<and> v \<le> t) (email_times k ?log))) =
      int (length (filter (\<lambda>v. t - ?W < v \<and> v \<le> t) (email_times k log))) +
      (if ?ok \<and> e = k \<and> t - ?W < u \<and> u \<le> t then 1 else 0)" for t
    by (simp add: email_times_def)
  have "int (length (filter (\<lambda>v. t - ?W < v \<and> v \<le> t) (email_times k ?log))) \<le> max 0 (rl_max_per_email lim)" for t
  proof (cases "?ok \<and> e = k \<and> t - ?W < u \<and> u \<le> t")
    case True
    have "length (filter (\<lambda>v. t - ?W < v \<and> v \<le> t) (email_times k log))
        \<le> length (filter (inside (rl_window lim) u) (email_times k log))"
      by (rule length_filter_mono) (use True in \<open>auto simp: inside_def\<close>)
    moreover have "int (length (filter (inside (rl_window lim) u) (email_times k log))) < rl_max_per_email lim"
      using True by (auto simp: reference_allows_def)
    moreover note split [of t, unfolded if_P [OF True]]
    ultimately show ?thesis by linarith
  next
    case False
    note split [of t, unfolded if_not_P [OF False]]
    with Cons.prems(3) show ?thesis by simp
  qed
  from Cons.IH [OF times(2) old] this
  have ih: "int (length (filter (\<lambda>v. t - ?W < v \<and> v \<le> t) (email_times k ?log)) +
      length (accepted_in (t - ?W) t k (zip rs (map Inr (reference_run lim ?log rs))))) \<le> max 0 (rl_max_per_email lim)"
    by blast
  have "int (length (accepted_in (t - ?W) t k (zip (r # rs) (map Inr (reference_run lim log (r # rs)))))) =
      int (length (accepted_in (t - ?W) t k (zip rs (map Inr (reference_run lim ?log rs))))) +
      (if ?ok \<and> e = k \<and> t - ?W < u \<and> u \<le> t then 1 else 0)"
    by (auto simp: r accepted_in_def)
  with ih split [of t] show ?case by linarith
qed

text \<open>
  However the requests of one address are spread, at most \<open>max_per_email\<close> of them are accepted in
  any stretch of time of the window's length.
\<close>

theorem accepted_requests_bounded:
  assumes "sorted (map request_time rs)"
  shows "int (length (accepted_in (t - w * 1000000) t k (zip rs (limit_run (make_rate_limiter m n w) rs)))) \<le> max 0 m"
proof (cases rs)
  case Nil
  then show ?thesis by (simp add: accepted_in_def)
next
  case (Cons r rs')
  have run: "limit_run (make_rate_limiter m n w) rs = map Inr (reference_run (make_rate_limiter m n w) [] rs)"
    using assms by (rule limit_run_from_start)
  have "sorted (request_time r # map request_time rs)" using assms Cons by auto
  from reference_run_bound [OF this, of "[]" "make_rate_limiter m n w" k t] show ?thesis
    by (simp add: run) (simp add: email_times_def make_rate_limiter_def)
qed

theorem accepted_requests_bounded_witness:
  "int (length (accepted_in (5 - 1 * 1000000) 5 ''a@b'' (zip [(''a@b'', None, 0), (''a@b'', None, 5)]
     (limit_run (make_rate_limiter 1 10 1) [(''a@b'', None, 0), (''a@b'', None, 5)])))) \<le> max 0 1"
  by (rule accepted_requests_bounded) simp

end
