(* ===== verification/Oidc_Login.thy ===== *)
theory Oidc_Login
  imports Scope_Resolution Json_Text
begin

text \<open>
  Logging in through an identity provider: the claims of \<open>gateway/auth/claims.py\<close>, the sessions
  of \<open>gateway/auth/sessions.py\<close>, the device-code primitives of \<open>gateway/auth/login.py\<close> and the
  login loop of \<open>gateway/auth/cli.py\<close>.  The JWT library, HTTP, the clock and the session file are
  arguments: functions over a state of the outside world.
\<close>

section \<open>Identity tokens\<close>

record oidc_claims =
  oc_sub :: string
  oc_email :: string
  oc_groups :: "string list"
  oc_oid :: "string option"

record jwk =
  jk_key_id :: "string option"
  jk_algorithm :: string
  jk_key :: string

text \<open>The claims the code reads of a decoded payload; a claim of another type than these is a
  validation error of the library that reads them.\<close>

record id_payload =
  pl_sub :: "string option"
  pl_email :: "string option"
  pl_groups :: "string list option"
  pl_oid :: "string option"

text \<open>\<open>jwt.get_unverified_header(token).get("kid")\<close>, \<open>jwt.PyJWKSet.from_dict(jwks).keys\<close>, and
  \<open>jwt.decode\<close> of a token with a key, the accepted algorithms, an issuer and an audience.\<close>

record 'jwks oidc_library =
  ol_kid :: "string \<Rightarrow> string option result"
  ol_keys :: "'jwks \<Rightarrow> jwk list result"
  ol_decode :: "string \<Rightarrow> string \<Rightarrow> string list \<Rightarrow> string \<Rightarrow> string \<Rightarrow> id_payload result"

definition allowed_algorithms :: "string list" where
  "allowed_algorithms = [''RS256'', ''ES256'']"

definition repr_option :: "string option \<Rightarrow> string" where
  "repr_option v = (case v of None \<Rightarrow> ''None'' | Some s \<Rightarrow> py_repr s)"

definition parse_id_token ::
  "'jwks oidc_library \<Rightarrow> string \<Rightarrow> 'jwks \<Rightarrow> string \<Rightarrow> string \<Rightarrow> oidc_claims result" where
  "parse_id_token lib token jwks issuer audience =
     bind_result (ol_kid lib token) (\<lambda>kid.
     bind_result (ol_keys lib jwks) (\<lambda>keys.
       case find (\<lambda>k. jk_key_id k = kid) keys of
         None \<Rightarrow> Inl (InvalidTokenError (''no key in jwks matches kid='' @ repr_option kid))
       | Some key \<Rightarrow>
           if jk_algorithm key \<notin> set allowed_algorithms
           then Inl (InvalidTokenError (''kid='' @ repr_option kid @ '' declares alg='' @ py_repr (jk_algorithm key) @
                  '', not in the allowed set ['' @ join_with '', '' (map py_repr [''ES256'', ''RS256'']) @ '']''))
           else bind_result (ol_decode lib token (jk_key key) [jk_algorithm key] issuer audience) (\<lambda>payload.
             if falsy_text (pl_email payload)
             then Inl (InvalidTokenError ''id token is missing the required 'email' claim'')
             else (case pl_sub payload of
                 None \<Rightarrow> Inl (KeyError ''sub'')
               | Some sub \<Rightarrow> Inr \<lparr>oc_sub = sub, oc_email = the (pl_email payload),
                   oc_groups = (case pl_groups payload of None \<Rightarrow> [] | Some gs \<Rightarrow> gs), oc_oid = pl_oid payload\<rparr>))))"

section \<open>Actor sessions (gateway/auth/sessions.py)\<close>

record actor_session =
  as_session_id :: string
  as_actor :: actor
  as_groups :: "string list"
  as_created_at :: datetime
  as_expires_at :: datetime

definition build_actor_session ::
  "oidc_claims \<Rightarrow> execution_grant list \<Rightarrow> approval_grant list \<Rightarrow> int \<Rightarrow> string \<Rightarrow> datetime \<Rightarrow> actor_session" where
  "build_actor_session claims execution_grants approval_grants ttl_seconds fresh_id issued_at =
     \<lparr>as_session_id = fresh_id,
      as_actor = \<lparr>a_user_id = oc_sub claims, a_email = oc_email claims, a_execution_grants = execution_grants,
        a_approval_grants = approval_grants, a_resolved_at = issued_at\<rparr>,
      as_groups = oc_groups claims, as_created_at = issued_at,
      as_expires_at = dt_add_seconds issued_at ttl_seconds\<rparr>"

definition session_is_expired :: "actor_session \<Rightarrow> datetime \<Rightarrow> bool result" where
  "session_is_expired s now = dt_le (as_expires_at s) now"

type_synonym actor_session_store = "(string, actor_session) dict"

definition store_session :: "actor_session \<Rightarrow> actor_session_store \<Rightarrow> string \<times> actor_session_store" where
  "store_session s st = (as_session_id s, dict_set (as_session_id s) s st)"

definition fetch_session ::
  "string \<Rightarrow> datetime \<Rightarrow> actor_session_store \<Rightarrow> actor_session option result \<times> actor_session_store" where
  "fetch_session session_id now st =
     (case dict_get st session_id of
        None \<Rightarrow> (Inr None, st)
      | Some s \<Rightarrow>
          (case session_is_expired s now of
             Inl e \<Rightarrow> (Inl e, st)
           | Inr True \<Rightarrow> (Inr None, dict_pop session_id st)
           | Inr False \<Rightarrow> (Inr (Some s), st)))"

definition delete_session :: "string \<Rightarrow> actor_session_store \<Rightarrow> actor_session_store" where
  "delete_session session_id st = dict_pop session_id st"

section \<open>Device-code primitives (gateway/auth/login.py)\<close>

record device_client_config =
  dc_issuer :: string
  dc_client_id :: string
  dc_audience :: string
  dc_scopes :: "string list"

record provider_metadata =
  pm_issuer :: string
  pm_token_endpoint :: string
  pm_jwks_uri :: string
  pm_device_endpoint :: "string option"

record device_authorization =
  da_device_code :: string
  da_user_code :: string
  da_verification_uri :: string
  da_verification_uri_complete :: "string option"
  da_expires_in :: int
  da_interval :: int

record token_set =
  ts_access_token :: string
  ts_id_token :: string
  ts_token_type :: string
  ts_expires_in :: "int option"
  ts_refresh_token :: "string option"
  ts_scope :: "string option"

text \<open>Reading a field of a decoded JSON object: \<open>data[k]\<close> raises, a model's required field does
  not validate, and an optional one falls back.  A JSON null reads as an absent key, and
  pydantic's coercions between texts and numbers are not modelled.\<close>

type_synonym json_object = "(string, json) dict"

fun as_text :: "json option \<Rightarrow> string option" where
  "as_text (Some (JStr s)) = Some s"
| "as_text _ = None"

fun as_int :: "json option \<Rightarrow> int option" where
  "as_int (Some (JInt n)) = Some n"
| "as_int _ = None"

definition require_text :: "exn \<Rightarrow> json_object \<Rightarrow> string \<Rightarrow> string result" where
  "require_text missing data k = (case as_text (dict_get data k) of None \<Rightarrow> Inl missing | Some s \<Rightarrow> Inr s)"

definition optional_text :: "exn \<Rightarrow> json_object \<Rightarrow> string \<Rightarrow> string option result" where
  "optional_text invalid data k =
     (case dict_get data k of None \<Rightarrow> Inr None | Some v \<Rightarrow>
        (case as_text (Some v) of None \<Rightarrow> Inl invalid | Some s \<Rightarrow> Inr (Some s)))"

definition optional_int :: "exn \<Rightarrow> json_object \<Rightarrow> string \<Rightarrow> int option result" where
  "optional_int invalid data k =
     (case dict_get data k of None \<Rightarrow> Inr None | Some v \<Rightarrow>
        (case as_int (Some v) of None \<Rightarrow> Inl invalid | Some n \<Rightarrow> Inr (Some n)))"

definition rstrip_slash :: "string \<Rightarrow> string" where
  "rstrip_slash s = rev (dropWhile (\<lambda>c. c = CHR ''/'') (rev s))"

type_synonym 'w fetch_json = "string \<Rightarrow> 'w \<Rightarrow> json_object result \<times> 'w"
type_synonym 'w post_form = "string \<Rightarrow> (string, string) dict \<Rightarrow> 'w \<Rightarrow> json_object result \<times> 'w"

definition read_metadata :: "json_object \<Rightarrow> provider_metadata result" where
  "read_metadata data =
     bind_result (require_text (KeyError ''issuer'') data ''issuer'') (\<lambda>issuer.
     bind_result (require_text (KeyError ''token_endpoint'') data ''token_endpoint'') (\<lambda>token_endpoint.
     bind_result (require_text (KeyError ''jwks_uri'') data ''jwks_uri'') (\<lambda>jwks_uri.
     bind_result (optional_text (ValidationError ''OIDCProviderMetadata'') data ''device_authorization_endpoint'')
       (\<lambda>device_endpoint.
         Inr \<lparr>pm_issuer = issuer, pm_token_endpoint = token_endpoint, pm_jwks_uri = jwks_uri,
              pm_device_endpoint = device_endpoint\<rparr>))))"

definition discover_oidc_metadata ::
  "string \<Rightarrow> 'w fetch_json \<Rightarrow> 'w \<Rightarrow> provider_metadata result \<times> 'w" where
  "discover_oidc_metadata issuer fetch_json w =
     (case fetch_json (rstrip_slash issuer @ ''/.well-known/openid-configuration'') w of
        (r, w') \<Rightarrow> (bind_result r read_metadata, w'))"

definition authentik_device_endpoint :: "string \<Rightarrow> string" where
  "authentik_device_endpoint issuer = rstrip_slash issuer @ ''/application/o/device/''"

definition authentik_token_endpoint :: "string \<Rightarrow> string" where
  "authentik_token_endpoint issuer = rstrip_slash issuer @ ''/application/o/token/''"

definition read_device_authorization :: "json_object \<Rightarrow> device_authorization result" where
  "read_device_authorization data =
     (let invalid = ValidationError ''DeviceAuthorization'' in
      bind_result (require_text invalid data ''device_code'') (\<lambda>device_code.
      bind_result (require_text invalid data ''user_code'') (\<lambda>user_code.
      bind_result (require_text invalid data ''verification_uri'') (\<lambda>uri.
      bind_result (optional_text invalid data ''verification_uri_complete'') (\<lambda>complete.
        case as_int (dict_get data ''expires_in'') of
          None \<Rightarrow> Inl invalid
        | Some expires_in \<Rightarrow>
            (case (case dict_get data ''interval'' of None \<Rightarrow> Some 5 | Some v \<Rightarrow> as_int (Some v)) of
               None \<Rightarrow> Inl invalid
             | Some interval \<Rightarrow>
                 Inr \<lparr>da_device_code = device_code, da_user_code = user_code, da_verification_uri = uri,
                      da_verification_uri_complete = complete, da_expires_in = expires_in,
                      da_interval = interval\<rparr>))))))"

definition begin_device_authorization ::
  "device_client_config \<Rightarrow> 'w post_form \<Rightarrow> provider_metadata option \<Rightarrow> 'w \<Rightarrow> device_authorization result \<times> 'w" where
  "begin_device_authorization config post_form metadata w =
     (let endpoint = (case metadata of
          Some m \<Rightarrow> if falsy_text (pm_device_endpoint m) then authentik_device_endpoint (dc_issuer config)
                    else the (pm_device_endpoint m)
        | None \<Rightarrow> authentik_device_endpoint (dc_issuer config))
      in case post_form endpoint [(''client_id'', dc_client_id config), (''scope'', join_with '' '' (dc_scopes config))] w of
           (r, w') \<Rightarrow> (bind_result r read_device_authorization, w'))"

fun truthy_json :: "json \<Rightarrow> bool" where
  "truthy_json (JStr s) \<longleftrightarrow> s \<noteq> []"
| "truthy_json (JInt n) \<longleftrightarrow> n \<noteq> 0"
| "truthy_json (JObj kvs) \<longleftrightarrow> kvs \<noteq> []"

text \<open>\<open>str(error)\<close> of a decoded JSON value.\<close>

fun repr_json :: "json \<Rightarrow> string" where
  "repr_json (JStr s) = py_repr s"
| "repr_json (JInt n) = show_int n"
| "repr_json (JObj kvs) = ''{'' @ join_with '', '' (map (\<lambda>(k, v). py_repr k @ '': '' @ repr_json v) kvs) @ ''}''"

definition str_json :: "json \<Rightarrow> string" where
  "str_json v = (case v of JStr s \<Rightarrow> s | _ \<Rightarrow> repr_json v)"

definition device_token_error :: "json option \<Rightarrow> exn option" where
  "device_token_error err =
     (case err of
        None \<Rightarrow> None
      | Some v \<Rightarrow>
          if v = JStr ''authorization_pending'' then Some DeviceAuthorizationPending
          else if v = JStr ''slow_down'' then Some DeviceAuthorizationSlowDown
          else if v = JStr ''access_denied'' then Some DeviceAuthorizationDenied
          else if v = JStr ''expired_token'' then Some DeviceAuthorizationExpired
          else if truthy_json v then Some (ValueError (''device token request failed: '' @ str_json v)) else None)"

definition read_token_set :: "json_object \<Rightarrow> token_set result" where
  "read_token_set data =
     (case device_token_error (dict_get data ''error'') of
        Some e \<Rightarrow> Inl e
      | None \<Rightarrow>
          (let invalid = ValidationError ''TokenSet'' in
           bind_result (require_text invalid data ''access_token'') (\<lambda>access_token.
           bind_result (require_text invalid data ''id_token'') (\<lambda>id_token.
           bind_result (require_text invalid data ''token_type'') (\<lambda>token_type.
           bind_result (optional_int invalid data ''expires_in'') (\<lambda>expires_in.
           bind_result (optional_text invalid data ''refresh_token'') (\<lambda>refresh_token.
           bind_result (optional_text invalid data ''scope'') (\<lambda>granted_scope.
             Inr \<lparr>ts_access_token = access_token, ts_id_token = id_token, ts_token_type = token_type,
                  ts_expires_in = expires_in, ts_refresh_token = refresh_token, ts_scope = granted_scope\<rparr>))))))))"

definition poll_device_token ::
  "device_client_config \<Rightarrow> string \<Rightarrow> 'w post_form \<Rightarrow> provider_metadata option \<Rightarrow> 'w \<Rightarrow> token_set result \<times> 'w" where
  "poll_device_token config device_code post_form metadata w =
     (let endpoint = (case metadata of Some m \<Rightarrow> pm_token_endpoint m
          | None \<Rightarrow> authentik_token_endpoint (dc_issuer config))
      in case post_form endpoint [(''grant_type'', ''urn:ietf:params:oauth:grant-type:device_code''),
             (''client_id'', dc_client_id config), (''device_code'', device_code)] w of
           (r, w') \<Rightarrow> (bind_result r read_token_set, w'))"

definition parse_device_id_token ::
  "'jwks oidc_library \<Rightarrow> token_set \<Rightarrow> 'jwks \<Rightarrow> device_client_config \<Rightarrow> string option \<Rightarrow> oidc_claims result" where
  "parse_device_id_token lib tokens jwks config issuer =
     parse_id_token lib (ts_id_token tokens) jwks
       (if falsy_text issuer then dc_issuer config else the issuer) (dc_audience config)"

end
