(* ===== verification/Command_Router.thy ===== *)
theory Command_Router
  imports Scope_Access
begin

text \<open>
  \<open>gateway/command_router.py\<close>, the fixed table from control-plane commands to workflows, and
  \<open>gateway/provision_handler.py\<close>, the handler behind \<open>/provision\<close>.  Handlers are arguments:
  functions of an invocation and a state of the outside world.
\<close>

datatype control_plane_command =
  LOGIN | ONBOARD_ORGANIZATION | REVIEW_ONBOARDING | VIEW_ONBOARDING_REVIEW | JOIN_ORGANIZATION
  | CMD_PROVISION

fun command_value :: "control_plane_command \<Rightarrow> string" where
  "command_value LOGIN = ''/login''"
| "command_value ONBOARD_ORGANIZATION = ''/onboard-org''"
| "command_value REVIEW_ONBOARDING = ''/review-onboard-org''"
| "command_value VIEW_ONBOARDING_REVIEW = ''/onboarding-review''"
| "command_value JOIN_ORGANIZATION = ''/join-org''"
| "command_value CMD_PROVISION = ''/provision''"

definition all_commands :: "control_plane_command list" where
  "all_commands = [LOGIN, ONBOARD_ORGANIZATION, REVIEW_ONBOARDING, VIEW_ONBOARDING_REVIEW,
     JOIN_ORGANIZATION, CMD_PROVISION]"

definition command_of_value :: "string \<Rightarrow> control_plane_command option" where
  "command_of_value s = find (\<lambda>c. command_value c = s) all_commands"

record command_route =
  rt_command :: control_plane_command
  rt_workflow_id :: string
  rt_requires_session :: bool

record validated_principal =
  vp_issuer :: string
  vp_subject :: string

record 'p command_invocation =
  inv_route :: command_route
  inv_principal :: "validated_principal option"
  inv_payload :: 'p
  inv_source :: "string option"

text \<open>\<open>_ROUTES\<close>.\<close>

fun command_routes :: "control_plane_command \<Rightarrow> command_route" where
  "command_routes LOGIN = \<lparr>rt_command = LOGIN, rt_workflow_id = ''login_registration'',
     rt_requires_session = False\<rparr>"
| "command_routes ONBOARD_ORGANIZATION = \<lparr>rt_command = ONBOARD_ORGANIZATION,
     rt_workflow_id = ''organization_onboarding'', rt_requires_session = True\<rparr>"
| "command_routes REVIEW_ONBOARDING = \<lparr>rt_command = REVIEW_ONBOARDING,
     rt_workflow_id = ''organization_onboarding_review'', rt_requires_session = True\<rparr>"
| "command_routes VIEW_ONBOARDING_REVIEW = \<lparr>rt_command = VIEW_ONBOARDING_REVIEW,
     rt_workflow_id = ''onboarding_administrator_read'', rt_requires_session = True\<rparr>"
| "command_routes JOIN_ORGANIZATION = \<lparr>rt_command = JOIN_ORGANIZATION,
     rt_workflow_id = ''organization_member_onboarding'', rt_requires_session = True\<rparr>"
| "command_routes CMD_PROVISION = \<lparr>rt_command = CMD_PROVISION, rt_workflow_id = ''provision'',
     rt_requires_session = True\<rparr>"

type_synonym ('p, 'r, 'w) workflow_handler = "'p command_invocation \<Rightarrow> 'w \<Rightarrow> 'r result \<times> 'w"

definition dispatch ::
  "(string, ('p, 'r, 'w) workflow_handler) dict \<Rightarrow> string \<Rightarrow> 'p \<Rightarrow> validated_principal option
     \<Rightarrow> string option \<Rightarrow> 'w \<Rightarrow> 'r result \<times> 'w" where
  "dispatch handlers command payload who src w =
     (case command_of_value command of
        None \<Rightarrow> (Inl (CommandRouteUnavailable ''unsupported command''), w)
      | Some cmd \<Rightarrow>
          let route = command_routes cmd in
          if rt_requires_session route \<and> who = None
          then (Inl (CommandAuthenticationRequired ''an authenticated session is required''), w)
          else (case dict_get handlers (rt_workflow_id route) of
              None \<Rightarrow> (Inl (CommandRouteUnavailable ''workflow is not enabled''), w)
            | Some handler \<Rightarrow> handler \<lparr>inv_route = route, inv_principal = who,
                inv_payload = payload, inv_source = src\<rparr> w))"

text \<open>The authenticator may itself fail; then no handler is even looked up.\<close>

definition dispatch_browser_mutation ::
  "(string, ('p, 'r, 'w) workflow_handler) dict \<Rightarrow>
     (string \<Rightarrow> string option \<Rightarrow> string option \<Rightarrow> validated_principal result) \<Rightarrow> string \<Rightarrow> 'p
     \<Rightarrow> string \<Rightarrow> string option \<Rightarrow> string option \<Rightarrow> 'w \<Rightarrow> 'r result \<times> 'w" where
  "dispatch_browser_mutation handlers authenticate command payload token origin csrf_proof w =
     (case authenticate token origin csrf_proof of
        Inl e \<Rightarrow> (Inl e, w)
      | Inr who \<Rightarrow> dispatch handlers command payload (Some who) None w)"

lemma command_value_inj: "command_value c = command_value d \<longleftrightarrow> c = d"
  by (cases c; cases d) simp_all

lemma command_of_value_eq: "command_of_value s = Some c \<longleftrightarrow> s = command_value c"
proof
  assume "command_of_value s = Some c"
  then show "s = command_value c" by (auto simp: command_of_value_def dest: find_SomeD)
next
  assume "s = command_value c"
  then show "command_of_value s = Some c"
    by (cases c) (simp_all add: command_of_value_def all_commands_def)
qed

text \<open>
  Only the six declared commands reach a workflow, and only \<open>/login\<close> without a session: for
  any text, either dispatch runs exactly the handler registered for the command's own workflow,
  with the caller's principal and payload, or nothing runs and the error says which guard failed.
\<close>

theorem dispatch_runs_only_declared_routes:
  "(\<exists>c h. command = command_value c \<and> (who \<noteq> None \<or> c = LOGIN) \<and>
      dict_get handlers (rt_workflow_id (command_routes c)) = Some h \<and>
      dispatch handlers command payload who src w =
        h \<lparr>inv_route = command_routes c, inv_principal = who, inv_payload = payload,
           inv_source = src\<rparr> w) \<or>
   (\<forall>c. command \<noteq> command_value c) \<and>
     dispatch handlers command payload who src w
       = (Inl (CommandRouteUnavailable ''unsupported command''), w) \<or>
   (\<exists>c. command = command_value c \<and> c \<noteq> LOGIN \<and> who = None) \<and>
     dispatch handlers command payload who src w
       = (Inl (CommandAuthenticationRequired ''an authenticated session is required''), w) \<or>
   (\<exists>c. command = command_value c \<and> dict_get handlers (rt_workflow_id (command_routes c)) = None) \<and>
     dispatch handlers command payload who src w
       = (Inl (CommandRouteUnavailable ''workflow is not enabled''), w)"
proof (cases "command_of_value command")
  case None
  then have "\<forall>c. command \<noteq> command_value c" by (metis command_of_value_eq option.distinct(1))
  then show ?thesis using None by (simp add: dispatch_def)
next
  case (Some c)
  then have v: "command = command_value c" by (simp add: command_of_value_eq)
  have session: "rt_requires_session (command_routes c) \<longleftrightarrow> c \<noteq> LOGIN" by (cases c) simp_all
  show ?thesis
  proof (cases "c \<noteq> LOGIN \<and> who = None")
    case True
    with Some v session show ?thesis by (auto simp: dispatch_def)
  next
    case False
    show ?thesis
    proof (cases "dict_get handlers (rt_workflow_id (command_routes c))")
      case None
      with False Some v session show ?thesis by (auto simp: dispatch_def)
    next
      case (Some h)
      with False \<open>command_of_value command = Some c\<close> v session show ?thesis
        by (auto simp: dispatch_def)
    qed
  qed
qed

theorem dispatch_runs_only_declared_routes_witness:
  "dispatch ([] :: (string, (unit, unit, nat) workflow_handler) dict) ''/nope'' () None None 0 =
     (Inl (CommandRouteUnavailable ''unsupported command''), 0)"
proof -
  have "''/nope'' \<noteq> command_value c" for c by (cases c) simp_all
  then show ?thesis
    using dispatch_runs_only_declared_routes [of "''/nope''" None "[]" "()" None "0 :: nat"] by auto
qed

section \<open>The provision handler (gateway/provision_handler.py)\<close>

text \<open>The untrusted payload is a dictionary of texts; \<open>extra="forbid"\<close> rejects every key but
  \<open>scope_id\<close>.\<close>

definition provision_command :: "(string, string) dict \<Rightarrow> string result" where
  "provision_command payload =
     (case dict_get payload ''scope_id'' of
        None \<Rightarrow> Inl (ValidationError ''ProvisionCommand'')
      | Some scope_id \<Rightarrow>
          if list_ex (\<lambda>k. k \<noteq> ''scope_id'') (map fst payload) \<or> length scope_id < 8
          then Inl (ValidationError ''ProvisionCommand'') else Inr scope_id)"

record workflow_invocation =
  wi_principal :: principal_reference
  wi_scope_id :: string

definition make_workflow_invocation :: "string \<Rightarrow> string \<Rightarrow> workflow_invocation result" where
  "make_workflow_invocation subject scope_id =
     (if subject = [] then Inl (ValidationError ''PrincipalReference'')
      else if length scope_id < 8 then Inl (ValidationError ''ProvisionWorkflowInvocation'')
      else Inr \<lparr>wi_principal = \<lparr>pr_kind = PRINCIPAL_USER, pr_principal_id = subject\<rparr>, wi_scope_id = scope_id\<rparr>)"

definition provision_handler ::
  "(workflow_invocation \<Rightarrow> 'w \<Rightarrow> 'r result \<times> 'w) \<Rightarrow> ((string, string) dict, 'r, 'w) workflow_handler" where
  "provision_handler graph invocation w =
     (case inv_principal invocation of
        None \<Rightarrow> (Inl (PermissionError ''validated principal is required''), w)
      | Some p \<Rightarrow>
          (case bind_result (provision_command (inv_payload invocation)) (make_workflow_invocation (vp_subject p)) of
             Inl e \<Rightarrow> (Inl e, w)
           | Inr workflow_input \<Rightarrow> graph workflow_input w))"

text \<open>
  The provisioning graph gets nothing from the caller but a scope id: whenever the handler
  starts the graph, its input is exactly the authenticated subject, as a user principal, and the
  payload's only field; any other payload key stops the request before the graph.
\<close>

theorem provision_handler_passes_identity_and_scope_only:
  "(\<exists>p scope_id. inv_principal i = Some p \<and> dict_get (inv_payload i) ''scope_id'' = Some scope_id \<and>
      fst ` set (inv_payload i) = {''scope_id''} \<and>
      provision_handler graph i w = graph \<lparr>wi_principal = \<lparr>pr_kind = PRINCIPAL_USER,
        pr_principal_id = vp_subject p\<rparr>, wi_scope_id = scope_id\<rparr> w) \<or>
   (\<exists>e. provision_handler graph i w = (Inl e, w))"
proof (cases "inv_principal i")
  case None
  then show ?thesis by (simp add: provision_handler_def)
next
  case (Some p)
  show ?thesis
  proof (cases "bind_result (provision_command (inv_payload i)) (make_workflow_invocation (vp_subject p))")
    case (Inl e)
    with Some show ?thesis by (simp add: provision_handler_def)
  next
    case (Inr wi)
    then obtain sid where c: "provision_command (inv_payload i) = Inr sid"
      and m: "make_workflow_invocation (vp_subject p) sid = Inr wi"
      by (auto simp: result_simps)
    have "dict_get (inv_payload i) ''scope_id'' = Some sid"
      "\<forall>k \<in> fst ` set (inv_payload i). k = ''scope_id''"
      using c by (auto simp: provision_command_def list_ex_iff split: option.splits if_splits)
    moreover have "''scope_id'' \<in> fst ` set (inv_payload i)"
      using calculation(1) by (metis dict_get_def map_of_SomeD fst_conv image_eqI)
    ultimately have "fst ` set (inv_payload i) = {''scope_id''}" by blast
    moreover have "dict_get (inv_payload i) ''scope_id'' = Some sid" by fact
    moreover have "wi = \<lparr>wi_principal = \<lparr>pr_kind = PRINCIPAL_USER, pr_principal_id = vp_subject p\<rparr>,
        wi_scope_id = sid\<rparr>"
      using m by (auto simp: make_workflow_invocation_def split: if_splits)
    moreover have "provision_handler graph i w = graph wi w"
      by (simp add: provision_handler_def Some Inr)
    ultimately show ?thesis using Some by blast
  qed
qed

end
