(* ===== verification/Browser_Sessions.thy ===== *)
theory Browser_Sessions
  imports Command_Router "HOL-Library.Countable"
begin

text \<open>
  \<open>gateway/browser_sessions.py\<close>: the server-side session record, the repository protocol, the
  issuer and the authenticator; its in-memory repository and the PostgreSQL one of
  \<open>gateway/browser_sessions_postgres.py\<close>.  The locale \<open>session_repository\<close> states what a
  repository promises; both interpret it.  HMAC-SHA256 and the JWT library are arguments;
  secrets, session ids and the clock are passed in.
\<close>

section \<open>Sessions\<close>

definition platformops_issuer :: string where
  "platformops_issuer = ''platformops''"

definition hex_digest :: "string \<Rightarrow> bool" where
  "hex_digest s \<longleftrightarrow> length s = 64 \<and> list_all is_hex_lower s"

definition digest_csrf_proof :: "(string \<Rightarrow> string \<Rightarrow> string) \<Rightarrow> string \<Rightarrow> string \<Rightarrow> string result" where
  "digest_csrf_proof hmac hmac_key proof =
     (if proof = [] then Inl (ValueError ''CSRF proof cannot be empty'')
      else if hmac_key = [] then Inl (ValueError ''CSRF HMAC key cannot be empty'')
      else Inr (hmac hmac_key proof))"

record browser_session =
  bs_session_id :: string
  bs_issuer :: string
  bs_subject :: string
  bs_csrf_proof_digest :: string
  bs_created_at :: datetime
  bs_expires_at :: datetime
  bs_revoked_at :: "datetime option"
  bs_revocation_reason :: "string option"

definition check_browser_session :: "browser_session \<Rightarrow> browser_session result" where
  "check_browser_session s =
     (if length (bs_session_id s) < 8 \<or> length (bs_subject s) < 5 \<or> \<not> hex_digest (bs_csrf_proof_digest s)
      then Inl (ValidationError ''BrowserSession'')
      else if \<not> is_aware (bs_created_at s) \<or> \<not> is_aware (bs_expires_at s) \<or>
        (case bs_revoked_at s of None \<Rightarrow> False | Some t \<Rightarrow> \<not> is_aware t)
      then Inl (ValidationError ''session timestamps must be timezone-aware'')
      else if bs_issuer s \<noteq> platformops_issuer
      then Inl (ValidationError ''browser sessions must use the PlatformOps issuer'')
      else bind_result (dt_le (bs_expires_at s) (bs_created_at s)) (\<lambda>late.
        if late then Inl (ValidationError ''session expiry must be after creation'')
        else if bs_revocation_reason s \<noteq> None \<and> bs_revoked_at s = None
        then Inl (ValidationError ''revocation reason requires revoked_at'')
        else Inr s))"

definition session_is_active :: "browser_session \<Rightarrow> datetime \<Rightarrow> bool result" where
  "session_is_active s now =
     (if bs_revoked_at s \<noteq> None then Inr False else dt_less now (bs_expires_at s))"

definition build_browser_session ::
  "(string \<Rightarrow> string \<Rightarrow> string) \<Rightarrow> string \<Rightarrow> string \<Rightarrow> string \<Rightarrow> string \<Rightarrow> int \<Rightarrow> datetime
     \<Rightarrow> browser_session result" where
  "build_browser_session hmac fresh_id subject csrf_proof hmac_key ttl now =
     (if ttl \<le> 0 then Inl (ValueError ''browser session TTL must be positive'')
      else bind_result (digest_csrf_proof hmac hmac_key csrf_proof) (\<lambda>d.
        check_browser_session \<lparr>bs_session_id = fresh_id, bs_issuer = platformops_issuer,
          bs_subject = subject, bs_csrf_proof_digest = d, bs_created_at = now,
          bs_expires_at = dt_add_seconds now ttl, bs_revoked_at = None, bs_revocation_reason = None\<rparr>))"

lemma check_browser_session_Inr:
  "check_browser_session s = Inr t \<Longrightarrow> t = s \<and> bs_issuer s = platformops_issuer \<and>
     (\<exists>c e. bs_created_at s = Aware c \<and> bs_expires_at s = Aware e \<and> c < e)"
  by (cases "bs_created_at s"; cases "bs_expires_at s")
    (auto simp: check_browser_session_def dt_le_def result_simps split: if_splits)

section \<open>The in-memory repository\<close>

type_synonym session_store = "(string, browser_session) dict"

definition create_session :: "browser_session \<Rightarrow> session_store \<Rightarrow> unit result \<times> session_store" where
  "create_session s st =
     (if dict_get st (bs_session_id s) \<noteq> None
      then (Inl (ValueError ''browser session already exists''), st)
      else (Inr (), dict_set (bs_session_id s) s st))"

definition get_active_session ::
  "session_store \<Rightarrow> string \<Rightarrow> string \<Rightarrow> datetime \<Rightarrow> browser_session option result" where
  "get_active_session st sid subject now =
     (case dict_get st sid of
        None \<Rightarrow> Inr None
      | Some s \<Rightarrow>
          if bs_subject s \<noteq> subject then Inr None
          else bind_result (session_is_active s now) (\<lambda>active. Inr (if active then Some s else None)))"

definition verify_session_csrf ::
  "(string \<Rightarrow> string \<Rightarrow> string) \<Rightarrow> string
     \<Rightarrow> (string \<Rightarrow> string \<Rightarrow> datetime \<Rightarrow> browser_session option result)
     \<Rightarrow> string \<Rightarrow> string \<Rightarrow> string \<Rightarrow> datetime \<Rightarrow> bool result" where
  "verify_session_csrf hmac hmac_key get_active sid subject proof now =
     bind_result (get_active sid subject now) (\<lambda>found.
       case found of
         None \<Rightarrow> Inr False
       | Some s \<Rightarrow> bind_result (digest_csrf_proof hmac hmac_key proof) (\<lambda>d.
           Inr (bs_csrf_proof_digest s = d)))"

definition revoke_session ::
  "string \<Rightarrow> string \<Rightarrow> datetime \<Rightarrow> session_store \<Rightarrow> unit result \<times> session_store" where
  "revoke_session sid reason now st =
     (if reason = [] then (Inl (ValueError ''revocation reason cannot be empty''), st)
      else (case dict_get st sid of
          None \<Rightarrow> (Inr (), st)
        | Some s \<Rightarrow> (Inr (), dict_set sid
            (s\<lparr>bs_revoked_at := Some now, bs_revocation_reason := Some reason\<rparr>) st)))"

section \<open>The PostgreSQL repository (gateway/browser_sessions_postgres.py)\<close>

text \<open>
  The table \<open>auth_browser_sessions\<close> with its primary key, the reference of \<open>user_subject\<close> to
  \<open>auth_user_accounts\<close> and its checks; each method is one transaction.  A timestamp column is an
  instant.
\<close>

record session_table =
  tbl_sessions :: "browser_session list"
  tbl_accounts :: "string set"

definition pg_error :: exn where
  "pg_error = ExternalError ''psycopg.errors.IntegrityError''"

definition pg_create_session :: "browser_session \<Rightarrow> session_table \<Rightarrow> unit result \<times> session_table" where
  "pg_create_session s st =
     (if list_ex (\<lambda>r. bs_session_id r = bs_session_id s) (tbl_sessions st) \<or>
         bs_subject s \<notin> tbl_accounts st \<or> length (bs_csrf_proof_digest s) \<noteq> 64 \<or>
         instant (bs_expires_at s) \<le> instant (bs_created_at s) \<or>
         \<not> (bs_revocation_reason s = None \<or> bs_revoked_at s \<noteq> None)
      then (Inl pg_error, st)
      else (Inr (), st\<lparr>tbl_sessions := tbl_sessions st @ [s]\<rparr>))"

definition pg_get_active_session ::
  "session_table \<Rightarrow> string \<Rightarrow> string \<Rightarrow> datetime \<Rightarrow> browser_session option result" where
  "pg_get_active_session st sid subject now =
     (case find (\<lambda>r. bs_session_id r = sid \<and> bs_subject r = subject \<and> bs_revoked_at r = None \<and>
         instant now < instant (bs_expires_at r)) (tbl_sessions st) of
        None \<Rightarrow> Inr None
      | Some r \<Rightarrow> bind_result (check_browser_session r) (\<lambda>s. Inr (Some s)))"

definition revoke_row :: "string \<Rightarrow> string \<Rightarrow> datetime \<Rightarrow> browser_session \<Rightarrow> browser_session" where
  "revoke_row sid reason now r =
     (if bs_session_id r = sid \<and> bs_revoked_at r = None
      then r\<lparr>bs_revoked_at := Some now, bs_revocation_reason := Some reason\<rparr> else r)"

definition pg_revoke_session ::
  "string \<Rightarrow> string \<Rightarrow> datetime \<Rightarrow> session_table \<Rightarrow> unit result \<times> session_table" where
  "pg_revoke_session sid reason now st =
     (if reason = [] then (Inl (ValueError ''revocation reason cannot be empty''), st)
      else (Inr (), st\<lparr>tbl_sessions := map (revoke_row sid reason now) (tbl_sessions st)\<rparr>))"

lemma revoke_row_fields [simp]:
  "bs_session_id (revoke_row sid reason now r) = bs_session_id r"
  "bs_subject (revoke_row sid reason now r) = bs_subject r"
  "bs_expires_at (revoke_row sid reason now r) = bs_expires_at r"
  "bs_csrf_proof_digest (revoke_row sid reason now r) = bs_csrf_proof_digest r"
  by (simp_all add: revoke_row_def)

lemma bs_session_id_revoke_row [simp]: "bs_session_id \<circ> revoke_row sid reason now = bs_session_id"
  by (simp add: fun_eq_iff)

section \<open>What a repository promises\<close>

text \<open>\<open>stored\<close> is the record under an id.  Only validated sessions are stored.\<close>

locale session_repository =
  fixes create :: "browser_session \<Rightarrow> 'st \<Rightarrow> unit result \<times> 'st"
    and get_active :: "'st \<Rightarrow> string \<Rightarrow> string \<Rightarrow> datetime \<Rightarrow> browser_session option result"
    and revoke :: "string \<Rightarrow> string \<Rightarrow> datetime \<Rightarrow> 'st \<Rightarrow> unit result \<times> 'st"
    and stored :: "'st \<Rightarrow> string \<Rightarrow> browser_session option"
    and inv :: "'st \<Rightarrow> bool"
  assumes get_active_law: "inv st \<Longrightarrow> get_active st sid subject (Aware t) = Inr (Some s) \<longleftrightarrow>
      stored st sid = Some s \<and> bs_subject s = subject \<and> bs_revoked_at s = None \<and> t < instant (bs_expires_at s)"
    and stored_id: "inv st \<Longrightarrow> stored st sid = Some s \<Longrightarrow> bs_session_id s = sid"
    and create_inv: "inv st \<Longrightarrow> check_browser_session s = Inr s \<Longrightarrow> inv (snd (create s st))"
    and create_stored: "inv st \<Longrightarrow> fst (create s st) = Inr () \<Longrightarrow>
      stored st (bs_session_id s) = None \<and> stored (snd (create s st)) = (stored st)(bs_session_id s \<mapsto> s)"
    and create_error: "inv st \<Longrightarrow> fst (create s st) = Inl e \<Longrightarrow> snd (create s st) = st"
    and revoke_inv: "inv st \<Longrightarrow> inv (snd (revoke sid reason (Aware t) st))"
    and revoke_other: "inv st \<Longrightarrow> sid' \<noteq> sid \<Longrightarrow>
      stored (snd (revoke sid reason (Aware t) st)) sid' = stored st sid'"
    and revoke_self: "inv st \<Longrightarrow> stored st sid = Some s \<Longrightarrow>
      \<exists>r. stored (snd (revoke sid reason (Aware t) st)) sid = Some r \<and> bs_subject r = bs_subject s \<and>
        bs_expires_at r = bs_expires_at s \<and> bs_csrf_proof_digest r = bs_csrf_proof_digest s \<and>
        (bs_revoked_at s \<noteq> None \<or> reason \<noteq> [] \<longrightarrow> bs_revoked_at r \<noteq> None)"
begin

text \<open>Every later history of creations and revocations.\<close>

inductive later :: "'st \<Rightarrow> 'st \<Rightarrow> bool" for st0 where
  later_refl: "later st0 st0"
| later_create: "later st0 st \<Longrightarrow> check_browser_session s = Inr s \<Longrightarrow> later st0 (snd (create s st))"
| later_revoke: "later st0 st \<Longrightarrow> later st0 (snd (revoke sid reason (Aware t) st))"

definition dead :: "'st \<Rightarrow> string \<Rightarrow> bool" where
  "dead st sid \<longleftrightarrow> (\<exists>s. stored st sid = Some s \<and> bs_revoked_at s \<noteq> None)"

lemma revoke_kills:
  "inv st \<Longrightarrow> stored st sid \<noteq> None \<Longrightarrow> reason \<noteq> [] \<Longrightarrow> dead (snd (revoke sid reason (Aware t) st)) sid"
  using revoke_self [of st sid] by (fastforce simp: dead_def)

lemma later_dead:
  assumes "later st0 st" "inv st0" "dead st0 sid"
  shows "inv st \<and> dead st sid"
  using assms
proof (induction rule: later.induct)
  case (later_create st s)
  then have ok: "inv st" "dead st sid" by auto
  then have "dead (snd (create s st)) sid"
    using create_stored [OF ok(1), of s] create_error [OF ok(1), of s]
    by (cases "fst (create s st)") (auto simp: dead_def split: if_splits)
  with later_create ok show ?case by (simp add: create_inv)
next
  case (later_revoke st sid' reason t)
  then have ok: "inv st" "dead st sid" by auto
  then have "dead (snd (revoke sid' reason (Aware t) st)) sid"
    using revoke_other [OF ok(1), of sid sid' reason t] revoke_self [OF ok(1), of sid _ reason t]
    by (cases "sid = sid'") (fastforce simp: dead_def)+
  with ok show ?case by (simp add: revoke_inv)
qed simp

lemma dead_not_active: "inv st \<Longrightarrow> dead st sid \<Longrightarrow> get_active st sid subject (Aware t) \<noteq> Inr (Some s)"
  by (auto simp: dead_def get_active_law)

lemma revoked_for_good:
  assumes "inv st0" "stored st0 sid \<noteq> None" "reason \<noteq> []"
    and "later (snd (revoke sid reason (Aware t) st0)) st"
  shows "get_active st sid subject (Aware u) \<noteq> Inr (Some s)"
  using later_dead [OF assms(4)] revoke_inv [OF assms(1)] revoke_kills [OF assms(1-3)] dead_not_active
  by blast

end

lemma find_eq_Some_unique:
  assumes "distinct (map f xs)"
  shows "find (\<lambda>x. f x = k \<and> P x) xs = Some x \<longleftrightarrow> x \<in> set xs \<and> f x = k \<and> P x"
  using assms by (induction xs) (auto simp: image_iff)

definition session_store_ok :: "session_store \<Rightarrow> bool" where
  "session_store_ok st \<longleftrightarrow> (\<forall>sid s. dict_get st sid = Some s \<longrightarrow> bs_session_id s = sid \<and> is_aware (bs_expires_at s))"

interpretation memory_sessions: session_repository create_session get_active_session revoke_session
  dict_get session_store_ok
proof unfold_locales
  fix st sid subject t s
  assume "session_store_ok st"
  then have "dict_get st sid = Some r \<Longrightarrow> is_aware (bs_expires_at r)" for r
    by (auto simp: session_store_ok_def)
  then show "get_active_session st sid subject (Aware t) = Inr (Some s) \<longleftrightarrow>
      dict_get st sid = Some s \<and> bs_subject s = subject \<and> bs_revoked_at s = None \<and> t < instant (bs_expires_at s)"
    by (cases "dict_get st sid")
      (auto simp: get_active_session_def session_is_active_def dt_less_def result_simps split: if_splits)
next
  fix st s assume "session_store_ok st" "check_browser_session s = Inr s"
  then show "session_store_ok (snd (create_session s st))"
    using check_browser_session_Inr [of s s] by (auto simp: session_store_ok_def create_session_def dict_simps)
qed (auto simp: session_store_ok_def create_session_def revoke_session_def dict_simps dict_get_set_fun
      split: option.splits if_splits)

text \<open>In the table the record under an id is the row with that key.\<close>

definition pg_stored :: "session_table \<Rightarrow> string \<Rightarrow> browser_session option" where
  "pg_stored st sid = find (\<lambda>r. bs_session_id r = sid) (tbl_sessions st)"

definition session_table_ok :: "session_table \<Rightarrow> bool" where
  "session_table_ok st \<longleftrightarrow> distinct (map bs_session_id (tbl_sessions st)) \<and>
     (\<forall>r \<in> set (tbl_sessions st). check_browser_session r = Inr r)"

lemma pg_stored_iff:
  "session_table_ok st \<Longrightarrow> pg_stored st sid = Some r \<longleftrightarrow> r \<in> set (tbl_sessions st) \<and> bs_session_id r = sid"
  using find_eq_Some_unique [of bs_session_id "tbl_sessions st" sid "\<lambda>_. True" r]
  by (simp add: pg_stored_def session_table_ok_def)

lemma check_revoked_session:
  "check_browser_session r = Inr r \<Longrightarrow>
     check_browser_session (r\<lparr>bs_revoked_at := Some (Aware t), bs_revocation_reason := Some reason\<rparr>)
       = Inr (r\<lparr>bs_revoked_at := Some (Aware t), bs_revocation_reason := Some reason\<rparr>)"
  by (auto simp: check_browser_session_def result_simps split: if_splits)

lemma pg_get_active_law:
  assumes "session_table_ok st"
  shows "pg_get_active_session st sid subject (Aware t) = Inr (Some s) \<longleftrightarrow>
    pg_stored st sid = Some s \<and> bs_subject s = subject \<and> bs_revoked_at s = None \<and> t < instant (bs_expires_at s)"
proof -
  let ?P = "\<lambda>r. bs_session_id r = sid \<and> bs_subject r = subject \<and> bs_revoked_at r = None \<and>
    t < instant (bs_expires_at r)"
  have "pg_get_active_session st sid subject (Aware t) = Inr (Some s) \<longleftrightarrow>
      find ?P (tbl_sessions st) = Some s"
    using assms by (auto simp: pg_get_active_session_def session_table_ok_def result_simps
        split: option.splits dest: find_SomeD)
  then show ?thesis
    using assms find_eq_Some_unique [of bs_session_id "tbl_sessions st" sid] pg_stored_iff [OF assms]
    by (auto simp: session_table_ok_def)
qed

lemma pg_revoke_ok:
  "session_table_ok st \<Longrightarrow> session_table_ok (snd (pg_revoke_session sid reason (Aware t) st))"
  by (simp add: session_table_ok_def pg_revoke_session_def) (simp add: revoke_row_def check_revoked_session)

lemma pg_stored_revoke:
  "pg_stored (snd (pg_revoke_session sid reason (Aware t) st)) sid' =
    map_option (\<lambda>r. if reason = [] then r else revoke_row sid reason (Aware t) r) (pg_stored st sid')"
proof -
  have "find (\<lambda>r. bs_session_id r = k) (map (revoke_row sid reason (Aware t)) rs) =
      map_option (revoke_row sid reason (Aware t)) (find (\<lambda>r. bs_session_id r = k) rs)" for k rs
    by (induction rs) auto
  then show ?thesis
    by (simp add: pg_stored_def pg_revoke_session_def option.map_ident)
qed

interpretation postgres_sessions: session_repository pg_create_session pg_get_active_session
  pg_revoke_session pg_stored session_table_ok
proof
  fix st sid sid' subject t s reason e
  assume ok: "session_table_ok st"
  show "pg_get_active_session st sid subject (Aware t) = Inr (Some s) \<longleftrightarrow>
      pg_stored st sid = Some s \<and> bs_subject s = subject \<and> bs_revoked_at s = None \<and> t < instant (bs_expires_at s)"
    by (rule pg_get_active_law [OF ok])
  show "bs_session_id s = sid" if "pg_stored st sid = Some s"
    using that pg_stored_iff [OF ok] by auto
  show "session_table_ok (snd (pg_create_session s st))" if "check_browser_session s = Inr s"
    using ok that by (auto simp: pg_create_session_def session_table_ok_def list_ex_iff)
  show "pg_stored st (bs_session_id s) = None \<and>
      pg_stored (snd (pg_create_session s st)) = (pg_stored st)(bs_session_id s \<mapsto> s)"
    if "fst (pg_create_session s st) = Inr ()"
  proof -
    have "find (\<lambda>r. bs_session_id r = k) (rs @ [s]) =
        (case find (\<lambda>r. bs_session_id r = k) rs of Some r \<Rightarrow> Some r
         | None \<Rightarrow> if bs_session_id s = k then Some s else None)" for k rs
      by (induction rs) auto
    moreover have "find (\<lambda>r. bs_session_id r = bs_session_id s) (tbl_sessions st) = None"
      using that by (auto simp: pg_create_session_def find_None_iff list_ex_iff split: if_splits)
    ultimately show ?thesis
      using that by (auto simp: pg_create_session_def pg_stored_def fun_eq_iff split: if_splits option.splits)
  qed
  show "snd (pg_create_session s st) = st" if "fst (pg_create_session s st) = Inl e"
    using that by (auto simp: pg_create_session_def split: if_splits)
  show "session_table_ok (snd (pg_revoke_session sid reason (Aware t) st))"
    by (rule pg_revoke_ok [OF ok])
  show "pg_stored (snd (pg_revoke_session sid reason (Aware t) st)) sid' = pg_stored st sid'" if "sid' \<noteq> sid"
  proof (cases "pg_stored st sid'")
    case (Some a)
    then have "bs_session_id a = sid'" using pg_stored_iff [OF ok] by blast
    with Some that show ?thesis by (simp add: pg_stored_revoke revoke_row_def)
  qed (simp add: pg_stored_revoke)
  show "\<exists>r. pg_stored (snd (pg_revoke_session sid reason (Aware t) st)) sid = Some r \<and>
      bs_subject r = bs_subject s \<and> bs_expires_at r = bs_expires_at s \<and>
      bs_csrf_proof_digest r = bs_csrf_proof_digest s \<and>
      (bs_revoked_at s \<noteq> None \<or> reason \<noteq> [] \<longrightarrow> bs_revoked_at r \<noteq> None)"
    if "pg_stored st sid = Some s"
    using that pg_stored_iff [OF ok, of sid s] by (simp add: pg_stored_revoke) (simp add: revoke_row_def)
qed

section \<open>Signing keys, cookies and the issuer\<close>

record signing_key =
  sk_key_id :: string
  sk_secret :: string

record key_provider =
  kp_current :: signing_key
  kp_keys :: "(string, signing_key) dict"

definition make_key_provider :: "signing_key \<Rightarrow> signing_key list \<Rightarrow> key_provider result" where
  "make_key_provider current previous =
     (let keys = previous @ [current] in
      if list_ex (\<lambda>k. sk_key_id k = [] \<or> length (sk_secret k) < 32) keys
      then Inl (ValueError ''browser session signing keys must have ids and HS256 secrets of at least 32 bytes'')
      else if length (remdups (map sk_key_id keys)) \<noteq> length keys
      then Inl (ValueError ''browser session signing key ids must be unique'')
      else Inr \<lparr>kp_current = current, kp_keys = dict_of sk_key_id (\<lambda>k. k) keys\<rparr>)"

text \<open>A decoded claim is a text, an integer or some other JSON value.\<close>

datatype claim_value = CText string | CInt int | COther

type_synonym claims = "(string, claim_value) dict"

text \<open>
  The JWT library: \<open>encode\<close> with a secret and a key id, the unverified \<open>kid\<close> header of a token,
  and \<open>decode\<close> of a token with a secret, an issuer and an audience.
\<close>

record jwt_library =
  jwt_encode :: "claims \<Rightarrow> string \<Rightarrow> string \<Rightarrow> string"
  jwt_kid :: "string \<Rightarrow> string option result"
  jwt_decode :: "string \<Rightarrow> string \<Rightarrow> string \<Rightarrow> string \<Rightarrow> claims result"

text \<open>\<open>int(value.timestamp())\<close>; a naive value is read in the process time zone, taken as UTC.\<close>

definition int_timestamp :: "datetime \<Rightarrow> int" where
  "int_timestamp t = (let n = instant t in if n \<ge> 0 then n div 1000000 else - ((- n) div 1000000))"

record set_cookie =
  ck_token :: string
  ck_name :: string
  ck_max_age :: int

definition set_cookie_header :: "set_cookie \<Rightarrow> string" where
  "set_cookie_header c = ck_name c @ ''='' @ ck_token c @ ''; HttpOnly; Max-Age='' @
     show_int (ck_max_age c) @ ''; Path=/; SameSite=Lax; Secure''"

definition clear_cookie_header :: "string \<Rightarrow> string" where
  "clear_cookie_header name = name @ ''=; HttpOnly; Max-Age=0; Path=/; SameSite=Lax; Secure''"

record session_issue =
  is_session :: browser_session
  is_set_cookie :: set_cookie
  is_csrf_proof :: string

record session_issuer =
  si_keys :: key_provider
  si_csrf_key :: string
  si_audience :: string
  si_cookie_name :: string
  si_ttl_seconds :: int

definition make_session_issuer :: "session_issuer \<Rightarrow> session_issuer result" where
  "make_session_issuer c =
     (if si_csrf_key c = [] \<or> si_audience c = [] \<or> si_cookie_name c = [] \<or> si_ttl_seconds c \<le> 0
      then Inl (ValueError ''browser session issuer configuration is incomplete'') else Inr c)"

definition session_claims :: "browser_session \<Rightarrow> string \<Rightarrow> claims" where
  "session_claims s audience = [(''iss'', CText (bs_issuer s)), (''sub'', CText (bs_subject s)),
     (''sid'', CText (bs_session_id s)), (''aud'', CText audience),
     (''iat'', CInt (int_timestamp (bs_created_at s))), (''exp'', CInt (int_timestamp (bs_expires_at s)))]"

definition issue_session ::
  "jwt_library \<Rightarrow> (string \<Rightarrow> string \<Rightarrow> string) \<Rightarrow> (browser_session \<Rightarrow> 'st \<Rightarrow> unit result \<times> 'st)
     \<Rightarrow> session_issuer \<Rightarrow> string \<Rightarrow> string \<Rightarrow> string \<Rightarrow> datetime \<Rightarrow> 'st \<Rightarrow> session_issue result \<times> 'st" where
  "issue_session jwt hmac create cfg fresh_id csrf_proof subject now st =
     (case build_browser_session hmac fresh_id subject csrf_proof (si_csrf_key cfg) (si_ttl_seconds cfg) now of
        Inl e \<Rightarrow> (Inl e, st)
      | Inr s \<Rightarrow>
          let key = kp_current (si_keys cfg) in
          if length (sk_secret key) < 32
          then (Inl (ValueError ''browser session HS256 signing key must be at least 32 bytes''), st)
          else
            let token = jwt_encode jwt (session_claims s (si_audience cfg)) (sk_secret key) (sk_key_id key) in
            (case create s st of
               (Inl e, st') \<Rightarrow> (Inl e, st')
             | (Inr _, st') \<Rightarrow>
                 (Inr \<lparr>is_session = s, is_set_cookie = \<lparr>ck_token = token, ck_name = si_cookie_name cfg,
                    ck_max_age = si_ttl_seconds cfg\<rparr>, is_csrf_proof = csrf_proof\<rparr>, st')))"

section \<open>The authenticator\<close>

definition invalid_session :: exn where
  "invalid_session = BrowserSessionAuthenticationError ''invalid browser session''"

record session_authenticator =
  sa_keys :: "(string, signing_key) dict"
  sa_audience :: string
  sa_expected_origin :: string

definition make_session_authenticator :: "session_authenticator \<Rightarrow> session_authenticator result" where
  "make_session_authenticator c =
     (if sa_audience c = [] \<or> sa_expected_origin c = []
      then Inl (ValueError ''browser session authenticator configuration is incomplete'') else Inr c)"

definition has_expected_origin :: "session_authenticator \<Rightarrow> string option \<Rightarrow> bool" where
  "has_expected_origin c origin \<longleftrightarrow> origin = Some (sa_expected_origin c)"

definition claim_names :: "string set" where
  "claim_names = {''iss'', ''sub'', ''sid'', ''aud'', ''iat'', ''exp''}"

text \<open>\<open>except (jwt.PyJWTError, TypeError, ValueError)\<close>; the library's own errors are \<open>ExternalError\<close>.\<close>

fun jwt_caught :: "exn \<Rightarrow> bool" where
  "jwt_caught (ExternalError _) = True"
| "jwt_caught (TypeError _) = True"
| "jwt_caught e = is_value_error e"

definition catch_jwt :: "'a result \<Rightarrow> 'a result" where
  "catch_jwt r = (case r of Inl e \<Rightarrow> Inl (if jwt_caught e then invalid_session else e) | Inr x \<Rightarrow> Inr x)"

fun text_claim :: "claims \<Rightarrow> string \<Rightarrow> string option" where
  "text_claim c k = (case dict_get c k of Some (CText v) \<Rightarrow> if v = [] then None else Some v | _ \<Rightarrow> None)"

fun int_claim :: "claims \<Rightarrow> string \<Rightarrow> int option" where
  "int_claim c k = (case dict_get c k of Some (CInt n) \<Rightarrow> Some n | _ \<Rightarrow> None)"

definition verified_claims ::
  "jwt_library \<Rightarrow> session_authenticator \<Rightarrow> string \<Rightarrow> claims result" where
  "verified_claims jwt cfg token =
     catch_jwt (bind_result (jwt_kid jwt token) (\<lambda>kid.
       case (case kid of None \<Rightarrow> None | Some k \<Rightarrow> dict_get (sa_keys cfg) k) of
         None \<Rightarrow> Inl invalid_session
       | Some key \<Rightarrow> jwt_decode jwt token (sk_secret key) platformops_issuer (sa_audience cfg)))"

definition authenticate_identity ::
  "jwt_library \<Rightarrow> session_authenticator \<Rightarrow> (string \<Rightarrow> string \<Rightarrow> datetime \<Rightarrow> browser_session option result)
     \<Rightarrow> string \<Rightarrow> datetime \<Rightarrow> (validated_principal \<times> string) result" where
  "authenticate_identity jwt cfg get_active token now =
     (if token = [] then Inl invalid_session
      else bind_result (verified_claims jwt cfg token) (\<lambda>c.
        if fst ` set c \<noteq> claim_names then Inl invalid_session
        else (case (int_claim c ''iat'', int_claim c ''exp'', text_claim c ''iss'', text_claim c ''sub'',
                    text_claim c ''sid'', text_claim c ''aud'') of
            (Some iat, Some exp, Some iss, Some sub, Some sid, Some aud) \<Rightarrow>
              if iat > int_timestamp now \<or> exp \<le> int_timestamp now then Inl invalid_session
              else bind_result (get_active sid sub now) (\<lambda>found.
                case found of
                  None \<Rightarrow> Inl invalid_session
                | Some s \<Rightarrow>
                    if bs_issuer s \<noteq> iss then Inl invalid_session
                    else Inr (\<lparr>vp_issuer = iss, vp_subject = sub\<rparr>, sid))
          | _ \<Rightarrow> Inl invalid_session)))"

definition authenticate ::
  "jwt_library \<Rightarrow> session_authenticator \<Rightarrow> (string \<Rightarrow> string \<Rightarrow> datetime \<Rightarrow> browser_session option result)
     \<Rightarrow> string \<Rightarrow> datetime \<Rightarrow> validated_principal result" where
  "authenticate jwt cfg get_active token now =
     bind_result (authenticate_identity jwt cfg get_active token now) (\<lambda>(p, _). Inr p)"

text \<open>The repository's CSRF check is an argument; both repositories use \<open>verify_session_csrf\<close>.\<close>

definition authenticate_mutation ::
  "jwt_library \<Rightarrow> session_authenticator \<Rightarrow> (string \<Rightarrow> string \<Rightarrow> datetime \<Rightarrow> browser_session option result)
     \<Rightarrow> (string \<Rightarrow> string \<Rightarrow> string \<Rightarrow> datetime \<Rightarrow> bool result)
     \<Rightarrow> string \<Rightarrow> string option \<Rightarrow> string option \<Rightarrow> datetime \<Rightarrow> validated_principal result" where
  "authenticate_mutation jwt cfg get_active verify_csrf token origin csrf_proof now =
     bind_result (authenticate_identity jwt cfg get_active token now) (\<lambda>(p, sid).
       if origin \<noteq> Some (sa_expected_origin cfg) \<or> csrf_proof = None \<or> csrf_proof = Some []
       then Inl invalid_session
       else bind_result (verify_csrf sid (vp_subject p) (the csrf_proof) now) (\<lambda>ok.
         if \<not> ok then Inl invalid_session else Inr p))"

definition logout_session ::
  "jwt_library \<Rightarrow> session_authenticator \<Rightarrow> ('st \<Rightarrow> string \<Rightarrow> string \<Rightarrow> datetime \<Rightarrow> browser_session option result)
     \<Rightarrow> (string \<Rightarrow> string \<Rightarrow> datetime \<Rightarrow> 'st \<Rightarrow> unit result \<times> 'st)
     \<Rightarrow> string \<Rightarrow> datetime \<Rightarrow> 'st \<Rightarrow> validated_principal result \<times> 'st" where
  "logout_session jwt cfg get_active revoke token now st =
     (case authenticate_identity jwt cfg (get_active st) token now of
        Inl e \<Rightarrow> (Inl e, st)
      | Inr (p, sid) \<Rightarrow>
          (case revoke sid ''logout'' now st of
             (Inl e, st') \<Rightarrow> (Inl e, st')
           | (Inr _, st') \<Rightarrow> (Inr p, st')))"

section \<open>Logout handler and runtime actors\<close>

text \<open>\<open>gateway/browser_session_logout_handler.py\<close>.\<close>

definition logout_handler ::
  "string \<Rightarrow> (string \<Rightarrow> 'st \<Rightarrow> validated_principal result \<times> 'st) \<Rightarrow> string \<Rightarrow> 'st \<Rightarrow> string result \<times> 'st" where
  "logout_handler cookie_name logout token st =
     (if cookie_name = [] then (Inl (ValueError ''browser session cookie name is required''), st)
      else (case logout token st of
          (Inl e, st') \<Rightarrow> (Inl e, st')
        | (Inr _, st') \<Rightarrow> (Inr cookie_name, st')))"

text \<open>\<open>gateway/browser_runtime_actor.py\<close>.\<close>

definition make_actor_store :: "actor list \<Rightarrow> (string, actor) dict" where
  "make_actor_store actors = dict_of a_user_id (\<lambda>a. a) actors"

definition get_active_actor :: "(string, actor) dict \<Rightarrow> string \<Rightarrow> string \<Rightarrow> actor option" where
  "get_active_actor d issuer subject = (if issuer \<noteq> ''platformops'' then None else dict_get d subject)"

definition resolve_runtime_actor ::
  "(string \<Rightarrow> string \<Rightarrow> actor option) \<Rightarrow> validated_principal \<Rightarrow> actor result" where
  "resolve_runtime_actor lookup p =
     (case lookup (vp_issuer p) (vp_subject p) of
        None \<Rightarrow> Inl (BrowserRuntimeActorResolutionError ''browser runtime actor unavailable'')
      | Some a \<Rightarrow>
          if a_user_id a \<noteq> vp_subject p
          then Inl (BrowserRuntimeActorResolutionError ''browser runtime actor unavailable'') else Inr a)"

definition browser_runtime_actor ::
  "string \<Rightarrow> string \<Rightarrow> execution_grant list option \<Rightarrow> approval_grant list option \<Rightarrow> datetime \<Rightarrow> actor" where
  "browser_runtime_actor subject email_text egs ags now =
     \<lparr>a_user_id = subject, a_email = email_text, a_execution_grants = (case egs of None \<Rightarrow> [] | Some g \<Rightarrow> g),
      a_approval_grants = (case ags of None \<Rightarrow> [] | Some g \<Rightarrow> g), a_resolved_at = now\<rparr>"

section \<open>Properties\<close>

text \<open>
  What is relied on of the JWT library: a token decodes, with the secret it was signed with, to
  the claims it was made from when issuer and audience are the ones asked for; its header names
  the key; and a token is not the empty text.
\<close>

definition jwt_round_trips :: "jwt_library \<Rightarrow> bool" where
  "jwt_round_trips jwt \<longleftrightarrow>
     (\<forall>c secret kid. jwt_encode jwt c secret kid \<noteq> [] \<and>
        jwt_kid jwt (jwt_encode jwt c secret kid) = Inr (Some kid) \<and>
        (\<forall>iss aud. dict_get c ''iss'' = Some (CText iss) \<longrightarrow> dict_get c ''aud'' = Some (CText aud) \<longrightarrow>
           jwt_decode jwt (jwt_encode jwt c secret kid) secret iss aud = Inr c))"

lemma int_timestamp_mono: "instant a \<le> instant b \<Longrightarrow> int_timestamp a \<le> int_timestamp b"
proof -
  assume le: "instant a \<le> instant b"
  have neg: "- ((- m) div 1000000) \<le> 0" if "m < (0 :: int)" for m
    using that by (simp add: pos_imp_zdiv_nonneg_iff)
  have pos: "0 \<le> m div 1000000" if "0 \<le> m" for m :: int
    using that by (simp add: pos_imp_zdiv_nonneg_iff)
  show ?thesis
    using le neg [of "instant a"] pos [of "instant b"] zdiv_mono1 [of "instant a" "instant b" 1000000]
      zdiv_mono1 [of "- instant b" "- instant a" 1000000]
    by (auto simp: int_timestamp_def Let_def)
qed

lemma int_timestamp_less: "int_timestamp a < int_timestamp b \<Longrightarrow> instant a < instant b"
  using int_timestamp_mono [of b a] by (cases "instant a < instant b") auto

lemma six_claims:
  "(case (a, b, c, d, e, f) of
      (Some a', Some b', Some c', Some d', Some e', Some f') \<Rightarrow> g a' b' c' d' e' f'
    | _ \<Rightarrow> Inl err) = Inr r \<longleftrightarrow>
   (\<exists>a' b' c' d' e' f'. a = Some a' \<and> b = Some b' \<and> c = Some c' \<and> d = Some d' \<and> e = Some e' \<and>
      f = Some f' \<and> g a' b' c' d' e' f' = Inr r)"
  by (cases a; cases b; cases c; cases d; cases e; cases f) simp_all

lemma bind_eq_Inr_pair:
  "authenticate_identity jwt cfg get_active token now = Inr (p, sid) \<longleftrightarrow>
     token \<noteq> [] \<and> (\<exists>c iat exp s. verified_claims jwt cfg token = Inr c \<and> fst ` set c = claim_names \<and>
       int_claim c ''iat'' = Some iat \<and> int_claim c ''exp'' = Some exp \<and>
       text_claim c ''iss'' = Some (vp_issuer p) \<and> text_claim c ''sub'' = Some (vp_subject p) \<and>
       text_claim c ''sid'' = Some sid \<and> text_claim c ''aud'' \<noteq> None \<and>
       iat \<le> int_timestamp now \<and> int_timestamp now < exp \<and>
       get_active sid (vp_subject p) now = Inr (Some s) \<and> bs_issuer s = vp_issuer p)"
proof -
  have look: "bind_result (get_active sid' sub now) (\<lambda>found. case found of
        None \<Rightarrow> Inl invalid_session
      | Some s \<Rightarrow> if bs_issuer s \<noteq> iss then Inl invalid_session
                  else Inr (\<lparr>vp_issuer = iss, vp_subject = sub\<rparr>, sid')) = Inr (p, sid) \<longleftrightarrow>
      iss = vp_issuer p \<and> sub = vp_subject p \<and> sid' = sid \<and>
      (\<exists>s. get_active sid sub now = Inr (Some s) \<and> bs_issuer s = iss)" for iss sub sid'
    by (cases p) (auto simp: result_simps split: option.splits if_splits)
  show ?thesis
    unfolding authenticate_identity_def if_Inl_eq_Inr
      bind_result_eq_Inr [of "verified_claims jwt cfg token"] six_claims look
    by (auto simp: not_less not_le simp del: text_claim.simps int_claim.simps)
qed

text \<open>The session an issued token names, seen through any repository.\<close>

lemma verified_claims_of_issue:
  assumes "jwt_round_trips jwt" "dict_get (sa_keys cfg) (sk_key_id key) = Some key"
    and "bs_issuer s = platformops_issuer"
  shows "verified_claims jwt cfg (jwt_encode jwt (session_claims s (sa_audience cfg)) (sk_secret key) (sk_key_id key))
    = Inr (session_claims s (sa_audience cfg))"
proof -
  have "dict_get (session_claims s (sa_audience cfg)) ''iss'' = Some (CText platformops_issuer)"
    "dict_get (session_claims s (sa_audience cfg)) ''aud'' = Some (CText (sa_audience cfg))"
    using assms(3) by (simp_all add: session_claims_def dict_get_def)
  with assms(1,2) show ?thesis
    by (simp add: verified_claims_def catch_jwt_def jwt_round_trips_def)
qed

lemma session_claims_fields:
  assumes "check_browser_session s = Inr s" "audience \<noteq> []"
  shows "fst ` set (session_claims s audience) = claim_names"
    "int_claim (session_claims s audience) ''iat'' = Some (int_timestamp (bs_created_at s))"
    "int_claim (session_claims s audience) ''exp'' = Some (int_timestamp (bs_expires_at s))"
    "text_claim (session_claims s audience) ''iss'' = Some platformops_issuer"
    "text_claim (session_claims s audience) ''sub'' = Some (bs_subject s)"
    "text_claim (session_claims s audience) ''sid'' = Some (bs_session_id s)"
    "text_claim (session_claims s audience) ''aud'' = Some audience"
proof -
  have "bs_subject s \<noteq> []" "bs_session_id s \<noteq> []" "bs_issuer s = platformops_issuer"
    using assms(1) by (auto simp: check_browser_session_def result_simps split: if_splits)
  then show "fst ` set (session_claims s audience) = claim_names"
    "int_claim (session_claims s audience) ''iat'' = Some (int_timestamp (bs_created_at s))"
    "int_claim (session_claims s audience) ''exp'' = Some (int_timestamp (bs_expires_at s))"
    "text_claim (session_claims s audience) ''iss'' = Some platformops_issuer"
    "text_claim (session_claims s audience) ''sub'' = Some (bs_subject s)"
    "text_claim (session_claims s audience) ''sid'' = Some (bs_session_id s)"
    "text_claim (session_claims s audience) ''aud'' = Some audience"
    using assms(2) by (auto simp: session_claims_def claim_names_def dict_get_def platformops_issuer_def)
qed

lemma issue_session_Inr:
  assumes "issue_session jwt hmac create cfg fresh proof subject now st = (Inr i, st')"
  shows "build_browser_session hmac fresh subject proof (si_csrf_key cfg) (si_ttl_seconds cfg) now
      = Inr (is_session i) \<and> create (is_session i) st = (Inr (), st') \<and>
    ck_token (is_set_cookie i) = jwt_encode jwt (session_claims (is_session i) (si_audience cfg))
      (sk_secret (kp_current (si_keys cfg))) (sk_key_id (kp_current (si_keys cfg))) \<and> is_csrf_proof i = proof"
  using assms by (auto simp: issue_session_def Let_def split: sum.splits if_splits prod.splits)

lemma build_browser_session_Inr:
  "build_browser_session hmac fresh subject proof key ttl now = Inr s \<Longrightarrow>
     check_browser_session s = Inr s \<and> bs_session_id s = fresh \<and> bs_subject s = subject \<and>
     bs_created_at s = now \<and> bs_expires_at s = dt_add_seconds now ttl \<and> bs_revoked_at s = None \<and>
     proof \<noteq> [] \<and> key \<noteq> [] \<and> bs_csrf_proof_digest s = hmac key proof"
  by (auto simp: build_browser_session_def digest_csrf_proof_def result_simps dest: check_browser_session_Inr
      split: if_splits)

context session_repository
begin

lemma issued_token_authenticates:
  assumes "inv st" "jwt_round_trips jwt"
    and "issue_session jwt hmac create cfg fresh proof subject (Aware t) st = (Inr i, st')"
    and "dict_get (sa_keys auth) (sk_key_id (kp_current (si_keys cfg))) = Some (kp_current (si_keys cfg))"
    and "sa_audience auth = si_audience cfg" "si_audience cfg \<noteq> []"
  shows "authenticate_identity jwt auth (get_active st') (ck_token (is_set_cookie i)) (Aware u) = Inr (p, sid) \<longleftrightarrow>
    p = \<lparr>vp_issuer = platformops_issuer, vp_subject = subject\<rparr> \<and> sid = fresh \<and>
    int_timestamp (Aware t) \<le> int_timestamp (Aware u) \<and>
    int_timestamp (Aware u) < int_timestamp (dt_add_seconds (Aware t) (si_ttl_seconds cfg))"
proof -
  let ?s = "is_session i" and ?c = "session_claims (is_session i) (si_audience cfg)"
  note i = issue_session_Inr [OF assms(3)]
  then have s: "check_browser_session ?s = Inr ?s" "bs_session_id ?s = fresh" "bs_subject ?s = subject"
    "bs_created_at ?s = Aware t" "bs_expires_at ?s = dt_add_seconds (Aware t) (si_ttl_seconds cfg)"
    "bs_revoked_at ?s = None"
    using build_browser_session_Inr by blast+
  have iss: "bs_issuer ?s = platformops_issuer" using check_browser_session_Inr [OF s(1)] by simp
  have inv': "inv st'" "stored st' fresh = Some ?s"
    using create_inv [OF assms(1) s(1)] create_stored [OF assms(1), of ?s] i s(2) by auto
  have tok: "ck_token (is_set_cookie i) \<noteq> []" "verified_claims jwt auth (ck_token (is_set_cookie i)) = Inr ?c"
    using i assms(2) verified_claims_of_issue [OF assms(2,4) iss] assms(5) by (auto simp: jwt_round_trips_def)
  have active: "get_active st' fresh subject (Aware u) = Inr (Some r) \<longleftrightarrow> r = ?s \<and> u < instant (bs_expires_at ?s)" for r
    using get_active_law [OF inv'(1)] inv'(2) s by auto
  have live: "u < instant (bs_expires_at ?s)" if "int_timestamp (Aware u) < int_timestamp (bs_expires_at ?s)"
    using int_timestamp_less [OF that] by simp
  show ?thesis
    unfolding bind_eq_Inr_pair using tok session_claims_fields [OF s(1) assms(6)] s iss active live
    by (cases p) auto
qed

lemma logout_final:
  assumes "inv st"
    and "authenticate_identity jwt cfg (get_active st) token (Aware t) = Inr (p, sid)"
    and "logout_session jwt cfg get_active revoke token (Aware t) st = (Inr q, st')"
    and "later st' st''"
  shows "authenticate_identity jwt' cfg' (get_active st'') token' (Aware u) \<noteq> Inr (p', sid)"
proof
  assume "authenticate_identity jwt' cfg' (get_active st'') token' (Aware u) = Inr (p', sid)"
  then obtain s' where act: "get_active st'' sid (vp_subject p') (Aware u) = Inr (Some s')"
    unfolding bind_eq_Inr_pair by blast
  have "st' = snd (revoke sid ''logout'' (Aware t) st)"
    using assms(2,3) by (auto simp: logout_session_def split: prod.splits sum.splits)
  moreover have "stored st sid \<noteq> None"
    using assms(2) get_active_law [OF assms(1)] unfolding bind_eq_Inr_pair by auto
  ultimately show False
    using revoked_for_good [of st sid "''logout''" "t" st''] assms(1,4) act by auto
qed

end

text \<open>
  An issued cookie authenticates its subject, and only while it is valid: with a JWT library
  that round-trips and a verification set that holds the signing key, the token in the cookie of a
  new session is accepted exactly from the second of issue up to, not including, the second of
  expiry, and then as the subject the session was issued to.
\<close>

theorem issued_session_authenticates_until_expiry:
  assumes "session_store_ok st" "jwt_round_trips jwt"
    and "issue_session jwt hmac create_session cfg fresh proof subject (Aware t) st = (Inr i, st')"
    and "dict_get (sa_keys auth) (sk_key_id (kp_current (si_keys cfg))) = Some (kp_current (si_keys cfg))"
    and "sa_audience auth = si_audience cfg" "si_audience cfg \<noteq> []"
  shows "authenticate jwt auth (get_active_session st') (ck_token (is_set_cookie i)) (Aware u) = Inr p \<longleftrightarrow>
    p = \<lparr>vp_issuer = platformops_issuer, vp_subject = subject\<rparr> \<and>
    int_timestamp (Aware t) \<le> int_timestamp (Aware u) \<and>
    int_timestamp (Aware u) < int_timestamp (dt_add_seconds (Aware t) (si_ttl_seconds cfg))"
  using memory_sessions.issued_token_authenticates [OF assms]
  by (auto simp: authenticate_def result_simps)

text \<open>
  Logout is final in the PostgreSQL store: once a session has been logged out, no token, key
  set or clock lets anybody authenticate with that session id again, whatever sessions are created
  or revoked later.
\<close>

theorem logout_is_final:
  assumes "session_table_ok tb"
    and "authenticate_identity jwt cfg (pg_get_active_session tb) token (Aware t) = Inr (p, sid)"
    and "logout_session jwt cfg pg_get_active_session pg_revoke_session token (Aware t) tb = (Inr q, tb')"
    and "postgres_sessions.later tb' tb''"
  shows "authenticate_identity jwt' cfg' (pg_get_active_session tb'') token' (Aware u) \<noteq> Inr (p', sid)"
  by (rule postgres_sessions.logout_final [OF assms])

lemma memory_logout_is_final:
  assumes "session_store_ok st"
    and "authenticate_identity jwt cfg (get_active_session st) token (Aware t) = Inr (p, sid)"
    and "logout_session jwt cfg get_active_session revoke_session token (Aware t) st = (Inr q, st')"
    and "memory_sessions.later st' st''"
  shows "authenticate_identity jwt' cfg' (get_active_session st'') token' (Aware u) \<noteq> Inr (p', sid)"
  by (rule memory_sessions.logout_final [OF assms])

text \<open>
  C15. A browser mutation needs a live session, the configured origin and the session's own CSRF
  proof: over the in-memory repository it is authenticated exactly when the token's verified
  claims have the declared shape and name an unrevoked, unexpired stored session of that subject,
  the origin is the expected one, and the HMAC of the presented, nonempty proof is the digest
  stored with the session.
\<close>

theorem mutation_needs_session_origin_and_csrf:
  assumes "session_store_ok st" "hmac_key \<noteq> []"
  shows "authenticate_mutation jwt cfg (get_active_session st)
      (verify_session_csrf hmac hmac_key (get_active_session st)) token origin csrf (Aware u) = Inr p \<longleftrightarrow>
    token \<noteq> [] \<and>
    (\<exists>c iat exp sid s proof. verified_claims jwt cfg token = Inr c \<and> fst ` set c = claim_names \<and>
       int_claim c ''iat'' = Some iat \<and> int_claim c ''exp'' = Some exp \<and>
       text_claim c ''iss'' = Some (vp_issuer p) \<and> text_claim c ''sub'' = Some (vp_subject p) \<and>
       text_claim c ''sid'' = Some sid \<and> text_claim c ''aud'' \<noteq> None \<and>
       iat \<le> int_timestamp (Aware u) \<and> int_timestamp (Aware u) < exp \<and>
       dict_get st sid = Some s \<and> bs_subject s = vp_subject p \<and> bs_issuer s = vp_issuer p \<and>
       bs_revoked_at s = None \<and> u < instant (bs_expires_at s) \<and>
       origin = Some (sa_expected_origin cfg) \<and> csrf = Some proof \<and> proof \<noteq> [] \<and>
       bs_csrf_proof_digest s = hmac hmac_key proof)"
proof -
  have "authenticate_mutation jwt cfg (get_active_session st)
      (verify_session_csrf hmac hmac_key (get_active_session st)) token origin csrf (Aware u) = Inr p \<longleftrightarrow>
    (\<exists>sid s proof. authenticate_identity jwt cfg (get_active_session st) token (Aware u) = Inr (p, sid) \<and>
       get_active_session st sid (vp_subject p) (Aware u) = Inr (Some s) \<and>
       origin = Some (sa_expected_origin cfg) \<and> csrf = Some proof \<and> proof \<noteq> [] \<and>
       bs_csrf_proof_digest s = hmac hmac_key proof)"
  proof (cases csrf)
    case (Some given)
    have ex_True: "(\<exists>x. r = Inr x \<and> x) \<longleftrightarrow> r = Inr True" for r :: "bool result" by auto
    have "verify_session_csrf hmac hmac_key (get_active_session st) sid sub given (Aware u) = Inr True \<longleftrightarrow>
        (\<exists>s. get_active_session st sid sub (Aware u) = Inr (Some s) \<and> given \<noteq> [] \<and>
           bs_csrf_proof_digest s = hmac hmac_key given)" for sid sub
      using assms(2) by (auto simp: verify_session_csrf_def digest_csrf_proof_def result_simps split: option.splits if_splits)
    with Some show ?thesis
      by (auto simp: authenticate_mutation_def result_simps ex_True)
  qed (auto simp: authenticate_mutation_def result_simps)
  then show ?thesis
    unfolding bind_eq_Inr_pair memory_sessions.get_active_law [OF assms(1)] by auto
qed

section \<open>A concrete library and session\<close>

instance claim_value :: countable
  by countable_datatype

text \<open>Tokens that number the signed claims; verification compares the secret.\<close>

definition demo_jwt :: jwt_library where
  "demo_jwt = \<lparr>jwt_encode = (\<lambda>c secret kid. show_nat (to_nat (c, secret, kid))),
     jwt_kid = (\<lambda>token. case from_nat (read_nat token) of (c :: claims, secret :: string, kid) \<Rightarrow> Inr (Some kid)),
     jwt_decode = (\<lambda>token secret iss aud.
       case from_nat (read_nat token) of (c :: claims, signed, kid :: string) \<Rightarrow>
         if signed = secret \<and> dict_get c ''iss'' = Some (CText iss) \<and> dict_get c ''aud'' = Some (CText aud)
         then Inr c else Inl (ExternalError ''jwt.InvalidTokenError''))\<rparr>"

lemma demo_jwt_round_trips: "jwt_round_trips demo_jwt"
  by (simp add: jwt_round_trips_def demo_jwt_def)

definition demo_key :: signing_key where
  "demo_key = \<lparr>sk_key_id = ''v1'', sk_secret = replicate 32 (CHR ''k'')\<rparr>"

definition demo_issuer :: session_issuer where
  "demo_issuer = \<lparr>si_keys = \<lparr>kp_current = demo_key, kp_keys = [(''v1'', demo_key)]\<rparr>, si_csrf_key = ''k'',
     si_audience = ''platformops-browser'', si_cookie_name = ''platformops_session'', si_ttl_seconds = 900\<rparr>"

definition demo_authenticator :: session_authenticator where
  "demo_authenticator = \<lparr>sa_keys = [(''v1'', demo_key)], sa_audience = ''platformops-browser'',
     sa_expected_origin = ''https://console''\<rparr>"

definition demo_hmac :: "string \<Rightarrow> string \<Rightarrow> string" where
  "demo_hmac key t = replicate 64 (CHR ''a'')"

definition demo_session :: browser_session where
  "demo_session = \<lparr>bs_session_id = ''bsess_01'', bs_issuer = ''platformops'', bs_subject = ''alice'',
     bs_csrf_proof_digest = replicate 64 (CHR ''a''), bs_created_at = Aware 0,
     bs_expires_at = Aware 900000000, bs_revoked_at = None, bs_revocation_reason = None\<rparr>"

definition demo_issue :: session_issue where
  "demo_issue = \<lparr>is_session = demo_session, is_set_cookie = \<lparr>ck_token = jwt_encode demo_jwt
       (session_claims demo_session ''platformops-browser'') (sk_secret demo_key) ''v1'',
     ck_name = ''platformops_session'', ck_max_age = 900\<rparr>, is_csrf_proof = ''proof''\<rparr>"

lemma demo_build: "build_browser_session demo_hmac ''bsess_01'' ''alice'' ''proof'' ''k'' 900 (Aware 0) = Inr demo_session"
  by (simp add: build_browser_session_def digest_csrf_proof_def check_browser_session_def hex_digest_def
      list_all_iff is_hex_lower_def dt_le_def demo_hmac_def demo_session_def platformops_issuer_def)

lemma demo_issue_memory:
  "issue_session demo_jwt demo_hmac create_session demo_issuer ''bsess_01'' ''proof'' ''alice'' (Aware 0) []
     = (Inr demo_issue, [(''bsess_01'', demo_session)])"
  by (simp add: issue_session_def demo_issuer_def demo_build demo_key_def create_session_def dict_simps
      dict_set_def demo_issue_def) (simp add: demo_session_def)

lemma demo_issue_postgres:
  "issue_session demo_jwt demo_hmac pg_create_session demo_issuer ''bsess_01'' ''proof'' ''alice'' (Aware 0)
       \<lparr>tbl_sessions = [], tbl_accounts = {''alice''}\<rparr>
     = (Inr demo_issue, \<lparr>tbl_sessions = [demo_session], tbl_accounts = {''alice''}\<rparr>)"
  by (simp add: issue_session_def demo_issuer_def demo_build demo_key_def demo_issue_def pg_create_session_def)
    (simp add: demo_session_def)

lemma demo_keys:
  "dict_get (sa_keys demo_authenticator) (sk_key_id (kp_current (si_keys demo_issuer)))
     = Some (kp_current (si_keys demo_issuer))"
  "sa_audience demo_authenticator = si_audience demo_issuer" "si_audience demo_issuer \<noteq> []"
  by (simp_all add: demo_authenticator_def demo_issuer_def demo_key_def dict_get_def)

theorem issued_session_authenticates_until_expiry_witness:
  "authenticate demo_jwt demo_authenticator (get_active_session [(''bsess_01'', demo_session)])
     (ck_token (is_set_cookie demo_issue)) (Aware 899999999)
     = Inr \<lparr>vp_issuer = ''platformops'', vp_subject = ''alice''\<rparr>"
  using issued_session_authenticates_until_expiry [OF _ demo_jwt_round_trips demo_issue_memory demo_keys,
      of 899999999 "\<lparr>vp_issuer = ''platformops'', vp_subject = ''alice''\<rparr>"]
  by (simp add: session_store_ok_def dict_simps int_timestamp_def platformops_issuer_def demo_issuer_def)

theorem logout_is_final_witness:
  "\<exists>tb'. logout_session demo_jwt demo_authenticator pg_get_active_session pg_revoke_session
      (ck_token (is_set_cookie demo_issue)) (Aware 5000000)
      \<lparr>tbl_sessions = [demo_session], tbl_accounts = {''alice''}\<rparr>
      = (Inr \<lparr>vp_issuer = ''platformops'', vp_subject = ''alice''\<rparr>, tb') \<and>
    authenticate_identity demo_jwt demo_authenticator (pg_get_active_session tb')
      (ck_token (is_set_cookie demo_issue)) (Aware 6000000)
      \<noteq> Inr (\<lparr>vp_issuer = ''platformops'', vp_subject = ''alice''\<rparr>, ''bsess_01'')"
proof -
  let ?tb = "\<lparr>tbl_sessions = [demo_session], tbl_accounts = {''alice''}\<rparr>"
  have ok: "session_table_ok ?tb"
    using demo_build by (auto simp: session_table_ok_def dest: build_browser_session_Inr)
  have "session_table_ok \<lparr>tbl_sessions = [], tbl_accounts = {''alice''}\<rparr>"
    by (simp add: session_table_ok_def)
  from postgres_sessions.issued_token_authenticates [OF this demo_jwt_round_trips demo_issue_postgres demo_keys,
      of 5000000 "\<lparr>vp_issuer = ''platformops'', vp_subject = ''alice''\<rparr>" "''bsess_01''"]
  have auth: "authenticate_identity demo_jwt demo_authenticator (pg_get_active_session ?tb)
      (ck_token (is_set_cookie demo_issue)) (Aware 5000000)
      = Inr (\<lparr>vp_issuer = ''platformops'', vp_subject = ''alice''\<rparr>, ''bsess_01'')"
    by (simp add: int_timestamp_def platformops_issuer_def demo_issuer_def)
  then obtain tb' where out: "logout_session demo_jwt demo_authenticator pg_get_active_session pg_revoke_session
      (ck_token (is_set_cookie demo_issue)) (Aware 5000000) ?tb
      = (Inr \<lparr>vp_issuer = ''platformops'', vp_subject = ''alice''\<rparr>, tb')"
    by (simp add: logout_session_def pg_revoke_session_def)
  show ?thesis
    using logout_is_final [OF ok auth out postgres_sessions.later.later_refl] out by blast
qed

theorem mutation_needs_session_origin_and_csrf_witness:
  "authenticate_mutation demo_jwt demo_authenticator (get_active_session [(''bsess_01'', demo_session)])
     (verify_session_csrf demo_hmac ''k'' (get_active_session [(''bsess_01'', demo_session)]))
     (ck_token (is_set_cookie demo_issue)) (Some ''https://console'') (Some ''proof'') (Aware 5000000)
     = Inr \<lparr>vp_issuer = ''platformops'', vp_subject = ''alice''\<rparr>"
proof -
  let ?c = "session_claims demo_session ''platformops-browser''"
  have s: "check_browser_session demo_session = Inr demo_session"
    using demo_build by (auto dest: build_browser_session_Inr)
  have fields: "bs_issuer demo_session = platformops_issuer" "bs_subject demo_session = ''alice''"
    "bs_session_id demo_session = ''bsess_01''" "bs_created_at demo_session = Aware 0"
    "bs_expires_at demo_session = Aware 900000000" "bs_revoked_at demo_session = None"
    "bs_csrf_proof_digest demo_session = demo_hmac ''k'' ''proof''"
    by (simp_all add: demo_session_def platformops_issuer_def demo_hmac_def)
  have "verified_claims demo_jwt demo_authenticator (ck_token (is_set_cookie demo_issue)) = Inr ?c"
    using verified_claims_of_issue [OF demo_jwt_round_trips, of demo_authenticator demo_key demo_session] demo_keys fields
    by (simp add: demo_issue_def demo_issuer_def demo_key_def)
  moreover have "ck_token (is_set_cookie demo_issue) \<noteq> []"
    by (simp add: demo_issue_def demo_jwt_def)
  moreover have "session_store_ok [(''bsess_01'', demo_session)]"
    by (simp add: session_store_ok_def dict_get_def fields)
  ultimately show ?thesis
    using session_claims_fields [OF s, of "''platformops-browser''"] fields
    by (intro iffD2 [OF mutation_needs_session_origin_and_csrf])
      (auto simp: dict_get_def demo_authenticator_def platformops_issuer_def int_timestamp_def
        simp del: text_claim.simps int_claim.simps)
qed

end
