(* ===== verification/Registration_Service.thy ===== *)
theory Registration_Service
  imports User_Accounts Rate_Limiter Oidc_Login Browser_Sessions Command_Router
begin

text \<open>
  The registration service of \<open>gateway/auth/registration.py\<close>, the \<open>/login\<close> workflow and handler
  over it, the login confirmation handler, and post-login domain discovery
  (\<open>gateway/auth/domain_discovery.py\<close>).  Repository, limiter, users, mail delivery and diagnostics
  are the service's injected collaborators, so they are fields of its record; the interpretations
  of Registration and User_Accounts are what the properties put there.
\<close>

section \<open>The service\<close>

definition digest_verification_token :: "(string \<Rightarrow> string \<Rightarrow> string) \<Rightarrow> string \<Rightarrow> string \<Rightarrow> string result" where
  "digest_verification_token hmac token key =
     (if token = [] then Inl (ValueError ''verification token cannot be empty'')
      else if key = [] then Inl (ValueError ''verification token HMAC key cannot be empty'')
      else Inr (hmac key token))"

definition redact_registration_secret :: "string \<Rightarrow> string" where
  "redact_registration_secret value = (if value \<noteq> [] then ''[REDACTED]'' else value)"

definition pending_response :: string where
  "pending_response = ''If the address can receive email, a verification message will arrive shortly.''"

record ('st, 'l, 'u, 'w) registration_service =
  sv_idna :: "string \<Rightarrow> string option"
  sv_hmac :: "string \<Rightarrow> string \<Rightarrow> string"
  sv_key :: string
  sv_ttl :: int
  sv_save :: "verification_attempt \<Rightarrow> datetime \<Rightarrow> 'st \<Rightarrow> unit result \<times> 'st"
  sv_find :: "'st \<Rightarrow> string \<Rightarrow> datetime \<Rightarrow> verification_attempt option result"
  sv_consume :: "string \<Rightarrow> datetime \<Rightarrow> 'st \<Rightarrow> string option result \<times> 'st"
  sv_send :: "string \<Rightarrow> string \<Rightarrow> 'w \<Rightarrow> unit result \<times> 'w"
  sv_allow :: "(string \<Rightarrow> string option \<Rightarrow> datetime \<Rightarrow> 'l \<Rightarrow> bool result \<times> 'l) option"
  sv_diagnostics :: "(string \<Rightarrow> 'w \<Rightarrow> unit result \<times> 'w) option"
  sv_users :: "(string \<Rightarrow> datetime \<Rightarrow> 'u \<Rightarrow> user_account result \<times> 'u) option"

record ('st, 'l, 'u, 'w) registration_state =
  rs_attempts :: 'st
  rs_limiter :: 'l
  rs_users :: 'u
  rs_world :: 'w

definition make_registration_service ::
  "('st, 'l, 'u, 'w) registration_service \<Rightarrow> ('st, 'l, 'u, 'w) registration_service result" where
  "make_registration_service sv =
     (if sv_key sv = [] then Inl (ValueError ''verification token HMAC key cannot be empty'')
      else if sv_ttl sv \<le> 0 then Inl (ValueError ''verification token TTL must be positive'') else Inr sv)"

text \<open>The attempt a request makes, with its generated id and secret token.\<close>

definition new_attempt ::
  "('st, 'l, 'u, 'w) registration_service \<Rightarrow> string \<Rightarrow> string \<Rightarrow> string \<Rightarrow> datetime \<Rightarrow> verification_attempt result" where
  "new_attempt sv fresh_id token canonical started_at =
     bind_result (digest_verification_token (sv_hmac sv) token (sv_key sv)) (\<lambda>digest.
       make_verification_attempt (sv_idna sv) \<lparr>va_attempt_id = fresh_id, va_canonical_email = canonical,
         va_token_digest = digest, va_expires_at = dt_add_seconds started_at (sv_ttl sv),
         va_created_at = started_at, va_consumed_at = None, va_invalidated_at = None\<rparr>)"

definition begin_verification ::
  "('st, 'l, 'u, 'w) registration_service \<Rightarrow> string \<Rightarrow> string \<Rightarrow> string \<Rightarrow> datetime
     \<Rightarrow> ('st, 'l, 'u, 'w) registration_state \<Rightarrow> unit result \<times> ('st, 'l, 'u, 'w) registration_state" where
  "begin_verification sv fresh_id token email_text started_at st =
     (case bind_result (canonical_email (sv_idna sv) email_text)
         (\<lambda>canonical. new_attempt sv fresh_id token canonical started_at) of
        Inl e \<Rightarrow> (Inl e, st)
      | Inr a \<Rightarrow>
          (case sv_save sv a started_at (rs_attempts st) of
             (Inl e, st1) \<Rightarrow> (Inl e, st\<lparr>rs_attempts := st1\<rparr>)
           | (Inr _, st1) \<Rightarrow>
               (case sv_send sv email_text token (rs_world st) of
                  (r, w1) \<Rightarrow> (r, st\<lparr>rs_attempts := st1, rs_world := w1\<rparr>))))"

text \<open>\<open>describe\<close> is \<open>str(error)\<close>; a delivery failure reaches diagnostics only.\<close>

definition request_registration ::
  "('st, 'l, 'u, 'w) registration_service \<Rightarrow> (exn \<Rightarrow> string) \<Rightarrow> string \<Rightarrow> string \<Rightarrow> string \<Rightarrow> string option
     \<Rightarrow> datetime \<Rightarrow> ('st, 'l, 'u, 'w) registration_state
     \<Rightarrow> string result \<times> ('st, 'l, 'u, 'w) registration_state" where
  "request_registration sv describe fresh_id token email_text source started_at st =
     (case canonical_email (sv_idna sv) email_text of
        Inl _ \<Rightarrow> (Inr pending_response, st)
      | Inr canonical \<Rightarrow>
          (case (case sv_allow sv of None \<Rightarrow> (Inr True, rs_limiter st)
                 | Some allow \<Rightarrow> allow canonical source started_at (rs_limiter st)) of
             (Inl e, l1) \<Rightarrow> (Inl e, st\<lparr>rs_limiter := l1\<rparr>)
           | (Inr False, l1) \<Rightarrow> (Inr pending_response, st\<lparr>rs_limiter := l1\<rparr>)
           | (Inr True, l1) \<Rightarrow>
               (case begin_verification sv fresh_id token email_text started_at (st\<lparr>rs_limiter := l1\<rparr>) of
                  (Inr _, st2) \<Rightarrow> (Inr pending_response, st2)
                | (Inl e, st2) \<Rightarrow>
                    (case sv_diagnostics sv of
                       None \<Rightarrow> (Inr pending_response, st2)
                     | Some record_failure \<Rightarrow>
                         (case record_failure (exn_name e @ '': '' @ redact_registration_secret (describe e)) (rs_world st2) of
                            (Inl e', w3) \<Rightarrow> (Inl e', st2\<lparr>rs_world := w3\<rparr>)
                          | (Inr _, w3) \<Rightarrow> (Inr pending_response, st2\<lparr>rs_world := w3\<rparr>))))))"

definition verification_intent ::
  "('st, 'l, 'u, 'w) registration_service \<Rightarrow> string \<Rightarrow> datetime \<Rightarrow> ('st, 'l, 'u, 'w) registration_state \<Rightarrow> bool result" where
  "verification_intent sv token now st =
     bind_result (digest_verification_token (sv_hmac sv) token (sv_key sv)) (\<lambda>digest.
     bind_result (sv_find sv (rs_attempts st) digest now) (\<lambda>found. Inr (found \<noteq> None)))"

definition consume_token ::
  "('st, 'l, 'u, 'w) registration_service \<Rightarrow> string \<Rightarrow> datetime \<Rightarrow> ('st, 'l, 'u, 'w) registration_state
     \<Rightarrow> string option result \<times> ('st, 'l, 'u, 'w) registration_state" where
  "consume_token sv token now st =
     (case digest_verification_token (sv_hmac sv) token (sv_key sv) of
        Inl e \<Rightarrow> (Inl e, st)
      | Inr digest \<Rightarrow>
          (case sv_consume sv digest now (rs_attempts st) of (r, st1) \<Rightarrow> (r, st\<lparr>rs_attempts := st1\<rparr>)))"

definition confirm_verification ::
  "('st, 'l, 'u, 'w) registration_service \<Rightarrow> string \<Rightarrow> datetime \<Rightarrow> ('st, 'l, 'u, 'w) registration_state
     \<Rightarrow> bool result \<times> ('st, 'l, 'u, 'w) registration_state" where
  "confirm_verification sv token now st =
     (case consume_token sv token now st of (r, st1) \<Rightarrow> (bind_result r (\<lambda>found. Inr (found \<noteq> None)), st1))"

definition confirm_and_issue_session ::
  "('st, 'l, 'u, 'w) registration_service \<Rightarrow> string \<Rightarrow> string \<Rightarrow> datetime \<Rightarrow> ('st, 'l, 'u, 'w) registration_state
     \<Rightarrow> actor_session option result \<times> ('st, 'l, 'u, 'w) registration_state" where
  "confirm_and_issue_session sv fresh_session token now st =
     (case sv_users sv of
        None \<Rightarrow> (Inr None, st)
      | Some create_user \<Rightarrow>
          (case consume_token sv token now st of
             (Inl e, st1) \<Rightarrow> (Inl e, st1)
           | (Inr None, st1) \<Rightarrow> (Inr None, st1)
           | (Inr (Some email_text), st1) \<Rightarrow>
               (case create_user email_text now (rs_users st1) of
                  (Inl e, u2) \<Rightarrow> (Inl e, st1\<lparr>rs_users := u2\<rparr>)
                | (Inr account, u2) \<Rightarrow>
                    (Inr (Some (build_actor_session \<lparr>oc_sub = ua_subject account, oc_email = email_text,
                        oc_groups = [], oc_oid = None\<rparr> [] [] 3600 fresh_session now)), st1\<lparr>rs_users := u2\<rparr>))))"

section \<open>The \<open>/login\<close> workflow and its handler\<close>

definition login_registration_graph ::
  "('st, 'l, 'u, 'w) registration_service \<Rightarrow> (exn \<Rightarrow> string) \<Rightarrow> string \<Rightarrow> string \<Rightarrow> datetime \<Rightarrow> string \<Rightarrow> string option
     \<Rightarrow> ('st, 'l, 'u, 'w) registration_state \<Rightarrow> string result \<times> ('st, 'l, 'u, 'w) registration_state" where
  "login_registration_graph sv describe fresh_id token now email_text source st =
     request_registration sv describe fresh_id token email_text source now st"

definition login_command :: "(string, string) dict \<Rightarrow> string result" where
  "login_command payload =
     (case dict_get payload ''email'' of
        None \<Rightarrow> Inl (ValidationError ''LoginCommand'')
      | Some email_text \<Rightarrow>
          if \<not> only_keys [''email''] payload \<or> length email_text < 1 \<or> 320 < length email_text
          then Inl (ValidationError ''LoginCommand'') else Inr email_text)"

definition login_registration_handler ::
  "('st, 'l, 'u, 'w) registration_service \<Rightarrow> (exn \<Rightarrow> string) \<Rightarrow> string \<Rightarrow> string \<Rightarrow> datetime
     \<Rightarrow> ((string, string) dict, string, ('st, 'l, 'u, 'w) registration_state) workflow_handler" where
  "login_registration_handler sv describe fresh_id token now invocation st =
     (case login_command (inv_payload invocation) of
        Inl e \<Rightarrow> (Inl e, st)
      | Inr email_text \<Rightarrow>
          login_registration_graph sv describe fresh_id token now email_text (inv_source invocation) st)"

section \<open>Confirming a login\<close>

record login_confirmation =
  lc_subject :: string
  lc_csrf_proof :: string
  lc_set_cookie :: set_cookie

definition make_login_confirmation :: "string \<Rightarrow> string \<Rightarrow> set_cookie \<Rightarrow> login_confirmation result" where
  "make_login_confirmation subject csrf_proof cookie =
     (if length subject < 5 \<or> length csrf_proof < 1 then Inl (ValidationError ''BrowserLoginConfirmationResponse'')
      else Inr \<lparr>lc_subject = subject, lc_csrf_proof = csrf_proof, lc_set_cookie = cookie\<rparr>)"

definition inspect_intent ::
  "('st, 'l, 'u, 'w) registration_service \<Rightarrow> string \<Rightarrow> datetime \<Rightarrow> ('st, 'l, 'u, 'w) registration_state \<Rightarrow> bool result" where
  "inspect_intent sv token now st = verification_intent sv token now st"

text \<open>\<open>issue\<close> is the browser session issuer over the store of browser sessions.\<close>

definition confirm_login ::
  "('st, 'l, 'u, 'w) registration_service \<Rightarrow> (string \<Rightarrow> 'b \<Rightarrow> session_issue result \<times> 'b) \<Rightarrow> string \<Rightarrow> string \<Rightarrow> datetime
     \<Rightarrow> ('st, 'l, 'u, 'w) registration_state \<times> 'b
     \<Rightarrow> login_confirmation option result \<times> ('st, 'l, 'u, 'w) registration_state \<times> 'b" where
  "confirm_login sv issue fresh_session token now = (\<lambda>(st, b).
     case confirm_and_issue_session sv fresh_session token now st of
       (Inl e, st1) \<Rightarrow> (Inl e, st1, b)
     | (Inr None, st1) \<Rightarrow> (Inr None, st1, b)
     | (Inr (Some s), st1) \<Rightarrow>
         (case issue (a_user_id (as_actor s)) b of
            (Inl e, b1) \<Rightarrow> (Inl e, st1, b1)
          | (Inr issued, b1) \<Rightarrow>
              (bind_result (make_login_confirmation (a_user_id (as_actor s)) (is_csrf_proof issued) (is_set_cookie issued))
                 (\<lambda>c. Inr (Some c)), st1, b1)))"

section \<open>Post-login domain discovery\<close>

datatype post_login_journey =
    ORGANIZATION_IDP_AUTHENTICATION
  | ORGANIZATION_MEMBER_ONBOARDING
  | PERSONAL_ORGANIZATION_CREATION
  | BUSINESS_ORGANIZATION_CLAIM

record idp_configuration =
  idp_issuer :: string
  idp_audience :: string

definition check_idp_configuration :: "idp_configuration \<Rightarrow> idp_configuration result" where
  "check_idp_configuration c =
     (if idp_issuer c = [] \<or> idp_audience c = [] then Inl (ValidationError ''OrganizationIdpConfiguration'') else Inr c)"

record active_domain =
  ad_organization_id :: string
  ad_canonical_domain :: string
  ad_idp :: "idp_configuration option"

definition check_active_domain :: "active_domain \<Rightarrow> active_domain result" where
  "check_active_domain d =
     (if ad_organization_id d = [] \<or> ad_canonical_domain d = [] then Inl (ValidationError ''ActiveOrganizationDomain'')
      else Inr d)"

record discovery_result =
  dr_journeys :: "post_login_journey list"
  dr_organization_id :: "string option"
  dr_idp :: "idp_configuration option"

definition discover ::
  "(string \<Rightarrow> string option) \<Rightarrow> (string \<Rightarrow> active_domain option result) \<Rightarrow> string \<Rightarrow> discovery_result result" where
  "discover idna find_active_domain email_text =
     bind_result (canonicalize_email idna email_text) (\<lambda>(_, domain).
     bind_result (find_active_domain domain) (\<lambda>found.
       Inr (case found of
          Some match \<Rightarrow>
            (case ad_idp match of
               Some idp \<Rightarrow> \<lparr>dr_journeys = [ORGANIZATION_IDP_AUTHENTICATION],
                 dr_organization_id = Some (ad_organization_id match), dr_idp = Some idp\<rparr>
             | None \<Rightarrow> \<lparr>dr_journeys = [ORGANIZATION_MEMBER_ONBOARDING],
                 dr_organization_id = Some (ad_organization_id match), dr_idp = None\<rparr>)
        | None \<Rightarrow> \<lparr>dr_journeys = [PERSONAL_ORGANIZATION_CREATION, BUSINESS_ORGANIZATION_CLAIM],
            dr_organization_id = None, dr_idp = None\<rparr>)))"

end
