(* ===== verification/Registration_Properties.thy ===== *)
theory Registration_Properties
  imports Registration_Service
begin

text \<open>
  What passwordless registration guarantees: requests reveal nothing, a link works until it is used,
  superseded or expired, it is used at most once, and what it issues is a session without grants.
  The properties of links are proved for every attempt repository and stated of the service over
  the PostgreSQL one.
\<close>

section \<open>Links over any attempt repository\<close>

context attempt_repository
begin

lemma nothing_live:
  assumes "inv st" "\<forall>b \<in> opened st. \<not> live_attempt d t b"
  shows "find_active st d (Aware t) = Inr None \<and> fst (consume d (Aware t) st) = Inr None"
proof -
  obtain r where r: "find_active st d (Aware t) = Inr r"
    "case r of None \<Rightarrow> \<forall>a \<in> opened st. \<not> live_attempt d t a | Some a \<Rightarrow> a \<in> opened st \<and> live_attempt d t a"
    using find_law [OF assms(1)] by blast
  obtain q where q: "fst (consume d (Aware t) st) = Inr q"
    "case q of None \<Rightarrow> snd (consume d (Aware t) st) = st \<and> (\<forall>a \<in> opened st. \<not> live_attempt d t a)
     | Some e \<Rightarrow> \<exists>a \<in> opened st. live_attempt d t a \<and> va_canonical_email a = e \<and>
         opened (snd (consume d (Aware t) st)) \<subseteq> opened st - {a}"
    using consume_law [OF assms(1)] by blast
  have "r = None" using r(2) assms(2) by (cases r) auto
  moreover have "q = None" using q(2) assms(2) by (cases q) auto
  ultimately show ?thesis using r(1) q(1) by simp
qed

lemma new_link_works:
  fixes t :: int
  assumes st: "inv st" "make_verification_attempt idna a = Inr a" "fresh st (va_attempt_id a)" "attempt_open a"
    and d: "va_token_digest a = d" "\<forall>b \<in> opened st. va_token_digest b \<noteq> d"
  defines "st1 \<equiv> snd (save a (Aware t) st)"
  shows "{b \<in> opened st1. va_token_digest b = d} = {a} \<and>
    (t' < instant (va_expires_at a) \<longrightarrow> find_active st1 d (Aware t') = Inr (Some a) \<and>
       fst (consume d (Aware t') st1) = Inr (Some (va_canonical_email a)))"
proof -
  have st1: "inv st1" and only: "{b \<in> opened st1. va_token_digest b = d} = {a}"
    using save_law [OF st(1-3), of t] st(4) d by (auto simp: st1_def)
  then have a: "a \<in> opened st1" and only_a: "\<And>b u. b \<in> opened st1 \<Longrightarrow> live_attempt d u b \<Longrightarrow> b = a"
    by (auto simp: live_attempt_def)
  have "find_active st1 d (Aware t') = Inr (Some a) \<and> fst (consume d (Aware t') st1) = Inr (Some (va_canonical_email a))"
    if "t' < instant (va_expires_at a)"
  proof
    have la: "live_attempt d t' a" using d that by (simp add: live_attempt_def)
    obtain r where r: "find_active st1 d (Aware t') = Inr r"
      "case r of None \<Rightarrow> \<forall>a \<in> opened st1. \<not> live_attempt d t' a | Some a \<Rightarrow> a \<in> opened st1 \<and> live_attempt d t' a"
      using find_law [OF st1] by blast
    show "find_active st1 d (Aware t') = Inr (Some a)"
    proof (cases r)
      case None
      with r(2) a la show ?thesis by simp
    next
      case (Some b)
      with r only_a [of b t'] show ?thesis by simp
    qed
    obtain q where q: "fst (consume d (Aware t') st1) = Inr q"
      "case q of None \<Rightarrow> snd (consume d (Aware t') st1) = st1 \<and> (\<forall>a \<in> opened st1. \<not> live_attempt d t' a)
       | Some e \<Rightarrow> \<exists>a \<in> opened st1. live_attempt d t' a \<and> va_canonical_email a = e \<and>
           opened (snd (consume d (Aware t') st1)) \<subseteq> opened st1 - {a}"
      using consume_law [OF st1] by blast
    show "fst (consume d (Aware t') st1) = Inr (Some (va_canonical_email a))"
    proof (cases q)
      case None
      with q(2) a la show ?thesis by simp
    next
      case (Some e)
      then obtain b where "b \<in> opened st1" "live_attempt d t' b" "va_canonical_email b = e" using q(2) by auto
      with q(1) Some only_a [of b t'] show ?thesis by simp
    qed
  qed
  with only show ?thesis by blast
qed

lemma older_link_dead:
  fixes t :: int
  assumes st: "inv st" "make_verification_attempt idna a = Inr a" "fresh st (va_attempt_id a)"
    and d: "va_token_digest a \<noteq> d" "\<forall>b \<in> opened st. va_token_digest b = d \<longrightarrow> va_canonical_email b = va_canonical_email a"
  defines "st1 \<equiv> snd (save a (Aware t) st)"
  shows "find_active st1 d (Aware t') = Inr None \<and> fst (consume d (Aware t') st1) = Inr None"
proof -
  have st1: "inv st1" and dead: "\<forall>b \<in> opened st1. \<not> live_attempt d t' b"
    using save_law [OF st, of t] d by (auto simp: st1_def live_attempt_def)
  show ?thesis by (rule nothing_live [OF st1 dead])
qed

end

section \<open>Over the PostgreSQL tables\<close>

definition durable_service :: "(attempt_table, 'l, 'u, 'w) registration_service \<Rightarrow> bool" where
  "durable_service sv \<longleftrightarrow> sv_save sv = pg_save_new_attempt \<and>
     sv_find sv = pg_find_active_by_digest (sv_idna sv) \<and> sv_consume sv = pg_consume_email_by_digest"

lemma digest_token_eq: "token \<noteq> [] \<Longrightarrow> sv_key sv \<noteq> [] \<Longrightarrow>
    digest_verification_token (sv_hmac sv) token (sv_key sv) = Inr (sv_hmac sv (sv_key sv) token)"
  by (simp add: digest_verification_token_def)

text \<open>What a request that was sent has saved.\<close>

lemma begin_verification_Inr:
  assumes "durable_service sv" "begin_verification sv i token e (Aware t) st = (Inr (), st1)"
  shows "\<exists>a. make_verification_attempt (sv_idna sv) a = Inr a \<and> va_attempt_id a = i \<and> attempt_open a \<and>
    (list_all is_ascii e \<longrightarrow> canonical_email (sv_idna sv) e = Inr (va_canonical_email a)) \<and> token \<noteq> [] \<and> sv_key sv \<noteq> [] \<and>
    va_token_digest a = sv_hmac sv (sv_key sv) token \<and> va_expires_at a = Aware (t + sv_ttl sv * 1000000) \<and>
    rs_attempts st1 = snd (pg_save_new_attempt a (Aware t) (rs_attempts st))"
proof -
  obtain l d a where c: "canonicalize_email (sv_idna sv) e = Inr (l, d)"
    and a: "new_attempt sv i token (canonical_text (l, d)) (Aware t) = Inr a"
    using assms(2) by (auto simp: begin_verification_def canonical_email_def result_simps split: sum.splits)
  have rows: "rs_attempts st1 = snd (pg_save_new_attempt a (Aware t) (rs_attempts st))"
    using assms c a
    by (auto simp: begin_verification_def canonical_email_def durable_service_def split: prod.splits sum.splits)
  let ?a = "\<lparr>va_attempt_id = i, va_canonical_email = canonical_text (l, d), va_token_digest = sv_hmac sv (sv_key sv) token,
    va_expires_at = dt_add_seconds (Aware t) (sv_ttl sv), va_created_at = Aware t,
    va_consumed_at = None, va_invalidated_at = None\<rparr>"
  have tok: "token \<noteq> []" "sv_key sv \<noteq> []" and made: "make_verification_attempt (sv_idna sv) ?a = Inr a"
    using a by (auto simp: new_attempt_def digest_verification_token_def result_simps split: if_splits)
  obtain m n where mail: "canonicalize_email (sv_idna sv) (canonical_text (l, d)) = Inr (m, n)"
    and a_eq: "a = ?a\<lparr>va_canonical_email := canonical_text (m, n)\<rparr>"
    using made by (auto simp: make_verification_attempt_def result_simps split: if_splits)
  have "make_verification_attempt (sv_idna sv) a = Inr a"
    using made canonicalize_email_twice [OF c mail] unfolding a_eq
    by (auto simp: make_verification_attempt_def result_simps split: if_splits)
  moreover have "canonical_email (sv_idna sv) e = Inr (va_canonical_email a)" if "list_all is_ascii e"
    using canonicalize_email_fixed [OF that c] mail c by (simp add: canonical_email_def a_eq)
  ultimately show ?thesis using rows tok
    by (intro exI [of _ a]) (simp add: a_eq attempt_open_def attempt_is_consumed_def)
qed

section \<open>What becomes of a link\<close>

text \<open>
  The steps of the service and of its repositories, with the outcomes of limiter, mail delivery,
  users and diagnostics left open; new requests draw tokens of other digests than \<open>d\<close>.
\<close>

inductive link_step :: "(attempt_table, 'l, 'u, 'w) registration_service \<Rightarrow> string \<Rightarrow>
    (attempt_table, 'l, 'u, 'w) registration_state \<Rightarrow> (attempt_table, 'l, 'u, 'w) registration_state \<Rightarrow> bool" for sv d where
  link_request: "sv_hmac sv (sv_key sv) token \<noteq> d \<Longrightarrow> request_registration sv describe i token e source now st = (x, st') \<Longrightarrow>
    link_step sv d st st'"
| link_begin: "sv_hmac sv (sv_key sv) token \<noteq> d \<Longrightarrow> begin_verification sv i token e now st = (y, st') \<Longrightarrow> link_step sv d st st'"
| link_confirm: "confirm_verification sv token now st = (z, st') \<Longrightarrow> link_step sv d st st'"
| link_session: "confirm_and_issue_session sv f token now st = (v, st') \<Longrightarrow> link_step sv d st st'"
| link_user: "consume_attempt_create_or_recover_user (sv_idna sv) f c created i d' now (rs_attempts st, users) = (r, rows, users') \<Longrightarrow>
    link_step sv d st (st\<lparr>rs_attempts := rows\<rparr>)"
| link_other: "rs_attempts st' = rs_attempts st \<Longrightarrow> link_step sv d st st'"

definition open_links :: "string \<Rightarrow> attempt_table \<Rightarrow> verification_attempt set" where
  "open_links d rows = {r \<in> opened_rows rows. va_token_digest r = d}"

lemma open_links_save: "va_token_digest a \<noteq> d \<Longrightarrow> open_links d (snd (pg_save_new_attempt a now rows)) \<subseteq> open_links d rows"
  by (auto simp: open_links_def opened_rows_def pg_save_new_attempt_def invalidate_row_open)

lemma open_links_map: "(\<And>r. attempt_open (f r) \<Longrightarrow> f r = r) \<Longrightarrow> open_links d (map f rows) \<subseteq> open_links d rows"
  by (auto simp: open_links_def opened_rows_def) (metis+)

lemma consume_row_open: "attempt_open (consume_row d now r) \<Longrightarrow> consume_row d now r = r"
  by (auto simp: consume_row_def split: if_splits)

lemma open_links_consume: "open_links d (map (consume_row d' now) rows) \<subseteq> open_links d rows"
  by (rule open_links_map [OF consume_row_open])

lemma consume_attempt_row_open: "attempt_open (consume_attempt_row i d now r) \<Longrightarrow> consume_attempt_row i d now r = r"
  by (auto simp: consume_attempt_row_def consume_row_open split: if_splits)

lemma open_links_consume_attempt: "open_links d (map (consume_attempt_row i d' now) rows) \<subseteq> open_links d rows"
  by (rule open_links_map [OF consume_attempt_row_open])

lemma open_links_begin:
  assumes "durable_service sv" "sv_hmac sv (sv_key sv) token \<noteq> d" "begin_verification sv i token e now st = (y, st')"
  shows "open_links d (rs_attempts st') \<subseteq> open_links d (rs_attempts st)"
proof (cases "bind_result (canonical_email (sv_idna sv) e) (\<lambda>c. new_attempt sv i token c now)")
  case (Inl err)
  with assms(3) show ?thesis by (simp add: begin_verification_def)
next
  case (Inr a)
  then have "va_token_digest a \<noteq> d" using assms(2)
    by (auto simp: new_attempt_def digest_verification_token_def make_verification_attempt_def result_simps split: if_splits)
  moreover have "rs_attempts st' = snd (pg_save_new_attempt a now (rs_attempts st))"
    using assms(1,3) Inr by (auto simp: begin_verification_def durable_service_def split: prod.splits sum.splits)
  ultimately show ?thesis by (simp add: open_links_save)
qed

lemma request_registration_rows:
  assumes "request_registration sv describe i token e source now st = (x, st')"
  shows "rs_attempts st' = rs_attempts st \<or>
    (\<exists>l y st2. begin_verification sv i token e now (st\<lparr>rs_limiter := l\<rparr>) = (y, st2) \<and> rs_attempts st' = rs_attempts st2)"
proof (cases "canonical_email (sv_idna sv) e")
  case (Inl err)
  with assms show ?thesis by (simp add: request_registration_def)
next
  case (Inr c)
  obtain r l where allow: "(case sv_allow sv of None \<Rightarrow> (Inr True, rs_limiter st)
      | Some allow \<Rightarrow> allow c source now (rs_limiter st)) = (r, l)" by fastforce
  obtain y st2 where begun: "begin_verification sv i token e now (st\<lparr>rs_limiter := l\<rparr>) = (y, st2)" by fastforce
  have "rs_attempts st' = rs_attempts st \<or> rs_attempts st' = rs_attempts st2"
    using assms Inr allow begun unfolding request_registration_def
    by (auto split: sum.splits prod.splits bool.splits option.splits)
  with begun show ?thesis by blast
qed

lemma consume_token_rows:
  assumes "durable_service sv" "consume_token sv token now st = (r, st')"
  shows "open_links d (rs_attempts st') \<subseteq> open_links d (rs_attempts st)"
proof (cases "digest_verification_token (sv_hmac sv) token (sv_key sv)")
  case (Inl err)
  with assms show ?thesis by (simp add: consume_token_def)
next
  case (Inr d')
  with assms have "rs_attempts st' = map (consume_row d' now) (rs_attempts st)"
    by (auto simp: consume_token_def durable_service_def pg_consume_email_by_digest_def)
  then show ?thesis by (simp add: open_links_consume)
qed

lemma session_rows:
  assumes "confirm_and_issue_session sv f token now st = (v, st')"
  shows "st' = st \<or> (\<exists>r st1. consume_token sv token now st = (r, st1) \<and> rs_attempts st' = rs_attempts st1)"
  using assms unfolding confirm_and_issue_session_def
  by (auto split: sum.splits prod.splits option.splits)

text \<open>No step opens a link again: the attempts open under a digest only become fewer.\<close>

lemma open_links_step:
  assumes "link_step sv d st st'" "durable_service sv"
  shows "open_links d (rs_attempts st') \<subseteq> open_links d (rs_attempts st)"
  using assms(1)
proof (cases rule: link_step.cases)
  case (link_request token describe i e source now x)
  show ?thesis using request_registration_rows [OF link_request(2)] open_links_begin [OF assms(2) link_request(1)] by fastforce
next
  case (link_begin token i e now y)
  then show ?thesis using open_links_begin [OF assms(2)] by blast
next
  case (link_confirm token now z)
  then obtain r where "consume_token sv token now st = (r, st')" by (auto simp: confirm_verification_def split: prod.splits)
  then show ?thesis by (rule consume_token_rows [OF assms(2)])
next
  case (link_session f token now v)
  from session_rows [OF link_session] show ?thesis
  proof
    assume "\<exists>r st1. consume_token sv token now st = (r, st1) \<and> rs_attempts st' = rs_attempts st1"
    then show ?thesis using consume_token_rows [OF assms(2)] by force
  qed simp
next
  case (link_user f c created i d' now users r rows users')
  then have "rows = rs_attempts st \<or> rows = map (consume_attempt_row i d' now) (rs_attempts st)"
    by (auto simp: consume_attempt_create_or_recover_user_def split: option.splits prod.splits sum.splits)
  then show ?thesis
  proof
    assume "rows = rs_attempts st"
    then show ?thesis by (simp add: link_user(1))
  next
    assume "rows = map (consume_attempt_row i d' now) (rs_attempts st)"
    then show ?thesis by (simp add: link_user(1) open_links_consume_attempt)
  qed
qed simp

lemma open_links_later:
  assumes "(link_step sv d)\<^sup>*\<^sup>* st st'" "durable_service sv"
  shows "open_links d (rs_attempts st') \<subseteq> open_links d (rs_attempts st)"
  using assms(1) by (induction rule: rtranclp_induct) (use open_links_step [OF _ assms(2)] in blast)+

text \<open>A confirmation that succeeded, with or without a session issued for it.\<close>

definition link_confirmed :: "(attempt_table, 'l, 'u, 'w) registration_service \<Rightarrow> string \<Rightarrow> datetime \<Rightarrow>
    (attempt_table, 'l, 'u, 'w) registration_state \<Rightarrow> (attempt_table, 'l, 'u, 'w) registration_state \<Rightarrow> bool" where
  "link_confirmed sv token now st st' \<longleftrightarrow> confirm_verification sv token now st = (Inr True, st') \<or>
     (\<exists>f s. confirm_and_issue_session sv f token now st = (Inr (Some s), st'))"

lemma confirmed_link_closes:
  assumes "durable_service sv" "link_confirmed sv token now st st'" "open_links (sv_hmac sv (sv_key sv) token) (rs_attempts st) \<subseteq> {a}"
  shows "open_links (sv_hmac sv (sv_key sv) token) (rs_attempts st') = {}"
proof -
  let ?d = "sv_hmac sv (sv_key sv) token"
  obtain e st1 where st1: "consume_token sv token now st = (Inr (Some e), st1)" "rs_attempts st' = rs_attempts st1"
  proof (cases "confirm_verification sv token now st = (Inr True, st')")
    case True
    with that show thesis by (auto simp: confirm_verification_def result_simps split: prod.splits)
  next
    case False
    with assms(2) obtain f s where "confirm_and_issue_session sv f token now st = (Inr (Some s), st')"
      by (auto simp: link_confirmed_def)
    with that show thesis unfolding confirm_and_issue_session_def
      by (cases "sv_users sv"; cases "consume_token sv token now st")
        (auto split: prod.splits sum.splits option.splits)
  qed
  have rows: "find (live_row ?d now) (rs_attempts st) \<noteq> None" "rs_attempts st' = map (consume_row ?d now) (rs_attempts st)"
    using st1 assms(1) by (auto simp: consume_token_def durable_service_def pg_consume_email_by_digest_def
        digest_verification_token_def split: if_splits)
  then obtain r where r: "r \<in> set (rs_attempts st)" "live_row ?d now r" by (auto simp: find_None_iff)
  then have "r \<in> open_links ?d (rs_attempts st)" by (simp add: live_row_def open_links_def opened_rows_def)
  with assms(3) have "r = a" by blast
  have "open_links ?d (rs_attempts st') \<subseteq> {a}"
    unfolding rows(2) using open_links_consume assms(3) by blast
  moreover have "a \<notin> open_links ?d (rs_attempts st')"
    using r(2) unfolding rows(2) \<open>r = a\<close> by (auto simp: open_links_def opened_rows_def consume_row_def live_row_def split: if_splits)
  ultimately show ?thesis by blast
qed

lemma closed_link_is_dead:
  assumes "durable_service sv" "token \<noteq> []" "sv_key sv \<noteq> []" "open_links (sv_hmac sv (sv_key sv) token) (rs_attempts st) = {}"
  shows "verification_intent sv token now st = Inr False \<and> fst (confirm_verification sv token now st) = Inr False \<and>
    fst (confirm_and_issue_session sv f token now st) = Inr None"
proof -
  have "find (live_row (sv_hmac sv (sv_key sv) token) now) (rs_attempts st) = None"
    using assms(4) by (auto simp: find_None_iff live_row_def open_links_def opened_rows_def)
  then show ?thesis
    using assms(1) digest_token_eq [of token sv] assms(2,3)
    by (simp add: verification_intent_def confirm_verification_def consume_token_def confirm_and_issue_session_def
        durable_service_def pg_find_active_by_digest_def pg_consume_email_by_digest_def split: option.split)
qed

text \<open>
  C35. A magic link works once.  After a verification was begun under a new attempt id with a token
  no open attempt has, the link is valid until it expires and confirming it then succeeds.  And
  whenever it was confirmed, with or without a session issued, in any later history of the service
  in which no request draws a token of the same digest the link is neither valid nor confirmable
  nor good for a session, at any time.
\<close>

theorem link_works_exactly_once:
  assumes "durable_service sv" "attempt_table_ok (sv_idna sv) (rs_attempts st)"
    and "begin_verification sv i token e (Aware t) st = (Inr (), st1)"
    and "fresh_row_id (rs_attempts st) i"
    and "\<forall>b \<in> opened_rows (rs_attempts st). va_token_digest b \<noteq> sv_hmac sv (sv_key sv) token"
  shows "(t' < t + sv_ttl sv * 1000000 \<longrightarrow> verification_intent sv token (Aware t') st1 = Inr True \<and>
      fst (confirm_verification sv token (Aware t') st1) = Inr True) \<and>
    ((link_step sv (sv_hmac sv (sv_key sv) token))\<^sup>*\<^sup>* st1 st2 \<and> link_confirmed sv token now st2 st3 \<and>
       (link_step sv (sv_hmac sv (sv_key sv) token))\<^sup>*\<^sup>* st3 st4 \<longrightarrow>
     verification_intent sv token now' st4 = Inr False \<and> fst (confirm_verification sv token now' st4) = Inr False \<and>
     fst (confirm_and_issue_session sv f token now' st4) = Inr None)"
proof -
  let ?d = "sv_hmac sv (sv_key sv) token"
  obtain a where a: "make_verification_attempt (sv_idna sv) a = Inr a" "va_attempt_id a = i" "attempt_open a"
    "token \<noteq> []" "sv_key sv \<noteq> []" "va_token_digest a = ?d"
    "va_expires_at a = Aware (t + sv_ttl sv * 1000000)"
    "rs_attempts st1 = snd (pg_save_new_attempt a (Aware t) (rs_attempts st))"
    using begin_verification_Inr [OF assms(1,3)] by blast
  have fresh: "fresh_row_id (rs_attempts st) (va_attempt_id a)" using assms(4) a(2) by simp
  note new = postgres_attempts.new_link_works [OF assms(2) a(1) fresh a(3) a(6) assms(5), of t t', folded a(8)]
  have first: "verification_intent sv token (Aware t') st1 = Inr True \<and> fst (confirm_verification sv token (Aware t') st1) = Inr True"
    if "t' < t + sv_ttl sv * 1000000"
    using new that assms(1) a(7)
    by (simp add: verification_intent_def confirm_verification_def consume_token_def digest_token_eq [OF a(4,5)]
        durable_service_def split_beta)
  have "open_links ?d (rs_attempts st4) = {}"
    if "(link_step sv ?d)\<^sup>*\<^sup>* st1 st2" "link_confirmed sv token now st2 st3" "(link_step sv ?d)\<^sup>*\<^sup>* st3 st4"
  proof -
    have "open_links ?d (rs_attempts st2) \<subseteq> {a}"
      using open_links_later [OF that(1) assms(1)] new by (simp add: open_links_def)
    from confirmed_link_closes [OF assms(1) that(2) this] show ?thesis
      using open_links_later [OF that(3) assms(1)] by simp
  qed
  with first closed_link_is_dead [OF assms(1) a(4,5)] show ?thesis by blast
qed

text \<open>
  Only the latest link of an address works: once a new verification is begun for it, a link to any
  other token is dead at all times, if the attempts open with that token were of this address.
\<close>

theorem older_links_die:
  assumes "durable_service sv" "attempt_table_ok (sv_idna sv) (rs_attempts st)" "list_all is_ascii e"
    and "begin_verification sv i token e (Aware t) st = (Inr (), st1)"
    and "fresh_row_id (rs_attempts st) i" "old \<noteq> []"
    and "sv_hmac sv (sv_key sv) old \<noteq> sv_hmac sv (sv_key sv) token"
    and "\<forall>b \<in> opened_rows (rs_attempts st). va_token_digest b = sv_hmac sv (sv_key sv) old \<longrightarrow>
      canonical_email (sv_idna sv) e = Inr (va_canonical_email b)"
  shows "verification_intent sv old (Aware t') st1 = Inr False \<and>
    fst (confirm_verification sv old (Aware t') st1) = Inr False"
proof -
  obtain a where a: "make_verification_attempt (sv_idna sv) a = Inr a" "va_attempt_id a = i"
    "canonical_email (sv_idna sv) e = Inr (va_canonical_email a)" "sv_key sv \<noteq> []"
    "va_token_digest a = sv_hmac sv (sv_key sv) token"
    "rs_attempts st1 = snd (pg_save_new_attempt a (Aware t) (rs_attempts st))"
    using begin_verification_Inr [OF assms(1,4)] assms(3) by blast
  have "\<forall>b \<in> opened_rows (rs_attempts st). va_token_digest b = sv_hmac sv (sv_key sv) old \<longrightarrow>
      va_canonical_email b = va_canonical_email a"
    using assms(8) a(3) by auto
  from postgres_attempts.older_link_dead [OF assms(2) a(1) _ _ this, of t t'] a(2,5,6) assms(5,7)
  show ?thesis
    using assms(1)
    by (simp add: verification_intent_def confirm_verification_def consume_token_def
        digest_token_eq [OF assms(6) a(4)] durable_service_def split_beta)
qed

text \<open>
  Injectivity of confirmation: in any history of saves and confirmations of the durable table, for
  each token digest the confirmations that succeeded are at most as many as the attempts saved with it.
\<close>

theorem confirmations_bounded_by_saved_attempts:
  assumes "postgres_attempts.history idna d [] rows m n"
  shows "n \<le> m \<and> attempt_table_ok idna rows"
  using postgres_attempts.history_count [OF assms] by (simp add: attempt_table_ok_def opened_rows_def)

text \<open>
  A request for a link reveals nothing: whatever the address, the state of the accounts and the
  outcome of saving and mailing, the answer is the same pending message; and of the error of a
  failed delivery, which may quote the secret, only its class and whether it has a text reach
  diagnostics.
\<close>

theorem registration_request_reveals_nothing:
  assumes "\<forall>allow c. sv_allow sv = Some allow \<longrightarrow> is_Inr (fst (allow c source now (rs_limiter st)))"
    and "\<forall>note_failure d w. sv_diagnostics sv = Some note_failure \<longrightarrow> is_Inr (fst (note_failure d w))"
    and "\<forall>x. describe' x = [] \<longleftrightarrow> describe x = []"
  shows "fst (request_registration sv describe i token e source now st) = Inr pending_response \<and>
    request_registration sv describe' i token e source now st = request_registration sv describe i token e source now st"
proof -
  have redacted: "redact_registration_secret (describe' x) = redact_registration_secret (describe x)" for x
    using assms(3) by (simp add: redact_registration_secret_def)
  have same: "request_registration sv describe' i token e source now st = request_registration sv describe i token e source now st"
    unfolding request_registration_def redacted by (rule refl)
  have "fst (request_registration sv describe i token e source now st) = Inr pending_response"
  proof (cases "canonical_email (sv_idna sv) e")
    case (Inl x)
    then show ?thesis by (simp add: request_registration_def)
  next
    case (Inr c)
    obtain r1 l1 where allow: "(case sv_allow sv of None \<Rightarrow> (Inr True, rs_limiter st)
        | Some allow \<Rightarrow> allow c source now (rs_limiter st)) = (Inr r1, l1)"
      using assms(1) by (cases "sv_allow sv") (simp, metis is_Inr_iff option.simps(5) prod.collapse)
    obtain x st2 where b: "begin_verification sv i token e now (st\<lparr>rs_limiter := l1\<rparr>) = (x, st2)" by fastforce
    show ?thesis
    proof (cases "sv_diagnostics sv")
      case None
      then show ?thesis
        by (cases r1; cases x) (simp_all add: request_registration_def Inr allow b)
    next
      case (Some f)
      have f: "\<exists>u w'. f d w = (Inr u, w')" for d w
        using assms(2) Some by (metis is_Inr_iff prod.collapse)
      show ?thesis
      proof (cases x)
        case (Inl err)
        obtain w' u where "f (exn_name err @ '': '' @ redact_registration_secret (describe err)) (rs_world st2) = (Inr u, w')"
          using f by blast
        then show ?thesis
          by (cases r1) (simp_all add: request_registration_def Inr allow b Some Inl)
      next
        case (Inr u)
        then show ?thesis
          by (cases r1) (simp_all add: request_registration_def \<open>canonical_email (sv_idna sv) e = Inr c\<close> allow b)
      qed
    qed
  qed
  with same show ?thesis by blast
qed

text \<open>
  Confirming a link proves control of one mailbox and nothing more: an issued session carries no
  grant and no group; its address is that of an attempt that was open with the token and not
  expired, and is open no longer; its subject is the account kept for that address.
\<close>

theorem confirmed_session_is_unassociated:
  assumes "durable_service sv" "attempt_table_ok (sv_idna sv) (rs_attempts st)"
    and "confirm_and_issue_session sv f token (Aware t) st = (Inr (Some s), st')"
  shows "a_execution_grants (as_actor s) = [] \<and> a_approval_grants (as_actor s) = [] \<and> as_groups s = [] \<and>
    (\<exists>a \<in> opened_rows (rs_attempts st). va_token_digest a = sv_hmac sv (sv_key sv) token \<and>
       t < instant (va_expires_at a) \<and> va_canonical_email a = a_email (as_actor s) \<and>
       a \<notin> opened_rows (rs_attempts st')) \<and>
    (\<exists>create_user account u. sv_users sv = Some create_user \<and> ua_subject account = a_user_id (as_actor s) \<and>
       create_user (a_email (as_actor s)) (Aware t) (rs_users st) = (Inr account, u))"
proof -
  obtain create_user where users: "sv_users sv = Some create_user"
    using assms(3) by (auto simp: confirm_and_issue_session_def split: option.splits)
  obtain st1 e where consumed: "consume_token sv token (Aware t) st = (Inr (Some e), st1)"
    using assms(3) users by (auto simp: confirm_and_issue_session_def split: prod.splits sum.splits option.splits)
  obtain account u where account: "create_user e (Aware t) (rs_users st1) = (Inr account, u)"
    and s: "s = build_actor_session \<lparr>oc_sub = ua_subject account, oc_email = e, oc_groups = [], oc_oid = None\<rparr>
      [] [] 3600 f (Aware t)" and st': "st' = st1\<lparr>rs_users := u\<rparr>"
    using assms(3) users consumed by (auto simp: confirm_and_issue_session_def split: prod.splits sum.splits)
  let ?d = "sv_hmac sv (sv_key sv) token"
  have rows: "pg_consume_email_by_digest ?d (Aware t) (rs_attempts st) = (Inr (Some e), rs_attempts st1)"
    "rs_users st1 = rs_users st"
    using consumed assms(1)
    by (auto simp: consume_token_def durable_service_def digest_verification_token_def split: if_splits prod.splits)
  obtain a where "a \<in> opened_rows (rs_attempts st)" "live_attempt ?d t a" "va_canonical_email a = e"
    "opened_rows (rs_attempts st1) \<subseteq> opened_rows (rs_attempts st) - {a}"
    using postgres_attempts.consume_law [OF assms(2), of ?d t] rows(1) by auto
  then show ?thesis
    using users account rows(2) by (auto simp: s st' build_actor_session_def live_attempt_def)
qed

section \<open>A registration to run\<close>

text \<open>Two tokens with different digests; delivery counts the mails sent.\<close>

definition demo_registration :: "(attempt_table, rate_limiter, nat, nat) registration_service" where
  "demo_registration = \<lparr>sv_idna = (\<lambda>_. None),
     sv_hmac = (\<lambda>k m. replicate 64 (if m = ''tok'' then CHR ''a'' else CHR ''b'')), sv_key = ''k'', sv_ttl = 900,
     sv_save = pg_save_new_attempt, sv_find = pg_find_active_by_digest (\<lambda>_. None),
     sv_consume = pg_consume_email_by_digest, sv_send = (\<lambda>_ _ n. (Inr (), Suc n)),
     sv_allow = Some rate_allow, sv_diagnostics = None,
     sv_users = Some (\<lambda>_ now n. (Inr \<lparr>ua_issuer = ''platformops'', ua_subject = ''usr_1'', ua_created_at = now\<rparr>, Suc n))\<rparr>"

type_synonym demo_registration_state = "(attempt_table, rate_limiter, nat, nat) registration_state"

definition demo_start :: demo_registration_state where
  "demo_start = \<lparr>rs_attempts = [], rs_limiter = make_rate_limiter 3 10 900, rs_users = 0, rs_world = 0\<rparr>"

definition demo_sent :: demo_registration_state where
  "demo_sent = snd (begin_verification demo_registration ''verify_1'' ''old'' ''a@b.c'' (Aware 0) demo_start)"

definition demo_resent :: demo_registration_state where
  "demo_resent = snd (begin_verification demo_registration ''verify_2'' ''tok'' ''a@b.c'' (Aware 5) demo_sent)"

lemma demo_durable: "durable_service demo_registration"
  by (simp add: durable_service_def demo_registration_def)

lemma demo_resent_ok:
  "begin_verification demo_registration ''verify_2'' ''tok'' ''a@b.c'' (Aware 5) demo_sent = (Inr (), demo_resent)"
proof -
  have "fst (begin_verification demo_registration ''verify_2'' ''tok'' ''a@b.c'' (Aware 5) demo_sent) = Inr ()"
    by code_simp
  then show ?thesis by (metis demo_resent_def prod.collapse)
qed

lemma demo_sent_table:
  "attempt_table_ok (sv_idna demo_registration) (rs_attempts demo_sent)" "fresh_row_id (rs_attempts demo_sent) ''verify_2''"
  "\<forall>b \<in> opened_rows (rs_attempts demo_sent). va_token_digest b \<noteq> sv_hmac demo_registration (sv_key demo_registration) ''tok''"
  "\<forall>b \<in> opened_rows (rs_attempts demo_sent). va_token_digest b = sv_hmac demo_registration (sv_key demo_registration) ''old'' \<longrightarrow>
     canonical_email (sv_idna demo_registration) ''a@b.c'' = Inr (va_canonical_email b)"
  "sv_hmac demo_registration (sv_key demo_registration) ''old'' \<noteq> sv_hmac demo_registration (sv_key demo_registration) ''tok''"
  by code_simp+

text \<open>The link is confirmed, and then an attempt for the same address is begun under another token.\<close>

definition demo_confirmed :: demo_registration_state where
  "demo_confirmed = snd (confirm_verification demo_registration ''tok'' (Aware 6) demo_resent)"

definition demo_restarted :: demo_registration_state where
  "demo_restarted = snd (begin_verification demo_registration ''verify_3'' ''other'' ''a@b.c'' (Aware 8) demo_confirmed)"

theorem link_works_exactly_once_witness:
  "verification_intent demo_registration ''tok'' (Aware 6) demo_resent = Inr True \<and>
   confirm_verification demo_registration ''tok'' (Aware 6) demo_resent = (Inr True, demo_confirmed) \<and>
   verification_intent demo_registration ''tok'' (Aware 9) demo_restarted = Inr False \<and>
   fst (confirm_verification demo_registration ''tok'' (Aware 9) demo_restarted) = Inr False"
proof -
  let ?d = "sv_hmac demo_registration (sv_key demo_registration) ''tok''"
  have "6 < 5 + sv_ttl demo_registration * 1000000" by (simp add: demo_registration_def)
  note once = link_works_exactly_once [OF demo_durable demo_sent_table(1) demo_resent_ok demo_sent_table(2,3)]
  have first: "verification_intent demo_registration ''tok'' (Aware 6) demo_resent = Inr True"
    "confirm_verification demo_registration ''tok'' (Aware 6) demo_resent = (Inr True, demo_confirmed)"
    using once [of 6] \<open>6 < 5 + sv_ttl demo_registration * 1000000\<close> by (simp_all add: demo_confirmed_def prod_eq_iff)
  then have "link_confirmed demo_registration ''tok'' (Aware 6) demo_resent demo_confirmed" by (simp add: link_confirmed_def)
  moreover have "sv_hmac demo_registration (sv_key demo_registration) ''other'' \<noteq> ?d" by (simp add: demo_registration_def)
  then have "link_step demo_registration ?d demo_confirmed demo_restarted"
    unfolding demo_restarted_def by (rule link_begin [OF _ surjective_pairing])
  ultimately show ?thesis using once [of _ demo_resent "Aware 6" demo_confirmed demo_restarted "Aware 9"] first by blast
qed

theorem older_links_die_witness:
  "verification_intent demo_registration ''old'' (Aware 6) demo_resent = Inr False \<and>
   fst (confirm_verification demo_registration ''old'' (Aware 6) demo_resent) = Inr False"
proof -
  have "list_all is_ascii ''a@b.c''" by (simp add: is_ascii_def)
  from older_links_die [OF demo_durable demo_sent_table(1) this demo_resent_ok demo_sent_table(2) _ demo_sent_table(5,4)]
  show ?thesis by simp
qed

theorem registration_request_reveals_nothing_witness:
  "fst (request_registration demo_registration (\<lambda>_. ''secret'') ''verify_2'' ''tok'' ''a@b.c'' None (Aware 0) demo_start)
     = Inr pending_response"
proof -
  have "\<forall>allow c. sv_allow demo_registration = Some allow \<longrightarrow>
      is_Inr (fst (allow c None (Aware 0) (rs_limiter demo_start)))"
    by (simp add: demo_registration_def demo_start_def make_rate_limiter_def rate_allow_def recent_attempts_def
        truthy_source_def dict_simps)
  from registration_request_reveals_nothing [OF this, where describe = "\<lambda>_. ''secret''" and describe' = "\<lambda>_. ''other''"]
  show ?thesis by (simp add: demo_registration_def)
qed

definition demo_attempt :: verification_attempt where
  "demo_attempt = \<lparr>va_attempt_id = ''verify_1'', va_canonical_email = ''a@b.c'', va_token_digest = replicate 64 (CHR ''b''),
     va_expires_at = Aware 900000000, va_created_at = Aware 0, va_consumed_at = None, va_invalidated_at = None\<rparr>"

lemma demo_attempt_ok: "make_verification_attempt (\<lambda>_. None) demo_attempt = Inr demo_attempt"
  by code_simp

lemma demo_consumed: "fst (pg_consume_email_by_digest (replicate 64 (CHR ''b'')) (Aware 1)
    (snd (pg_save_new_attempt demo_attempt (Aware 0) []))) = Inr (Some ''a@b.c'')"
  by code_simp

theorem confirmations_bounded_by_saved_attempts_witness:
  "(1::nat) \<le> 1 \<and> attempt_table_ok (\<lambda>_. None) (snd (pg_consume_email_by_digest (replicate 64 (CHR ''b'')) (Aware 1)
     (snd (pg_save_new_attempt demo_attempt (Aware 0) []))))"
proof -
  let ?d = "replicate 64 (CHR ''b'')"
  have "postgres_attempts.history (\<lambda>_. None) ?d [] (snd (pg_save_new_attempt demo_attempt (Aware 0) []))
      (if va_token_digest demo_attempt = ?d then Suc 0 else 0) 0"
    by (rule postgres_attempts.history_save [OF postgres_attempts.history_start demo_attempt_ok])
      (simp add: fresh_row_id_def)
  from postgres_attempts.history_consume [OF this demo_consumed]
  have "postgres_attempts.history (\<lambda>_. None) ?d [] (snd (pg_consume_email_by_digest ?d (Aware 1)
      (snd (pg_save_new_attempt demo_attempt (Aware 0) [])))) 1 1"
    by (simp add: demo_attempt_def)
  from confirmations_bounded_by_saved_attempts [OF this] show ?thesis .
qed

theorem confirmed_session_is_unassociated_witness:
  "\<exists>s st'. confirm_and_issue_session demo_registration ''sess'' ''tok'' (Aware 6) demo_resent = (Inr (Some s), st') \<and>
     a_execution_grants (as_actor s) = [] \<and> a_approval_grants (as_actor s) = []"
proof -
  have "(case fst (confirm_and_issue_session demo_registration ''sess'' ''tok'' (Aware 6) demo_resent) of
      Inr (Some s) \<Rightarrow> True | _ \<Rightarrow> False)"
    by code_simp
  then obtain s st' where run: "confirm_and_issue_session demo_registration ''sess'' ''tok'' (Aware 6) demo_resent
      = (Inr (Some s), st')"
    by (auto split: sum.splits option.splits) (metis prod.collapse)
  have ok: "attempt_table_ok (sv_idna demo_registration) (rs_attempts demo_resent)" by code_simp
  from confirmed_session_is_unassociated [OF demo_durable ok run] run show ?thesis by blast
qed

end
