(* ===== verification/Device_Login.thy ===== *)
theory Device_Login
  imports Oidc_Login
begin

text \<open>
  The device-code login of \<open>gateway/auth/cli.py\<close>: the polling loop, that it ends and how often it
  polls, and the session a successful login writes.  The monotonic clock and the interval count
  microseconds and seconds; printing, HTTP and the session file are arguments.
\<close>

section \<open>The polling loop\<close>

record 'w device_environment =
  de_monotonic :: "'w \<Rightarrow> int \<times> 'w"
  de_sleep :: "int \<Rightarrow> 'w \<Rightarrow> unit result \<times> 'w"

partial_function (option) poll_loop ::
  "'w device_environment \<Rightarrow> ('w \<Rightarrow> token_set result \<times> 'w) \<Rightarrow> int \<Rightarrow> int \<Rightarrow> 'w
     \<Rightarrow> (token_set result \<times> 'w) option" where
  "poll_loop env poll deadline interval w =
     (case de_monotonic env w of (t, w1) \<Rightarrow>
        if deadline \<le> t
        then Some (Inl (TimeoutError ''device authorization expired before login completed''), w1)
        else
          (case poll w1 of (r, w2) \<Rightarrow>
             if r = Inl DeviceAuthorizationPending
             then (case de_sleep env interval w2 of
                 (Inl e, w3) \<Rightarrow> Some (Inl e, w3)
               | (Inr _, w3) \<Rightarrow> poll_loop env poll deadline interval w3)
             else if r = Inl DeviceAuthorizationSlowDown
             then (case de_sleep env (interval + 5) w2 of
                 (Inl e, w3) \<Rightarrow> Some (Inl e, w3)
               | (Inr _, w3) \<Rightarrow> poll_loop env poll deadline (interval + 5) w3)
             else Some (r, w2)))"

declare poll_loop.simps [simp del]

text \<open>
  What the loop relies on: the clock never goes back, a sleep of \<open>n\<close> seconds that returns took at
  least \<open>n\<close> seconds, and \<open>polls\<close> counts the polls.
\<close>

definition clock_laws ::
  "'w device_environment \<Rightarrow> ('w \<Rightarrow> token_set result \<times> 'w) \<Rightarrow> ('w \<Rightarrow> int) \<Rightarrow> ('w \<Rightarrow> nat) \<Rightarrow> bool" where
  "clock_laws env poll clock polls \<longleftrightarrow>
     (\<forall>w. fst (de_monotonic env w) = clock w \<and> clock w \<le> clock (snd (de_monotonic env w)) \<and>
        polls (snd (de_monotonic env w)) = polls w) \<and>
     (\<forall>w. clock w \<le> clock (snd (poll w)) \<and> polls (snd (poll w)) = Suc (polls w)) \<and>
     (\<forall>n w. fst (de_sleep env n w) = Inr () \<longrightarrow> clock w + n * 1000000 \<le> clock (snd (de_sleep env n w))) \<and>
     (\<forall>n w. polls (snd (de_sleep env n w)) = polls w)"

text \<open>Polls left before the deadline when none follows another sooner than the interval.\<close>

definition polls_left :: "int \<Rightarrow> int \<Rightarrow> nat" where
  "polls_left remaining interval = nat ((remaining + interval * 1000000 - 1) div (interval * 1000000))"

lemma polls_left_step:
  assumes "0 < interval" "0 < remaining" "remaining' \<le> remaining - interval * 1000000"
  shows "Suc (polls_left remaining' interval) \<le> polls_left remaining interval"
proof -
  let ?i = "interval * 1000000"
  have i: "0 < ?i" using assms(1) by simp
  have "(remaining' + ?i - 1) div ?i \<le> (remaining - 1) div ?i"
    by (rule zdiv_mono1) (use assms i in simp_all)
  moreover have "(remaining + ?i - 1) div ?i = (remaining - 1) div ?i + 1"
    using div_add_self2 [of ?i "remaining - 1"] i by (simp add: algebra_simps)
  moreover have "0 \<le> (remaining - 1) div ?i" using assms(2) i by (simp add: pos_imp_zdiv_nonneg_iff)
  ultimately show ?thesis unfolding polls_left_def by linarith
qed

lemma polls_left_mono: "0 < interval \<Longrightarrow> r \<le> r' \<Longrightarrow> polls_left r interval \<le> polls_left r' interval"
  unfolding polls_left_def by (intro nat_mono zdiv_mono1) auto

definition settled :: "token_set result \<Rightarrow> bool" where
  "settled r \<longleftrightarrow> r \<noteq> Inl DeviceAuthorizationPending \<and> r \<noteq> Inl DeviceAuthorizationSlowDown"

lemma poll_loop_ends:
  assumes laws: "clock_laws env poll clock polls" and "0 < i0" "i0 \<le> interval"
    and sleeps: "\<forall>n w e. 0 < n \<longrightarrow> fst (de_sleep env n w) = Inr ()"
  shows "\<exists>r w'. poll_loop env poll deadline interval w = Some (r, w') \<and> settled r \<and>
    polls w' \<le> polls w + polls_left (deadline - clock w) i0"
  using assms(2,3)
proof (induction "nat (deadline - clock w)" arbitrary: w interval rule: less_induct)
  case less
  obtain t w1 where m: "de_monotonic env w = (t, w1)" by fastforce
  have w1: "t = clock w" "clock w \<le> clock w1" "polls w1 = polls w"
    using laws m unfolding clock_laws_def by (metis fst_conv snd_conv)+
  show ?case
  proof (cases "deadline \<le> t")
    case True
    then show ?thesis using m w1 by (simp add: poll_loop.simps settled_def)
  next
    case False
    obtain r w2 where p: "poll w1 = (r, w2)" by fastforce
    have w2: "clock w1 \<le> clock w2" "polls w2 = Suc (polls w1)"
      using laws p unfolding clock_laws_def by (metis snd_conv)+
    have left: "Suc (polls w) \<le> polls w + polls_left (deadline - clock w) i0"
      using polls_left_step [of i0 "deadline - clock w" "deadline - clock w - i0 * 1000000"] less.prems False w1
      by simp
    have again: "\<exists>r w'. (case de_sleep env n w2 of (Inl e, w3) \<Rightarrow> Some (Inl e, w3)
          | (Inr _, w3) \<Rightarrow> poll_loop env poll deadline n w3) = Some (r, w') \<and> settled r \<and>
        polls w' \<le> polls w + polls_left (deadline - clock w) i0" if n: "i0 \<le> n" for n
    proof -
      obtain w3 where s: "de_sleep env n w2 = (Inr (), w3)"
        using sleeps n less.prems(1) by (metis order_less_le_trans prod.collapse)
      then have w3: "clock w2 + n * 1000000 \<le> clock w3" "polls w3 = polls w2"
        using laws unfolding clock_laws_def by (metis fst_conv snd_conv)+
      then have later: "clock w + i0 * 1000000 \<le> clock w3" using w1(2) w2(1) n by linarith
      have "nat (deadline - clock w3) < nat (deadline - clock w)"
        using later less.prems(1) False w1(1) by linarith
      from less.hyps [OF this less.prems(1) n] obtain r' w' where
        "poll_loop env poll deadline n w3 = Some (r', w')" "settled r'"
        "polls w' \<le> polls w3 + polls_left (deadline - clock w3) i0"
        by blast
      moreover have "Suc (polls_left (deadline - clock w3) i0) \<le> polls_left (deadline - clock w) i0"
        by (rule polls_left_step) (use later less.prems False w1 in simp_all)
      ultimately show ?thesis using s w3(2) w2(2) w1(3) by simp
    qed
    show ?thesis
    proof (cases "r = Inl DeviceAuthorizationPending")
      case True
      with again [OF less.prems(2)] m p False show ?thesis by (simp add: poll_loop.simps)
    next
      case nonpending: False
      show ?thesis
      proof (cases "r = Inl DeviceAuthorizationSlowDown")
        case True
        with again [of "interval + 5"] less.prems m p False show ?thesis by (simp add: poll_loop.simps)
      next
        case False
        with nonpending m p \<open>\<not> deadline \<le> t\<close> left w1 w2 show ?thesis
          by (simp add: poll_loop.simps settled_def)
      qed
    qed
  qed
qed

section \<open>Logging in\<close>

record 'w login_ports =
  lp_environment :: "'w device_environment"
  lp_fetch :: "'w fetch_json"
  lp_post :: "'w post_form"
  lp_print :: "string \<Rightarrow> 'w \<Rightarrow> 'w"
  lp_write_session :: "actor_session \<Rightarrow> string \<Rightarrow> 'w \<Rightarrow> unit result \<times> 'w"

definition login_after_token ::
  "'w login_ports \<Rightarrow> json_object oidc_library \<Rightarrow> device_client_config \<Rightarrow> grant_mapping_config \<Rightarrow> string
     \<Rightarrow> provider_metadata \<Rightarrow> token_set \<Rightarrow> string \<Rightarrow> datetime \<Rightarrow> 'w \<Rightarrow> actor_session result \<times> 'w" where
  "login_after_token ports lib config mapping session_path metadata tokens fresh_id now w =
     (case lp_fetch ports (pm_jwks_uri metadata) w of
        (Inl e, w1) \<Rightarrow> (Inl e, w1)
      | (Inr jwks, w1) \<Rightarrow>
          (case parse_device_id_token lib tokens jwks config (Some (pm_issuer metadata)) of
             Inl e \<Rightarrow> (Inl e, w1)
           | Inr claims \<Rightarrow>
               let grants = resolve_group_grants (oc_groups claims) mapping;
                   session = build_actor_session claims (gr_execution_grants grants) (gr_approval_grants grants)
                     3600 fresh_id now in
               (case lp_write_session ports session session_path w1 of
                  (Inl e, w2) \<Rightarrow> (Inl e, w2)
                | (Inr _, w2) \<Rightarrow>
                    (Inr session,
                     lp_print ports (''Approval grants: '' @ show_nat (length (a_approval_grants (as_actor session))))
                      (lp_print ports (''Execution grants: '' @ show_nat (length (a_execution_grants (as_actor session))))
                       (lp_print ports (''Session written to '' @ session_path)
                        (lp_print ports (''Logged in as '' @ a_email (as_actor session)) w2)))))))"

definition login_once ::
  "'w login_ports \<Rightarrow> json_object oidc_library \<Rightarrow> device_client_config \<Rightarrow> grant_mapping_config \<Rightarrow> string
     \<Rightarrow> string \<Rightarrow> datetime \<Rightarrow> 'w \<Rightarrow> (actor_session result \<times> 'w) option" where
  "login_once ports lib config mapping session_path fresh_id now w =
     (case discover_oidc_metadata (dc_issuer config) (lp_fetch ports) w of
        (Inl e, w1) \<Rightarrow> Some (Inl e, w1)
      | (Inr metadata, w1) \<Rightarrow>
          (case begin_device_authorization config (lp_post ports) (Some metadata) w1 of
             (Inl e, w2) \<Rightarrow> Some (Inl e, w2)
           | (Inr authorization, w2) \<Rightarrow>
               let url = (if falsy_text (da_verification_uri_complete authorization)
                     then da_verification_uri authorization else the (da_verification_uri_complete authorization));
                   w3 = lp_print ports (''User code: '' @ da_user_code authorization)
                     (lp_print ports url (lp_print ports ''Open this URL to authenticate:'' w2));
                   (t, w4) = de_monotonic (lp_environment ports) w3 in
               (case poll_loop (lp_environment ports)
                     (poll_device_token config (da_device_code authorization) (lp_post ports) (Some metadata))
                     (t + da_expires_in authorization * 1000000) (da_interval authorization) w4 of
                  None \<Rightarrow> None
                | Some (Inl e, w5) \<Rightarrow> Some (Inl e, w5)
                | Some (Inr tokens, w5) \<Rightarrow>
                    Some (login_after_token ports lib config mapping session_path metadata tokens fresh_id now w5))))"

text \<open>
  C38. Waiting for the user to log in ends: with a monotonic clock, sleeps that last as long as asked
  and a positive interval, the polling loop returns whatever the provider answers, with an answer
  other than pending and slow-down, and it polls at most once per interval before the deadline.
\<close>

theorem login_polling_ends:
  assumes "clock_laws env poll clock polls" "0 < interval"
    and "\<forall>n w. 0 < n \<longrightarrow> fst (de_sleep env n w) = Inr ()"
  shows "\<exists>r w'. poll_loop env poll deadline interval w = Some (r, w') \<and>
    r \<noteq> Inl DeviceAuthorizationPending \<and> r \<noteq> Inl DeviceAuthorizationSlowDown \<and>
    int (polls w') - int (polls w) \<le>
      max 0 ((deadline - clock w + interval * 1000000 - 1) div (interval * 1000000))"
  using poll_loop_ends [OF assms(1,2) order_refl, of deadline w] assms(3)
  by (fastforce simp: settled_def polls_left_def)

lemma parse_id_token_Inr:
  assumes "parse_id_token lib token jwks issuer audience = Inr c"
  shows "\<exists>keys key payload. ol_keys lib jwks = Inr keys \<and> key \<in> set keys \<and> ol_kid lib token = Inr (jk_key_id key) \<and>
    jk_algorithm key \<in> {''RS256'', ''ES256''} \<and>
    ol_decode lib token (jk_key key) [jk_algorithm key] issuer audience = Inr payload \<and>
    pl_sub payload = Some (oc_sub c) \<and> pl_email payload = Some (oc_email c) \<and> oc_email c \<noteq> [] \<and>
    oc_groups c = (case pl_groups payload of None \<Rightarrow> [] | Some gs \<Rightarrow> gs)"
proof -
  obtain kid keys where kk: "ol_kid lib token = Inr kid" "ol_keys lib jwks = Inr keys"
    using assms by (auto simp: parse_id_token_def result_simps)
  then obtain key where key: "find (\<lambda>k. jk_key_id k = kid) keys = Some key"
    using assms by (auto simp: parse_id_token_def split: option.splits)
  then have alg: "jk_algorithm key \<in> {''RS256'', ''ES256''}"
    using assms kk by (auto simp: parse_id_token_def allowed_algorithms_def split: if_splits)
  then obtain payload where pl: "ol_decode lib token (jk_key key) [jk_algorithm key] issuer audience = Inr payload"
    using assms kk key by (auto simp: parse_id_token_def result_simps split: if_splits)
  have "jk_algorithm key \<in> set allowed_algorithms" using alg by (simp add: allowed_algorithms_def)
  then have "pl_sub payload = Some (oc_sub c) \<and> pl_email payload = Some (oc_email c) \<and> oc_email c \<noteq> [] \<and>
      oc_groups c = (case pl_groups payload of None \<Rightarrow> [] | Some gs \<Rightarrow> gs)"
    using assms kk key pl
    by (cases "pl_email payload"; cases "pl_sub payload")
      (auto simp: parse_id_token_def falsy_text_def split: if_splits)
  with kk key alg pl show ?thesis by (blast dest: find_SomeD)
qed

lemma parse_device_Some:
  "parse_device_id_token lib tokens jwks config (Some i) =
    parse_id_token lib (ts_id_token tokens) jwks (if i = [] then dc_issuer config else i) (dc_audience config)"
  by (simp add: parse_device_id_token_def falsy_text_def)

text \<open>
  A login session says what the verified identity token says: whenever the login returns a
  session, the token is one the polling loop obtained, some key fetched from the provider with an
  asymmetric algorithm of the allow-list verified it for the provider's issuer and the configured
  audience, the actor is the token's subject and non-empty address, the session carries no
  execution grant, and its approval grants are those the configuration maps to the token's groups.
\<close>

theorem login_session_from_verified_token:
  assumes "login_once ports lib config mapping path fresh_id now w = Some (Inr s, w')"
  shows "\<exists>metadata code deadline interval w4 w5 tokens jwks keys key issuer payload.
    poll_loop (lp_environment ports) (poll_device_token config code (lp_post ports) (Some metadata))
      deadline interval w4 = Some (Inr tokens, w5) \<and>
    fst (lp_fetch ports (pm_jwks_uri metadata) w5) = Inr jwks \<and> ol_keys lib jwks = Inr keys \<and> key \<in> set keys \<and>
    jk_algorithm key \<in> {''RS256'', ''ES256''} \<and>
    issuer = (if pm_issuer metadata = [] then dc_issuer config else pm_issuer metadata) \<and>
    ol_decode lib (ts_id_token tokens) (jk_key key) [jk_algorithm key] issuer (dc_audience config) = Inr payload \<and>
    pl_sub payload = Some (a_user_id (as_actor s)) \<and> pl_email payload = Some (a_email (as_actor s)) \<and>
    a_email (as_actor s) \<noteq> [] \<and> a_execution_grants (as_actor s) = [] \<and>
    a_approval_grants (as_actor s) = gr_approval_grants (resolve_group_grants
      (case pl_groups payload of None \<Rightarrow> [] | Some gs \<Rightarrow> gs) mapping)"
proof -
  obtain metadata code deadline interval w4 tokens w5 where
    loop: "poll_loop (lp_environment ports) (poll_device_token config code (lp_post ports) (Some metadata))
      deadline interval w4 = Some (Inr tokens, w5)"
    and after: "login_after_token ports lib config mapping path metadata tokens fresh_id now w5 = (Inr s, w')"
    using assms by (auto simp: login_once_def Let_def split: prod.splits sum.splits option.splits)
  obtain jwks c where jwks: "fst (lp_fetch ports (pm_jwks_uri metadata) w5) = Inr jwks"
    and c: "parse_device_id_token lib tokens jwks config (Some (pm_issuer metadata)) = Inr c"
    and s: "s = build_actor_session c (gr_execution_grants (resolve_group_grants (oc_groups c) mapping))
      (gr_approval_grants (resolve_group_grants (oc_groups c) mapping)) 3600 fresh_id now"
    using after by (auto simp: login_after_token_def Let_def split: prod.splits sum.splits)
  obtain keys key payload where v: "ol_keys lib jwks = Inr keys" "key \<in> set keys"
    "jk_algorithm key \<in> {''RS256'', ''ES256''}"
    "ol_decode lib (ts_id_token tokens) (jk_key key) [jk_algorithm key]
      (if pm_issuer metadata = [] then dc_issuer config else pm_issuer metadata) (dc_audience config) = Inr payload"
    "pl_sub payload = Some (oc_sub c)" "pl_email payload = Some (oc_email c)" "oc_email c \<noteq> []"
    "oc_groups c = (case pl_groups payload of None \<Rightarrow> [] | Some gs \<Rightarrow> gs)"
    using parse_id_token_Inr [OF c [unfolded parse_device_Some]] by blast
  have none: "gr_execution_grants (resolve_group_grants groups mapping) = []" for groups
    by (simp add: resolve_group_grants_def resolve_mappings_eq)
  have "pl_sub payload = Some (a_user_id (as_actor s))" "pl_email payload = Some (a_email (as_actor s))"
    "a_email (as_actor s) \<noteq> []" "a_execution_grants (as_actor s) = []"
    "a_approval_grants (as_actor s) = gr_approval_grants (resolve_group_grants
      (case pl_groups payload of None \<Rightarrow> [] | Some gs \<Rightarrow> gs) mapping)"
    using v by (simp_all add: s build_actor_session_def none)
  then show ?thesis
    by (intro exI conjI) (rule loop, rule jwks, rule v(1), rule v(2), rule v(3), rule refl, rule v(4), assumption+)
qed

section \<open>A login to run\<close>

text \<open>A world of a clock and a poll counter; the provider answers at the second poll.\<close>

definition demo_environment :: "(int \<times> nat) device_environment" where
  "demo_environment = \<lparr>de_monotonic = (\<lambda>w. (fst w, w)),
     de_sleep = (\<lambda>n w. (Inr (), (fst w + n * 1000000, snd w)))\<rparr>"

definition demo_fetch :: "(int \<times> nat) fetch_json" where
  "demo_fetch url w = (Inr (if url = ''keys'' then [] else [(''issuer'', JStr ''i''), (''token_endpoint'', JStr ''token''),
     (''jwks_uri'', JStr ''keys''), (''device_authorization_endpoint'', JStr ''device'')]), w)"

definition demo_post :: "(int \<times> nat) post_form" where
  "demo_post url form = (\<lambda>(t, n).
     if url = ''device''
     then (Inr [(''device_code'', JStr ''c''), (''user_code'', JStr ''u''), (''verification_uri'', JStr ''v''),
       (''expires_in'', JInt 60)], (t, n))
     else (Inr (if n = 0 then [(''error'', JStr ''authorization_pending'')]
       else [(''access_token'', JStr ''a''), (''id_token'', JStr ''t''), (''token_type'', JStr ''b'')]), (t, Suc n)))"

definition demo_ports :: "(int \<times> nat) login_ports" where
  "demo_ports = \<lparr>lp_environment = demo_environment, lp_fetch = demo_fetch, lp_post = demo_post,
     lp_print = (\<lambda>_ w. w), lp_write_session = (\<lambda>_ _ w. (Inr (), w))\<rparr>"

definition demo_oidc :: "json_object oidc_library" where
  "demo_oidc = \<lparr>ol_kid = (\<lambda>_. Inr (Some ''k'')),
     ol_keys = (\<lambda>_. Inr [\<lparr>jk_key_id = Some ''k'', jk_algorithm = ''RS256'', jk_key = ''pub''\<rparr>]),
     ol_decode = (\<lambda>_ _ _ _ _. Inr \<lparr>pl_sub = Some ''alice'', pl_email = Some ''a@b'', pl_groups = None, pl_oid = None\<rparr>)\<rparr>"

definition demo_device_config :: device_client_config where
  "demo_device_config = \<lparr>dc_issuer = ''i'', dc_client_id = ''c'', dc_audience = ''c'', dc_scopes = [''openid'']\<rparr>"

lemma demo_clock_laws:
  "clock_laws demo_environment (poll_device_token demo_device_config ''c'' demo_post
     (Some \<lparr>pm_issuer = ''i'', pm_token_endpoint = ''token'', pm_jwks_uri = ''keys'', pm_device_endpoint = None\<rparr>)) fst snd"
  by (auto simp: clock_laws_def demo_environment_def poll_device_token_def demo_post_def)

theorem login_polling_ends_witness:
  "\<exists>r w'. poll_loop demo_environment (poll_device_token demo_device_config ''c'' demo_post
      (Some \<lparr>pm_issuer = ''i'', pm_token_endpoint = ''token'', pm_jwks_uri = ''keys'', pm_device_endpoint = None\<rparr>))
      60000000 5 (0, 0) = Some (r, w') \<and> snd w' \<le> 12"
proof -
  have "\<forall>n w. (0::int) < n \<longrightarrow> fst (de_sleep demo_environment n w) = Inr ()" by (simp add: demo_environment_def)
  from login_polling_ends [OF demo_clock_laws _ this, of 5 60000000 "(0, 0)"] show ?thesis by fastforce
qed

lemma demo_login:
  "\<exists>s w'. login_once demo_ports demo_oidc demo_device_config \<lparr>mc_mappings = []\<rparr> ''p'' ''id'' (Aware 0) (0, 0)
     = Some (Inr s, w')"
proof -
  note defs = demo_ports_def demo_environment_def demo_fetch_def demo_post_def demo_oidc_def demo_device_config_def
  have "discover_oidc_metadata (dc_issuer demo_device_config) (lp_fetch demo_ports) (0, 0) =
      (Inr \<lparr>pm_issuer = ''i'', pm_token_endpoint = ''token'', pm_jwks_uri = ''keys'', pm_device_endpoint = Some ''device''\<rparr>, (0, 0))"
    by code_simp
  moreover have "begin_device_authorization demo_device_config (lp_post demo_ports)
      (Some \<lparr>pm_issuer = ''i'', pm_token_endpoint = ''token'', pm_jwks_uri = ''keys'', pm_device_endpoint = Some ''device''\<rparr>) (0, 0) =
      (Inr \<lparr>da_device_code = ''c'', da_user_code = ''u'', da_verification_uri = ''v'',
        da_verification_uri_complete = None, da_expires_in = 60, da_interval = 5\<rparr>, (0, 0))"
    by code_simp
  ultimately show ?thesis
    by (simp add: login_once_def falsy_text_def poll_loop.simps poll_device_token_def read_token_set_def
        device_token_error_def require_text_def optional_text_def optional_int_def dict_get_def login_after_token_def parse_device_id_token_def
        parse_id_token_def allowed_algorithms_def Let_def defs)
qed

theorem login_session_from_verified_token_witness:
  "\<exists>s w' (payload :: id_payload). login_once demo_ports demo_oidc demo_device_config \<lparr>mc_mappings = []\<rparr> ''p'' ''id'' (Aware 0) (0, 0)
     = Some (Inr s, w') \<and> a_execution_grants (as_actor s) = [] \<and> pl_email payload = Some (a_email (as_actor s)) \<and>
     a_email (as_actor s) \<noteq> []"
proof -
  obtain s w' where login: "login_once demo_ports demo_oidc demo_device_config \<lparr>mc_mappings = []\<rparr> ''p'' ''id''
      (Aware 0) (0, 0) = Some (Inr s, w')"
    using demo_login by blast
  from login_session_from_verified_token [OF login] obtain payload :: id_payload where
    "pl_email payload = Some (a_email (as_actor s))" "a_email (as_actor s) \<noteq> []" "a_execution_grants (as_actor s) = []"
    by blast
  with login show ?thesis by blast
qed

end
