(* ===== verification/Topology.thy ===== *)
theory Topology
  imports Json_Text Platform_Prelude
begin

text \<open>
  \<open>workflows/provision/topology.py\<close>: reviewed topologies and their validation, with the Kahn sort
  that decides acyclicity, and the profile registry of \<open>workflows/provision/profiles.py\<close>.  YAML
  reading is outside: a topology is the data it yields.
\<close>

section \<open>Topologies\<close>

datatype input_binding =
    LiteralBinding json
  | RequestBinding string
  | WorkspaceBinding string
  | UnitOutputRef string string

fun check_input_binding :: "input_binding \<Rightarrow> bool" where
  "check_input_binding (LiteralBinding _) = True"
| "check_input_binding (RequestBinding field) = (field \<noteq> [])"
| "check_input_binding (WorkspaceBinding field) = (field \<noteq> [])"
| "check_input_binding (UnitOutputRef unit_id output_name) = (unit_id \<noteq> [] \<and> output_name \<noteq> [])"

record unit_spec =
  un_id :: string
  un_uses :: string
  un_inputs :: "(string, input_binding) dict"

record edge_spec =
  ed_source :: string
  ed_target :: string

record topology_spec =
  tp_name :: string
  tp_profile :: string
  tp_provider :: string
  tp_units :: "unit_spec list"
  tp_edges :: "edge_spec list"

definition check_unit_spec :: "unit_spec \<Rightarrow> bool" where
  "check_unit_spec u \<longleftrightarrow> un_id u \<noteq> [] \<and> un_uses u \<noteq> [] \<and> list_all (\<lambda>(_, b). check_input_binding b) (un_inputs u)"

definition check_edge_spec :: "edge_spec \<Rightarrow> bool" where
  "check_edge_spec e \<longleftrightarrow> ed_source e \<noteq> [] \<and> ed_target e \<noteq> []"

definition make_topology_spec :: "string \<Rightarrow> topology_spec \<Rightarrow> topology_spec result" where
  "make_topology_spec schema_version t =
     (if schema_version = ''1'' \<and> tp_name t \<noteq> [] \<and> tp_profile t \<noteq> [] \<and>
         tp_provider t \<in> {''aws'', ''azure'', ''gcp''} \<and> tp_units t \<noteq> [] \<and>
         list_all check_unit_spec (tp_units t) \<and> list_all check_edge_spec (tp_edges t)
      then Inr t else Inl (ValidationError ''TopologySpec''))"

record validated_topology =
  vt_spec :: topology_spec
  vt_root_ids :: "string list"
  vt_leaf_ids :: "string list"
  vt_predecessors :: "(string, string list) dict"

section \<open>Validation\<close>

fun register_units :: "string set \<Rightarrow> (string, unit_spec) dict \<Rightarrow> unit_spec list \<Rightarrow> (string, unit_spec) dict result" where
  "register_units registered by_id [] = Inr by_id"
| "register_units registered by_id (u # us) =
     (if dict_get by_id (un_id u) \<noteq> None
      then Inl (TopologyValidationError (''duplicate topology unit id '' @ py_repr (un_id u)))
      else if un_uses u \<notin> registered
      then Inl (TopologyValidationError (''unknown topology unit '' @ py_repr (un_uses u)))
      else register_units registered (dict_set (un_id u) u by_id) us)"

text \<open>A \<open>defaultdict(list)\<close>: reading a missing key stores the empty list under it.\<close>

type_synonym adjacency = "(string, string list) dict"

definition adjacent :: "adjacency \<Rightarrow> string \<Rightarrow> string list" where
  "adjacent d k = (case dict_get d k of None \<Rightarrow> [] | Some xs \<Rightarrow> xs)"

definition touch :: "string \<Rightarrow> adjacency \<Rightarrow> adjacency" where
  "touch k d = dict_set k (adjacent d k) d"

fun add_edges ::
  "(string, unit_spec) dict \<Rightarrow> edge_spec list \<Rightarrow> adjacency \<Rightarrow> adjacency \<Rightarrow> (adjacency \<times> adjacency) result" where
  "add_edges by_id [] predecessors successors = Inr (predecessors, successors)"
| "add_edges by_id (e # es) predecessors successors =
     (if dict_get by_id (ed_source e) = None \<or> dict_get by_id (ed_target e) = None
      then Inl (TopologyValidationError ''topology edge references an unknown unit'')
      else if ed_source e = ed_target e
      then Inl (TopologyValidationError ''topology cannot contain a self-edge'')
      else if ed_source e \<in> set (adjacent predecessors (ed_target e))
      then Inl (TopologyValidationError ''topology contains a duplicate edge'')
      else add_edges by_id es
        (dict_set (ed_target e) (adjacent predecessors (ed_target e) @ [ed_source e]) predecessors)
        (dict_set (ed_source e) (adjacent successors (ed_source e) @ [ed_target e]) successors))"

fun check_bindings :: "(string, unit_spec) dict \<Rightarrow> string \<Rightarrow> input_binding list \<Rightarrow> unit result" where
  "check_bindings by_id u [] = Inr ()"
| "check_bindings by_id u (b # bs) =
     (case b of
        UnitOutputRef v _ \<Rightarrow>
          if dict_get by_id v = None
          then Inl (TopologyValidationError (''unit '' @ py_repr u @ '' binds output from unknown unit '' @ py_repr v))
          else if v = u
          then Inl (TopologyValidationError (''unit '' @ py_repr u @ '' cannot bind its own output''))
          else check_bindings by_id u bs
      | _ \<Rightarrow> check_bindings by_id u bs)"

fun check_inputs :: "(string, unit_spec) dict \<Rightarrow> unit_spec list \<Rightarrow> unit result" where
  "check_inputs by_id [] = Inr ()"
| "check_inputs by_id (u # us) =
     bind_result (check_bindings by_id (un_id u) (dict_values (un_inputs u))) (\<lambda>_. check_inputs by_id us)"

text \<open>One pass over the successors of a sorted unit.\<close>

fun relax ::
  "string list \<Rightarrow> string list \<Rightarrow> (string, int) dict \<Rightarrow> (string list \<times> (string, int) dict) result" where
  "relax [] queue indegree = Inr (queue, indegree)"
| "relax (s # ss) queue indegree =
     (case dict_get indegree s of
        None \<Rightarrow> Inl (KeyError s)
      | Some n \<Rightarrow> relax ss (if n - 1 = 0 then queue @ [s] else queue) (dict_set s (n - 1) indegree))"

text \<open>What a pass leaves of the work: a unit enters the queue when its degree stops being positive.\<close>

definition positive_degrees :: "(string, int) dict \<Rightarrow> nat" where
  "positive_degrees d = length (filter (\<lambda>(_, n). 0 < n) d)"

lemma positive_degrees_set:
  "dict_get d s = Some n \<Longrightarrow>
     positive_degrees (dict_set s (n - 1) d) + (if n = 1 then 1 else 0) = positive_degrees d"
  by (induction d) (auto simp: positive_degrees_def dict_get_def dict_set_def split: if_splits)

lemma relax_measure:
  "relax ss q d = Inr (q', d') \<Longrightarrow> length q' + positive_degrees d' = length q + positive_degrees d"
proof (induction ss arbitrary: q d)
  case (Cons s ss)
  then obtain n where n: "dict_get d s = Some n" by (auto split: option.splits)
  with Cons.prems have "relax ss (if n - 1 = 0 then q @ [s] else q) (dict_set s (n - 1) d) = Inr (q', d')" by simp
  from Cons.IH [OF this] positive_degrees_set [OF n] show ?case by (simp split: if_splits)
qed simp

function sort_units ::
  "adjacency \<Rightarrow> string list \<Rightarrow> (string, int) dict \<Rightarrow> string list \<Rightarrow> string list result" where
  "sort_units successors [] indegree ordered = Inr ordered"
| "sort_units successors (u # queue) indegree ordered =
     bind_result (relax (adjacent successors u) queue indegree) (\<lambda>(queue', indegree').
       sort_units successors queue' indegree' (ordered @ [u]))"
  by pat_completeness auto

termination
  by (relation "measure (\<lambda>(_, queue, indegree, _). length queue + positive_degrees indegree)")
    (auto dest!: relax_measure)

definition validate_topology ::
  "topology_spec \<Rightarrow> string \<Rightarrow> string \<Rightarrow> string set \<Rightarrow> validated_topology result" where
  "validate_topology spec profile_id provider registered_units =
     (if tp_profile spec \<noteq> profile_id
      then Inl (TopologyValidationError ''topology profile does not match selected profile'')
      else if tp_provider spec \<noteq> provider
      then Inl (TopologyValidationError ''topology provider does not match workspace provider'')
      else
        bind_result (register_units registered_units [] (tp_units spec)) (\<lambda>by_id.
        bind_result (add_edges by_id (tp_edges spec) [] []) (\<lambda>(predecessors, successors).
        bind_result (check_inputs by_id (tp_units spec)) (\<lambda>_.
          let ids = map fst by_id;
              predecessors = foldl (\<lambda>d u. touch u d) predecessors ids;
              indegree = map (\<lambda>u. (u, int (length (adjacent predecessors u)))) ids;
              queue = map fst (filter (\<lambda>(_, degree). degree = 0) indegree) in
          bind_result (sort_units successors queue indegree []) (\<lambda>ordered.
            if length ordered \<noteq> length by_id
            then Inl (TopologyValidationError ''topology graph must be acyclic'')
            else Inr \<lparr>vt_spec = spec,
              vt_root_ids = filter (\<lambda>u. adjacent predecessors u = []) ids,
              vt_leaf_ids = filter (\<lambda>u. adjacent successors u = []) ids,
              vt_predecessors = predecessors\<rparr>)))))"

section \<open>The profile registry\<close>

record profile_registration =
  pg_profile_id :: string
  pg_provider :: string
  pg_version :: string
  pg_topology_path :: string

definition profile_registry :: "(string, profile_registration) dict" where
  "profile_registry = [(''aws-static-web'', \<lparr>pg_profile_id = ''aws-static-web'', pg_provider = ''aws'',
     pg_version = ''1'', pg_topology_path = ''skills/provision-infra/profiles/aws-static-web/topology.yaml''\<rparr>)]"

definition resolve_profile :: "string \<Rightarrow> profile_registration result" where
  "resolve_profile profile_id =
     (case dict_get profile_registry profile_id of
        None \<Rightarrow> Inl (ValueError (''unknown deployment profile '' @ py_repr profile_id))
      | Some r \<Rightarrow> Inr r)"

section \<open>What the sort computes\<close>

text \<open>\<open>V\<close> are the units and \<open>E\<close> the edges; \<open>waiting\<close> counts the predecessors not yet sorted.\<close>

definition waiting :: "(string \<times> string) set \<Rightarrow> string list \<Rightarrow> string \<Rightarrow> nat" where
  "waiting E ordered v = card ({u. (u, v) \<in> E} - set ordered)"

definition sort_inv ::
  "string set \<Rightarrow> (string \<times> string) set \<Rightarrow> string list \<Rightarrow> (string, int) dict \<Rightarrow> string list \<Rightarrow> bool" where
  "sort_inv V E queue indegree ordered \<longleftrightarrow>
     distinct (ordered @ queue) \<and> set (ordered @ queue) \<subseteq> V \<and>
     (\<forall>v \<in> V. dict_get indegree v = Some (int (waiting E ordered v))) \<and>
     (\<forall>v \<in> V. waiting E ordered v = 0 \<longleftrightarrow> v \<in> set (ordered @ queue)) \<and>
     (\<forall>xs v ys. ordered = xs @ v # ys \<longrightarrow> {u. (u, v) \<in> E} \<subseteq> set xs)"

lemma relax_spec:
  assumes "distinct ss" "\<forall>s \<in> set ss. dict_get d s \<noteq> None"
  shows "\<exists>d'. relax ss q d = Inr (q @ filter (\<lambda>s. dict_get d s = Some 1) ss, d') \<and>
    (\<forall>v. dict_get d' v = (if v \<in> set ss then map_option (\<lambda>n. n - 1) (dict_get d v) else dict_get d v))"
  using assms
proof (induction ss arbitrary: q d)
  case (Cons s ss)
  then obtain n where n: "dict_get d s = Some n" by auto
  let ?d = "dict_set s (n - 1) d"
  have "\<forall>x \<in> set ss. dict_get ?d x \<noteq> None" using Cons.prems by (auto simp: dict_simps)
  moreover have same: "filter (\<lambda>x. dict_get ?d x = Some 1) ss = filter (\<lambda>x. dict_get d x = Some 1) ss"
    using Cons.prems(1) by (intro filter_cong) (auto simp: dict_simps)
  ultimately obtain d' where "relax ss (if n - 1 = 0 then q @ [s] else q) ?d =
      Inr ((if n - 1 = 0 then q @ [s] else q) @ filter (\<lambda>x. dict_get d x = Some 1) ss, d')"
    "\<forall>v. dict_get d' v = (if v \<in> set ss then map_option (\<lambda>n. n - 1) (dict_get ?d v) else dict_get ?d v)"
    using Cons.IH [of ?d "if n - 1 = 0 then q @ [s] else q"] Cons.prems(1) by auto
  with n Cons.prems(1) show ?case by (auto simp: dict_simps)
qed simp

end
