(* ===== verification/Topology_Correct.thy ===== *)
theory Topology_Correct
  imports Topology
begin

text \<open>
  Validation of a topology is exact: it accepts the topologies whose edges are an acyclic graph on
  distinct, registered units, and no other.  The Kahn sort is shown to visit a unit exactly when
  everything before it is sorted; the rest follows the checks of the code one by one.
\<close>

section \<open>The sort\<close>

lemma finite_predecessors: "finite E \<Longrightarrow> finite {w. (w, v) \<in> E}"
proof -
  assume "finite E"
  moreover have "{w. (w, v) \<in> E} \<subseteq> fst ` E" by force
  ultimately show ?thesis by (blast intro: finite_subset)
qed

lemma waiting_step:
  assumes "finite E" "u \<notin> set ordered"
  shows "waiting E ordered v = waiting E (ordered @ [u]) v + (if (u, v) \<in> E then 1 else 0)"
proof -
  note fin = finite_predecessors [OF assms(1)]
  show ?thesis
  proof (cases "(u, v) \<in> E")
    case True
    then have eq: "{w. (w, v) \<in> E} - set ordered = insert u ({w. (w, v) \<in> E} - set (ordered @ [u]))"
      using assms(2) by auto
    have "card ({w. (w, v) \<in> E} - set ordered) = Suc (card ({w. (w, v) \<in> E} - set (ordered @ [u])))"
      unfolding eq by (rule card_insert_disjoint) (use fin in simp_all)
    with True show ?thesis unfolding waiting_def by simp
  next
    case False
    then have "{w. (w, v) \<in> E} - set ordered = {w. (w, v) \<in> E} - set (ordered @ [u])" by auto
    with False show ?thesis by (simp add: waiting_def)
  qed
qed

lemma waiting_0_iff: "finite E \<Longrightarrow> waiting E ordered v = 0 \<longleftrightarrow> {u. (u, v) \<in> E} \<subseteq> set ordered"
  using finite_predecessors [of E v] by (auto simp: waiting_def)

lemma sort_inv_step:
  assumes fin: "finite E" and E: "E \<subseteq> V \<times> V" and inv: "sort_inv V E (u # queue) indegree ordered"
    and succ: "distinct ss" "set ss = {v. (u, v) \<in> E}"
  shows "\<exists>queue' indegree'. relax ss queue indegree = Inr (queue', indegree') \<and>
    sort_inv V E queue' indegree' (ordered @ [u])"
proof -
  have u: "u \<notin> set ordered" "u \<notin> set queue" and dist: "distinct (ordered @ queue)"
    and V: "set (ordered @ u # queue) \<subseteq> V"
    and deg: "\<And>v. v \<in> V \<Longrightarrow> dict_get indegree v = Some (int (waiting E ordered v))"
    and zero: "\<And>v. v \<in> V \<Longrightarrow> waiting E ordered v = 0 \<longleftrightarrow> v \<in> set (ordered @ u # queue)"
    and earlier: "\<And>xs v ys. ordered = xs @ v # ys \<Longrightarrow> {u. (u, v) \<in> E} \<subseteq> set xs"
    using inv unfolding sort_inv_def by auto
  have ssV: "set ss \<subseteq> V" using E succ(2) by auto
  then have "\<forall>s \<in> set ss. dict_get indegree s \<noteq> None" using deg by (metis option.distinct(1) subsetD)
  from relax_spec [OF succ(1) this, of queue] obtain indegree' where
    relaxed: "relax ss queue indegree = Inr (queue @ filter (\<lambda>s. dict_get indegree s = Some 1) ss, indegree')"
    and deg': "\<And>v. dict_get indegree' v =
      (if v \<in> set ss then map_option (\<lambda>n. n - 1) (dict_get indegree v) else dict_get indegree v)"
    by blast
  let ?new = "filter (\<lambda>s. dict_get indegree s = Some 1) ss"
  have new: "v \<in> set ?new \<longleftrightarrow> (u, v) \<in> E \<and> waiting E ordered v = 1" for v
    using succ(2) ssV deg by auto
  note step = waiting_step [OF fin u(1)]
  have "sort_inv V E (queue @ ?new) indegree' (ordered @ [u])"
    unfolding sort_inv_def
  proof (intro conjI ballI allI impI)
    have "v \<notin> set (ordered @ u # queue)" if "v \<in> set ?new" for v
      using that zero [of v] new [of v] ssV by fastforce
    then show "distinct ((ordered @ [u]) @ queue @ ?new)"
      using dist u succ(1) by auto
    show "set ((ordered @ [u]) @ queue @ ?new) \<subseteq> V"
      using V ssV by auto
    fix v assume v: "v \<in> V"
    show "dict_get indegree' v = Some (int (waiting E (ordered @ [u]) v))"
      using deg [OF v] step [of v] succ(2) by (auto simp: deg')
    show "waiting E (ordered @ [u]) v = 0 \<longleftrightarrow> v \<in> set ((ordered @ [u]) @ queue @ ?new)"
      using zero [OF v] step [of v] new [of v] by (auto split: if_splits)
  next
    fix xs v ys assume eq: "ordered @ [u] = xs @ v # ys"
    show "{w. (w, v) \<in> E} \<subseteq> set xs"
    proof (cases ys rule: rev_cases)
      case Nil
      with eq have "xs = ordered" "v = u" by auto
      moreover have "waiting E ordered u = 0" using zero [of u] V by auto
      ultimately show ?thesis using waiting_0_iff [OF fin] by auto
    next
      case (snoc zs z)
      with eq have "ordered = xs @ v # zs" by auto
      then show ?thesis by (rule earlier)
    qed
  qed
  with relaxed show ?thesis by blast
qed

lemma sort_units_inv:
  assumes "finite E" "E \<subseteq> V \<times> V" "sort_inv V E queue indegree ordered"
    and "\<And>u. distinct (adjacent successors u) \<and> set (adjacent successors u) = {v. (u, v) \<in> E}"
  shows "\<exists>out indegree'. sort_units successors queue indegree ordered = Inr out \<and> sort_inv V E [] indegree' out"
  using assms(3,4)
proof (induction successors queue indegree ordered rule: sort_units.induct)
  case (1 successors indegree ordered)
  then show ?case by auto
next
  case (2 successors u queue indegree ordered)
  have adj: "distinct (adjacent successors u)" "set (adjacent successors u) = {v. (u, v) \<in> E}"
    using 2(3) by blast+
  from sort_inv_step [OF assms(1,2) 2(2) adj] obtain queue' indegree' where
    step: "relax (adjacent successors u) queue indegree = Inr (queue', indegree')"
    and inv: "sort_inv V E queue' indegree' (ordered @ [u])"
    by blast
  from 2(1) [OF step refl inv 2(3)] show ?case by (simp add: step)
qed

lemma sorted_all_iff_acyclic:
  assumes fin: "finite E" and E: "E \<subseteq> V \<times> V" and "finite V" and inv: "sort_inv V E [] indegree out"
  shows "length out = card V \<longleftrightarrow> acyclic E"
proof -
  have dist: "distinct out" and sub: "set out \<subseteq> V"
    and zero: "\<And>v. v \<in> V \<Longrightarrow> waiting E out v = 0 \<longleftrightarrow> v \<in> set out"
    and earlier: "\<And>xs v ys. out = xs @ v # ys \<Longrightarrow> {u. (u, v) \<in> E} \<subseteq> set xs"
    using inv unfolding sort_inv_def by auto
  have all: "length out = card V \<longleftrightarrow> set out = V"
    using dist sub \<open>finite V\<close> by (metis card_subset_eq distinct_card)
  show ?thesis
  proof
    assume "length out = card V"
    then have V: "set out = V" using all by blast
    let ?position = "\<lambda>v. length (takeWhile (\<lambda>w. w \<noteq> v) out)"
    have "?position u < ?position v" if "(u, v) \<in> E" for u v
    proof -
      have "v \<in> set out" using that E V by auto
      then obtain xs ys where out: "out = xs @ v # ys" "v \<notin> set xs" by (meson split_list_first)
      then have "u \<in> set xs" using earlier [OF out(1)] that by auto
      then have "?position u < length xs"
      proof -
        obtain as bs where "xs = as @ u # bs" "u \<notin> set as"
          using \<open>u \<in> set xs\<close> by (meson split_list_first)
        then show ?thesis using out(1) by (simp add: takeWhile_append)
      qed
      moreover have "?position v = length xs"
        using out by (auto simp: takeWhile_append)
      ultimately show ?thesis by simp
    qed
    then show "acyclic E" by (intro acyclicI_order [where f = "\<lambda>v. - int (?position v)"]) simp
  next
    assume "acyclic E"
    then have wf: "wf E" using fin by (simp add: finite_acyclic_wf)
    have "V \<subseteq> set out"
    proof (rule ccontr)
      assume "\<not> V \<subseteq> set out"
      then obtain v where "v \<in> V - set out" by blast
      with wf obtain v where v: "v \<in> V - set out" "\<And>u. (u, v) \<in> E \<Longrightarrow> u \<notin> V - set out"
        by (metis wfE_min)
      then have "{u. (u, v) \<in> E} \<subseteq> set out" using E by blast
      with v(1) zero show False by (simp add: waiting_0_iff [OF fin])
    qed
    with sub all show "length out = card V" by blast
  qed
qed

text \<open>
  C40. The sort ends after at most one step per queued unit and per unit with a positive degree,
  whatever the adjacency and the degrees are, cyclic or inconsistent ones included.
\<close>

theorem topology_sort_terminates:
  "(\<exists>u. sort_units successors queue indegree ordered = Inl (KeyError u)) \<or>
   (\<exists>out. sort_units successors queue indegree ordered = Inr (ordered @ out) \<and>
     length out \<le> length queue + positive_degrees indegree)"
proof (induction successors queue indegree ordered rule: sort_units.induct)
  case (1 successors indegree ordered)
  then show ?case by simp
next
  case (2 successors u queue indegree ordered)
  have "(\<exists>s. relax ss q d = Inl (KeyError s)) \<or> (\<exists>q' d'. relax ss q d = Inr (q', d'))" for ss q d
    by (induction ss arbitrary: q d) (auto split: option.splits)
  then consider s where "relax (adjacent successors u) queue indegree = Inl (KeyError s)"
    | q' d' where "relax (adjacent successors u) queue indegree = Inr (q', d')"
    by blast
  then show ?case
  proof cases
    case 1
    then show ?thesis by simp
  next
    case (2 q' d')
    with "2.IH" [OF 2 refl] relax_measure [OF 2] show ?thesis by auto
  qed
qed

section \<open>The checks, one by one\<close>

lemma dict_set_absent: "dict_get d k = None \<Longrightarrow> dict_set k v d = d @ [(k, v)]"
  by (induction d) (auto simp: dict_get_def dict_set_def split: if_splits)

lemma dict_get_append_one: "dict_get (d @ [(k, v)]) x = (case dict_get d x of None \<Rightarrow> if x = k then Some v else None | Some y \<Rightarrow> Some y)"
  by (auto simp: dict_get_def map_add_def split: option.splits)

lemma register_units_iff:
  "register_units registered d us = Inr d' \<longleftrightarrow> distinct (map un_id us) \<and>
     (\<forall>u \<in> set us. un_uses u \<in> registered \<and> dict_get d (un_id u) = None) \<and> d' = d @ map (\<lambda>u. (un_id u, u)) us"
proof (induction us arbitrary: d)
  case (Cons u us)
  show ?case
  proof (cases "dict_get d (un_id u) = None \<and> un_uses u \<in> registered")
    case True
    then have "register_units registered d (u # us) = Inr d' \<longleftrightarrow>
        register_units registered (d @ [(un_id u, u)]) us = Inr d'"
      by (simp add: dict_set_absent)
    then show ?thesis
      using True by (auto simp: Cons.IH dict_get_append_one image_iff split: option.splits)
  qed auto
qed auto

lemma register_units_Inl:
  "register_units registered d us = Inl e \<Longrightarrow> \<exists>m. e = TopologyValidationError m"
  by (induction registered d us rule: register_units.induct) (auto split: if_splits)

lemma adjacent_dict_set [simp]: "adjacent (dict_set k xs d) v = (if v = k then xs else adjacent d v)"
  by (simp add: adjacent_def dict_simps)

lemma adjacent_touch [simp]: "adjacent (touch k d) = adjacent d"
  by (simp add: touch_def fun_eq_iff)

lemma adjacent_touches [simp]: "adjacent (foldl (\<lambda>d u. touch u d) d ids) = adjacent d"
  by (induction ids arbitrary: d) auto

definition good_edge :: "(string, unit_spec) dict \<Rightarrow> edge_spec \<Rightarrow> bool" where
  "good_edge by_id e \<longleftrightarrow> dict_get by_id (ed_source e) \<noteq> None \<and> dict_get by_id (ed_target e) \<noteq> None \<and>
     ed_source e \<noteq> ed_target e"

lemma edge_eqI: "ed_source e = ed_source e' \<Longrightarrow> ed_target e = ed_target e' \<Longrightarrow> e = (e' :: edge_spec)"
  by (cases e; cases e') simp

lemma add_edges_spec:
  "if (\<forall>e \<in> set es. good_edge by_id e \<and> ed_source e \<notin> set (adjacent P (ed_target e))) \<and> distinct es
   then \<exists>P' S'. add_edges by_id es P S = Inr (P', S') \<and>
     (\<forall>v. adjacent P' v = adjacent P v @ map ed_source (filter (\<lambda>e. ed_target e = v) es)) \<and>
     (\<forall>u. adjacent S' u = adjacent S u @ map ed_target (filter (\<lambda>e. ed_source e = u) es))
   else \<exists>m. add_edges by_id es P S = Inl (TopologyValidationError m)"
proof (induction es arbitrary: P S)
  case (Cons e es)
  let ?P = "dict_set (ed_target e) (adjacent P (ed_target e) @ [ed_source e]) P"
  let ?S = "dict_set (ed_source e) (adjacent S (ed_source e) @ [ed_target e]) S"
  show ?case
  proof (cases "good_edge by_id e \<and> ed_source e \<notin> set (adjacent P (ed_target e))")
    case True
    have twin: "e \<in> set es \<longleftrightarrow> (\<exists>e' \<in> set es. ed_source e' = ed_source e \<and> ed_target e' = ed_target e)"
      using edge_eqI by blast
    have fresh: "ed_source e' \<notin> set (adjacent ?P (ed_target e')) \<longleftrightarrow>
        ed_source e' \<notin> set (adjacent P (ed_target e')) \<and> \<not> (ed_source e' = ed_source e \<and> ed_target e' = ed_target e)" for e'
      by auto
    from True have "add_edges by_id (e # es) P S = add_edges by_id es ?P ?S" by (auto simp: good_edge_def)
    moreover have "(\<forall>e' \<in> set es. good_edge by_id e' \<and> ed_source e' \<notin> set (adjacent ?P (ed_target e'))) \<and> distinct es \<longleftrightarrow>
        (\<forall>e' \<in> set (e # es). good_edge by_id e' \<and> ed_source e' \<notin> set (adjacent P (ed_target e'))) \<and> distinct (e # es)"
      unfolding fresh distinct.simps list.set ball_simps using True twin by blast
    ultimately show ?thesis using Cons.IH [of ?P ?S] by (auto split: if_splits)
  next
    case False
    then have "\<exists>m. add_edges by_id (e # es) P S = Inl (TopologyValidationError m)" by (auto simp: good_edge_def)
    with False show ?thesis by auto
  qed
qed simp

definition good_binding :: "(string, unit_spec) dict \<Rightarrow> string \<Rightarrow> input_binding \<Rightarrow> bool" where
  "good_binding by_id u b \<longleftrightarrow> (\<forall>v output_name. b = UnitOutputRef v output_name \<longrightarrow> dict_get by_id v \<noteq> None \<and> v \<noteq> u)"

lemma check_bindings_spec:
  "if \<forall>b \<in> set bs. good_binding by_id u b then check_bindings by_id u bs = Inr ()
   else \<exists>m. check_bindings by_id u bs = Inl (TopologyValidationError m)"
  by (induction bs) (auto simp: good_binding_def split: input_binding.splits)

lemma check_inputs_spec:
  "if \<forall>u \<in> set us. \<forall>b \<in> set (dict_values (un_inputs u)). good_binding by_id (un_id u) b then check_inputs by_id us = Inr ()
   else \<exists>m. check_inputs by_id us = Inl (TopologyValidationError m)"
proof (induction us)
  case (Cons u us)
  then show ?case
    using check_bindings_spec [of "dict_values (un_inputs u)" by_id "un_id u"] by (auto split: if_splits)
qed simp

section \<open>Validation is exact\<close>

definition edge_pairs :: "topology_spec \<Rightarrow> (string \<times> string) set" where
  "edge_pairs spec = (\<lambda>e. (ed_source e, ed_target e)) ` set (tp_edges spec)"

definition admissible_topology :: "topology_spec \<Rightarrow> string \<Rightarrow> string \<Rightarrow> string set \<Rightarrow> bool" where
  "admissible_topology spec profile_id provider registered \<longleftrightarrow>
     tp_profile spec = profile_id \<and> tp_provider spec = provider \<and>
     distinct (map un_id (tp_units spec)) \<and> un_uses ` set (tp_units spec) \<subseteq> registered \<and>
     distinct (tp_edges spec) \<and> edge_pairs spec \<subseteq> un_id ` set (tp_units spec) \<times> un_id ` set (tp_units spec) \<and>
     acyclic (edge_pairs spec) \<and>
     (\<forall>u \<in> set (tp_units spec). \<forall>v output_name. UnitOutputRef v output_name \<in> set (dict_values (un_inputs u)) \<longrightarrow>
        v \<in> un_id ` set (tp_units spec) \<and> v \<noteq> un_id u)"

lemma dict_get_const_map: "dict_get (map (\<lambda>u. (u, f u)) ids) v = (if v \<in> set ids then Some (f v) else None)"
  by (induction ids) (auto simp: dict_get_def)

lemma dict_get_units: "dict_get (map (\<lambda>u. (un_id u, u)) us) v \<noteq> None \<longleftrightarrow> v \<in> un_id ` set us"
  by (induction us) (auto simp: dict_get_def)

lemma adjacent_sources:
  fixes es :: "edge_spec list"
  assumes "distinct es"
  shows "distinct (map ed_source (filter (\<lambda>e. ed_target e = v) es))"
    and "set (map ed_source (filter (\<lambda>e. ed_target e = v) es)) = {u. (u, v) \<in> (\<lambda>e. (ed_source e, ed_target e)) ` set es}"
    and "distinct (map ed_target (filter (\<lambda>e. ed_source e = v) es))"
    and "set (map ed_target (filter (\<lambda>e. ed_source e = v) es)) = {u. (v, u) \<in> (\<lambda>e. (ed_source e, ed_target e)) ` set es}"
proof -
  show "distinct (map ed_source (filter (\<lambda>e. ed_target e = v) es))"
    "distinct (map ed_target (filter (\<lambda>e. ed_source e = v) es))"
    using assms by (auto simp: distinct_map inj_on_def intro: edge_eqI)
qed force+

lemma length_distinct_card: "distinct xs \<Longrightarrow> length xs = card (set xs)"
  by (simp add: distinct_card)

text \<open>When every check of the code passes, the outcome hangs on acyclicity alone.\<close>

lemma validate_after_checks:
  assumes header: "tp_profile spec = profile_id" "tp_provider spec = provider"
    and units: "distinct (map un_id (tp_units spec))" "un_uses ` set (tp_units spec) \<subseteq> registered"
    and edges: "distinct (tp_edges spec)"
      "\<forall>e \<in> set (tp_edges spec). good_edge (map (\<lambda>u. (un_id u, u)) (tp_units spec)) e"
    and inputs: "\<forall>u \<in> set (tp_units spec). \<forall>b \<in> set (dict_values (un_inputs u)).
      good_binding (map (\<lambda>u. (un_id u, u)) (tp_units spec)) (un_id u) b"
  shows "if acyclic (edge_pairs spec)
    then \<exists>P. validate_topology spec profile_id provider registered = Inr \<lparr>vt_spec = spec,
      vt_root_ids = filter (\<lambda>u. \<forall>e \<in> set (tp_edges spec). ed_target e \<noteq> u) (map un_id (tp_units spec)),
      vt_leaf_ids = filter (\<lambda>u. \<forall>e \<in> set (tp_edges spec). ed_source e \<noteq> u) (map un_id (tp_units spec)),
      vt_predecessors = P\<rparr> \<and>
      (\<forall>v. adjacent P v = map ed_source (filter (\<lambda>e. ed_target e = v) (tp_edges spec)))
    else validate_topology spec profile_id provider registered
      = Inl (TopologyValidationError ''topology graph must be acyclic'')"
proof -
  let ?by_id = "map (\<lambda>u. (un_id u, u)) (tp_units spec)"
  let ?ids = "map un_id (tp_units spec)"
  let ?E = "edge_pairs spec"
  let ?V = "set ?ids"
  have reg: "register_units registered [] (tp_units spec) = Inr ?by_id"
    using units by (auto simp: register_units_iff dict_simps)
  obtain P0 S where add: "add_edges ?by_id (tp_edges spec) [] [] = Inr (P0, S)"
    and P0: "\<And>v. adjacent P0 v = map ed_source (filter (\<lambda>e. ed_target e = v) (tp_edges spec))"
    and S: "\<And>u. adjacent S u = map ed_target (filter (\<lambda>e. ed_source e = u) (tp_edges spec))"
    using add_edges_spec [of "tp_edges spec" ?by_id "[]" "[]"] edges by (auto simp: adjacent_def dict_simps)
  have chk: "check_inputs ?by_id (tp_units spec) = Inr ()"
    using check_inputs_spec [of "tp_units spec" ?by_id] inputs by simp
  define P where "P = foldl (\<lambda>d u. touch u d) P0 ?ids"
  have P: "adjacent P v = map ed_source (filter (\<lambda>e. ed_target e = v) (tp_edges spec))" for v
    by (simp add: P_def P0)
  let ?degree = "\<lambda>u. int (length (adjacent P u))"
  let ?indegree = "map (\<lambda>u. (u, ?degree u)) ?ids"
  let ?queue = "filter (\<lambda>u. ?degree u = 0) ?ids"
  have E: "?E \<subseteq> ?V \<times> ?V"
    using edges(2) by (auto simp: edge_pairs_def good_edge_def) (metis dict_get_units option.distinct(1))+
  have fin: "finite ?E" by (simp add: edge_pairs_def)
  have degree: "?degree v = int (waiting ?E [] v)" for v
  proof -
    have "length (adjacent P v) = card (set (adjacent P v))"
      unfolding P by (rule length_distinct_card) (rule adjacent_sources(1) [OF edges(1)])
    also have "set (adjacent P v) = {u. (u, v) \<in> ?E}"
      unfolding P edge_pairs_def by (rule adjacent_sources(2) [OF edges(1)])
    finally show ?thesis by (simp add: waiting_def)
  qed
  have "dict_get ?indegree v = Some (int (waiting ?E [] v))" if "v \<in> ?V" for v
    using that by (simp only: dict_get_const_map degree if_True simp_thms)
  then have "sort_inv ?V ?E ?queue ?indegree []"
    unfolding sort_inv_def using units(1) by (intro conjI ballI) (simp_all add: degree)
  moreover have "distinct (adjacent S u) \<and> set (adjacent S u) = {v. (u, v) \<in> ?E}" for u
    using adjacent_sources(3,4) [OF edges(1), of u] by (simp only: S edge_pairs_def)
  ultimately obtain out indegree' where
    sorted: "sort_units S ?queue ?indegree [] = Inr out" and inv: "sort_inv ?V ?E [] indegree' out"
    using sort_units_inv [OF fin E] by blast
  have len: "length out = length ?by_id \<longleftrightarrow> acyclic ?E"
    using sorted_all_iff_acyclic [OF fin E _ inv] distinct_card [OF units(1)] by simp
  have queue: "map fst (filter (\<lambda>(_, degree). degree = 0) ?indegree) = ?queue"
    by (simp add: filter_map o_def split_beta)
  have empty: "adjacent P u = [] \<longleftrightarrow> (\<forall>e \<in> set (tp_edges spec). ed_target e \<noteq> u)"
    "adjacent S u = [] \<longleftrightarrow> (\<forall>e \<in> set (tp_edges spec). ed_source e \<noteq> u)" for u
    by (auto simp: P S filter_empty_conv)
  have ids: "map fst ?by_id = ?ids" by (simp add: o_def)
  have run: "validate_topology spec profile_id provider registered =
      (if acyclic ?E then Inr \<lparr>vt_spec = spec, vt_root_ids = filter (\<lambda>u. adjacent P u = []) ?ids,
        vt_leaf_ids = filter (\<lambda>u. adjacent S u = []) ?ids, vt_predecessors = P\<rparr>
       else Inl (TopologyValidationError ''topology graph must be acyclic''))"
    unfolding validate_topology_def Let_def reg add chk header bind_result.simps prod.case ids P_def [symmetric] queue sorted
    using len by simp
  show ?thesis
  proof (cases "acyclic ?E")
    case True
    show ?thesis
      unfolding if_P [OF True] run [unfolded empty if_P [OF True]] using P by blast
  next
    case False
    show ?thesis unfolding if_not_P [OF False] using run [unfolded if_not_P [OF False]] .
  qed
qed

lemma validate_failed_check:
  assumes "\<not> (tp_profile spec = profile_id \<and> tp_provider spec = provider \<and>
    distinct (map un_id (tp_units spec)) \<and> un_uses ` set (tp_units spec) \<subseteq> registered \<and>
    distinct (tp_edges spec) \<and> (\<forall>e \<in> set (tp_edges spec). good_edge (map (\<lambda>u. (un_id u, u)) (tp_units spec)) e) \<and>
    (\<forall>u \<in> set (tp_units spec). \<forall>b \<in> set (dict_values (un_inputs u)).
      good_binding (map (\<lambda>u. (un_id u, u)) (tp_units spec)) (un_id u) b))"
  shows "\<exists>m. validate_topology spec profile_id provider registered = Inl (TopologyValidationError m)"
proof (cases "tp_profile spec = profile_id \<and> tp_provider spec = provider")
  case header: True
  show ?thesis
  proof (cases "register_units registered [] (tp_units spec)")
    case (Inl e)
    with register_units_Inl [OF Inl] header show ?thesis by (auto simp: validate_topology_def)
  next
    case (Inr by_id)
    then have units: "distinct (map un_id (tp_units spec))" "un_uses ` set (tp_units spec) \<subseteq> registered"
      and by_id: "by_id = map (\<lambda>u. (un_id u, u)) (tp_units spec)"
      by (auto simp: register_units_iff)
    show ?thesis
    proof (cases "add_edges by_id (tp_edges spec) [] []")
      case (Inl e)
      then have "\<exists>m. e = TopologyValidationError m"
        using add_edges_spec [of "tp_edges spec" by_id "[]" "[]"] by (auto split: if_splits)
      with Inl Inr header show ?thesis by (auto simp: validate_topology_def)
    next
      case edges: (Inr p)
      then have good: "distinct (tp_edges spec)" "\<forall>e \<in> set (tp_edges spec). good_edge by_id e"
        using add_edges_spec [of "tp_edges spec" by_id "[]" "[]"] by (auto split: if_splits)
      then have "\<exists>m. check_inputs by_id (tp_units spec) = Inl (TopologyValidationError m)"
        using assms header units by_id check_inputs_spec [of "tp_units spec" by_id] by (auto split: if_splits)
      with Inr edges header show ?thesis by (cases p) (auto simp: validate_topology_def)
    qed
  qed
qed (auto simp: validate_topology_def)

text \<open>
  C39. Topology validation is exact: a topology is accepted precisely when profile and provider match,
  the unit ids are distinct and every unit is registered, the edges are distinct, join known units
  and form an acyclic graph, and every output reference names another known unit; then roots,
  leaves and predecessors are those of the edges.  Otherwise a topology error is raised, and no
  other outcome is possible.
\<close>

theorem validate_topology_exact:
  "if admissible_topology spec profile_id provider registered
   then \<exists>P. validate_topology spec profile_id provider registered = Inr \<lparr>vt_spec = spec,
      vt_root_ids = filter (\<lambda>u. \<forall>e \<in> set (tp_edges spec). ed_target e \<noteq> u) (map un_id (tp_units spec)),
      vt_leaf_ids = filter (\<lambda>u. \<forall>e \<in> set (tp_edges spec). ed_source e \<noteq> u) (map un_id (tp_units spec)),
      vt_predecessors = P\<rparr> \<and>
      (\<forall>v. adjacent P v = map ed_source (filter (\<lambda>e. ed_target e = v) (tp_edges spec)))
   else \<exists>m. validate_topology spec profile_id provider registered = Inl (TopologyValidationError m)"
proof -
  let ?by_id = "map (\<lambda>u. (un_id u, u)) (tp_units spec)"
  let ?checked = "tp_profile spec = profile_id \<and> tp_provider spec = provider \<and>
    distinct (map un_id (tp_units spec)) \<and> un_uses ` set (tp_units spec) \<subseteq> registered \<and>
    distinct (tp_edges spec) \<and> (\<forall>e \<in> set (tp_edges spec). good_edge ?by_id e) \<and>
    (\<forall>u \<in> set (tp_units spec). \<forall>b \<in> set (dict_values (un_inputs u)). good_binding ?by_id (un_id u) b)"
  have loop_free: "acyclic (edge_pairs spec) \<Longrightarrow> e \<in> set (tp_edges spec) \<Longrightarrow> ed_source e \<noteq> ed_target e" for e
    by (auto simp: edge_pairs_def acyclic_def image_iff intro: r_into_trancl')
  have admissible: "admissible_topology spec profile_id provider registered \<longleftrightarrow> ?checked \<and> acyclic (edge_pairs spec)"
  proof -
    have "(\<forall>e \<in> set (tp_edges spec). good_edge ?by_id e) \<longleftrightarrow>
        edge_pairs spec \<subseteq> un_id ` set (tp_units spec) \<times> un_id ` set (tp_units spec)" if "acyclic (edge_pairs spec)"
      using loop_free [OF that] unfolding good_edge_def dict_get_units edge_pairs_def by auto
    moreover have "(\<forall>u \<in> set (tp_units spec). \<forall>b \<in> set (dict_values (un_inputs u)). good_binding ?by_id (un_id u) b) \<longleftrightarrow>
        (\<forall>u \<in> set (tp_units spec). \<forall>v output_name. UnitOutputRef v output_name \<in> set (dict_values (un_inputs u)) \<longrightarrow>
          v \<in> un_id ` set (tp_units spec) \<and> v \<noteq> un_id u)"
      unfolding good_binding_def dict_get_units by blast
    ultimately show ?thesis unfolding admissible_topology_def by blast
  qed
  show ?thesis
  proof (cases ?checked)
    case True
    have out: "if acyclic (edge_pairs spec)
      then \<exists>P. validate_topology spec profile_id provider registered = Inr \<lparr>vt_spec = spec,
        vt_root_ids = filter (\<lambda>u. \<forall>e \<in> set (tp_edges spec). ed_target e \<noteq> u) (map un_id (tp_units spec)),
        vt_leaf_ids = filter (\<lambda>u. \<forall>e \<in> set (tp_edges spec). ed_source e \<noteq> u) (map un_id (tp_units spec)),
        vt_predecessors = P\<rparr> \<and>
        (\<forall>v. adjacent P v = map ed_source (filter (\<lambda>e. ed_target e = v) (tp_edges spec)))
      else validate_topology spec profile_id provider registered
        = Inl (TopologyValidationError ''topology graph must be acyclic'')"
      by (rule validate_after_checks) (use True in blast)+
    show ?thesis
    proof (cases "acyclic (edge_pairs spec)")
      case ac: True
      then have adm: "admissible_topology spec profile_id provider registered" using admissible True by blast
      show ?thesis using out unfolding if_P [OF ac] if_P [OF adm] .
    next
      case cyclic: False
      then have adm: "\<not> admissible_topology spec profile_id provider registered" using admissible by blast
      show ?thesis using out unfolding if_not_P [OF cyclic] if_not_P [OF adm] by (rule exI)
    qed
  next
    case False
    have "\<exists>m. validate_topology spec profile_id provider registered = Inl (TopologyValidationError m)"
      using False by (rule validate_failed_check)
    moreover have "\<not> admissible_topology spec profile_id provider registered" using admissible False by blast
    ultimately show ?thesis by simp
  qed
qed

definition demo_topology :: topology_spec where
  "demo_topology = \<lparr>tp_name = ''web'', tp_profile = ''aws-static-web'', tp_provider = ''aws'',
     tp_units = [\<lparr>un_id = ''cdn'', un_uses = ''cdn'', un_inputs = [(''origin'', UnitOutputRef ''bucket'' ''domain'')]\<rparr>,
       \<lparr>un_id = ''bucket'', un_uses = ''bucket'', un_inputs = []\<rparr>],
     tp_edges = [\<lparr>ed_source = ''bucket'', ed_target = ''cdn''\<rparr>]\<rparr>"

theorem validate_topology_exact_witness:
  "admissible_topology demo_topology ''aws-static-web'' ''aws'' {''bucket'', ''cdn''} \<and>
   (\<exists>v. validate_topology demo_topology ''aws-static-web'' ''aws'' {''bucket'', ''cdn''} = Inr v \<and>
      vt_root_ids v = [''bucket''] \<and> vt_leaf_ids v = [''cdn''])"
proof -
  have "is_Inr (validate_topology demo_topology ''aws-static-web'' ''aws'' {''bucket'', ''cdn''})" by code_simp
  then obtain v where v: "validate_topology demo_topology ''aws-static-web'' ''aws'' {''bucket'', ''cdn''} = Inr v"
    by (auto simp: is_Inr_iff)
  note exact = validate_topology_exact [of demo_topology "''aws-static-web''" "''aws''" "{''bucket'', ''cdn''}"]
  show ?thesis
  proof (cases "admissible_topology demo_topology ''aws-static-web'' ''aws'' {''bucket'', ''cdn''}")
    case True
    then show ?thesis using exact by (auto simp: demo_topology_def)
  next
    case False
    then show ?thesis using exact v by simp
  qed
qed

end
