(* ===== verification/Org_Onboarding.thy ===== *)
theory Org_Onboarding
  imports Gateway_Schemas Resolved_Context Json_Text
begin

text \<open>
  \<open>gateway/organization_onboarding.py\<close>: the onboarding request and its parts, the sealed digest a
  reviewer approves, the verification and activation services, and the in-memory store.  The store
  a service uses, the verifier and SHA-256 are arguments.
\<close>

section \<open>Records\<close>

datatype organization_state = ORG_PENDING | ORG_ACTIVE | ORG_SUSPENDED

datatype boundary_kind = BOUNDARY_DOMAIN | BOUNDARY_IDP

fun boundary_kind_value :: "boundary_kind \<Rightarrow> string" where
  "boundary_kind_value BOUNDARY_DOMAIN = ''domain''"
| "boundary_kind_value BOUNDARY_IDP = ''idp''"

record applicant =
  ap_issuer :: string
  ap_subject :: string

definition check_applicant :: "applicant \<Rightarrow> applicant result" where
  "check_applicant a =
     (if ap_issuer a = [] \<or> ap_subject a = [] then Inl (ValidationError ''AuthenticatedApplicant'') else Inr a)"

record identity_boundary =
  ib_kind :: boundary_kind
  ib_reference :: string

text \<open>The normalized reference: stripped, without inner whitespace, in lower case unless it has an @.\<close>

definition make_identity_boundary :: "boundary_kind \<Rightarrow> string \<Rightarrow> identity_boundary result" where
  "make_identity_boundary kind value =
     (let normalized = py_strip value in
      if length value < 1 \<or> 512 < length value then Inl (ValidationError ''OrganizationIdentityBoundary'')
      else if normalized = [] \<or> list_ex py_isspace normalized
      then Inl (ValidationError ''identity boundary reference must be non-empty and whitespace-free'')
      else Inr \<lparr>ib_kind = kind,
             ib_reference = (if CHR ''@'' \<notin> set normalized then py_lower normalized else normalized)\<rparr>)"

record onboarding_start =
  os_organization_name :: string
  os_identity_boundary :: identity_boundary

definition make_onboarding_start :: "string \<Rightarrow> identity_boundary \<Rightarrow> onboarding_start result" where
  "make_onboarding_start name boundary =
     (let normalized = join_with '' '' (py_words name) in
      if length name < 1 \<or> 200 < length name then Inl (ValidationError ''OrganizationOnboardingStart'')
      else if normalized = [] then Inl (ValidationError ''organization name must not be blank'')
      else Inr \<lparr>os_organization_name = normalized, os_identity_boundary = boundary\<rparr>)"

record onboarding_request =
  oq_request_id :: string
  oq_organization_id :: string
  oq_organization_name :: string
  oq_applicant :: applicant
  oq_boundary :: identity_boundary
  oq_state :: organization_state
  oq_created_at :: datetime

definition check_onboarding_request :: "onboarding_request \<Rightarrow> onboarding_request result" where
  "check_onboarding_request r =
     (if length (oq_request_id r) < 8 \<or> length (oq_organization_id r) < 5 \<or>
         length (oq_organization_name r) < 1 \<or> 200 < length (oq_organization_name r)
      then Inl (ValidationError ''OrganizationOnboardingRequest'') else Inr r)"

record identity_evidence =
  ie_kind :: boundary_kind
  ie_reference :: string
  ie_evidence_ref :: string
  ie_verified_at :: datetime

definition check_identity_evidence :: "identity_evidence \<Rightarrow> identity_evidence result" where
  "check_identity_evidence e =
     (if length (ie_reference e) < 1 \<or> 512 < length (ie_reference e) \<or>
         length (ie_evidence_ref e) < 1 \<or> 512 < length (ie_evidence_ref e)
      then Inl (ValidationError ''IdentityBoundaryVerificationEvidence'') else Inr e)"

record onboarding_approval =
  oa_request_id :: string
  oa_digest :: string
  oa_approved_by :: applicant
  oa_approved_at :: datetime

definition check_onboarding_approval :: "onboarding_approval \<Rightarrow> onboarding_approval result" where
  "check_onboarding_approval a =
     (if length (oa_request_id a) < 8 \<or> length (oa_digest a) \<noteq> 64 \<or> \<not> list_all is_hex_lower (oa_digest a)
      then Inl (ValidationError ''OrganizationOnboardingApproval'') else Inr a)"

record active_organization =
  ao_organization_id :: string
  ao_organization_name :: string
  ao_boundary :: identity_boundary
  ao_proof :: identity_evidence
  ao_approval :: onboarding_approval
  ao_admin :: applicant
  ao_state :: organization_state
  ao_activated_at :: datetime

definition check_active_organization :: "active_organization \<Rightarrow> active_organization result" where
  "check_active_organization org =
     (if length (ao_organization_id org) < 5 \<or> length (ao_organization_name org) < 1 \<or>
         200 < length (ao_organization_name org)
      then Inl (ValidationError ''ActiveOrganization'') else Inr org)"

section \<open>The sealed digest\<close>

definition onboarding_json :: "onboarding_request \<Rightarrow> json" where
  "onboarding_json r = JObj [
     (''request_id'', JStr (oq_request_id r)),
     (''organization_id'', JStr (oq_organization_id r)),
     (''organization_name'', JStr (oq_organization_name r)),
     (''applicant'', JObj [(''issuer'', JStr (ap_issuer (oq_applicant r))),
        (''subject'', JStr (ap_subject (oq_applicant r)))]),
     (''identity_boundary'', JObj [(''kind'', JStr (boundary_kind_value (ib_kind (oq_boundary r)))),
        (''reference'', JStr (ib_reference (oq_boundary r)))])]"

definition onboarding_text :: "onboarding_request \<Rightarrow> string" where
  "onboarding_text r = json_dumps (onboarding_json r)"

definition onboarding_digest :: "(string \<Rightarrow> string) \<Rightarrow> onboarding_request \<Rightarrow> string" where
  "onboarding_digest sha r = sha (onboarding_text r)"

section \<open>Verification\<close>

record fake_verifier =
  fv_boundaries :: "(boundary_kind \<times> nat list) list"
  fv_calls :: "string list"

definition make_fake_verifier :: "(boundary_kind \<times> string) list \<Rightarrow> fake_verifier" where
  "make_fake_verifier verified =
     \<lparr>fv_boundaries = map (\<lambda>(kind, reference). (kind, py_casefold reference)) verified, fv_calls = []\<rparr>"

definition fake_verify ::
  "onboarding_request \<Rightarrow> datetime \<Rightarrow> fake_verifier \<Rightarrow> identity_evidence option result \<times> fake_verifier" where
  "fake_verify request now v =
     (let boundary = oq_boundary request; v' = v\<lparr>fv_calls := fv_calls v @ [oq_request_id request]\<rparr> in
      if (ib_kind boundary, py_casefold (ib_reference boundary)) \<notin> set (fv_boundaries v) then (Inr None, v')
      else (bind_result (check_identity_evidence \<lparr>ie_kind = ib_kind boundary, ie_reference = ib_reference boundary,
                ie_evidence_ref = ''fake-identity-proof:'' @ boundary_kind_value (ib_kind boundary) @ '':'' @ ib_reference boundary,
                ie_verified_at = now\<rparr>) (\<lambda>e. Inr (Some e)), v'))"

type_synonym 'w identity_verifier = "onboarding_request \<Rightarrow> datetime \<Rightarrow> 'w \<Rightarrow> identity_evidence option result \<times> 'w"

definition verify_pending ::
  "'w identity_verifier \<Rightarrow> onboarding_request \<Rightarrow> datetime \<Rightarrow> 'w \<Rightarrow> identity_evidence option result \<times> 'w" where
  "verify_pending verify request now w =
     (if oq_state request \<noteq> ORG_PENDING then (Inr None, w) else verify request now w)"

section \<open>Approval and activation\<close>

definition fake_may_review :: "string set \<Rightarrow> applicant \<Rightarrow> string \<Rightarrow> bool" where
  "fake_may_review allowed reviewer request_id \<longleftrightarrow> ap_subject reviewer \<in> allowed"

definition approve_onboarding ::
  "(string \<Rightarrow> string) \<Rightarrow> onboarding_request \<Rightarrow> applicant \<Rightarrow> datetime \<Rightarrow> onboarding_approval result" where
  "approve_onboarding sha request approver now =
     (if oq_state request \<noteq> ORG_PENDING
      then Inl (OrganizationOnboardingActivationError ''only a pending request can be approved'')
      else check_onboarding_approval \<lparr>oa_request_id = oq_request_id request, oa_digest = onboarding_digest sha request,
        oa_approved_by = approver, oa_approved_at = now\<rparr>)"

text \<open>The organization a request, its proof and its approval make, without storing it.\<close>

definition build_organization ::
  "(string \<Rightarrow> string) \<Rightarrow> onboarding_request \<Rightarrow> identity_evidence option \<Rightarrow> onboarding_approval option \<Rightarrow> datetime
     \<Rightarrow> active_organization result" where
  "build_organization sha request proof_option approval_option now =
     (if oq_state request \<noteq> ORG_PENDING
      then Inl (OrganizationOnboardingActivationError ''only a pending request can be activated'')
      else case proof_option of
        None \<Rightarrow> Inl (OrganizationOnboardingActivationError ''identity-boundary verification is required'')
      | Some evidence \<Rightarrow>
          if ie_kind evidence \<noteq> ib_kind (oq_boundary request) \<or> ie_reference evidence \<noteq> ib_reference (oq_boundary request)
          then Inl (OrganizationOnboardingActivationError
                 ''identity-proof evidence does not match the requested boundary'')
          else case approval_option of
            None \<Rightarrow> Inl (OrganizationOnboardingActivationError ''recorded approval is required'')
          | Some approval \<Rightarrow>
              if oa_request_id approval \<noteq> oq_request_id request \<or> oa_digest approval \<noteq> onboarding_digest sha request
              then Inl (OrganizationOnboardingActivationError
                     ''approval does not match the pending onboarding request'')
              else check_active_organization \<lparr>ao_organization_id = oq_organization_id request,
                ao_organization_name = oq_organization_name request, ao_boundary = oq_boundary request,
                ao_proof = evidence, ao_approval = approval, ao_admin = oq_applicant request,
                ao_state = ORG_ACTIVE, ao_activated_at = now\<rparr>)"

definition activate_onboarding ::
  "(string \<Rightarrow> string) \<Rightarrow> (active_organization \<Rightarrow> 'st \<Rightarrow> unit result \<times> 'st) \<Rightarrow> onboarding_request
     \<Rightarrow> identity_evidence option \<Rightarrow> onboarding_approval option \<Rightarrow> datetime \<Rightarrow> 'st
     \<Rightarrow> active_organization result \<times> 'st" where
  "activate_onboarding sha store_activate request proof_option approval_option now st =
     (case build_organization sha request proof_option approval_option now of
        Inl e \<Rightarrow> (Inl e, st)
      | Inr org \<Rightarrow>
          (case store_activate org st of
             (Inl e, st') \<Rightarrow> (Inl e, st')
           | (Inr _, st') \<Rightarrow> (Inr org, st')))"

section \<open>The in-memory store\<close>

record onboarding_store =
  ns_requests :: "(string, onboarding_request) dict"
  ns_by_identity :: "(boundary_kind \<times> nat list, string) dict"
  ns_active :: "(string, active_organization) dict"
  ns_proofs :: "(string, identity_evidence) dict"

definition empty_onboarding_store :: onboarding_store where
  "empty_onboarding_store = \<lparr>ns_requests = [], ns_by_identity = [], ns_active = [], ns_proofs = []\<rparr>"

definition already_requested :: exn where
  "already_requested = OrganizationOnboardingAlreadyRequested
     ''an organization request already exists for this identity boundary''"

definition mem_save_pending :: "onboarding_request \<Rightarrow> onboarding_store \<Rightarrow> unit result \<times> onboarding_store" where
  "mem_save_pending request st =
     (let key = (ib_kind (oq_boundary request), py_casefold (ib_reference (oq_boundary request))) in
      if dict_get (ns_by_identity st) key \<noteq> None then (Inl already_requested, st)
      else (Inr (), st\<lparr>ns_requests := dict_set (oq_request_id request) request (ns_requests st),
              ns_by_identity := dict_set key (oq_request_id request) (ns_by_identity st)\<rparr>))"

definition mem_record_proof ::
  "onboarding_request \<Rightarrow> identity_evidence \<Rightarrow> onboarding_store \<Rightarrow> unit result \<times> onboarding_store" where
  "mem_record_proof request evidence st =
     (if ie_kind evidence \<noteq> ib_kind (oq_boundary request) \<or> ie_reference evidence \<noteq> ib_reference (oq_boundary request)
      then (Inl (OrganizationOnboardingActivationError ''identity proof does not match pending request''), st)
      else if dict_get (ns_requests st) (oq_request_id request) = None
      then (Inl (OrganizationOnboardingActivationError ''pending request does not exist''), st)
      else (Inr (), st\<lparr>ns_proofs := dict_set (oq_request_id request) evidence (ns_proofs st)\<rparr>))"

definition mem_activate :: "active_organization \<Rightarrow> onboarding_store \<Rightarrow> unit result \<times> onboarding_store" where
  "mem_activate org st =
     (if ao_organization_id org \<notin> oq_organization_id ` set (dict_values (ns_requests st))
      then (Inl (OrganizationOnboardingActivationError ''active organization has no pending onboarding request''), st)
      else if ao_state org \<noteq> ORG_ACTIVE
      then (Inl (OrganizationOnboardingActivationError ''only an active organization can become routable''), st)
      else (Inr (), st\<lparr>ns_active := dict_set (ao_organization_id org) org (ns_active st)\<rparr>))"

definition mem_get_request :: "string \<Rightarrow> onboarding_store \<Rightarrow> onboarding_request option" where
  "mem_get_request request_id st = dict_get (ns_requests st) request_id"

definition mem_resolve_routable :: "string \<Rightarrow> onboarding_store \<Rightarrow> active_organization option" where
  "mem_resolve_routable organization_id st = dict_get (ns_active st) organization_id"

definition start_onboarding ::
  "(onboarding_request \<Rightarrow> 'st \<Rightarrow> unit result \<times> 'st) \<Rightarrow> string \<Rightarrow> string \<Rightarrow> applicant \<Rightarrow> onboarding_start
     \<Rightarrow> datetime \<Rightarrow> 'st \<Rightarrow> onboarding_request result \<times> 'st" where
  "start_onboarding save_pending fresh_request fresh_org who onboarding now st =
     (case check_onboarding_request \<lparr>oq_request_id = fresh_request, oq_organization_id = fresh_org,
             oq_organization_name = os_organization_name onboarding, oq_applicant = who,
             oq_boundary = os_identity_boundary onboarding, oq_state = ORG_PENDING, oq_created_at = now\<rparr> of
        Inl e \<Rightarrow> (Inl e, st)
      | Inr request \<Rightarrow>
          (case save_pending request st of
             (Inl e, st') \<Rightarrow> (Inl e, st')
           | (Inr _, st') \<Rightarrow> (Inr request, st')))"

section \<open>What the digest binds\<close>

lemma boundary_kind_value_inj: "boundary_kind_value k = boundary_kind_value l \<longleftrightarrow> k = l"
  by (cases k; cases l) simp_all

definition sealed_fields :: "onboarding_request \<Rightarrow> string \<times> string \<times> string \<times> applicant \<times> identity_boundary" where
  "sealed_fields r = (oq_request_id r, oq_organization_id r, oq_organization_name r, oq_applicant r, oq_boundary r)"

lemma json_sorted_obj_eq:
  assumes "distinct (map fst kvs)" "distinct (map fst lvs)" "json_sorted (JObj kvs) = json_sorted (JObj lvs)"
  shows "map_of (map (\<lambda>(k, v). (k, json_sorted v)) kvs) = map_of (map (\<lambda>(k, v). (k, json_sorted v)) lvs)"
proof -
  have keys: "map fst (map (\<lambda>(k, v). (k, json_sorted v)) xs) = map fst xs" for xs
    by (induction xs) auto
  have d1: "distinct (map fst (map (\<lambda>(k, v). (k, json_sorted v)) kvs))"
    and d2: "distinct (map fst (map (\<lambda>(k, v). (k, json_sorted v)) lvs))"
    unfolding keys by (fact assms)+
  from assms(3) have "sort_key fst (map (\<lambda>(k, v). (k, json_sorted v)) kvs) =
      sort_key fst (map (\<lambda>(k, v). (k, json_sorted v)) lvs)" by simp
  then show ?thesis using sort_key_fst_eq_iff [OF d1 d2] by (rule iffD1 [rotated])
qed

lemma onboarding_text_inj: "onboarding_text r = onboarding_text q \<longleftrightarrow> sealed_fields r = sealed_fields q"
proof
  assume "onboarding_text r = onboarding_text q"
  then have whole: "json_sorted (onboarding_json r) = json_sorted (onboarding_json q)"
    by (simp add: onboarding_text_def json_dumps_inj)
  note outer = json_sorted_obj_eq [OF _ _ whole [unfolded onboarding_json_def], THEN fun_cong]
  have "oq_request_id r = oq_request_id q" using outer [of "''request_id''"] by simp
  moreover have "oq_organization_id r = oq_organization_id q" using outer [of "''organization_id''"] by simp
  moreover have "oq_organization_name r = oq_organization_name q" using outer [of "''organization_name''"] by simp
  moreover have who: "json_sorted (JObj [(''issuer'', JStr (ap_issuer (oq_applicant r))), (''subject'', JStr (ap_subject (oq_applicant r)))]) =
      json_sorted (JObj [(''issuer'', JStr (ap_issuer (oq_applicant q))), (''subject'', JStr (ap_subject (oq_applicant q)))])"
    using outer [of "''applicant''"] by simp
  note inner = json_sorted_obj_eq [OF _ _ who, THEN fun_cong]
  have "ap_issuer (oq_applicant r) = ap_issuer (oq_applicant q)" using inner [of "''issuer''"] by simp
  moreover have "ap_subject (oq_applicant r) = ap_subject (oq_applicant q)" using inner [of "''subject''"] by simp
  moreover have boundary: "json_sorted (JObj [(''kind'', JStr (boundary_kind_value (ib_kind (oq_boundary r)))),
        (''reference'', JStr (ib_reference (oq_boundary r)))]) =
      json_sorted (JObj [(''kind'', JStr (boundary_kind_value (ib_kind (oq_boundary q)))),
        (''reference'', JStr (ib_reference (oq_boundary q)))])"
    using outer [of "''identity_boundary''"] by simp
  note inner = json_sorted_obj_eq [OF _ _ boundary, THEN fun_cong]
  have "ib_kind (oq_boundary r) = ib_kind (oq_boundary q)"
    using inner [of "''kind''"] by (simp add: boundary_kind_value_inj)
  moreover have "ib_reference (oq_boundary r) = ib_reference (oq_boundary q)" using inner [of "''reference''"] by simp
  ultimately show "sealed_fields r = sealed_fields q" by (simp add: sealed_fields_def)
qed (simp add: onboarding_text_def onboarding_json_def sealed_fields_def)

text \<open>
  C34. An approval is of one request: when an approval activates two requests, they agree in every
  sealed field, the applicant who becomes the tenant administrator included, or their sealed
  texts collide under the hash.
\<close>

theorem onboarding_approval_binds_one_request:
  assumes "build_organization sha r p (Some a) now = Inr x" "build_organization sha q p' (Some a) now' = Inr y"
  shows "sealed_fields r = sealed_fields q \<and> ao_admin x = ao_admin y \<or> collides sha (onboarding_text r) (onboarding_text q)"
proof -
  have "oa_digest a = onboarding_digest sha r" "ao_admin x = oq_applicant r"
    using assms(1) by (auto simp: build_organization_def check_active_organization_def split: if_splits option.splits)
  moreover have "oa_digest a = onboarding_digest sha q" "ao_admin y = oq_applicant q"
    using assms(2) by (auto simp: build_organization_def check_active_organization_def split: if_splits option.splits)
  ultimately show ?thesis
    using onboarding_text_inj [of r q] by (auto simp: onboarding_digest_def collides_def sealed_fields_def)
qed

definition demo_onboarding :: onboarding_request where
  "demo_onboarding = \<lparr>oq_request_id = ''orgreq_1'', oq_organization_id = ''org_1'', oq_organization_name = ''Acme'',
     oq_applicant = \<lparr>ap_issuer = ''platformops'', ap_subject = ''usr_1''\<rparr>,
     oq_boundary = \<lparr>ib_kind = BOUNDARY_DOMAIN, ib_reference = ''acme.test''\<rparr>, oq_state = ORG_PENDING,
     oq_created_at = Aware 0\<rparr>"

definition demo_evidence :: identity_evidence where
  "demo_evidence = \<lparr>ie_kind = BOUNDARY_DOMAIN, ie_reference = ''acme.test'', ie_evidence_ref = ''dns'',
     ie_verified_at = Aware 1\<rparr>"

definition demo_onboarding_approval :: onboarding_approval where
  "demo_onboarding_approval = \<lparr>oa_request_id = ''orgreq_1'', oa_digest = ''d'',
     oa_approved_by = \<lparr>ap_issuer = ''platformops'', ap_subject = ''usr_2''\<rparr>, oa_approved_at = Aware 2\<rparr>"

theorem onboarding_approval_binds_one_request_witness:
  "\<exists>x. build_organization (\<lambda>_. ''d'') demo_onboarding (Some demo_evidence) (Some demo_onboarding_approval) (Aware 3) = Inr x \<and>
     (sealed_fields demo_onboarding = sealed_fields demo_onboarding \<and> ao_admin x = ao_admin x \<or>
      collides (\<lambda>_. ''d'') (onboarding_text demo_onboarding) (onboarding_text demo_onboarding))"
proof -
  have "\<exists>x. build_organization (\<lambda>_. ''d'') demo_onboarding (Some demo_evidence) (Some demo_onboarding_approval) (Aware 3) = Inr x"
    by (simp add: build_organization_def demo_onboarding_def demo_evidence_def demo_onboarding_approval_def
        onboarding_digest_def check_active_organization_def)
  then obtain x where x: "build_organization (\<lambda>_. ''d'') demo_onboarding (Some demo_evidence)
      (Some demo_onboarding_approval) (Aware 3) = Inr x" ..
  from onboarding_approval_binds_one_request [OF x x] x show ?thesis by blast
qed

end
