(* ===== verification/Onboarding_Tables.thy ===== *)
theory Onboarding_Tables
  imports Org_Onboarding Registration_Service
begin

text \<open>
  \<open>gateway/organization_onboarding_postgres.py\<close> over the tables of migrations 001 and 005: one
  definition per repository method, each one transaction whose failure leaves every table as it
  was.  The keys, the unique indexes, the checks and the foreign keys of the migrations are guards
  of the inserts, tried in the order PostgreSQL tries them (checks, keys, references).  The
  database's \<open>lower\<close> and SHA-256 are arguments; the users table is the list of its subjects.
\<close>

section \<open>The tables\<close>

record org_row =
  or_organization_id :: string
  or_name :: string
  or_state :: organization_state
  or_created_at :: datetime
  or_activated_at :: "datetime option"

record request_row =
  qr_request_id :: string
  qr_organization_id :: string
  qr_applicant :: applicant
  qr_kind :: boundary_kind
  qr_reference :: string
  qr_created_at :: datetime

record admin_row =
  dm_organization_id :: string
  dm_admin :: applicant
  dm_created_at :: datetime

record onboarding_tables =
  ot_users :: "string list"
  ot_organizations :: "org_row list"
  ot_requests :: "request_row list"
  ot_proofs :: "(string \<times> identity_evidence) list"
  ot_approvals :: "onboarding_approval list"
  ot_boundaries :: "(string \<times> identity_evidence) list"
  ot_admins :: "admin_row list"
  ot_idps :: "(string, idp_configuration) dict"

definition empty_onboarding_tables :: "string list \<Rightarrow> onboarding_tables" where
  "empty_onboarding_tables users = \<lparr>ot_users = users, ot_organizations = [], ot_requests = [], ot_proofs = [],
     ot_approvals = [], ot_boundaries = [], ot_admins = [], ot_idps = []\<rparr>"

definition unique_violation :: exn where
  "unique_violation = ExternalError ''psycopg.errors.UniqueViolation''"

definition check_violation :: exn where
  "check_violation = ExternalError ''psycopg.errors.CheckViolation''"

definition foreign_key_violation :: exn where
  "foreign_key_violation = ExternalError ''psycopg.errors.ForeignKeyViolation''"

definition find_org :: "onboarding_tables \<Rightarrow> string \<Rightarrow> org_row option" where
  "find_org t organization_id = find (\<lambda>r. or_organization_id r = organization_id) (ot_organizations t)"

section \<open>Inserts with their constraints\<close>

definition insert_organization :: "org_row \<Rightarrow> onboarding_tables \<Rightarrow> onboarding_tables result" where
  "insert_organization r t =
     (if or_state r = ORG_ACTIVE \<and> or_activated_at r = None then Inl check_violation
      else if find_org t (or_organization_id r) \<noteq> None then Inl unique_violation
      else Inr (t\<lparr>ot_organizations := ot_organizations t @ [r]\<rparr>))"

definition insert_request ::
  "(string \<Rightarrow> string) \<Rightarrow> organization_state \<Rightarrow> request_row \<Rightarrow> onboarding_tables \<Rightarrow> onboarding_tables result" where
  "insert_request lower state r t =
     (if state \<noteq> ORG_PENDING then Inl check_violation
      else if list_ex (\<lambda>q. qr_request_id q = qr_request_id r \<or> qr_organization_id q = qr_organization_id r \<or>
                (qr_kind q = qr_kind r \<and> lower (qr_reference q) = lower (qr_reference r))) (ot_requests t)
      then Inl unique_violation
      else if find_org t (qr_organization_id r) = None \<or> ap_subject (qr_applicant r) \<notin> set (ot_users t)
      then Inl foreign_key_violation
      else Inr (t\<lparr>ot_requests := ot_requests t @ [r]\<rparr>))"

text \<open>\<open>ON CONFLICT (request_id) DO NOTHING\<close>: the first proof of a request stays.\<close>

definition insert_proof :: "string \<Rightarrow> identity_evidence \<Rightarrow> onboarding_tables \<Rightarrow> onboarding_tables result" where
  "insert_proof request_id e t =
     (if list_ex (\<lambda>p. fst p = request_id) (ot_proofs t) then Inr t
      else if \<not> list_ex (\<lambda>q. qr_request_id q = request_id) (ot_requests t) then Inl foreign_key_violation
      else Inr (t\<lparr>ot_proofs := ot_proofs t @ [(request_id, e)]\<rparr>))"

definition insert_approval :: "onboarding_approval \<Rightarrow> onboarding_tables \<Rightarrow> onboarding_tables result" where
  "insert_approval a t =
     (if length (oa_digest a) \<noteq> 64 then Inl check_violation
      else if list_ex (\<lambda>b. oa_request_id b = oa_request_id a) (ot_approvals t) then Inl unique_violation
      else if \<not> list_ex (\<lambda>q. qr_request_id q = oa_request_id a) (ot_requests t) then Inl foreign_key_violation
      else Inr (t\<lparr>ot_approvals := ot_approvals t @ [a]\<rparr>))"

definition mark_row :: "string \<Rightarrow> datetime \<Rightarrow> org_row \<Rightarrow> org_row" where
  "mark_row organization_id activated_at r =
     (if or_organization_id r = organization_id
      then r\<lparr>or_state := ORG_ACTIVE, or_activated_at := Some activated_at\<rparr> else r)"

definition mark_active :: "string \<Rightarrow> datetime \<Rightarrow> onboarding_tables \<Rightarrow> onboarding_tables" where
  "mark_active organization_id activated_at t =
     t\<lparr>ot_organizations := map (mark_row organization_id activated_at) (ot_organizations t)\<rparr>"

definition insert_boundary ::
  "(string \<Rightarrow> string) \<Rightarrow> string \<Rightarrow> identity_evidence \<Rightarrow> onboarding_tables \<Rightarrow> onboarding_tables result" where
  "insert_boundary lower organization_id e t =
     (if list_ex (\<lambda>(i, b). i = organization_id \<or>
           (ie_kind b = ie_kind e \<and> lower (ie_reference b) = lower (ie_reference e))) (ot_boundaries t)
      then Inl unique_violation
      else if find_org t organization_id = None then Inl foreign_key_violation
      else Inr (t\<lparr>ot_boundaries := ot_boundaries t @ [(organization_id, e)]\<rparr>))"

definition insert_admin :: "admin_row \<Rightarrow> onboarding_tables \<Rightarrow> onboarding_tables result" where
  "insert_admin r t =
     (if list_ex (\<lambda>a. dm_organization_id a = dm_organization_id r) (ot_admins t) then Inl unique_violation
      else if find_org t (dm_organization_id r) = None \<or> ap_subject (dm_admin r) \<notin> set (ot_users t)
      then Inl foreign_key_violation
      else Inr (t\<lparr>ot_admins := ot_admins t @ [r]\<rparr>))"

text \<open>\<open>with connection.transaction()\<close>: commit the tables the body made, or keep the old ones.\<close>

definition in_transaction :: "onboarding_tables result \<Rightarrow> onboarding_tables \<Rightarrow> unit result \<times> onboarding_tables" where
  "in_transaction body t = (case body of Inl e \<Rightarrow> (Inl e, t) | Inr t' \<Rightarrow> (Inr (), t'))"

section \<open>Saving a pending request\<close>

definition pg_save_pending ::
  "(string \<Rightarrow> string) \<Rightarrow> onboarding_request \<Rightarrow> onboarding_tables \<Rightarrow> unit result \<times> onboarding_tables" where
  "pg_save_pending lower request t =
     (case in_transaction
        (bind_result (insert_organization \<lparr>or_organization_id = oq_organization_id request,
             or_name = oq_organization_name request, or_state = oq_state request,
             or_created_at = oq_created_at request, or_activated_at = None\<rparr> t) (\<lambda>t1.
         insert_request lower (oq_state request) \<lparr>qr_request_id = oq_request_id request,
             qr_organization_id = oq_organization_id request, qr_applicant = oq_applicant request,
             qr_kind = ib_kind (oq_boundary request), qr_reference = ib_reference (oq_boundary request),
             qr_created_at = oq_created_at request\<rparr> t1)) t of
        (Inl e, t') \<Rightarrow> (Inl (if e = unique_violation then already_requested else e), t')
      | (Inr _, t') \<Rightarrow> (Inr (), t'))"

section \<open>Reading requests back\<close>

text \<open>The join of a request with its organization, and the pydantic models made of the row.\<close>

definition join_request :: "(request_row \<Rightarrow> org_row \<Rightarrow> bool) \<Rightarrow> onboarding_tables \<Rightarrow> (request_row \<times> org_row) option" where
  "join_request P t =
     (case find (\<lambda>q. \<exists>r \<in> set (ot_organizations t). or_organization_id r = qr_organization_id q \<and> P q r) (ot_requests t) of
        None \<Rightarrow> None
      | Some q \<Rightarrow> map_option (Pair q)
          (find (\<lambda>r. or_organization_id r = qr_organization_id q \<and> P q r) (ot_organizations t)))"

definition request_of_row :: "request_row \<Rightarrow> org_row \<Rightarrow> onboarding_request result" where
  "request_of_row q r =
     bind_result (check_applicant (qr_applicant q)) (\<lambda>who.
     bind_result (make_identity_boundary (qr_kind q) (qr_reference q)) (\<lambda>boundary.
     check_onboarding_request \<lparr>oq_request_id = qr_request_id q, oq_organization_id = qr_organization_id q,
       oq_organization_name = or_name r, oq_applicant = who, oq_boundary = boundary,
       oq_state = ORG_PENDING, oq_created_at = qr_created_at q\<rparr>))"

definition pg_get_pending_request :: "onboarding_tables \<Rightarrow> string \<Rightarrow> onboarding_request option result" where
  "pg_get_pending_request t request_id =
     (case join_request (\<lambda>q r. qr_request_id q = request_id \<and> or_state r = ORG_PENDING) t of
        None \<Rightarrow> Inr None
      | Some (q, r) \<Rightarrow> bind_result (request_of_row q r) (\<lambda>request. Inr (Some request)))"

definition pg_get_persisted_proof ::
  "onboarding_tables \<Rightarrow> onboarding_request \<Rightarrow> identity_evidence option result" where
  "pg_get_persisted_proof t request =
     (case find (\<lambda>p. fst p = oq_request_id request) (ot_proofs t) of
        None \<Rightarrow> Inr None
      | Some (_, e) \<Rightarrow> bind_result (check_identity_evidence e) (\<lambda>evidence.
          if ie_kind evidence \<noteq> ib_kind (oq_boundary request) \<or> ie_reference evidence \<noteq> ib_reference (oq_boundary request)
          then Inl (OrganizationOnboardingActivationError ''persisted identity proof does not match pending request'')
          else Inr (Some evidence)))"

section \<open>Recording a proof\<close>

definition pg_record_proof ::
  "onboarding_request \<Rightarrow> identity_evidence \<Rightarrow> onboarding_tables \<Rightarrow> unit result \<times> onboarding_tables" where
  "pg_record_proof request evidence t =
     (if ie_kind evidence \<noteq> ib_kind (oq_boundary request) \<or> ie_reference evidence \<noteq> ib_reference (oq_boundary request)
      then (Inl (OrganizationOnboardingActivationError ''identity proof does not match pending request''), t)
      else in_transaction
        (if join_request (\<lambda>q r. qr_request_id q = oq_request_id request \<and> or_state r = ORG_PENDING) t = None
         then Inl (OrganizationOnboardingActivationError ''pending request does not exist'')
         else insert_proof (oq_request_id request) evidence t) t)"

section \<open>Activation\<close>

definition activation_matches :: "(string \<Rightarrow> string) \<Rightarrow> active_organization \<Rightarrow> onboarding_request \<Rightarrow> bool" where
  "activation_matches sha org request \<longleftrightarrow>
     ao_boundary org = oq_boundary request \<and>
     ie_kind (ao_proof org) = ib_kind (oq_boundary request) \<and>
     ie_reference (ao_proof org) = ib_reference (oq_boundary request) \<and>
     oa_request_id (ao_approval org) = oq_request_id request \<and>
     oa_digest (ao_approval org) = onboarding_digest sha request"

definition store_activation ::
  "(string \<Rightarrow> string) \<Rightarrow> string \<Rightarrow> active_organization \<Rightarrow> onboarding_tables \<Rightarrow> onboarding_tables result" where
  "store_activation lower request_id org t =
     bind_result (insert_proof request_id (ao_proof org) t) (\<lambda>t1.
     bind_result (insert_approval (ao_approval org) t1) (\<lambda>t2.
     bind_result (insert_boundary lower (ao_organization_id org)
         ((ao_proof org)\<lparr>ie_kind := ib_kind (ao_boundary org), ie_reference := ib_reference (ao_boundary org)\<rparr>)
         (mark_active (ao_organization_id org) (ao_activated_at org) t2)) (\<lambda>t3.
     insert_admin \<lparr>dm_organization_id = ao_organization_id org, dm_admin = ao_admin org,
       dm_created_at = ao_activated_at org\<rparr> t3)))"

definition pg_activate ::
  "(string \<Rightarrow> string) \<Rightarrow> (string \<Rightarrow> string) \<Rightarrow> active_organization \<Rightarrow> onboarding_tables
     \<Rightarrow> unit result \<times> onboarding_tables" where
  "pg_activate sha lower org t =
     in_transaction
       (case join_request (\<lambda>q r. qr_organization_id q = ao_organization_id org) t of
          None \<Rightarrow> Inl (OrganizationOnboardingActivationError ''only a pending request can be activated'')
        | Some (q, r) \<Rightarrow>
            if or_state r \<noteq> ORG_PENDING
            then Inl (OrganizationOnboardingActivationError ''only a pending request can be activated'')
            else bind_result (request_of_row q r) (\<lambda>request.
              if \<not> activation_matches sha org request
              then Inl (OrganizationOnboardingActivationError ''proof or approval does not match pending request'')
              else store_activation lower (oq_request_id request) org t)) t"

section \<open>Routing\<close>

text \<open>The five-way join, by the keys each table has.\<close>

definition routable_row ::
  "onboarding_tables \<Rightarrow> string \<Rightarrow> (org_row \<times> identity_evidence \<times> onboarding_approval \<times> applicant) option" where
  "routable_row t organization_id =
     (case (find (\<lambda>r. or_organization_id r = organization_id \<and> or_state r = ORG_ACTIVE) (ot_organizations t),
            find (\<lambda>b. fst b = organization_id) (ot_boundaries t),
            find (\<lambda>q. qr_organization_id q = organization_id) (ot_requests t),
            find (\<lambda>a. dm_organization_id a = organization_id) (ot_admins t)) of
        (Some r, Some b, Some q, Some d) \<Rightarrow>
          (case find (\<lambda>a. oa_request_id a = qr_request_id q) (ot_approvals t) of
             None \<Rightarrow> None
           | Some a \<Rightarrow> Some (r, snd b, a, dm_admin d))
      | _ \<Rightarrow> None)"

definition pg_resolve_routable :: "onboarding_tables \<Rightarrow> string \<Rightarrow> active_organization option result" where
  "pg_resolve_routable t organization_id =
     (case routable_row t organization_id of
        None \<Rightarrow> Inr None
      | Some (r, e, a, admin) \<Rightarrow>
          bind_result (make_identity_boundary (ie_kind e) (ie_reference e)) (\<lambda>boundary.
          bind_result (check_identity_evidence (e\<lparr>ie_reference := ib_reference boundary\<rparr>)) (\<lambda>evidence.
          bind_result (check_applicant (oa_approved_by a)) (\<lambda>approver.
          bind_result (check_onboarding_approval (a\<lparr>oa_approved_by := approver\<rparr>)) (\<lambda>approval.
          bind_result (check_applicant admin) (\<lambda>who.
          bind_result (case or_activated_at r of None \<Rightarrow> Inl (ValidationError ''ActiveOrganization'')
             | Some activated_at \<Rightarrow> check_active_organization
                \<lparr>ao_organization_id = or_organization_id r, ao_organization_name = or_name r, ao_boundary = boundary,
                  ao_proof = evidence, ao_approval = approval, ao_admin = who, ao_state = ORG_ACTIVE,
                  ao_activated_at = activated_at\<rparr>) (\<lambda>org. Inr (Some org))))))))"

section \<open>Active domains and identity providers\<close>

definition pg_find_active_domain ::
  "(string \<Rightarrow> string) \<Rightarrow> onboarding_tables \<Rightarrow> string \<Rightarrow> active_domain option result" where
  "pg_find_active_domain lower t canonical =
     (case find (\<lambda>(i, b). ie_kind b = BOUNDARY_DOMAIN \<and> lower (ie_reference b) = lower canonical \<and>
              list_ex (\<lambda>r. or_organization_id r = i \<and> or_state r = ORG_ACTIVE) (ot_organizations t)) (ot_boundaries t) of
        None \<Rightarrow> Inr None
      | Some (i, b) \<Rightarrow>
          bind_result (case dict_get (ot_idps t) i of None \<Rightarrow> Inr None
             | Some c \<Rightarrow> bind_result (check_idp_configuration c) (\<lambda>c. Inr (Some c))) (\<lambda>idp.
          bind_result (check_active_domain \<lparr>ad_organization_id = i, ad_canonical_domain = ie_reference b, ad_idp = idp\<rparr>)
            (\<lambda>d. Inr (Some d))))"

definition require_active_organization :: "onboarding_tables \<Rightarrow> string \<Rightarrow> unit result" where
  "require_active_organization t organization_id =
     (if list_ex (\<lambda>r. or_organization_id r = organization_id \<and> or_state r = ORG_ACTIVE) (ot_organizations t)
      then Inr () else Inl (OrganizationOnboardingActivationError ''organization is not active''))"

definition configure_active_organization_idp ::
  "string \<Rightarrow> idp_configuration \<Rightarrow> onboarding_tables \<Rightarrow> unit result \<times> onboarding_tables" where
  "configure_active_organization_idp organization_id configuration t =
     in_transaction (bind_result (require_active_organization t organization_id) (\<lambda>_.
       Inr (t\<lparr>ot_idps := dict_set organization_id configuration (ot_idps t)\<rparr>))) t"

end
