(* ===== verification/Onboarding_Workflow.thy ===== *)
theory Onboarding_Workflow
  imports Onboarding_Tables Command_Router
begin

text \<open>
  The onboarding graphs of \<open>workflows/organization_onboarding\<close>, the handlers behind
  \<open>/onboard-org\<close> and \<open>/review-onboard-org\<close>, and the administrator's read service.  A graph is the
  composition of its nodes along its edges: a node reads the graph state, updates its own keys and
  may change the store, an exception ends the run and the store keeps what was committed before.
  The store's methods, the verifier and the review authorizer are arguments, as are the fresh ids
  and the times the code reads from the clock.
\<close>

section \<open>The applicant's graph\<close>

record 'st store_ops =
  so_save_pending :: "onboarding_request \<Rightarrow> 'st \<Rightarrow> unit result \<times> 'st"
  so_record_proof :: "onboarding_request \<Rightarrow> identity_evidence \<Rightarrow> 'st \<Rightarrow> unit result \<times> 'st"
  so_activate :: "active_organization \<Rightarrow> 'st \<Rightarrow> unit result \<times> 'st"

record onboarding_state =
  gs_applicant :: applicant
  gs_onboarding :: onboarding_start
  gs_reviewer :: "applicant option"
  gs_request :: "onboarding_request option"
  gs_proof :: "identity_evidence option"
  gs_approval :: "onboarding_approval option"
  gs_organization :: "active_organization option"

text \<open>A node that reads \<open>state["request"]\<close> before it was set touches an attribute of \<open>None\<close>.\<close>

definition with_request :: "onboarding_request option \<Rightarrow> (onboarding_request \<Rightarrow> 'w \<Rightarrow> 's result \<times> 'w) \<Rightarrow> 'w \<Rightarrow> 's result \<times> 'w" where
  "with_request r f w = (case r of None \<Rightarrow> (Inl (AttributeError ''NoneType''), w) | Some request \<Rightarrow> f request w)"

definition create_pending ::
  "'st store_ops \<Rightarrow> string \<Rightarrow> string \<Rightarrow> datetime \<Rightarrow> (onboarding_state, 'st \<times> 'v) node" where
  "create_pending ops fresh_request fresh_org now s = (\<lambda>(st, v).
     case start_onboarding (so_save_pending ops) fresh_request fresh_org (gs_applicant s) (gs_onboarding s) now st of
       (Inl e, st1) \<Rightarrow> (Inl e, st1, v)
     | (Inr request, st1) \<Rightarrow> (Inr (s\<lparr>gs_request := Some request\<rparr>), st1, v))"

definition verify_identity :: "'v identity_verifier \<Rightarrow> datetime \<Rightarrow> (onboarding_state, 'st \<times> 'v) node" where
  "verify_identity verify now s = with_request (gs_request s) (\<lambda>request (st, v).
     case verify_pending verify request now v of
       (Inl e, v1) \<Rightarrow> (Inl e, st, v1)
     | (Inr evidence, v1) \<Rightarrow> (Inr (s\<lparr>gs_proof := evidence\<rparr>), st, v1))"

definition persist_identity_proof :: "'st store_ops \<Rightarrow> (onboarding_state, 'st \<times> 'v) node" where
  "persist_identity_proof ops s w =
     (case gs_proof s of
        None \<Rightarrow> (Inr s, w)
      | Some evidence \<Rightarrow> with_request (gs_request s) (\<lambda>request (st, v).
          case so_record_proof ops request evidence st of
            (Inl e, st1) \<Rightarrow> (Inl e, st1, v)
          | (Inr _, st1) \<Rightarrow> (Inr s, st1, v)) w)"

definition record_approval :: "(string \<Rightarrow> string) \<Rightarrow> datetime \<Rightarrow> (onboarding_state, 'w) node" where
  "record_approval sha now s = with_request (gs_request s) (\<lambda>request w.
     case gs_reviewer s of
       None \<Rightarrow> (Inl (if oq_state request \<noteq> ORG_PENDING
           then OrganizationOnboardingActivationError ''only a pending request can be approved''
           else ValidationError ''OrganizationOnboardingApproval''), w)
     | Some reviewer \<Rightarrow>
         (bind_result (approve_onboarding sha request reviewer now) (\<lambda>a. Inr (s\<lparr>gs_approval := Some a\<rparr>)), w))"

definition activate_node :: "(string \<Rightarrow> string) \<Rightarrow> 'st store_ops \<Rightarrow> datetime \<Rightarrow> (onboarding_state, 'st \<times> 'v) node" where
  "activate_node sha ops now s = with_request (gs_request s) (\<lambda>request (st, v).
     case activate_onboarding sha (so_activate ops) request (gs_proof s) (gs_approval s) now st of
       (Inl e, st1) \<Rightarrow> (Inl e, st1, v)
     | (Inr org, st1) \<Rightarrow> (Inr (s\<lparr>gs_organization := Some org\<rparr>), st1, v))"

datatype proof_outcome = OUTCOME_CONTINUE | OUTCOME_PENDING_REVIEW | OUTCOME_STOP

definition proof_succeeded :: "onboarding_state \<Rightarrow> proof_outcome" where
  "proof_succeeded s =
     (if gs_proof s = None then OUTCOME_STOP
      else if gs_reviewer s \<noteq> None then OUTCOME_CONTINUE else OUTCOME_PENDING_REVIEW)"

text \<open>The clock readings of one run: the request, its proof, the approval, the activation.\<close>

record run_times =
  tm_created :: datetime
  tm_verified :: datetime
  tm_approved :: datetime
  tm_activated :: datetime

definition after_proof ::
  "(string \<Rightarrow> string) \<Rightarrow> 'st store_ops \<Rightarrow> run_times \<Rightarrow> (onboarding_state, 'st \<times> 'v) node" where
  "after_proof sha ops clock s =
     (case proof_succeeded s of
        OUTCOME_STOP \<Rightarrow> Pair (Inr s)
      | _ \<Rightarrow> and_then (persist_identity_proof ops)
               (\<lambda>s. case proof_succeeded s of
                      OUTCOME_CONTINUE \<Rightarrow> and_then (record_approval sha (tm_approved clock))
                        (activate_node sha ops (tm_activated clock)) s
                    | _ \<Rightarrow> Pair (Inr s)) s)"

definition organization_onboarding_graph ::
  "(string \<Rightarrow> string) \<Rightarrow> 'st store_ops \<Rightarrow> 'v identity_verifier \<Rightarrow> string \<Rightarrow> string \<Rightarrow> run_times
     \<Rightarrow> (onboarding_state, 'st \<times> 'v) node" where
  "organization_onboarding_graph sha ops verify fresh_request fresh_org clock =
     and_then (create_pending ops fresh_request fresh_org (tm_created clock))
       (and_then (verify_identity verify (tm_verified clock)) (after_proof sha ops clock))"

section \<open>The reviewer's graph\<close>

record review_state =
  vs_request_id :: string
  vs_reviewer :: applicant
  vs_request :: "onboarding_request option"
  vs_proof :: "identity_evidence option"
  vs_approval :: "onboarding_approval option"
  vs_organization :: "active_organization option"

definition load_pending :: "(review_state, onboarding_tables) node" where
  "load_pending s t =
     (bind_result (pg_get_pending_request t (vs_request_id s)) (\<lambda>found.
        case found of
          None \<Rightarrow> Inl (OrganizationOnboardingActivationError ''pending onboarding request was not found'')
        | Some request \<Rightarrow> bind_result (pg_get_persisted_proof t request) (\<lambda>evidence.
            if evidence = None
            then Inl (OrganizationOnboardingActivationError ''persisted identity proof is required'')
            else Inr (s\<lparr>vs_request := Some request, vs_proof := evidence\<rparr>))), t)"

definition authorize_reviewer :: "(applicant \<Rightarrow> string \<Rightarrow> bool) \<Rightarrow> (review_state, onboarding_tables) node" where
  "authorize_reviewer may_review s t =
     (if may_review (vs_reviewer s) (vs_request_id s) then Inr s
      else Inl (OrganizationOnboardingReviewAccessDenied ''review permission is required''), t)"

definition review_approve :: "(string \<Rightarrow> string) \<Rightarrow> datetime \<Rightarrow> (review_state, onboarding_tables) node" where
  "review_approve sha now s = with_request (vs_request s) (\<lambda>request t.
     (bind_result (approve_onboarding sha request (vs_reviewer s) now) (\<lambda>a. Inr (s\<lparr>vs_approval := Some a\<rparr>)), t))"

definition review_activate ::
  "(string \<Rightarrow> string) \<Rightarrow> (string \<Rightarrow> string) \<Rightarrow> datetime \<Rightarrow> (review_state, onboarding_tables) node" where
  "review_activate sha lower now s = with_request (vs_request s) (\<lambda>request t.
     case activate_onboarding sha (pg_activate sha lower) request (vs_proof s) (vs_approval s) now t of
       (Inl e, t1) \<Rightarrow> (Inl e, t1)
     | (Inr org, t1) \<Rightarrow> (Inr (s\<lparr>vs_organization := Some org\<rparr>), t1))"

definition onboarding_review_graph ::
  "(string \<Rightarrow> string) \<Rightarrow> (string \<Rightarrow> string) \<Rightarrow> (applicant \<Rightarrow> string \<Rightarrow> bool) \<Rightarrow> datetime \<Rightarrow> datetime
     \<Rightarrow> (review_state, onboarding_tables) node" where
  "onboarding_review_graph sha lower may_review approved_at activated_at =
     and_then load_pending (and_then (authorize_reviewer may_review)
       (and_then (review_approve sha approved_at) (review_activate sha lower activated_at)))"

section \<open>The handlers\<close>

definition principal_applicant :: "validated_principal \<Rightarrow> applicant result" where
  "principal_applicant p = check_applicant \<lparr>ap_issuer = vp_issuer p, ap_subject = vp_subject p\<rparr>"

text \<open>\<open>OrganizationOnboardingStart.model_validate\<close> of a JSON payload; no other key is admitted.\<close>

definition parse_boundary :: "json \<Rightarrow> identity_boundary result" where
  "parse_boundary j =
     (case j of
        JObj kvs \<Rightarrow>
          (if \<not> only_keys [''kind'', ''reference''] kvs then Inl (ValidationError ''OrganizationIdentityBoundary'')
           else case (dict_get kvs ''kind'', dict_get kvs ''reference'') of
             (Some (JStr k), Some (JStr reference)) \<Rightarrow>
               (case find (\<lambda>b. boundary_kind_value b = k) [BOUNDARY_DOMAIN, BOUNDARY_IDP] of
                  None \<Rightarrow> Inl (ValidationError ''OrganizationIdentityBoundary'')
                | Some kind \<Rightarrow> make_identity_boundary kind reference)
           | _ \<Rightarrow> Inl (ValidationError ''OrganizationIdentityBoundary''))
      | _ \<Rightarrow> Inl (ValidationError ''OrganizationIdentityBoundary''))"

definition parse_onboarding_start :: "(string, json) dict \<Rightarrow> onboarding_start result" where
  "parse_onboarding_start payload =
     (if \<not> only_keys [''organization_name'', ''identity_boundary''] payload
      then Inl (ValidationError ''OrganizationOnboardingStart'')
      else case (dict_get payload ''organization_name'', dict_get payload ''identity_boundary'') of
        (Some (JStr name), Some j) \<Rightarrow> bind_result (parse_boundary j) (make_onboarding_start name)
      | _ \<Rightarrow> Inl (ValidationError ''OrganizationOnboardingStart''))"

definition postgres_store :: "(string \<Rightarrow> string) \<Rightarrow> (string \<Rightarrow> string) \<Rightarrow> onboarding_tables store_ops" where
  "postgres_store sha lower = \<lparr>so_save_pending = pg_save_pending lower, so_record_proof = pg_record_proof,
     so_activate = pg_activate sha lower\<rparr>"

definition memory_store :: "onboarding_store store_ops" where
  "memory_store = \<lparr>so_save_pending = mem_save_pending, so_record_proof = mem_record_proof,
     so_activate = mem_activate\<rparr>"

definition organization_onboarding_handler ::
  "(string \<Rightarrow> string) \<Rightarrow> (string \<Rightarrow> string) \<Rightarrow> 'v identity_verifier \<Rightarrow> string \<Rightarrow> string \<Rightarrow> run_times
     \<Rightarrow> ((string, json) dict, onboarding_state, onboarding_tables \<times> 'v) workflow_handler" where
  "organization_onboarding_handler sha lower verify fresh_request fresh_org clock invocation w =
     (case inv_principal invocation of
        None \<Rightarrow> (Inl (PermissionError ''validated principal is required''), w)
      | Some p \<Rightarrow>
          (case bind_result (principal_applicant p) (\<lambda>who.
                bind_result (parse_onboarding_start (inv_payload invocation)) (\<lambda>onboarding. Inr (who, onboarding))) of
             Inl e \<Rightarrow> (Inl e, w)
           | Inr (who, onboarding) \<Rightarrow>
               organization_onboarding_graph sha (postgres_store sha lower) verify fresh_request fresh_org clock
                 \<lparr>gs_applicant = who, gs_onboarding = onboarding, gs_reviewer = None, gs_request = None,
                   gs_proof = None, gs_approval = None, gs_organization = None\<rparr> w))"

text \<open>\<open>ReviewOnboardingCommand\<close> and \<open>OnboardingAdministratorReadCommand\<close>.\<close>

definition review_command :: "(string, json) dict \<Rightarrow> string result" where
  "review_command payload =
     (case dict_get payload ''request_id'' of
        Some (JStr i) \<Rightarrow>
          if \<not> only_keys [''request_id''] payload \<or> length i < 8 then Inl (ValidationError ''request_id'') else Inr i
      | _ \<Rightarrow> Inl (ValidationError ''request_id''))"

definition organization_onboarding_review_handler ::
  "(string \<Rightarrow> string) \<Rightarrow> (string \<Rightarrow> string) \<Rightarrow> (applicant \<Rightarrow> string \<Rightarrow> bool) \<Rightarrow> datetime \<Rightarrow> datetime
     \<Rightarrow> ((string, json) dict, review_state, onboarding_tables) workflow_handler" where
  "organization_onboarding_review_handler sha lower may_review approved_at activated_at invocation t =
     (case inv_principal invocation of
        None \<Rightarrow> (Inl (PermissionError ''validated reviewer principal is required''), t)
      | Some p \<Rightarrow>
          (case bind_result (review_command (inv_payload invocation)) (\<lambda>i.
                bind_result (principal_applicant p) (\<lambda>who. Inr (i, who))) of
             Inl e \<Rightarrow> (Inl e, t)
           | Inr (i, who) \<Rightarrow>
               onboarding_review_graph sha lower may_review approved_at activated_at
                 \<lparr>vs_request_id = i, vs_reviewer = who, vs_request = None, vs_proof = None, vs_approval = None,
                   vs_organization = None\<rparr> t))"

section \<open>The administrator's projections\<close>

datatype review_status = REVIEW_PENDING | REVIEW_ACTIVATED

record pending_review =
  pv_request_id :: string
  pv_organization_name :: string
  pv_boundary_kind :: string
  pv_boundary_reference :: string
  pv_proof_recorded :: bool
  pv_status :: review_status

definition pending_review_of :: "onboarding_request \<Rightarrow> identity_evidence option \<Rightarrow> pending_review result" where
  "pending_review_of request evidence =
     (if length (oq_request_id request) < 8 \<or> oq_organization_name request = [] \<or>
         ib_reference (oq_boundary request) = []
      then Inl (ValidationError ''PendingOnboardingReviewProjection'')
      else Inr \<lparr>pv_request_id = oq_request_id request, pv_organization_name = oq_organization_name request,
        pv_boundary_kind = boundary_kind_value (ib_kind (oq_boundary request)),
        pv_boundary_reference = ib_reference (oq_boundary request), pv_proof_recorded = (evidence \<noteq> None),
        pv_status = REVIEW_PENDING\<rparr>)"

record review_outcome =
  vo_organization_id :: string
  vo_organization_name :: string
  vo_status :: review_status

definition review_outcome_of :: "active_organization \<Rightarrow> review_outcome result" where
  "review_outcome_of org =
     (if length (ao_organization_id org) < 5 \<or> ao_organization_name org = []
      then Inl (ValidationError ''OnboardingReviewOutcomeProjection'')
      else Inr \<lparr>vo_organization_id = ao_organization_id org, vo_organization_name = ao_organization_name org,
        vo_status = REVIEW_ACTIVATED\<rparr>)"

definition get_pending_review ::
  "(applicant \<Rightarrow> string \<Rightarrow> bool) \<Rightarrow> applicant \<Rightarrow> string \<Rightarrow> onboarding_tables \<Rightarrow> pending_review result" where
  "get_pending_review may_review reviewer request_id t =
     (if \<not> may_review reviewer request_id
      then Inl (OrganizationOnboardingReviewAccessDenied ''review permission is required'')
      else bind_result (pg_get_pending_request t request_id) (\<lambda>found.
        case found of
          None \<Rightarrow> Inl (ValueError ''pending onboarding request was not found'')
        | Some request \<Rightarrow> bind_result (pg_get_persisted_proof t request) (\<lambda>evidence.
            pending_review_of request evidence)))"

definition onboarding_administrator_read_handler ::
  "(applicant \<Rightarrow> string \<Rightarrow> bool) \<Rightarrow> ((string, json) dict, pending_review, onboarding_tables) workflow_handler" where
  "onboarding_administrator_read_handler may_review invocation t =
     ((case inv_principal invocation of
         None \<Rightarrow> Inl (PermissionError ''validated reviewer principal is required'')
       | Some p \<Rightarrow> bind_result (review_command (inv_payload invocation)) (\<lambda>i.
           bind_result (principal_applicant p) (\<lambda>who. get_pending_review may_review who i t))), t)"

end
