(* ===== verification/Onboarding_Correct.thy ===== *)
theory Onboarding_Correct
  imports Onboarding_Workflow
begin

text \<open>
  What onboarding promises.  The locales state what the services and graphs rely on in a store and
  are interpreted on the PostgreSQL repository and on the in-memory store.  The tables are a state
  machine whose steps are the repository's methods; the invariant says that an active organization
  is backed by one reviewed request, and the graphs, the handlers and domain discovery rest on it.
\<close>

section \<open>Stores\<close>

text \<open>A rejected call changes nothing, and only an activation changes what a review decides.\<close>

locale pending_store =
  fixes ops :: "'st store_ops" and reviewed :: "'st \<Rightarrow> 'r"
  assumes save_rejected: "so_save_pending ops r st = (Inl e, st') \<Longrightarrow> st' = st"
    and save_reviewed: "so_save_pending ops r st = (x, st') \<Longrightarrow> reviewed st' = reviewed st"
    and proof_rejected: "so_record_proof ops r ev st = (Inl e, st') \<Longrightarrow> st' = st"
    and proof_reviewed: "so_record_proof ops r ev st = (x, st') \<Longrightarrow> reviewed st' = reviewed st"
begin

lemma create_pending_reviewed:
  "create_pending ops i j now s (st, v) = (x, st', v') \<Longrightarrow>
     reviewed st' = reviewed st \<and> (\<forall>s'. x = Inr s' \<longrightarrow> gs_reviewer s' = gs_reviewer s \<and> gs_organization s' = gs_organization s)"
  by (auto simp: create_pending_def start_onboarding_def dest: save_reviewed split: prod.splits sum.splits)

lemma verify_identity_reviewed:
  "verify_identity verify now s (st :: 'st, v) = (x, st', v') \<Longrightarrow>
     st' = st \<and> (\<forall>s'. x = Inr s' \<longrightarrow> gs_reviewer s' = gs_reviewer s \<and> gs_organization s' = gs_organization s)"
  by (auto simp: verify_identity_def with_request_def split: prod.splits sum.splits option.splits)

lemma persist_identity_proof_reviewed:
  "persist_identity_proof ops s (st, v) = (x, st', v') \<Longrightarrow>
     reviewed st' = reviewed st \<and> (\<forall>s'. x = Inr s' \<longrightarrow> s' = s)"
  by (auto simp: persist_identity_proof_def with_request_def dest: proof_reviewed split: prod.splits sum.splits option.splits)

lemma after_proof_reviewed:
  assumes "gs_reviewer s = None" and "after_proof sha ops clock s (st, v) = (x, st', v')"
  shows "reviewed st' = reviewed st \<and> (\<forall>s'. x = Inr s' \<longrightarrow> s' = s)"
proof (cases "gs_proof s")
  case None
  with assms show ?thesis by (auto simp: after_proof_def proof_succeeded_def)
next
  case (Some ev)
  with assms show ?thesis
    by (auto simp: after_proof_def proof_succeeded_def and_then_def
        dest: persist_identity_proof_reviewed split: prod.splits sum.splits)
qed

lemma run_without_reviewer:
  assumes "gs_reviewer s = None" "gs_organization s = None"
    and "organization_onboarding_graph sha ops verify i j clock s (st, v) = (x, st', v')"
  shows "reviewed st' = reviewed st \<and> (\<forall>s'. x = Inr s' \<longrightarrow> gs_reviewer s' = None \<and> gs_organization s' = None)"
proof -
  obtain x1 st1 v1 where one: "create_pending ops i j (tm_created clock) s (st, v) = (x1, st1, v1)"
    by (metis prod_cases3)
  note c = create_pending_reviewed [OF one]
  show ?thesis
  proof (cases x1)
    case (Inl e)
    with assms one c show ?thesis by (auto simp: organization_onboarding_graph_def and_then_def)
  next
    case (Inr s1)
    obtain x2 st2 v2 where two: "verify_identity verify (tm_verified clock) s1 (st1, v1) = (x2, st2, v2)"
      by (metis prod_cases3)
    note d = verify_identity_reviewed [OF two]
    show ?thesis
    proof (cases x2)
      case (Inl e)
      with assms one c two d \<open>x1 = Inr s1\<close> show ?thesis
        by (auto simp: organization_onboarding_graph_def and_then_def)
    next
      case (Inr s2)
      with assms one two \<open>x1 = Inr s1\<close> have "after_proof sha ops clock s2 (st2, v2) = (x, st', v')"
        by (simp add: organization_onboarding_graph_def and_then_def)
      from after_proof_reviewed [OF _ this] c d assms(1,2) Inr \<open>x1 = Inr s1\<close> show ?thesis by auto
    qed
  qed
qed

end

locale activating_store = pending_store ops reviewed
  for ops :: "'st store_ops" and reviewed :: "'st \<Rightarrow> 'r" +
  fixes active :: "'st \<Rightarrow> string set"
  assumes activate_rejected: "so_activate ops org st = (Inl e, st') \<Longrightarrow> st' = st"
    and activate_active: "so_activate ops org st = (Inr u, st') \<Longrightarrow> active st' = insert (ao_organization_id org) (active st)"
begin

lemma activation_all_or_nothing:
  "activate_onboarding sha (so_activate ops) request ev a now st = (x, st') \<Longrightarrow>
     (case x of Inl e \<Rightarrow> st' = st | Inr org \<Rightarrow> build_organization sha request ev a now = Inr org \<and>
        active st' = insert (ao_organization_id org) (active st))"
  by (auto simp: activate_onboarding_def dest: activate_rejected activate_active split: sum.splits prod.splits)

end

definition active_orgs :: "onboarding_tables \<Rightarrow> string set" where
  "active_orgs t = or_organization_id ` {r \<in> set (ot_organizations t). or_state r = ORG_ACTIVE}"

text \<open>What a review decides: who is active, under which approval, boundary and administrator.\<close>

definition review_record ::
  "onboarding_tables \<Rightarrow> string set \<times> onboarding_approval list \<times> (string \<times> identity_evidence) list \<times> admin_row list" where
  "review_record t = (active_orgs t, ot_approvals t, ot_boundaries t, ot_admins t)"

lemma in_transaction_eq: "in_transaction body t = (x, t') \<longleftrightarrow>
    (\<exists>e. body = Inl e \<and> x = Inl e \<and> t' = t) \<or> (body = Inr t' \<and> x = Inr ())"
  by (auto simp: in_transaction_def split: sum.splits)

lemma pg_save_pending_Inl: "pg_save_pending lower r t = (Inl e, t') \<Longrightarrow> t' = t"
  by (auto simp: pg_save_pending_def in_transaction_eq split: prod.splits sum.splits)

definition org_row_of :: "onboarding_request \<Rightarrow> org_row" where
  "org_row_of r = \<lparr>or_organization_id = oq_organization_id r, or_name = oq_organization_name r, or_state = ORG_PENDING,
     or_created_at = oq_created_at r, or_activated_at = None\<rparr>"

definition request_row_of :: "onboarding_request \<Rightarrow> request_row" where
  "request_row_of r = \<lparr>qr_request_id = oq_request_id r, qr_organization_id = oq_organization_id r,
     qr_applicant = oq_applicant r, qr_kind = ib_kind (oq_boundary r), qr_reference = ib_reference (oq_boundary r),
     qr_created_at = oq_created_at r\<rparr>"

lemma find_org_None: "find_org t i = None \<longleftrightarrow> i \<notin> or_organization_id ` set (ot_organizations t)"
  by (auto simp: find_org_def find_None_iff)

lemma pg_save_pending_Inr:
  "pg_save_pending lower r t = (Inr u, t') \<longleftrightarrow>
     oq_state r = ORG_PENDING \<and> oq_organization_id r \<notin> or_organization_id ` set (ot_organizations t) \<and>
     (\<forall>q \<in> set (ot_requests t). qr_request_id q \<noteq> oq_request_id r \<and> qr_organization_id q \<noteq> oq_organization_id r \<and>
        \<not> (qr_kind q = ib_kind (oq_boundary r) \<and> lower (qr_reference q) = lower (ib_reference (oq_boundary r)))) \<and>
     ap_subject (oq_applicant r) \<in> set (ot_users t) \<and>
     t' = t\<lparr>ot_organizations := ot_organizations t @ [org_row_of r], ot_requests := ot_requests t @ [request_row_of r]\<rparr>"
  by (auto simp: pg_save_pending_def in_transaction_def insert_organization_def insert_request_def find_org_None
      org_row_of_def request_row_of_def list_ex_iff result_simps
      split: prod.splits sum.splits if_splits option.splits)

lemma pg_record_proof_Inl: "pg_record_proof r ev t = (Inl e, t') \<Longrightarrow> t' = t"
  by (auto simp: pg_record_proof_def in_transaction_eq split: if_splits)

lemma pg_record_proof_Inr:
  "pg_record_proof r ev t = (Inr u, t') \<Longrightarrow>
     t' = t \<or> t' = t\<lparr>ot_proofs := ot_proofs t @ [(oq_request_id r, ev)]\<rparr>"
  by (auto simp: pg_record_proof_def in_transaction_eq insert_proof_def result_simps split: if_splits)

section \<open>What an activation stores\<close>

lemma join_request_SomeD:
  assumes "join_request P t = Some (q, r)"
  shows "q \<in> set (ot_requests t) \<and> r \<in> set (ot_organizations t) \<and> or_organization_id r = qr_organization_id q \<and> P q r"
  using assms by (auto simp: join_request_def dest!: find_SomeD split: option.splits)

text \<open>The proof list after the insert: unchanged when the request has a proof already.\<close>

definition proofs_with :: "string \<Rightarrow> identity_evidence \<Rightarrow> (string \<times> identity_evidence) list \<Rightarrow> (string \<times> identity_evidence) list" where
  "proofs_with i e ps = (if list_ex (\<lambda>p. fst p = i) ps then ps else ps @ [(i, e)])"

definition activated_tables ::
  "string \<Rightarrow> active_organization \<Rightarrow> onboarding_tables \<Rightarrow> onboarding_tables" where
  "activated_tables request_id org t = (mark_active (ao_organization_id org) (ao_activated_at org) t)
     \<lparr>ot_proofs := proofs_with request_id (ao_proof org) (ot_proofs t),
      ot_approvals := ot_approvals t @ [ao_approval org],
      ot_boundaries := ot_boundaries t @ [(ao_organization_id org,
        (ao_proof org)\<lparr>ie_kind := ib_kind (ao_boundary org), ie_reference := ib_reference (ao_boundary org)\<rparr>)],
      ot_admins := ot_admins t @ [\<lparr>dm_organization_id = ao_organization_id org, dm_admin = ao_admin org,
        dm_created_at = ao_activated_at org\<rparr>]\<rparr>"

lemma store_activation_Inr:
  "store_activation lower i org t = Inr t' \<Longrightarrow> t' = activated_tables i org t"
  by (auto simp: store_activation_def insert_proof_def insert_approval_def insert_boundary_def insert_admin_def
      activated_tables_def proofs_with_def mark_active_def result_simps split: if_splits)

lemma pg_activate_Inr:
  assumes "pg_activate sha lower org t = (Inr u, t')"
  obtains q r request where "q \<in> set (ot_requests t)" "r \<in> set (ot_organizations t)"
    "or_organization_id r = ao_organization_id org" "qr_organization_id q = ao_organization_id org"
    "or_state r = ORG_PENDING" "request_of_row q r = Inr request" "activation_matches sha org request"
    "t' = activated_tables (oq_request_id request) org t"
  using assms unfolding pg_activate_def
  by (auto simp: in_transaction_eq result_simps dest!: store_activation_Inr join_request_SomeD
      split: option.splits if_splits)

lemma pg_activate_Inl: "pg_activate sha lower org t = (Inl e, t') \<Longrightarrow> t' = t"
  by (auto simp: pg_activate_def in_transaction_eq)

lemma mark_row_simps [simp]:
  "or_organization_id (mark_row i now r) = or_organization_id r"
  "or_name (mark_row i now r) = or_name r"
  "or_state (mark_row i now r) = (if or_organization_id r = i then ORG_ACTIVE else or_state r)"
  by (simp_all add: mark_row_def)

lemma in_active_orgs: "x \<in> active_orgs t \<longleftrightarrow>
    (\<exists>r \<in> set (ot_organizations t). or_organization_id r = x \<and> or_state r = ORG_ACTIVE)"
  by (auto simp: active_orgs_def)

lemma active_orgs_mark:
  assumes "i \<in> or_organization_id ` set (ot_organizations t)"
  shows "active_orgs (mark_active i now t) = insert i (active_orgs t)"
proof -
  have "x \<in> active_orgs (mark_active i now t) \<longleftrightarrow> (\<exists>r \<in> set (ot_organizations t). or_organization_id r = x \<and>
      (x = i \<or> or_state r = ORG_ACTIVE))" for x
    by (auto simp: in_active_orgs mark_active_def split: if_splits)
  with assms show ?thesis by (auto simp: in_active_orgs)
qed

lemma active_orgs_activated: "active_orgs (activated_tables i org t) = active_orgs (mark_active (ao_organization_id org) (ao_activated_at org) t)"
  by (simp add: active_orgs_def activated_tables_def)

lemma pg_save_review_record: "pg_save_pending lower r t = (x, t') \<Longrightarrow> review_record t' = review_record t"
proof (cases x)
  case (Inr u)
  moreover assume "pg_save_pending lower r t = (x, t')"
  ultimately have "pg_save_pending lower r t = (Inr u, t')" by simp
  then show ?thesis unfolding pg_save_pending_Inr by (auto simp: review_record_def active_orgs_def org_row_of_def)
qed (auto dest: pg_save_pending_Inl)

lemma pg_proof_review_record: "pg_record_proof r ev t = (x, t') \<Longrightarrow> review_record t' = review_record t"
  by (cases x) (auto dest!: pg_record_proof_Inl pg_record_proof_Inr simp: review_record_def active_orgs_def)

interpretation pg: activating_store "postgres_store sha lower" review_record active_orgs for sha lower
proof unfold_locales
  fix org t u t'
  assume "so_activate (postgres_store sha lower) org t = (Inr u, t')"
  then show "active_orgs t' = insert (ao_organization_id org) (active_orgs t)"
    by (auto simp: postgres_store_def active_orgs_activated elim!: pg_activate_Inr)
      (metis active_orgs_mark image_eqI insertE insertI1 insertI2)+
qed (auto simp: postgres_store_def dest: pg_save_pending_Inl pg_save_review_record pg_record_proof_Inl
    pg_proof_review_record pg_activate_Inl)

interpretation mem: activating_store memory_store ns_active "\<lambda>st. {i. dict_get (ns_active st) i \<noteq> None}"
  by unfold_locales (auto simp: memory_store_def mem_save_pending_def mem_record_proof_def mem_activate_def
      Let_def dict_simps split: if_splits)

end
