(* ===== verification/Onboarding_Invariant.thy ===== *)
theory Onboarding_Invariant
  imports Onboarding_Correct
begin

text \<open>
  The onboarding tables as a state machine: one step per repository method, each called with any
  validated argument, in any order and with any outcome.  The invariant says that rows read back as
  what was stored, that keys are unique, and that what concerns an active organization was written
  by the activation of its one request.
\<close>

section \<open>The state machine\<close>

definition valid_request :: "onboarding_request \<Rightarrow> bool" where
  "valid_request r \<longleftrightarrow> check_onboarding_request r = Inr r \<and> check_applicant (oq_applicant r) = Inr (oq_applicant r) \<and>
     make_identity_boundary (ib_kind (oq_boundary r)) (ib_reference (oq_boundary r)) = Inr (oq_boundary r)"

inductive onboarding_step ::
  "(string \<Rightarrow> string) \<Rightarrow> (string \<Rightarrow> string) \<Rightarrow> onboarding_tables \<Rightarrow> onboarding_tables \<Rightarrow> bool" for sha lower where
  step_save: "valid_request r \<Longrightarrow> pg_save_pending lower r t = (x, t') \<Longrightarrow> onboarding_step sha lower t t'"
| step_proof: "pg_record_proof r e t = (x, t') \<Longrightarrow> onboarding_step sha lower t t'"
| step_activate: "pg_activate sha lower org t = (x, t') \<Longrightarrow> onboarding_step sha lower t t'"
| step_idp: "configure_active_organization_idp i c t = (x, t') \<Longrightarrow> onboarding_step sha lower t t'"
| step_user: "onboarding_step sha lower t (t\<lparr>ot_users := ot_users t @ [subject]\<rparr>)"

inductive onboarding_reachable :: "(string \<Rightarrow> string) \<Rightarrow> (string \<Rightarrow> string) \<Rightarrow> onboarding_tables \<Rightarrow> bool" for sha lower where
  reach_empty: "onboarding_reachable sha lower (empty_onboarding_tables users)"
| reach_step: "onboarding_reachable sha lower t \<Longrightarrow> onboarding_step sha lower t t' \<Longrightarrow> onboarding_reachable sha lower t'"

inductive_cases onboarding_stepE: "onboarding_step sha lower t t'"

section \<open>The invariant\<close>

definition row_request :: "request_row \<Rightarrow> org_row \<Rightarrow> onboarding_request" where
  "row_request q r = \<lparr>oq_request_id = qr_request_id q, oq_organization_id = qr_organization_id q,
     oq_organization_name = or_name r, oq_applicant = qr_applicant q,
     oq_boundary = \<lparr>ib_kind = qr_kind q, ib_reference = qr_reference q\<rparr>,
     oq_state = ORG_PENDING, oq_created_at = qr_created_at q\<rparr>"

definition keys_ok :: "(string \<Rightarrow> string) \<Rightarrow> onboarding_tables \<Rightarrow> bool" where
  "keys_ok lower t \<longleftrightarrow>
     distinct (map or_organization_id (ot_organizations t)) \<and>
     (\<forall>q \<in> set (ot_requests t). \<forall>p \<in> set (ot_requests t).
        qr_request_id q = qr_request_id p \<or> qr_organization_id q = qr_organization_id p \<or>
        (qr_kind q = qr_kind p \<and> lower (qr_reference q) = lower (qr_reference p)) \<longrightarrow> q = p)"

definition rows_ok :: "onboarding_tables \<Rightarrow> bool" where
  "rows_ok t \<longleftrightarrow> (\<forall>q \<in> set (ot_requests t). ap_subject (qr_applicant q) \<in> set (ot_users t) \<and>
     (\<exists>r \<in> set (ot_organizations t). or_organization_id r = qr_organization_id q \<and>
        request_of_row q r = Inr (row_request q r)))"

text \<open>The review an active organization rests on: its one request, the approval of that request's
  digest, its proof, its boundary and its administrator.\<close>

definition reviewed_by :: "(string \<Rightarrow> string) \<Rightarrow> onboarding_tables \<Rightarrow> org_row \<Rightarrow> request_row \<Rightarrow> onboarding_approval \<Rightarrow> bool" where
  "reviewed_by sha t r q a \<longleftrightarrow> q \<in> set (ot_requests t) \<and> a \<in> set (ot_approvals t) \<and>
     qr_organization_id q = or_organization_id r \<and> oa_request_id a = qr_request_id q \<and>
     oa_digest a = onboarding_digest sha (row_request q r) \<and>
     qr_request_id q \<in> fst ` set (ot_proofs t) \<and>
     (\<exists>e. (or_organization_id r, e) \<in> set (ot_boundaries t) \<and> ie_kind e = qr_kind q \<and> ie_reference e = qr_reference q) \<and>
     or_organization_id r \<in> dm_organization_id ` set (ot_admins t)"

definition reviewed_ok :: "(string \<Rightarrow> string) \<Rightarrow> onboarding_tables \<Rightarrow> bool" where
  "reviewed_ok sha t \<longleftrightarrow>
     (\<forall>r \<in> set (ot_organizations t). or_state r = ORG_ACTIVE \<longrightarrow> (\<exists>q a. reviewed_by sha t r q a)) \<and>
     (\<forall>a \<in> set (ot_approvals t). \<exists>q \<in> set (ot_requests t). qr_request_id q = oa_request_id a \<and> qr_organization_id q \<in> active_orgs t) \<and>
     (\<forall>(i, e) \<in> set (ot_boundaries t). i \<in> active_orgs t \<and>
        (\<exists>q \<in> set (ot_requests t). qr_organization_id q = i \<and> qr_kind q = ie_kind e \<and> qr_reference q = ie_reference e)) \<and>
     dm_organization_id ` set (ot_admins t) \<subseteq> active_orgs t"

definition onboarding_inv :: "(string \<Rightarrow> string) \<Rightarrow> (string \<Rightarrow> string) \<Rightarrow> onboarding_tables \<Rightarrow> bool" where
  "onboarding_inv sha lower t \<longleftrightarrow> keys_ok lower t \<and> rows_ok t \<and> reviewed_ok sha t"

lemma inv_empty: "onboarding_inv sha lower (empty_onboarding_tables users)"
  by (simp add: onboarding_inv_def keys_ok_def rows_ok_def reviewed_ok_def empty_onboarding_tables_def)

lemma row_request_mark [simp]: "row_request q (mark_row i now r) = row_request q r"
  by (simp add: row_request_def)

lemma request_of_row_mark [simp]: "request_of_row q (mark_row i now r) = request_of_row q r"
  by (simp add: request_of_row_def)

lemma request_of_saved_row:
  assumes "valid_request r"
  shows "request_of_row (request_row_of r) (org_row_of r) = Inr (row_request (request_row_of r) (org_row_of r))"
  using assms by (cases r) (auto simp: valid_request_def request_of_row_def request_row_of_def org_row_of_def
      row_request_def check_onboarding_request_def split: if_splits)

lemma keys_ok_save:
  assumes "keys_ok lower t" "pg_save_pending lower r t = (Inr u, t')"
  shows "keys_ok lower t'"
proof -
  let ?q = "request_row_of r"
  have new: "\<not> (qr_request_id p = qr_request_id ?q \<or> qr_organization_id p = qr_organization_id ?q \<or>
      (qr_kind p = qr_kind ?q \<and> lower (qr_reference p) = lower (qr_reference ?q)))" if "p \<in> set (ot_requests t)" for p
    using assms(2) that unfolding pg_save_pending_Inr by (auto simp: request_row_of_def)
  have "ot_requests t' = ot_requests t @ [?q]" "ot_organizations t' = ot_organizations t @ [org_row_of r]"
    "oq_organization_id r \<notin> or_organization_id ` set (ot_organizations t)"
    using assms(2) unfolding pg_save_pending_Inr by auto
  with assms(1) new show ?thesis unfolding keys_ok_def by (simp add: org_row_of_def) metis
qed

lemma rows_ok_save:
  assumes "rows_ok t" "valid_request r" "pg_save_pending lower r t = (Inr u, t')"
  shows "rows_ok t'"
  using assms(1) assms(3) request_of_saved_row [OF assms(2)] unfolding pg_save_pending_Inr
  by (auto simp: rows_ok_def request_row_of_def org_row_of_def)

lemma reviewed_by_mono:
  assumes "reviewed_by sha t r q a" "set (ot_requests t) \<subseteq> set (ot_requests t')" "set (ot_approvals t) \<subseteq> set (ot_approvals t')"
    "set (ot_proofs t) \<subseteq> set (ot_proofs t')" "set (ot_boundaries t) \<subseteq> set (ot_boundaries t')"
    "set (ot_admins t) \<subseteq> set (ot_admins t')"
  shows "reviewed_by sha t' r q a"
  using assms unfolding reviewed_by_def by blast

text \<open>A step that only appends requests, proofs or users, and pending organizations.\<close>

lemma reviewed_ok_extend:
  assumes "reviewed_ok sha t" "set (ot_requests t) \<subseteq> set (ot_requests t')" "set (ot_proofs t) \<subseteq> set (ot_proofs t')"
    "review_record t' = review_record t"
    "\<And>r. r \<in> set (ot_organizations t') \<Longrightarrow> or_state r = ORG_ACTIVE \<Longrightarrow> r \<in> set (ot_organizations t)"
  shows "reviewed_ok sha t'"
proof -
  have same: "ot_approvals t' = ot_approvals t" "ot_boundaries t' = ot_boundaries t" "ot_admins t' = ot_admins t"
    "active_orgs t' = active_orgs t"
    using assms(4) by (simp_all add: review_record_def)
  have "\<exists>q a. reviewed_by sha t' r q a" if "r \<in> set (ot_organizations t')" "or_state r = ORG_ACTIVE" for r
  proof -
    note row = that
    obtain q a where "reviewed_by sha t r q a"
      using assms(1) assms(5) [OF row] row(2) unfolding reviewed_ok_def by blast
    then have "reviewed_by sha t' r q a" by (rule reviewed_by_mono) (use assms(2,3) same in simp_all)
    then show ?thesis by blast
  qed
  with assms(1,2) same show ?thesis unfolding reviewed_ok_def by (fastforce split: prod.splits)
qed

lemma row_of_request:
  assumes "onboarding_inv sha lower t" "q \<in> set (ot_requests t)" "r \<in> set (ot_organizations t)"
    "or_organization_id r = qr_organization_id q"
  shows "request_of_row q r = Inr (row_request q r)"
proof -
  obtain s where "s \<in> set (ot_organizations t)" "or_organization_id s = qr_organization_id q"
    "request_of_row q s = Inr (row_request q s)"
    using assms(1,2) unfolding onboarding_inv_def rows_ok_def by blast
  moreover have "r = s"
    using assms(1,3,4) calculation unfolding onboarding_inv_def keys_ok_def distinct_map inj_on_def by simp
  ultimately show ?thesis by simp
qed

lemma reviewed_by_mark [simp]: "reviewed_by sha t (mark_row i now r) q a = reviewed_by sha t r q a"
  by (simp add: reviewed_by_def)

lemma activated_sets [simp]:
  "ot_users (activated_tables i org t) = ot_users t"
  "ot_requests (activated_tables i org t) = ot_requests t"
  "ot_approvals (activated_tables i org t) = ot_approvals t @ [ao_approval org]"
  "ot_organizations (activated_tables i org t) =
     map (mark_row (ao_organization_id org) (ao_activated_at org)) (ot_organizations t)"
  "set (ot_proofs t) \<subseteq> set (ot_proofs (activated_tables i org t))"
  "i \<in> fst ` set (ot_proofs (activated_tables i org t))"
  "ot_idps (activated_tables i org t) = ot_idps t"
  by (auto simp: activated_tables_def mark_active_def proofs_with_def list_ex_iff)

lemma activated_rows [simp]:
  "ot_boundaries (activated_tables i org t) = ot_boundaries t @ [(ao_organization_id org,
     (ao_proof org)\<lparr>ie_kind := ib_kind (ao_boundary org), ie_reference := ib_reference (ao_boundary org)\<rparr>)]"
  "ot_admins (activated_tables i org t) = ot_admins t @ [\<lparr>dm_organization_id = ao_organization_id org,
     dm_admin = ao_admin org, dm_created_at = ao_activated_at org\<rparr>]"
  by (simp_all add: activated_tables_def)

text \<open>The request an activation belongs to, read from the tables.\<close>

lemma pg_activate_request:
  assumes inv: "onboarding_inv sha lower t" and step: "pg_activate sha lower org t = (Inr u, t')"
  obtains q r where "q \<in> set (ot_requests t)" "r \<in> set (ot_organizations t)"
    "or_organization_id r = ao_organization_id org" "qr_organization_id q = ao_organization_id org"
    "or_state r = ORG_PENDING" "activation_matches sha org (row_request q r)"
    "t' = activated_tables (qr_request_id q) org t"
proof -
  obtain q r request where found: "q \<in> set (ot_requests t)" "r \<in> set (ot_organizations t)"
    "or_organization_id r = ao_organization_id org" "qr_organization_id q = ao_organization_id org"
    "or_state r = ORG_PENDING" "request_of_row q r = Inr request" "activation_matches sha org request"
    "t' = activated_tables (oq_request_id request) org t"
    using step by (rule pg_activate_Inr)
  then have "request = row_request q r" using row_of_request [OF inv, of q r] by simp
  with found that [of q r] show ?thesis by (simp add: row_request_def)
qed

lemma reviewed_ok_activate:
  assumes inv: "onboarding_inv sha lower t" and step: "pg_activate sha lower org t = (Inr u, t')"
  shows "reviewed_ok sha t'"
proof -
  obtain q r where found: "q \<in> set (ot_requests t)" "r \<in> set (ot_organizations t)"
    "or_organization_id r = ao_organization_id org" "qr_organization_id q = ao_organization_id org"
    "or_state r = ORG_PENDING" "activation_matches sha org (row_request q r)"
    "t' = activated_tables (qr_request_id q) org t"
    using assms by (rule pg_activate_request)
  have old: "reviewed_ok sha t" and keys: "inj_on or_organization_id (set (ot_organizations t))"
    using inv by (auto simp: onboarding_inv_def keys_ok_def distinct_map)
  have active: "active_orgs t' = insert (ao_organization_id org) (active_orgs t)"
    using found by (simp add: active_orgs_activated) (metis active_orgs_mark image_eqI)
  have new: "reviewed_by sha t' r q (ao_approval org)"
    using found by (auto simp: reviewed_by_def activation_matches_def row_request_def)
  have "\<exists>q a. reviewed_by sha t' s q a" if "s \<in> set (ot_organizations t')" "or_state s = ORG_ACTIVE" for s
  proof -
    note row = that
    obtain s0 where s0: "s0 \<in> set (ot_organizations t)" "s = mark_row (ao_organization_id org) (ao_activated_at org) s0"
      using row(1) found(7) by auto
    show ?thesis
    proof (cases "or_organization_id s0 = ao_organization_id org")
      case True
      with s0 found(2,3) keys have "s0 = r" by (simp add: inj_on_def)
      with s0 new show ?thesis by auto
    next
      case False
      with s0 row old obtain p a where "reviewed_by sha t s0 p a" unfolding reviewed_ok_def by fastforce
      then have "reviewed_by sha t' s0 p a"
        by (rule reviewed_by_mono) (use found(7) activated_sets(5) in auto)
      with s0 show ?thesis by auto
    qed
  qed
  moreover have "\<exists>p \<in> set (ot_requests t'). qr_organization_id p = i \<and> qr_kind p = ie_kind e \<and> qr_reference p = ie_reference e"
    if "(i, e) \<in> set (ot_boundaries t')" for i e
    using that old found unfolding reviewed_ok_def by (auto simp: activation_matches_def row_request_def)
  moreover have "\<exists>p \<in> set (ot_requests t'). qr_request_id p = oa_request_id a \<and> qr_organization_id p \<in> active_orgs t'"
    if "a \<in> set (ot_approvals t')" for a
    using that old found active unfolding reviewed_ok_def by (fastforce simp: activation_matches_def row_request_def)
  moreover have "i \<in> active_orgs t'" if "(i, e) \<in> set (ot_boundaries t')" for i e
    using that old found(7) active unfolding reviewed_ok_def by auto
  moreover have "dm_organization_id ` set (ot_admins t') \<subseteq> active_orgs t'"
    using old found(7) active unfolding reviewed_ok_def by auto
  ultimately show ?thesis unfolding reviewed_ok_def by blast
qed

lemma configure_idp_cases:
  "configure_active_organization_idp i c t = (x, t') \<Longrightarrow> t' = t \<or> t' = t\<lparr>ot_idps := dict_set i c (ot_idps t)\<rparr>"
  by (auto simp: configure_active_organization_idp_def in_transaction_eq result_simps)

lemma keys_ok_activate: "keys_ok lower t \<Longrightarrow> keys_ok lower (activated_tables i org t)"
  by (simp add: keys_ok_def comp_def)

lemma rows_ok_activate: "rows_ok t \<Longrightarrow> rows_ok (activated_tables i org t)"
  by (auto simp: rows_ok_def)

text \<open>A step that appends neither organizations nor requests.\<close>

lemma inv_same_rows:
  assumes "onboarding_inv sha lower t" "ot_organizations t' = ot_organizations t" "ot_requests t' = ot_requests t"
    "set (ot_users t) \<subseteq> set (ot_users t')" "set (ot_proofs t) \<subseteq> set (ot_proofs t')" "review_record t' = review_record t"
  shows "onboarding_inv sha lower t'"
proof -
  have "keys_ok lower t'" using assms(1,2,3) by (simp add: onboarding_inv_def keys_ok_def)
  moreover have "rows_ok t'" using assms(1,2,3,4) by (auto simp: onboarding_inv_def rows_ok_def)
  moreover have "reviewed_ok sha t'"
    by (rule reviewed_ok_extend [of sha t]) (use assms in \<open>simp_all add: onboarding_inv_def\<close>)
  ultimately show ?thesis by (simp add: onboarding_inv_def)
qed

lemma inv_save:
  assumes inv: "onboarding_inv sha lower t" and "valid_request r" and step: "pg_save_pending lower r t = (x, t')"
  shows "onboarding_inv sha lower t'"
proof (cases x)
  case Inl
  with inv step show ?thesis by (auto dest: pg_save_pending_Inl)
next
  case (Inr u)
  with step have saved: "pg_save_pending lower r t = (Inr u, t')" by simp
  then have t': "t' = t\<lparr>ot_organizations := ot_organizations t @ [org_row_of r], ot_requests := ot_requests t @ [request_row_of r]\<rparr>"
    unfolding pg_save_pending_Inr by blast
  have "reviewed_ok sha t'"
    by (rule reviewed_ok_extend [of sha t])
      (use inv t' pg_save_review_record [OF step] in \<open>auto simp: onboarding_inv_def org_row_of_def\<close>)
  with inv saved assms(2) show ?thesis
    by (auto simp: onboarding_inv_def intro: keys_ok_save rows_ok_save)
qed

lemma inv_proof:
  assumes "onboarding_inv sha lower t" and step: "pg_record_proof r e t = (x, t')"
  shows "onboarding_inv sha lower t'"
proof -
  have "t' = t \<or> t' = t\<lparr>ot_proofs := ot_proofs t @ [(oq_request_id r, e)]\<rparr>"
    using step by (cases x) (auto dest: pg_record_proof_Inl pg_record_proof_Inr)
  then show ?thesis
    by (intro inv_same_rows [OF assms(1)]) (use pg_proof_review_record [OF step] in auto)
qed

lemma inv_activate:
  assumes inv: "onboarding_inv sha lower t" and step: "pg_activate sha lower org t = (x, t')"
  shows "onboarding_inv sha lower t'"
proof (cases x)
  case Inl
  with inv step show ?thesis by (auto dest: pg_activate_Inl)
next
  case (Inr u)
  with step have ok: "pg_activate sha lower org t = (Inr u, t')" by simp
  then obtain i where "t' = activated_tables i org t" using pg_activate_request [OF inv] by metis
  with inv reviewed_ok_activate [OF inv ok] show ?thesis
    by (simp add: onboarding_inv_def keys_ok_activate rows_ok_activate)
qed

lemma inv_step: "onboarding_step sha lower t t' \<Longrightarrow> onboarding_inv sha lower t \<Longrightarrow> onboarding_inv sha lower t'"
proof (induction rule: onboarding_step.induct)
  case (step_save r t x t')
  then show ?case by (blast intro: inv_save)
next
  case (step_proof r e t x t')
  then show ?case by (blast intro: inv_proof)
next
  case (step_activate org t x t')
  then show ?case by (blast intro: inv_activate)
next
  case (step_idp i c t x t')
  from configure_idp_cases [OF this(1)] show ?case
    by (intro inv_same_rows [OF step_idp(2)]) (auto simp: review_record_def active_orgs_def)
next
  case (step_user t subject)
  then show ?case by (rule inv_same_rows) (auto simp: review_record_def active_orgs_def)
qed

lemma inv_reachable: "onboarding_reachable sha lower t \<Longrightarrow> onboarding_inv sha lower t"
  by (induction rule: onboarding_reachable.induct) (auto simp: inv_empty dest: inv_step)

end
