(* ===== verification/Onboarding_Properties.thy ===== *)
theory Onboarding_Properties
  imports Onboarding_Invariant
begin

text \<open>
  The properties of onboarding: only a review activates, a review activates exactly a pending
  request with a persisted proof, every active organization was reviewed, and domain discovery
  sends a mailbox only to a reviewed organization.
\<close>

section \<open>The applicant cannot activate\<close>

text \<open>
  C29. Whatever the payload, the verifier's answer and the tables are, a run of \<open>/onboard-org\<close>
  leaves active organizations, approvals, boundaries and administrators as they were, and returns
  no organization.
\<close>

theorem applicant_run_never_activates:
  "(case organization_onboarding_handler sha lower verify i j clock invocation (t, v) of
     (x, t', v') \<Rightarrow> active_orgs t' = active_orgs t \<and> ot_approvals t' = ot_approvals t \<and>
       ot_boundaries t' = ot_boundaries t \<and> ot_admins t' = ot_admins t \<and>
       x \<in> range Inl \<union> {Inr s | s. gs_reviewer s = None \<and> gs_organization s = None})"
proof -
  obtain x t' v' where run: "organization_onboarding_handler sha lower verify i j clock invocation (t, v) = (x, t', v')"
    by (metis prod_cases3)
  have "review_record t' = review_record t \<and> (\<forall>s. x = Inr s \<longrightarrow> gs_reviewer s = None \<and> gs_organization s = None)"
    using run unfolding organization_onboarding_handler_def
    by (auto simp: split: option.splits sum.splits dest: pg.run_without_reviewer [rotated 2])
  with run show ?thesis by (cases x) (auto simp: review_record_def)
qed

section \<open>When a review activates\<close>

lemma join_request_found:
  assumes inv: "onboarding_inv sha lower t" and "q \<in> set (ot_requests t)" "r \<in> set (ot_organizations t)"
    "or_organization_id r = qr_organization_id q" "P q r"
    and only: "\<And>p s. p \<in> set (ot_requests t) \<Longrightarrow> P p s \<Longrightarrow> qr_request_id p = qr_request_id q \<or> qr_organization_id p = qr_organization_id q"
  shows "join_request P t = Some (q, r)"
proof -
  have "p = q" if "p \<in> set (ot_requests t)" "P p s" for p s
    using inv that assms(2) only [OF that] unfolding onboarding_inv_def keys_ok_def by blast
  moreover have "s = r" if "s \<in> set (ot_organizations t)" "or_organization_id s = qr_organization_id q" for s
    using inv that assms(3,4) by (auto simp: onboarding_inv_def keys_ok_def distinct_map inj_on_def)
  ultimately have row: "join_request P t = Some (p, s) \<Longrightarrow> p = q \<and> s = r" for p s
    using join_request_SomeD [of P t p s] by metis
  have "join_request P t \<noteq> None"
  proof
    assume none: "join_request P t = None"
    have "find (\<lambda>q. \<exists>r \<in> set (ot_organizations t). or_organization_id r = qr_organization_id q \<and> P q r) (ot_requests t) \<noteq> None"
      using assms(2-5) by (auto simp: find_None_iff)
    then obtain p where p: "find (\<lambda>q. \<exists>r \<in> set (ot_organizations t). or_organization_id r = qr_organization_id q \<and> P q r) (ot_requests t) = Some p"
      by auto
    then obtain s where "s \<in> set (ot_organizations t)" "or_organization_id s = qr_organization_id p" "P p s"
      using find_SomeD [OF p] by blast
    with none p show False by (auto simp: join_request_def find_None_iff)
  qed
  with row show ?thesis by (metis not_Some_eq surj_pair)
qed

lemma pending_request_row:
  assumes "onboarding_inv sha lower t" "pg_get_pending_request t i = Inr (Some request)"
  obtains q r where "q \<in> set (ot_requests t)" "r \<in> set (ot_organizations t)"
    "or_organization_id r = qr_organization_id q" "qr_request_id q = i" "or_state r = ORG_PENDING"
    "request = row_request q r" "request_of_row q r = Inr request"
proof -
  obtain q r where qr: "join_request (\<lambda>q r. qr_request_id q = i \<and> or_state r = ORG_PENDING) t = Some (q, r)"
    "request_of_row q r = Inr request"
    using assms(2) by (auto simp: pg_get_pending_request_def result_simps split: option.splits)
  from join_request_SomeD [OF qr(1)] have row: "q \<in> set (ot_requests t)" "r \<in> set (ot_organizations t)"
    "or_organization_id r = qr_organization_id q" "qr_request_id q = i" "or_state r = ORG_PENDING" by auto
  with row_of_request [OF assms(1)] qr(2) that show ?thesis by auto
qed

lemma pending_not_active:
  assumes "onboarding_inv sha lower t" "r \<in> set (ot_organizations t)" "or_state r = ORG_PENDING"
  shows "or_organization_id r \<notin> active_orgs t"
proof
  assume "or_organization_id r \<in> active_orgs t"
  then obtain s where "s \<in> set (ot_organizations t)" "or_organization_id s = or_organization_id r" "or_state s = ORG_ACTIVE"
    by (auto simp: in_active_orgs)
  with assms show False by (auto simp: onboarding_inv_def keys_ok_def distinct_map inj_on_def)
qed

text \<open>Nothing a pending request needs to insert is taken.\<close>

lemma store_activation_succeeds:
  assumes inv: "onboarding_inv sha lower t" and q: "q \<in> set (ot_requests t)" and r: "r \<in> set (ot_organizations t)"
    "or_organization_id r = qr_organization_id q" "or_state r = ORG_PENDING"
    and org: "ao_organization_id org = qr_organization_id q" "ao_boundary org = \<lparr>ib_kind = qr_kind q, ib_reference = qr_reference q\<rparr>"
      "oa_request_id (ao_approval org) = qr_request_id q" "length (oa_digest (ao_approval org)) = 64" "ao_admin org = qr_applicant q"
  shows "store_activation lower (qr_request_id q) org t = Inr (activated_tables (qr_request_id q) org t)"
proof -
  have idle: "qr_organization_id q \<notin> active_orgs t" using pending_not_active [OF inv r(1,3)] r(2) by simp
  have approvals: "\<not> list_ex (\<lambda>b. oa_request_id b = qr_request_id q) (ot_approvals t)"
  proof -
    have "oa_request_id b \<noteq> qr_request_id q" if row: "b \<in> set (ot_approvals t)" for b
    proof
      assume same: "oa_request_id b = qr_request_id q"
      obtain p where "p \<in> set (ot_requests t)" "qr_request_id p = oa_request_id b" "qr_organization_id p \<in> active_orgs t"
        using row inv unfolding onboarding_inv_def reviewed_ok_def by blast
      with same inv q have "p = q" unfolding onboarding_inv_def keys_ok_def by metis
      with \<open>qr_organization_id p \<in> active_orgs t\<close> idle show False by simp
    qed
    then show ?thesis by (auto simp: list_ex_iff)
  qed
  have admins: "\<not> list_ex (\<lambda>a. dm_organization_id a = qr_organization_id q) (ot_admins t)"
  proof -
    have "dm_organization_id ` set (ot_admins t) \<subseteq> active_orgs t"
      using inv unfolding onboarding_inv_def reviewed_ok_def by blast
    with idle show ?thesis by (auto simp: list_ex_iff)
  qed
  have boundaries: "\<not> list_ex (\<lambda>(i, b). i = qr_organization_id q \<or> (ie_kind b = qr_kind q \<and> lower (ie_reference b) = lower (qr_reference q))) (ot_boundaries t)"
  proof -
    have "\<not> (i = qr_organization_id q \<or> (ie_kind b = qr_kind q \<and> lower (ie_reference b) = lower (qr_reference q)))"
      if row: "(i, b) \<in> set (ot_boundaries t)" for i b
    proof -
      obtain p where p: "i \<in> active_orgs t" "p \<in> set (ot_requests t)" "qr_organization_id p = i" "qr_kind p = ie_kind b"
        "qr_reference p = ie_reference b"
        using row inv unfolding onboarding_inv_def reviewed_ok_def by blast
      show ?thesis
      proof
        assume "i = qr_organization_id q \<or> (ie_kind b = qr_kind q \<and> lower (ie_reference b) = lower (qr_reference q))"
        with p have "qr_organization_id p = qr_organization_id q \<or> (qr_kind p = qr_kind q \<and> lower (qr_reference p) = lower (qr_reference q))"
          by metis
        with inv p(2) q have "p = q" unfolding onboarding_inv_def keys_ok_def by blast
        with p idle show False by simp
      qed
    qed
    then show ?thesis by (auto simp: list_ex_iff)
  qed
  have known: "find_org t (qr_organization_id q) \<noteq> None" using r(1,2) unfolding find_org_None by (metis imageI)
  have user: "ap_subject (qr_applicant q) \<in> set (ot_users t)" using inv q unfolding onboarding_inv_def rows_ok_def by blast
  have req: "list_ex (\<lambda>p. qr_request_id p = qr_request_id q) (ot_requests t)" using q by (auto simp: list_ex_iff)
  have marked: "find_org (mark_active i now s) j = None \<longleftrightarrow> find_org s j = None" for i now s j
    by (simp add: find_org_None mark_active_def image_image)
  have proofs: "insert_proof (qr_request_id q) (ao_proof org) t =
      Inr (t\<lparr>ot_proofs := proofs_with (qr_request_id q) (ao_proof org) (ot_proofs t)\<rparr>)"
    using req by (simp add: insert_proof_def proofs_with_def)
  have approved: "insert_approval (ao_approval org) (t\<lparr>ot_proofs := ps\<rparr>) =
      Inr (t\<lparr>ot_proofs := ps, ot_approvals := ot_approvals t @ [ao_approval org]\<rparr>)" for ps
    using org req approvals by (simp add: insert_approval_def)
  let ?t = "t\<lparr>ot_proofs := proofs_with (qr_request_id q) (ao_proof org) (ot_proofs t),
      ot_approvals := ot_approvals t @ [ao_approval org]\<rparr>"
  let ?m = "mark_active (ao_organization_id org) (ao_activated_at org) ?t"
  have "find_org ?m (qr_organization_id q) \<noteq> None" using known unfolding marked by (simp add: find_org_def)
  with org boundaries admins user show ?thesis
    by (simp add: store_activation_def proofs approved insert_boundary_def insert_admin_def activated_tables_def
        mark_active_def find_org_def)
qed

lemma pg_activate_succeeds:
  assumes inv: "onboarding_inv sha lower t" and row: "q \<in> set (ot_requests t)" "r \<in> set (ot_organizations t)"
    "or_organization_id r = qr_organization_id q" "or_state r = ORG_PENDING"
    and org: "ao_organization_id org = qr_organization_id q" "activation_matches sha org (row_request q r)"
      "length (oa_digest (ao_approval org)) = 64" "ao_admin org = qr_applicant q"
  shows "pg_activate sha lower org t = (Inr (), activated_tables (qr_request_id q) org t)"
proof -
  have "join_request (\<lambda>q r. qr_organization_id q = ao_organization_id org) t = Some (q, r)"
    by (rule join_request_found [OF inv row(1-3)]) (use org in auto)
  moreover have "store_activation lower (qr_request_id q) org t = Inr (activated_tables (qr_request_id q) org t)"
    by (rule store_activation_succeeds [OF inv row])
      (use org in \<open>auto simp: activation_matches_def row_request_def\<close>)
  ultimately show ?thesis using row_of_request [OF inv row(1-3)] row(4) org(2)
    by (simp add: pg_activate_def in_transaction_def) (simp add: row_request_def)
qed

text \<open>From a loaded request and proof, approval and activation always go through.\<close>

lemma loaded_review_activates:
  assumes inv: "onboarding_inv sha lower t" and sha: "\<forall>x. length (sha x) = 64 \<and> list_all is_hex_lower (sha x)"
    and pending: "pg_get_pending_request t i = Inr (Some request)"
    and evidence: "pg_get_persisted_proof t request = Inr (Some ev)"
  obtains a org t' where "approve_onboarding sha request reviewer now = Inr a" "oa_approved_by a = reviewer"
    "oa_digest a = onboarding_digest sha request"
    "activate_onboarding sha (pg_activate sha lower) request (Some ev) (Some a) later t = (Inr org, t')"
    "ao_approval org = a" "ao_admin org = oq_applicant request"
    "active_orgs t' = insert (oq_organization_id request) (active_orgs t)"
proof -
  obtain q r where row: "q \<in> set (ot_requests t)" "r \<in> set (ot_organizations t)"
    "or_organization_id r = qr_organization_id q" "qr_request_id q = i" "or_state r = ORG_PENDING"
    "request = row_request q r" "request_of_row q r = Inr request"
    using inv pending by (rule pending_request_row)
  have valid: "check_onboarding_request request = Inr request"
    using row(6,7) by (auto simp: request_of_row_def row_request_def result_simps check_onboarding_request_def split: if_splits)
  have state: "oq_state request = ORG_PENDING" by (simp add: row(6) row_request_def)
  let ?a = "\<lparr>oa_request_id = oq_request_id request, oa_digest = onboarding_digest sha request,
        oa_approved_by = reviewer, oa_approved_at = now\<rparr>"
  have approve: "approve_onboarding sha request reviewer now = Inr ?a"
    using valid sha state by (auto simp: approve_onboarding_def check_onboarding_approval_def onboarding_digest_def
        check_onboarding_request_def split: if_splits)
  have "ie_kind ev = ib_kind (oq_boundary request) \<and> ie_reference ev = ib_reference (oq_boundary request)"
    using evidence by (auto simp: pg_get_persisted_proof_def result_simps split: option.splits if_splits)
  note match = this
  let ?org = "\<lparr>ao_organization_id = oq_organization_id request, ao_organization_name = oq_organization_name request,
      ao_boundary = oq_boundary request, ao_proof = ev, ao_approval = ?a, ao_admin = oq_applicant request,
      ao_state = ORG_ACTIVE, ao_activated_at = later\<rparr>"
  have built: "build_organization sha request (Some ev) (Some ?a) later = Inr ?org"
    using valid match state by (auto simp: build_organization_def check_active_organization_def
        check_onboarding_request_def split: if_splits)
  have stored: "pg_activate sha lower ?org t = (Inr (), activated_tables (qr_request_id q) ?org t)"
    by (rule pg_activate_succeeds [OF inv row(1,2,3,5)])
      (use row(6) match sha in \<open>auto simp: activation_matches_def row_request_def onboarding_digest_def\<close>)
  have active: "active_orgs (activated_tables (qr_request_id q) ?org t) = insert (oq_organization_id request) (active_orgs t)"
    using pg.activate_active [of sha lower ?org t "()"] stored by (simp add: postgres_store_def)
  have go: "activate_onboarding sha (pg_activate sha lower) request (Some ev) (Some ?a) later t =
      (Inr ?org, activated_tables (qr_request_id q) ?org t)"
    by (simp add: activate_onboarding_def built stored)
  show ?thesis by (rule that [OF approve _ _ go _ _ active]) simp_all
qed

text \<open>
  C27. The review workflow decides exactly: from any reachable tables it activates when the reviewer
  is authorized and the named request is pending with a persisted matching proof, and then the
  request's organization is the one that becomes active, under the reviewer's approval of the
  request's digest and with the applicant as administrator; otherwise it fails and no table changes.
\<close>

theorem review_activates_exactly_when:
  assumes "onboarding_reachable sha lower t" and "\<forall>x. length (sha x) = 64 \<and> list_all is_hex_lower (sha x)"
    and run: "onboarding_review_graph sha lower may_review now later s t = (x, t')"
  shows "case x of
      Inl e \<Rightarrow> t' = t \<and> \<not> (may_review (vs_reviewer s) (vs_request_id s) \<and>
        (\<exists>request ev. pg_get_pending_request t (vs_request_id s) = Inr (Some request) \<and>
           pg_get_persisted_proof t request = Inr (Some ev)))
    | Inr s' \<Rightarrow> may_review (vs_reviewer s) (vs_request_id s) \<and>
        (\<exists>request ev org. pg_get_pending_request t (vs_request_id s) = Inr (Some request) \<and>
           pg_get_persisted_proof t request = Inr (Some ev) \<and> vs_organization s' = Some org \<and>
           oa_approved_by (ao_approval org) = vs_reviewer s \<and>
           oa_digest (ao_approval org) = onboarding_digest sha request \<and> ao_admin org = oq_applicant request \<and>
           active_orgs t' = insert (oq_organization_id request) (active_orgs t))"
proof -
  have inv: "onboarding_inv sha lower t" using assms(1) by (rule inv_reachable)
  let ?loads = "\<exists>request ev. pg_get_pending_request t (vs_request_id s) = Inr (Some request) \<and>
      pg_get_persisted_proof t request = Inr (Some ev)"
  show ?thesis
  proof (cases "?loads \<and> may_review (vs_reviewer s) (vs_request_id s)")
    case False
    then have "\<exists>e. x = Inl e" and "t' = t"
      using run by (auto simp: onboarding_review_graph_def and_then_def load_pending_def authorize_reviewer_def
          result_simps split: sum.splits prod.splits option.splits if_splits)
    with False show ?thesis by auto
  next
    case True
    then obtain request ev where load: "pg_get_pending_request t (vs_request_id s) = Inr (Some request)"
      "pg_get_persisted_proof t request = Inr (Some ev)" by blast
    from loaded_review_activates [OF inv assms(2) load, of "vs_reviewer s" now later]
    obtain a org t1 where go: "approve_onboarding sha request (vs_reviewer s) now = Inr a" "oa_approved_by a = vs_reviewer s"
      "oa_digest a = onboarding_digest sha request"
      "activate_onboarding sha (pg_activate sha lower) request (Some ev) (Some a) later t = (Inr org, t1)"
      "ao_approval org = a" "ao_admin org = oq_applicant request"
      "active_orgs t1 = insert (oq_organization_id request) (active_orgs t)" by metis
    with load True run show ?thesis
      by (auto simp: onboarding_review_graph_def and_then_def load_pending_def authorize_reviewer_def with_request_def
          review_approve_def review_activate_def)
  qed
qed

section \<open>Handlers are sequences of steps\<close>

lemma make_identity_boundary_idem:
  assumes "make_identity_boundary k v = Inr b"
  shows "make_identity_boundary (ib_kind b) (ib_reference b) = Inr b"
proof -
  let ?n = "py_strip v"
  have ok: "v \<noteq> []" "length v \<le> 512" "?n \<noteq> []" "\<not> list_ex py_isspace ?n"
    "b = \<lparr>ib_kind = k, ib_reference = (if CHR ''@'' \<notin> set ?n then py_lower ?n else ?n)\<rparr>"
    using assms by (auto simp: make_identity_boundary_def Let_def split: if_splits)
  have short: "length ?n \<le> 512" using ok(2) length_py_strip [of v] by linarith
  have space: "\<not> list_ex py_isspace (py_lower ?n)" using ok(4) by (auto simp: py_lower_def list_ex_iff)
  have free: "CHR ''@'' \<notin> set ?n \<Longrightarrow> CHR ''@'' \<notin> set (py_lower ?n)"
    by (auto simp: py_lower_def) (metis lower_char_eq_at)
  have kept: "py_strip ?n = ?n" "py_strip (py_lower ?n) = py_lower ?n"
    using ok(4) space by (auto intro: py_strip_nospace simp: list_ex_iff)
  have ne: "py_lower ?n \<noteq> []" "1 \<le> length ?n" using ok(3) by (auto simp: py_lower_def Suc_le_eq)
  show ?thesis using ok(3,4) short space free kept ne
    by (auto simp: ok(5) make_identity_boundary_def Let_def Suc_le_eq)
qed

lemma review_graph_reachable:
  assumes "onboarding_reachable sha lower t" "onboarding_review_graph sha lower may_review now later s t = (x, t')"
  shows "onboarding_reachable sha lower t'"
proof -
  have "t' = t \<or> (\<exists>org y. pg_activate sha lower org t = (y, t'))"
    using assms(2) by (auto simp: onboarding_review_graph_def and_then_def load_pending_def authorize_reviewer_def
        review_approve_def review_activate_def with_request_def activate_onboarding_def
        split: sum.splits prod.splits option.splits if_splits)
  with assms(1) show ?thesis by (blast intro: reach_step step_activate)
qed

lemma parse_onboarding_start_valid:
  assumes "parse_onboarding_start payload = Inr b"
  shows "make_identity_boundary (ib_kind (os_identity_boundary b)) (ib_reference (os_identity_boundary b)) = Inr (os_identity_boundary b)"
proof -
  obtain j boundary name where "parse_boundary j = Inr boundary" "make_onboarding_start name boundary = Inr b"
    using assms by (auto simp: parse_onboarding_start_def result_simps split: if_splits option.splits json.splits)
  then obtain k v where "make_identity_boundary k v = Inr boundary" "os_identity_boundary b = boundary"
    by (auto simp: parse_boundary_def make_onboarding_start_def Let_def split: json.splits if_splits option.splits)
  then show ?thesis using make_identity_boundary_idem by metis
qed

lemma create_pending_step:
  assumes "onboarding_reachable sha lower t" "check_applicant (gs_applicant s) = Inr (gs_applicant s)"
    and "make_identity_boundary (ib_kind (os_identity_boundary (gs_onboarding s))) (ib_reference (os_identity_boundary (gs_onboarding s)))
       = Inr (os_identity_boundary (gs_onboarding s))"
    and run: "create_pending (postgres_store sha lower) i j now s (t, v) = (x, t', v')"
  shows "onboarding_reachable sha lower t'"
proof -
  let ?r = "\<lparr>oq_request_id = i, oq_organization_id = j, oq_organization_name = os_organization_name (gs_onboarding s),
      oq_applicant = gs_applicant s, oq_boundary = os_identity_boundary (gs_onboarding s), oq_state = ORG_PENDING,
      oq_created_at = now\<rparr>"
  have "t' = t \<or> check_onboarding_request ?r = Inr ?r \<and> (\<exists>y. pg_save_pending lower ?r t = (y, t'))"
    using run by (auto simp: create_pending_def start_onboarding_def postgres_store_def
        check_onboarding_request_def split: prod.splits sum.splits if_splits)
  moreover have "check_onboarding_request ?r = Inr ?r \<Longrightarrow> valid_request ?r" using assms(2,3) by (simp add: valid_request_def)
  ultimately have "t' = t \<or> (\<exists>r y. valid_request r \<and> pg_save_pending lower r t = (y, t'))" by blast
  with assms(1) show ?thesis by (blast intro: reach_step step_save)
qed

lemma proof_node_step:
  assumes "onboarding_reachable sha lower t" "persist_identity_proof (postgres_store sha lower) s (t, v) = (x, t', v')"
  shows "onboarding_reachable sha lower t'"
proof -
  have "t' = t \<or> (\<exists>r e y. pg_record_proof r e t = (y, t'))"
    using assms(2) by (auto simp: persist_identity_proof_def postgres_store_def with_request_def
        split: prod.splits sum.splits option.splits)
  with assms(1) show ?thesis by (blast intro: reach_step step_proof)
qed

lemma after_proof_no_reviewer:
  assumes "gs_reviewer s = None"
  shows "after_proof sha ops clock s (t, v) =
    (if gs_proof s = None then (Inr s, t, v) else persist_identity_proof ops s (t, v))"
  using assms by (auto simp: after_proof_def proof_succeeded_def and_then_def persist_identity_proof_def with_request_def
      split: option.splits sum.splits prod.splits)

lemma onboarding_handler_reachable:
  assumes reach: "onboarding_reachable sha lower t"
    and run: "organization_onboarding_handler sha lower verify i j clock invocation (t, v) = (x, t', v')"
  shows "onboarding_reachable sha lower t'"
proof (cases "t' = t")
  case False
  with run obtain p who b where start: "principal_applicant p = Inr who" "parse_onboarding_start (inv_payload invocation) = Inr b"
    "organization_onboarding_graph sha (postgres_store sha lower) verify i j clock
       \<lparr>gs_applicant = who, gs_onboarding = b, gs_reviewer = None, gs_request = None,
         gs_proof = None, gs_approval = None, gs_organization = None\<rparr> (t, v) = (x, t', v')"
    by (auto simp: organization_onboarding_handler_def result_simps split: option.splits sum.splits)
  let ?s = "\<lparr>gs_applicant = who, gs_onboarding = b, gs_reviewer = None, gs_request = None,
         gs_proof = None, gs_approval = None, gs_organization = None\<rparr>"
  obtain x1 t1 v1 where one: "create_pending (postgres_store sha lower) i j (tm_created clock) ?s (t, v) = (x1, t1, v1)"
    by (metis prod_cases3)
  have r1: "onboarding_reachable sha lower t1"
    by (rule create_pending_step [OF reach _ _ one])
      (use start parse_onboarding_start_valid in \<open>auto simp: principal_applicant_def check_applicant_def split: if_splits\<close>)
  show ?thesis
  proof (cases x1)
    case (Inl e)
    with start(3) one r1 show ?thesis by (auto simp: organization_onboarding_graph_def and_then_def)
  next
    case (Inr s1)
    with pg.create_pending_reviewed [OF one] have none: "gs_reviewer s1 = None" by auto
    obtain x2 t2 v2 where two: "verify_identity verify (tm_verified clock) s1 (t1, v1) = (x2, t2, v2)"
      by (metis prod_cases3)
    note same = pg.verify_identity_reviewed [OF two]
    show ?thesis
    proof (cases x2)
      case (Inl e)
      with start(3) one two r1 same \<open>x1 = Inr s1\<close> show ?thesis
        by (auto simp: organization_onboarding_graph_def and_then_def)
    next
      case (Inr s2)
      with start(3) one two \<open>x1 = Inr s1\<close> have tail: "after_proof sha (postgres_store sha lower) clock s2 (t2, v2) = (x, t', v')"
        by (simp add: organization_onboarding_graph_def and_then_def)
      from Inr same none have "gs_reviewer s2 = None" by auto
      with tail r1 same show ?thesis
        by (auto simp: after_proof_no_reviewer dest: proof_node_step split: if_splits)
    qed
  qed
qed (use reach in simp)

section \<open>Active organizations and domain discovery\<close>

text \<open>
  C28. However the repository is used, an active organization rests on one reviewed request: its
  digest was approved, its proof, boundary and administrator are stored, and no other active
  organization rests on a request for the same identity boundary.
\<close>

theorem active_organizations_were_reviewed:
  assumes "onboarding_reachable sha lower t" "r \<in> set (ot_organizations t)" "or_state r = ORG_ACTIVE"
  shows "\<exists>q a. reviewed_by sha t r q a \<and>
    (\<forall>s p b. s \<in> set (ot_organizations t) \<and> reviewed_by sha t s p b \<and> qr_kind p = qr_kind q \<and>
       lower (qr_reference p) = lower (qr_reference q) \<longrightarrow> s = r)"
proof -
  have inv: "onboarding_inv sha lower t" using assms(1) by (rule inv_reachable)
  then obtain q a where review: "reviewed_by sha t r q a"
    using assms(2,3) unfolding onboarding_inv_def reviewed_ok_def by blast
  have "s = r" if other: "s \<in> set (ot_organizations t)" "reviewed_by sha t s p b" "qr_kind p = qr_kind q"
    "lower (qr_reference p) = lower (qr_reference q)" for s p b
  proof -
    have "p = q" using inv review other unfolding onboarding_inv_def keys_ok_def reviewed_by_def by blast
    then have "or_organization_id s = or_organization_id r" using review other(2) by (simp add: reviewed_by_def)
    then show ?thesis using inv assms(2) other(1) by (simp add: onboarding_inv_def keys_ok_def distinct_map inj_on_def)
  qed
  with review show ?thesis by blast
qed

lemma find_active_domain_Some:
  assumes "pg_find_active_domain lower t domain = Inr (Some d)"
  shows "ad_organization_id d \<in> active_orgs t \<and> (\<exists>e. (ad_organization_id d, e) \<in> set (ot_boundaries t) \<and>
    ie_kind e = BOUNDARY_DOMAIN \<and> lower (ie_reference e) = lower domain)"
  using assms by (auto simp: pg_find_active_domain_def result_simps check_active_domain_def list_ex_iff in_active_orgs
      dest!: find_SomeD split: option.splits if_splits) blast+

text \<open>
  C30. After login, discovery names an organization only when it is active, was reviewed for a
  domain boundary, and that domain is the mailbox's own up to the database's \<open>lower\<close>.
\<close>

theorem discovery_routes_to_reviewed_organizations:
  assumes "onboarding_reachable sha lower t"
    and found: "discover idna (pg_find_active_domain lower t) email_text = Inr result"
      "dr_organization_id result = Some i"
  shows "\<exists>local domain r q a. canonicalize_email idna email_text = Inr (local, domain) \<and>
    r \<in> set (ot_organizations t) \<and> or_organization_id r = i \<and> or_state r = ORG_ACTIVE \<and>
    reviewed_by sha t r q a \<and> qr_kind q = BOUNDARY_DOMAIN \<and> lower (qr_reference q) = lower domain"
proof -
  have inv: "onboarding_inv sha lower t" using assms(1) by (rule inv_reachable)
  obtain local_part domain d where mail: "canonicalize_email idna email_text = Inr (local_part, domain)"
    "pg_find_active_domain lower t domain = Inr (Some d)" "ad_organization_id d = i"
  proof -
    note goal = that
    obtain a b y where y: "canonicalize_email idna email_text = Inr (a, b)" "pg_find_active_domain lower t b = Inr y"
      "result = (case y of Some m \<Rightarrow>
            (case ad_idp m of
               Some idp \<Rightarrow> \<lparr>dr_journeys = [ORGANIZATION_IDP_AUTHENTICATION],
                 dr_organization_id = Some (ad_organization_id m), dr_idp = Some idp\<rparr>
             | None \<Rightarrow> \<lparr>dr_journeys = [ORGANIZATION_MEMBER_ONBOARDING],
                 dr_organization_id = Some (ad_organization_id m), dr_idp = None\<rparr>)
        | None \<Rightarrow> \<lparr>dr_journeys = [PERSONAL_ORGANIZATION_CREATION, BUSINESS_ORGANIZATION_CLAIM],
            dr_organization_id = None, dr_idp = None\<rparr>)"
      using found(1) unfolding discover_def by (auto simp: bind_result_eq_Inr)
    with found(2) goal show ?thesis by (cases y; cases "ad_idp (the y)") auto
  qed
  obtain e where e: "(i, e) \<in> set (ot_boundaries t)" "ie_kind e = BOUNDARY_DOMAIN" "lower (ie_reference e) = lower domain"
    "i \<in> active_orgs t" using find_active_domain_Some [OF mail(2)] mail(3) by auto
  then obtain r where r: "r \<in> set (ot_organizations t)" "or_organization_id r = i" "or_state r = ORG_ACTIVE"
    by (auto simp: in_active_orgs)
  obtain q a where review: "reviewed_by sha t r q a"
    using inv r unfolding onboarding_inv_def reviewed_ok_def by blast
  obtain p where p: "p \<in> set (ot_requests t)" "qr_organization_id p = i" "qr_kind p = ie_kind e" "qr_reference p = ie_reference e"
    using inv e(1) unfolding onboarding_inv_def reviewed_ok_def by blast
  have "p = q" using inv review p(1,2) r(2) unfolding onboarding_inv_def keys_ok_def reviewed_by_def by metis
  with mail(1) r review p e show ?thesis by metis
qed

section \<open>A worked example\<close>

definition demo_sha :: "string \<Rightarrow> string" where
  "demo_sha x = replicate 64 (CHR ''a'')"

definition demo_saved :: onboarding_tables where
  "demo_saved = snd (pg_save_pending py_lower demo_onboarding (empty_onboarding_tables [''usr_1'']))"

definition demo_proved :: onboarding_tables where
  "demo_proved = snd (pg_record_proof demo_onboarding demo_evidence demo_saved)"

definition demo_review :: review_state where
  "demo_review = \<lparr>vs_request_id = ''orgreq_1'', vs_reviewer = \<lparr>ap_issuer = ''platformops'', ap_subject = ''usr_9''\<rparr>,
     vs_request = None, vs_proof = None, vs_approval = None, vs_organization = None\<rparr>"

definition demo_reviewers :: "applicant \<Rightarrow> string \<Rightarrow> bool" where
  "demo_reviewers who i = (ap_subject who = ''usr_9'')"

definition demo_active :: onboarding_tables where
  "demo_active = snd (onboarding_review_graph demo_sha py_lower demo_reviewers (Aware 2) (Aware 3) demo_review demo_proved)"

lemma demo_proved_reachable: "onboarding_reachable demo_sha py_lower demo_proved"
proof -
  have "valid_request demo_onboarding" by code_simp
  then have "onboarding_reachable demo_sha py_lower demo_saved"
    unfolding demo_saved_def by (metis prod.collapse reach_empty reach_step step_save)
  then show ?thesis unfolding demo_proved_def by (metis prod.collapse reach_step step_proof)
qed

lemma demo_active_reachable: "onboarding_reachable demo_sha py_lower demo_active"
  unfolding demo_active_def by (metis prod.collapse review_graph_reachable demo_proved_reachable)

lemma demo_sha_hex: "\<forall>x. length (demo_sha x) = 64 \<and> list_all is_hex_lower (demo_sha x)"
  by (simp add: demo_sha_def list_all_iff is_hex_lower_def)

lemma demo_review_activates:
  "is_Inr (fst (onboarding_review_graph demo_sha py_lower demo_reviewers (Aware 2) (Aware 3) demo_review demo_proved))"
  by code_simp

theorem review_activates_exactly_when_witness:
  "active_orgs demo_active = {''org_1''}"
proof -
  obtain x where run: "onboarding_review_graph demo_sha py_lower demo_reviewers (Aware 2) (Aware 3) demo_review demo_proved
      = (x, demo_active)" unfolding demo_active_def by (metis prod.collapse)
  with demo_review_activates obtain s' where "x = Inr s'" by (auto simp: is_Inr_iff)
  moreover have "active_orgs demo_proved = {}" by code_simp
  moreover have "pg_get_pending_request demo_proved (vs_request_id demo_review) = Inr (Some demo_onboarding)" by code_simp
  moreover have "oq_organization_id demo_onboarding = ''org_1''" by (simp add: demo_onboarding_def)
  ultimately show ?thesis
    using review_activates_exactly_when [OF demo_proved_reachable demo_sha_hex run] by auto
qed

definition demo_org :: org_row where
  "demo_org = \<lparr>or_organization_id = ''org_1'', or_name = ''Acme'', or_state = ORG_ACTIVE, or_created_at = Aware 0,
     or_activated_at = Some (Aware 3)\<rparr>"

lemma demo_org_active: "demo_org \<in> set (ot_organizations demo_active)" "or_state demo_org = ORG_ACTIVE"
proof -
  have "list_ex (\<lambda>r. r = demo_org) (ot_organizations demo_active)" by code_simp
  then show "demo_org \<in> set (ot_organizations demo_active)" by (auto simp: list_ex_iff)
qed (simp add: demo_org_def)

theorem active_organizations_were_reviewed_witness:
  "\<exists>q a. reviewed_by demo_sha demo_active demo_org q a"
  using active_organizations_were_reviewed [OF demo_active_reachable demo_org_active] by blast

theorem discovery_routes_to_reviewed_organizations_witness:
  "\<exists>r q a. reviewed_by demo_sha demo_active r q a \<and> qr_kind q = BOUNDARY_DOMAIN"
proof -
  have "discover (\<lambda>s. Some s) (pg_find_active_domain py_lower demo_active) ''ann@acme.test'' =
      Inr \<lparr>dr_journeys = [ORGANIZATION_MEMBER_ONBOARDING], dr_organization_id = Some ''org_1'', dr_idp = None\<rparr>"
    by code_simp
  from discovery_routes_to_reviewed_organizations [OF demo_active_reachable this] show ?thesis by auto
qed

end
