(* ===== verification/Membership_Tables.thy ===== *)
theory Membership_Tables
  imports Org_Membership User_Accounts Onboarding_Properties
begin

text \<open>
  Invitations (\<open>gateway/organization_membership.py\<close>), the repository of
  \<open>gateway/organization_membership_postgres.py\<close> over the tables of migration 002, and the
  \<open>/join-org\<close> workflow.  One definition per repository method, each one transaction; the users,
  organizations and verified contacts the queries join are the tables of registration and
  onboarding.  Fresh membership ids, the times and the HMAC are arguments.
\<close>

section \<open>Invitations\<close>

record invitation =
  iv_invitation_id :: string
  iv_organization_id :: string
  iv_canonical_email :: string
  iv_token_digest :: string
  iv_expires_at :: datetime
  iv_consumed_at :: "datetime option"

definition make_invitation :: "(string \<Rightarrow> string option) \<Rightarrow> invitation \<Rightarrow> invitation result" where
  "make_invitation idna i =
     (if length (iv_invitation_id i) < 8 \<or> iv_organization_id i = [] \<or> length (iv_canonical_email i) < 3 \<or>
         length (iv_token_digest i) \<noteq> 64 \<or> \<not> list_all is_hex_lower (iv_token_digest i)
      then Inl (ValidationError ''OrganizationInvitation'')
      else case canonical_email idna (iv_canonical_email i) of
        Inl _ \<Rightarrow> Inl (ValidationError ''OrganizationInvitation'')
      | Inr canonical \<Rightarrow> Inr (i\<lparr>iv_canonical_email := canonical\<rparr>))"

section \<open>The repository\<close>

record membership_tables =
  mt_onboarding :: onboarding_tables
  mt_contacts :: "email_contact list"
  mt_invitations :: "invitation list"
  mt_memberships :: "organization_membership list"

definition empty_membership_tables :: "onboarding_tables \<Rightarrow> email_contact list \<Rightarrow> membership_tables" where
  "empty_membership_tables o_tables contacts = \<lparr>mt_onboarding = o_tables, mt_contacts = contacts,
     mt_invitations = [], mt_memberships = []\<rparr>"

definition require_active_org :: "membership_tables \<Rightarrow> string \<Rightarrow> unit result" where
  "require_active_org t organization_id =
     (case find_org (mt_onboarding t) organization_id of
        None \<Rightarrow> Inl (OrganizationMembershipOrganizationInactive ''organization is not active'')
      | Some r \<Rightarrow> if or_state r \<noteq> ORG_ACTIVE
          then Inl (OrganizationMembershipOrganizationInactive ''organization is not active'') else Inr ())"

definition insert_invitation :: "invitation \<Rightarrow> membership_tables \<Rightarrow> membership_tables result" where
  "insert_invitation i t =
     (if length (iv_token_digest i) \<noteq> 64 then Inl check_violation
      else if list_ex (\<lambda>r. iv_invitation_id r = iv_invitation_id i \<or> iv_token_digest r = iv_token_digest i) (mt_invitations t)
      then Inl unique_violation
      else if find_org (mt_onboarding t) (iv_organization_id i) = None then Inl foreign_key_violation
      else Inr (t\<lparr>mt_invitations := mt_invitations t @ [i]\<rparr>))"

definition create_invitation ::
  "(string \<Rightarrow> string option) \<Rightarrow> invitation \<Rightarrow> membership_tables \<Rightarrow> unit result \<times> membership_tables" where
  "create_invitation idna i t =
     (case bind_result (canonical_email idna (iv_canonical_email i)) (\<lambda>canonical.
           bind_result (require_active_org t (iv_organization_id i)) (\<lambda>_.
           insert_invitation (i\<lparr>iv_canonical_email := canonical\<rparr>) t)) of
        Inl e \<Rightarrow> (Inl e, t)
      | Inr t' \<Rightarrow> (Inr (), t'))"

text \<open>The row a digest finds, when it may still be used.\<close>

definition usable_invitation :: "membership_tables \<Rightarrow> string \<Rightarrow> datetime \<Rightarrow> invitation result" where
  "usable_invitation t digest now =
     (let unusable = OrganizationInvitationNotUsable ''invitation is expired, consumed, or unknown'' in
      case find (\<lambda>r. iv_token_digest r = digest) (mt_invitations t) of
        None \<Rightarrow> Inl unusable
      | Some r \<Rightarrow>
          if iv_consumed_at r \<noteq> None then Inl unusable
          else bind_result (dt_le (iv_expires_at r) now) (\<lambda>expired. if expired then Inl unusable else Inr r))"

definition require_recipient :: "membership_tables \<Rightarrow> string \<Rightarrow> string \<Rightarrow> unit result" where
  "require_recipient t user_subject canonical =
     (if list_ex (\<lambda>c. ec_user_subject c = user_subject \<and> ec_canonical_email c = canonical) (mt_contacts t) then Inr ()
      else Inl (OrganizationInvitationRecipientMismatch ''invitation recipient does not match user''))"

definition insert_membership :: "organization_membership \<Rightarrow> membership_tables \<Rightarrow> membership_tables result" where
  "insert_membership m t =
     (if om_version m < 1 then Inl check_violation
      else if list_ex (\<lambda>r. om_membership_id r = om_membership_id m \<or>
             (om_state m = MEMBER_ACTIVE \<and> om_state r = MEMBER_ACTIVE \<and> membership_key r = membership_key m)) (mt_memberships t)
      then Inl unique_violation
      else if om_user_subject m \<notin> set (ot_users (mt_onboarding t)) \<or> find_org (mt_onboarding t) (om_organization_id m) = None
      then Inl foreign_key_violation
      else Inr (t\<lparr>mt_memberships := mt_memberships t @ [m]\<rparr>))"

definition consume_invitation_row :: "string \<Rightarrow> datetime \<Rightarrow> invitation \<Rightarrow> invitation" where
  "consume_invitation_row invitation_id now r =
     (if iv_invitation_id r = invitation_id then r\<lparr>iv_consumed_at := Some now\<rparr> else r)"

definition new_membership :: "string \<Rightarrow> string \<Rightarrow> string \<Rightarrow> datetime \<Rightarrow> organization_membership" where
  "new_membership fresh_id user_subject organization_id now =
     \<lparr>om_membership_id = fresh_id, om_user_subject = user_subject, om_organization_id = organization_id,
       om_source = FROM_INVITATION, om_role_refs = [], om_state = MEMBER_ACTIVE, om_version = 1, om_created_at = now\<rparr>"

definition accept_body ::
  "string \<Rightarrow> string \<Rightarrow> string \<Rightarrow> datetime \<Rightarrow> membership_tables \<Rightarrow> (organization_membership \<times> membership_tables) result" where
  "accept_body fresh_id digest user_subject now t =
     bind_result (usable_invitation t digest now) (\<lambda>i.
     bind_result (require_active_org t (iv_organization_id i)) (\<lambda>_.
     bind_result (require_recipient t user_subject (iv_canonical_email i)) (\<lambda>_.
     bind_result (check_membership (new_membership fresh_id user_subject (iv_organization_id i) now)) (\<lambda>m.
     bind_result (insert_membership m t) (\<lambda>t1.
       Inr (m, t1\<lparr>mt_invitations := map (consume_invitation_row (iv_invitation_id i) now) (mt_invitations t1)\<rparr>))))))"

definition accept_invitation ::
  "string \<Rightarrow> string \<Rightarrow> string \<Rightarrow> datetime \<Rightarrow> membership_tables \<Rightarrow> organization_membership result \<times> membership_tables" where
  "accept_invitation fresh_id digest user_subject now t =
     (case accept_body fresh_id digest user_subject now t of
        Inl e \<Rightarrow> (Inl (if e = unique_violation then duplicate_membership else e), t)
      | Inr (m, t') \<Rightarrow> (Inr m, t'))"

definition inspect_invitation :: "string \<Rightarrow> string \<Rightarrow> datetime \<Rightarrow> membership_tables \<Rightarrow> string result" where
  "inspect_invitation digest user_subject now t =
     bind_result (usable_invitation t digest now) (\<lambda>i.
     bind_result (require_active_org t (iv_organization_id i)) (\<lambda>_.
     bind_result (require_recipient t user_subject (iv_canonical_email i)) (\<lambda>_. Inr (iv_organization_id i))))"

definition pg_get_active_membership ::
  "membership_tables \<Rightarrow> string \<Rightarrow> string \<Rightarrow> organization_membership option result" where
  "pg_get_active_membership t user_subject organization_id =
     (case find (\<lambda>m. om_user_subject m = user_subject \<and> om_organization_id m = organization_id \<and> om_state m = MEMBER_ACTIVE)
             (mt_memberships t) of
        None \<Rightarrow> Inr None
      | Some m \<Rightarrow> bind_result (check_membership m) (\<lambda>m. Inr (Some m)))"

text \<open>The version column is a 32-bit integer; adding one to its maximum is an error.\<close>

definition revoke_membership_row :: "string \<Rightarrow> organization_membership \<Rightarrow> organization_membership" where
  "revoke_membership_row membership_id m =
     (if om_membership_id m = membership_id \<and> om_state m = MEMBER_ACTIVE
      then m\<lparr>om_state := MEMBER_REVOKED, om_version := om_version m + 1\<rparr> else m)"

definition revoke_active_membership :: "string \<Rightarrow> membership_tables \<Rightarrow> unit result \<times> membership_tables" where
  "revoke_active_membership membership_id t =
     (case find (\<lambda>m. om_membership_id m = membership_id \<and> om_state m = MEMBER_ACTIVE) (mt_memberships t) of
        None \<Rightarrow> (Inl (OrganizationMembershipNotActive ''membership is not active''), t)
      | Some m \<Rightarrow>
          if om_version m + 1 > 2147483647 then (Inl (ExternalError ''psycopg.errors.NumericValueOutOfRange''), t)
          else (Inr (), t\<lparr>mt_memberships := map (revoke_membership_row membership_id) (mt_memberships t)\<rparr>))"

section \<open>The \<open>/join-org\<close> workflow\<close>

record join_state =
  js_user_subject :: string
  js_token_digest :: string
  js_organization_id :: "string option"
  js_membership :: "organization_membership option"

definition validate_invitation_node :: "datetime \<Rightarrow> (join_state, membership_tables) node" where
  "validate_invitation_node now s t =
     (bind_result (inspect_invitation (js_token_digest s) (js_user_subject s) now t)
        (\<lambda>i. Inr (s\<lparr>js_organization_id := Some i\<rparr>)), t)"

definition activate_membership_node :: "string \<Rightarrow> datetime \<Rightarrow> (join_state, membership_tables) node" where
  "activate_membership_node fresh_id now s t =
     (case accept_invitation fresh_id (js_token_digest s) (js_user_subject s) now t of
        (Inl e, t1) \<Rightarrow> (Inl e, t1)
      | (Inr m, t1) \<Rightarrow> (Inr (s\<lparr>js_membership := Some m\<rparr>), t1))"

definition member_onboarding_graph :: "string \<Rightarrow> datetime \<Rightarrow> datetime \<Rightarrow> (join_state, membership_tables) node" where
  "member_onboarding_graph fresh_id inspected_at accepted_at =
     and_then (validate_invitation_node inspected_at) (activate_membership_node fresh_id accepted_at)"

definition invitation_acceptance :: "(string, json) dict \<Rightarrow> string result" where
  "invitation_acceptance payload =
     (case dict_get payload ''invitation_token'' of
        Some (JStr token) \<Rightarrow>
          if \<not> only_keys [''invitation_token''] payload \<or> length token < 32 \<or> 2048 < length token
          then Inl (ValidationError ''OrganizationInvitationAcceptance'') else Inr token
      | _ \<Rightarrow> Inl (ValidationError ''OrganizationInvitationAcceptance''))"

definition invitation_token_digest :: "(string \<Rightarrow> string \<Rightarrow> string) \<Rightarrow> string \<Rightarrow> string \<Rightarrow> string" where
  "invitation_token_digest hmac key token = hmac key token"

definition member_onboarding_handler ::
  "(string \<Rightarrow> string \<Rightarrow> string) \<Rightarrow> string \<Rightarrow> string \<Rightarrow> datetime \<Rightarrow> datetime
     \<Rightarrow> ((string, json) dict, organization_membership option, membership_tables) workflow_handler" where
  "member_onboarding_handler hmac key fresh_id inspected_at accepted_at invocation t =
     (case inv_principal invocation of
        None \<Rightarrow> (Inl (PermissionError ''validated principal is required''), t)
      | Some p \<Rightarrow>
          (case invitation_acceptance (inv_payload invocation) of
             Inl e \<Rightarrow> (Inl e, t)
           | Inr token \<Rightarrow>
               (case member_onboarding_graph fresh_id inspected_at accepted_at
                   \<lparr>js_user_subject = vp_subject p, js_token_digest = invitation_token_digest hmac key token,
                     js_organization_id = None, js_membership = None\<rparr> t of
                  (Inl e, t1) \<Rightarrow> (Inl e, t1)
                | (Inr s, t1) \<Rightarrow> (Inr (js_membership s), t1))))"

end
