(* ===== verification/Membership_Properties.thy ===== *)
theory Membership_Properties
  imports Membership_Tables Scope_Access
begin

text \<open>
  What membership promises, over every history of invitations, acceptances, revocations, onboarding
  steps and newly verified contacts: a member was invited at a verified address of its own by a
  reviewed organization, an invitation admits once, and a revocation ends access.
\<close>

section \<open>The state machine\<close>

inductive membership_step ::
  "(string \<Rightarrow> string) \<Rightarrow> (string \<Rightarrow> string) \<Rightarrow> (string \<Rightarrow> string option) \<Rightarrow> membership_tables \<Rightarrow> membership_tables \<Rightarrow> bool"
  for sha lower idna where
  step_invite: "create_invitation idna i t = (x, t') \<Longrightarrow> membership_step sha lower idna t t'"
| step_accept: "accept_invitation f d u now t = (y, t') \<Longrightarrow> membership_step sha lower idna t t'"
| step_revoke: "revoke_active_membership m t = (z, t') \<Longrightarrow> membership_step sha lower idna t t'"
| step_onboarding: "onboarding_step sha lower (mt_onboarding t) b \<Longrightarrow> membership_step sha lower idna t (t\<lparr>mt_onboarding := b\<rparr>)"
| step_contact: "membership_step sha lower idna t (t\<lparr>mt_contacts := mt_contacts t @ [c]\<rparr>)"

inductive membership_reachable ::
  "(string \<Rightarrow> string) \<Rightarrow> (string \<Rightarrow> string) \<Rightarrow> (string \<Rightarrow> string option) \<Rightarrow> membership_tables \<Rightarrow> bool" for sha lower idna where
  member_empty: "onboarding_reachable sha lower b \<Longrightarrow> membership_reachable sha lower idna (empty_membership_tables b contacts)"
| member_step: "membership_reachable sha lower idna t \<Longrightarrow> membership_step sha lower idna t t' \<Longrightarrow> membership_reachable sha lower idna t'"

section \<open>What each method stores\<close>

lemma create_invitation_cases:
  assumes "create_invitation idna i t = (x, t')"
  shows "t' = t \<or> (\<exists>j. (\<forall>r \<in> set (mt_invitations t). iv_invitation_id r \<noteq> iv_invitation_id j \<and> iv_token_digest r \<noteq> iv_token_digest j) \<and>
    t' = t\<lparr>mt_invitations := mt_invitations t @ [j]\<rparr>)"
proof (cases "t' = t")
  case False
  then obtain c where "insert_invitation (i\<lparr>iv_canonical_email := c\<rparr>) t = Inr t'"
    using assms by (auto simp: create_invitation_def result_simps split: sum.splits)
  then show ?thesis by (intro disjI2 exI [of _ "i\<lparr>iv_canonical_email := c\<rparr>"])
      (auto simp: insert_invitation_def list_ex_iff split: if_splits)
qed simp

lemma usable_invitation_Inr:
  "usable_invitation t digest now = Inr i \<longleftrightarrow>
     find (\<lambda>r. iv_token_digest r = digest) (mt_invitations t) = Some i \<and> iv_consumed_at i = None \<and>
     dt_le (iv_expires_at i) now = Inr False"
  by (auto simp: usable_invitation_def Let_def result_simps split: option.splits if_splits)

lemma require_active_org_Inr: "require_active_org t i = Inr () \<longleftrightarrow> (\<exists>r. find_org (mt_onboarding t) i = Some r \<and> or_state r = ORG_ACTIVE)"
  by (auto simp: require_active_org_def split: option.splits)

definition accepted_tables :: "invitation \<Rightarrow> organization_membership \<Rightarrow> datetime \<Rightarrow> membership_tables \<Rightarrow> membership_tables" where
  "accepted_tables i m now t = t\<lparr>mt_memberships := mt_memberships t @ [m],
     mt_invitations := map (consume_invitation_row (iv_invitation_id i) now) (mt_invitations t)\<rparr>"

lemma accept_invitation_Inr:
  assumes "accept_invitation f d u now t = (Inr m, t')"
  obtains i where "usable_invitation t d now = Inr i" "m = new_membership f u (iv_organization_id i) now"
    "require_active_org t (iv_organization_id i) = Inr ()"
    "\<exists>c \<in> set (mt_contacts t). ec_user_subject c = u \<and> ec_canonical_email c = iv_canonical_email i"
    "\<forall>r \<in> set (mt_memberships t). om_membership_id r \<noteq> f \<and>
       \<not> (om_state r = MEMBER_ACTIVE \<and> membership_key r = (u, iv_organization_id i))"
    "t' = accepted_tables i m now t" "check_membership m = Inr m"
proof -
  obtain i m0 t1 where i: "usable_invitation t d now = Inr i" "require_active_org t (iv_organization_id i) = Inr ()"
    "require_recipient t u (iv_canonical_email i) = Inr ()"
    "check_membership (new_membership f u (iv_organization_id i) now) = Inr m0" "insert_membership m0 t = Inr t1"
    "m = m0" "t' = t1\<lparr>mt_invitations := map (consume_invitation_row (iv_invitation_id i) now) (mt_invitations t1)\<rparr>"
    using assms by (auto simp: accept_invitation_def accept_body_def result_simps split: sum.splits prod.splits)
  have m: "m0 = new_membership f u (iv_organization_id i) now"
    using i(4) by (auto simp: check_membership_def split: if_splits)
  have t1: "t1 = t\<lparr>mt_memberships := mt_memberships t @ [m0]\<rparr>"
    and fresh: "\<forall>r \<in> set (mt_memberships t). om_membership_id r \<noteq> f \<and>
       \<not> (om_state r = MEMBER_ACTIVE \<and> membership_key r = (u, iv_organization_id i))"
    using i(5) unfolding m by (auto simp: insert_membership_def list_ex_iff new_membership_def membership_key_def split: if_splits)
  show ?thesis
    by (rule that [OF i(1) _ i(2) _ fresh])
      (use i m t1 in \<open>auto simp: accepted_tables_def require_recipient_def list_ex_iff split: if_splits\<close>)
qed

lemma accept_invitation_Inl: "accept_invitation f d u now t = (Inl e, t') \<Longrightarrow> t' = t"
  by (auto simp: accept_invitation_def split: sum.splits prod.splits)

lemma revoke_cases:
  assumes "revoke_active_membership i t = (x, t')"
  shows "(t' = t \<and> x \<noteq> Inr ()) \<or> (x = Inr () \<and> t' = t\<lparr>mt_memberships := map (revoke_membership_row i) (mt_memberships t)\<rparr> \<and>
    (\<exists>m \<in> set (mt_memberships t). om_membership_id m = i \<and> om_state m = MEMBER_ACTIVE))"
  using assms by (auto simp: revoke_active_membership_def dest!: find_SomeD split: option.splits if_splits)

lemma consume_invitation_row_simps [simp]:
  "iv_invitation_id (consume_invitation_row i now r) = iv_invitation_id r"
  "iv_organization_id (consume_invitation_row i now r) = iv_organization_id r"
  "iv_canonical_email (consume_invitation_row i now r) = iv_canonical_email r"
  "iv_token_digest (consume_invitation_row i now r) = iv_token_digest r"
  "iv_consumed_at r \<noteq> None \<Longrightarrow> iv_consumed_at (consume_invitation_row i now r) \<noteq> None"
  "iv_invitation_id r = i \<Longrightarrow> iv_consumed_at (consume_invitation_row i now r) = Some now"
  by (simp_all add: consume_invitation_row_def)

lemma revoke_membership_row_simps [simp]:
  "om_membership_id (revoke_membership_row i m) = om_membership_id m"
  "om_user_subject (revoke_membership_row i m) = om_user_subject m"
  "om_organization_id (revoke_membership_row i m) = om_organization_id m"
  "membership_key (revoke_membership_row i m) = membership_key m"
  "om_state (revoke_membership_row i m) = MEMBER_ACTIVE \<longleftrightarrow> om_state m = MEMBER_ACTIVE \<and> om_membership_id m \<noteq> i"
  by (auto simp: revoke_membership_row_def membership_key_def)

section \<open>The invariant\<close>

definition invited :: "membership_tables \<Rightarrow> organization_membership \<Rightarrow> invitation \<Rightarrow> bool" where
  "invited t m i \<longleftrightarrow> i \<in> set (mt_invitations t) \<and> iv_consumed_at i \<noteq> None \<and> iv_organization_id i = om_organization_id m \<and>
     (\<exists>c \<in> set (mt_contacts t). ec_user_subject c = om_user_subject m \<and> ec_canonical_email c = iv_canonical_email i)"

definition invitation_keys :: "membership_tables \<Rightarrow> bool" where
  "invitation_keys t \<longleftrightarrow> (\<forall>r \<in> set (mt_invitations t). \<forall>s \<in> set (mt_invitations t).
     iv_invitation_id r = iv_invitation_id s \<or> iv_token_digest r = iv_token_digest s \<longrightarrow> r = s)"

definition one_active :: "membership_tables \<Rightarrow> bool" where
  "one_active t \<longleftrightarrow> (\<forall>m \<in> set (mt_memberships t). \<forall>n \<in> set (mt_memberships t).
     om_membership_id m = om_membership_id n \<or>
     (om_state m = MEMBER_ACTIVE \<and> om_state n = MEMBER_ACTIVE \<and> membership_key m = membership_key n) \<longrightarrow> m = n)"

definition members_ok :: "membership_tables \<Rightarrow> bool" where
  "members_ok t \<longleftrightarrow> (\<forall>m \<in> set (mt_memberships t). check_membership m = Inr m \<and>
     (\<exists>i. invited t m i) \<and> om_organization_id m \<in> active_orgs (mt_onboarding t))"

definition membership_inv :: "membership_tables \<Rightarrow> bool" where
  "membership_inv t \<longleftrightarrow> invitation_keys t \<and> one_active t \<and> members_ok t"

lemma active_orgs_step: "onboarding_step sha lower t t' \<Longrightarrow> active_orgs t \<subseteq> active_orgs t'"
proof (induction rule: onboarding_step.induct)
  case (step_save r t x t')
  then show ?case using pg_save_review_record [of lower r t x t'] by (simp add: review_record_def)
next
  case (step_proof r e t x t')
  then show ?case using pg_proof_review_record [of r e t x t'] by (simp add: review_record_def)
next
  case (step_activate org t x t')
  then show ?case
    using pg.activate_active [of sha lower org t _ t'] by (cases x) (auto simp: postgres_store_def dest: pg_activate_Inl)
next
  case (step_idp i c t x t')
  then show ?case by (auto simp: active_orgs_def dest: configure_idp_cases)
qed (simp add: active_orgs_def)

lemma members_ok_mono:
  assumes "members_ok t" "mt_memberships t' = mt_memberships t" "set (mt_invitations t) \<subseteq> set (mt_invitations t')"
    "set (mt_contacts t) \<subseteq> set (mt_contacts t')" "active_orgs (mt_onboarding t) \<subseteq> active_orgs (mt_onboarding t')"
  shows "members_ok t'"
  using assms unfolding members_ok_def invited_def by fastforce

lemma inv_invite:
  assumes "membership_inv t" "create_invitation idna i t = (x, t')"
  shows "membership_inv t'"
proof (cases "t' = t")
  case False
  with create_invitation_cases [OF assms(2)] obtain j where j:
    "\<forall>r \<in> set (mt_invitations t). iv_invitation_id r \<noteq> iv_invitation_id j \<and> iv_token_digest r \<noteq> iv_token_digest j"
    "t' = t\<lparr>mt_invitations := mt_invitations t @ [j]\<rparr>" by blast
  have "members_ok t'" by (rule members_ok_mono [of t]) (use assms(1) j(2) in \<open>auto simp: membership_inv_def\<close>)
  moreover have "invitation_keys t'" using assms(1) j unfolding membership_inv_def invitation_keys_def by auto
  moreover have "one_active t'" using assms(1) j(2) by (simp add: membership_inv_def one_active_def)
  ultimately show ?thesis by (simp add: membership_inv_def)
qed (use assms in simp)

lemma revoked_row_ok: "check_membership m = Inr m \<Longrightarrow> check_membership (revoke_membership_row i m) = Inr (revoke_membership_row i m)"
  by (auto simp: check_membership_def revoke_membership_row_def split: if_splits)

lemma inv_revoke:
  assumes "membership_inv t" "revoke_active_membership i t = (x, t')"
  shows "membership_inv t'"
  using revoke_cases [OF assms(2)]
proof
  assume "t' = t \<and> x \<noteq> Inr ()"
  with assms(1) show ?thesis by simp
next
  assume "x = Inr () \<and> t' = t\<lparr>mt_memberships := map (revoke_membership_row i) (mt_memberships t)\<rparr> \<and>
    (\<exists>m \<in> set (mt_memberships t). om_membership_id m = i \<and> om_state m = MEMBER_ACTIVE)"
  then have t': "t' = t\<lparr>mt_memberships := map (revoke_membership_row i) (mt_memberships t)\<rparr>" by blast
  have "invitation_keys t'" using assms(1) by (simp add: membership_inv_def invitation_keys_def t')
  moreover have "one_active t'" using assms(1) unfolding membership_inv_def one_active_def t'
    by simp metis
  moreover have "members_ok t'" using assms(1) unfolding membership_inv_def members_ok_def invited_def t'
    by (simp add: revoked_row_ok)
  ultimately show ?thesis by (simp add: membership_inv_def)
qed

lemma inv_accept:
  assumes inv: "membership_inv t" and step: "accept_invitation f d u now t = (Inr m, t')"
  shows "membership_inv t'"
proof -
  obtain i where i: "usable_invitation t d now = Inr i" "m = new_membership f u (iv_organization_id i) now"
    "require_active_org t (iv_organization_id i) = Inr ()"
    "\<exists>c \<in> set (mt_contacts t). ec_user_subject c = u \<and> ec_canonical_email c = iv_canonical_email i"
    "\<forall>r \<in> set (mt_memberships t). om_membership_id r \<noteq> f \<and>
       \<not> (om_state r = MEMBER_ACTIVE \<and> membership_key r = (u, iv_organization_id i))"
    "t' = accepted_tables i m now t" "check_membership m = Inr m"
    using step by (rule accept_invitation_Inr)
  let ?f = "consume_invitation_row (iv_invitation_id i) now"
  have row: "i \<in> set (mt_invitations t)" using i(1) by (auto simp: usable_invitation_Inr dest: find_SomeD)
  have keep: "invited t' n (?f j)" if "invited t n j" for n j
    using that unfolding invited_def i(6) accepted_tables_def by auto
  have new: "invited t' m (?f i)"
    using row i(4) unfolding invited_def i(6) accepted_tables_def i(2) new_membership_def by auto
  have org: "iv_organization_id i \<in> active_orgs (mt_onboarding t)"
    using i(3) by (auto simp: require_active_org_Inr find_org_def in_active_orgs dest!: find_SomeD)
  have same: "mt_onboarding t' = mt_onboarding t" "mt_memberships t' = mt_memberships t @ [m]"
    "mt_invitations t' = map ?f (mt_invitations t)" by (simp_all add: i(6) accepted_tables_def)
  have "invitation_keys t'"
    using inv unfolding membership_inv_def invitation_keys_def same by simp metis
  moreover have "one_active t'"
    using inv i(5) unfolding membership_inv_def one_active_def same i(2)
    by (simp add: new_membership_def membership_key_def) metis
  moreover have "members_ok t'"
    using inv keep new i(2,7) org unfolding membership_inv_def members_ok_def same
    by (fastforce simp: new_membership_def)
  ultimately show ?thesis by (simp add: membership_inv_def)
qed

lemma inv_membership_step: "membership_step sha lower idna t t' \<Longrightarrow> membership_inv t \<Longrightarrow> membership_inv t'"
proof (induction rule: membership_step.induct)
  case (step_accept f d u now t y t')
  then show ?case by (cases y) (auto dest: accept_invitation_Inl intro: inv_accept)
next
  case (step_onboarding t b)
  have "members_ok (t\<lparr>mt_onboarding := b\<rparr>)"
    by (rule members_ok_mono [of t]) (use step_onboarding active_orgs_step in \<open>auto simp: membership_inv_def\<close>)
  with step_onboarding show ?case by (simp add: membership_inv_def invitation_keys_def one_active_def)
next
  case (step_contact t c)
  have "members_ok (t\<lparr>mt_contacts := mt_contacts t @ [c]\<rparr>)"
    by (rule members_ok_mono [of t]) (use step_contact in \<open>auto simp: membership_inv_def\<close>)
  with step_contact show ?case by (simp add: membership_inv_def invitation_keys_def one_active_def)
qed (auto intro: inv_invite inv_revoke)

lemma membership_reachable_inv:
  "membership_reachable sha lower idna t \<Longrightarrow> membership_inv t \<and> onboarding_reachable sha lower (mt_onboarding t)"
proof (induction rule: membership_reachable.induct)
  case (member_empty b contacts)
  then show ?case by (simp add: membership_inv_def invitation_keys_def one_active_def members_ok_def empty_membership_tables_def)
next
  case (member_step t t')
  have "onboarding_reachable sha lower (mt_onboarding t')"
    using member_step.hyps(2) member_step.IH
  proof (induction rule: membership_step.induct)
    case (step_invite i t x t')
    then show ?case by (auto dest!: create_invitation_cases)
  next
    case (step_accept f d u now t y t')
    then show ?case
      by (cases y) (auto dest: accept_invitation_Inl elim!: accept_invitation_Inr simp: accepted_tables_def)
  next
    case (step_revoke m t z t')
    then show ?case by (auto dest!: revoke_cases)
  qed (auto intro: reach_step)
  with member_step inv_membership_step show ?case by blast
qed

section \<open>Properties\<close>

text \<open>
  C31. Every member was invited: in any reachable state each membership has a consumed invitation of
  its organization to an address that is a verified contact of the member, and the organization is
  active and was reviewed under the digest of its request.
\<close>

theorem members_were_invited_by_reviewed_organizations:
  assumes "membership_reachable sha lower idna t" "m \<in> set (mt_memberships t)"
  shows "\<exists>i r q a. invited t m i \<and> r \<in> set (ot_organizations (mt_onboarding t)) \<and>
    or_organization_id r = om_organization_id m \<and> or_state r = ORG_ACTIVE \<and> reviewed_by sha (mt_onboarding t) r q a"
proof -
  have inv: "membership_inv t" and reach: "onboarding_reachable sha lower (mt_onboarding t)"
    using membership_reachable_inv [OF assms(1)] by auto
  then obtain i where i: "invited t m i" "om_organization_id m \<in> active_orgs (mt_onboarding t)"
    using assms(2) unfolding membership_inv_def members_ok_def by blast
  then obtain r where r: "r \<in> set (ot_organizations (mt_onboarding t))" "or_organization_id r = om_organization_id m"
    "or_state r = ORG_ACTIVE" by (auto simp: in_active_orgs)
  then obtain q a where "reviewed_by sha (mt_onboarding t) r q a"
    using inv_reachable [OF reach] unfolding onboarding_inv_def reviewed_ok_def by blast
  with i(1) r show ?thesis by blast
qed

definition spent :: "string \<Rightarrow> membership_tables \<Rightarrow> bool" where
  "spent d t \<longleftrightarrow> (\<exists>i \<in> set (mt_invitations t). iv_token_digest i = d \<and> iv_consumed_at i \<noteq> None)"

lemma spent_rows:
  assumes "spent d t" "mt_invitations t' = mt_invitations t @ xs \<or>
    (\<exists>j now. mt_invitations t' = map (consume_invitation_row j now) (mt_invitations t))"
  shows "spent d t'"
  using assms consume_invitation_row_simps(4,5) unfolding spent_def by fastforce

lemma spent_step: "membership_step sha lower idna t t' \<Longrightarrow> spent d t \<Longrightarrow> spent d t'"
proof (induction rule: membership_step.induct)
  case (step_invite i t x t')
  then show ?case using create_invitation_cases [OF step_invite(1)] by (auto simp: spent_def)
next
  case (step_accept f d' u now t y t')
  show ?case
  proof (cases y)
    case (Inr m)
    with step_accept obtain i where "t' = accepted_tables i m now t" by (blast elim: accept_invitation_Inr)
    then have "\<exists>j now. mt_invitations t' = map (consume_invitation_row j now) (mt_invitations t)"
      by (auto simp: accepted_tables_def)
    with step_accept(2) show ?thesis by (blast intro: spent_rows)
  qed (use step_accept in \<open>auto dest: accept_invitation_Inl\<close>)
next
  case (step_revoke m t z t')
  then show ?case by (auto simp: spent_def dest!: revoke_cases)
qed (simp_all add: spent_def)

lemma spent_not_usable:
  assumes "membership_inv t" "spent d t"
  shows "usable_invitation t d now = Inl (OrganizationInvitationNotUsable ''invitation is expired, consumed, or unknown'')"
proof -
  obtain i where i: "i \<in> set (mt_invitations t)" "iv_token_digest i = d" "iv_consumed_at i \<noteq> None"
    using assms(2) unfolding spent_def by blast
  then obtain j where j: "find (\<lambda>r. iv_token_digest r = d) (mt_invitations t) = Some j"
    by (cases "find (\<lambda>r. iv_token_digest r = d) (mt_invitations t)") (auto simp: find_None_iff)
  have "j = i" using find_SomeD [OF j] i assms(1) unfolding membership_inv_def invitation_keys_def by blast
  with i j show ?thesis by (simp add: usable_invitation_def Let_def)
qed

text \<open>
  C32. An invitation admits once: after it was accepted, whatever happens next, accepting it again,
  by anyone and at any time, fails as unusable and changes no table.
\<close>

theorem invitation_admits_once:
  assumes "membership_reachable sha lower idna t" "accept_invitation f d u now t = (Inr m, t')"
    and "(membership_step sha lower idna)\<^sup>*\<^sup>* t' t''"
  shows "accept_invitation f' d u' now' t'' =
    (Inl (OrganizationInvitationNotUsable ''invitation is expired, consumed, or unknown''), t'')"
proof -
  have reach: "membership_reachable sha lower idna t'" using assms(1,2) by (blast intro: member_step step_accept)
  obtain i where i: "usable_invitation t d now = Inr i" "t' = accepted_tables i m now t"
    using assms(2) by (blast elim: accept_invitation_Inr)
  then have found: "i \<in> set (mt_invitations t)" "iv_token_digest i = d" by (auto simp: usable_invitation_Inr dest!: find_SomeD)
  then have "consume_invitation_row (iv_invitation_id i) now i \<in> set (mt_invitations t')" by (simp add: i(2) accepted_tables_def)
  then have start: "spent d t'" unfolding spent_def
    by (rule bexI [rotated]) (simp add: found(2))
  have "membership_reachable sha lower idna t'' \<and> spent d t''"
    using assms(3) by (induction rule: rtranclp_induct) (auto simp: reach start intro: member_step spent_step)
  then have "membership_inv t''" "spent d t''" using membership_reachable_inv by blast+
  then show ?thesis by (simp add: accept_invitation_def accept_body_def spent_not_usable unique_violation_def)
qed

text \<open>The durable lookup as the authorizer uses it; stored rows always validate.\<close>

definition membership_lookup :: "membership_tables \<Rightarrow> string \<Rightarrow> string \<Rightarrow> organization_membership option" where
  "membership_lookup t u i = (case pg_get_active_membership t u i of Inl _ \<Rightarrow> None | Inr found \<Rightarrow> found)"

lemma same_membership_id:
  assumes "membership_inv t" "m \<in> set (mt_memberships t)" "n \<in> set (mt_memberships t)" "om_membership_id m = om_membership_id n"
  shows "m = n"
  using assms by (simp add: membership_inv_def one_active_def)

lemma same_active_membership:
  assumes "membership_inv t" "m \<in> set (mt_memberships t)" "n \<in> set (mt_memberships t)"
    "om_state m = MEMBER_ACTIVE" "om_state n = MEMBER_ACTIVE" "om_user_subject m = om_user_subject n"
    "om_organization_id m = om_organization_id n"
  shows "m = n"
  using assms by (simp add: membership_inv_def one_active_def membership_key_def)

lemma membership_lookup_Some:
  assumes "membership_inv t"
  shows "membership_lookup t u i = Some m \<longleftrightarrow> m \<in> set (mt_memberships t) \<and> om_user_subject m = u \<and>
    om_organization_id m = i \<and> om_state m = MEMBER_ACTIVE"
proof
  assume found: "membership_lookup t u i = Some m"
  let ?P = "\<lambda>m. om_user_subject m = u \<and> om_organization_id m = i \<and> om_state m = MEMBER_ACTIVE"
  obtain n where n: "find ?P (mt_memberships t) = Some n"
    using found by (cases "find ?P (mt_memberships t)") (auto simp: membership_lookup_def pg_get_active_membership_def)
  have "check_membership n = Inr n" using find_SomeD [OF n] assms unfolding membership_inv_def members_ok_def by blast
  with found n have "n = m" by (simp add: membership_lookup_def pg_get_active_membership_def)
  with find_SomeD [OF n] show "m \<in> set (mt_memberships t) \<and> om_user_subject m = u \<and> om_organization_id m = i \<and> om_state m = MEMBER_ACTIVE"
    by blast
next
  assume m: "m \<in> set (mt_memberships t) \<and> om_user_subject m = u \<and> om_organization_id m = i \<and> om_state m = MEMBER_ACTIVE"
  let ?P = "\<lambda>m. om_user_subject m = u \<and> om_organization_id m = i \<and> om_state m = MEMBER_ACTIVE"
  obtain n where n: "find ?P (mt_memberships t) = Some n"
    using m by (cases "find ?P (mt_memberships t)") (auto simp: find_None_iff)
  have "n = m" by (rule same_active_membership [OF assms]) (use find_SomeD [OF n] m in auto)
  moreover have "check_membership m = Inr m" using m assms unfolding membership_inv_def members_ok_def by blast
  ultimately show "membership_lookup t u i = Some m" using n by (simp add: membership_lookup_def pg_get_active_membership_def)
qed

lemma membership_lookup_None:
  assumes "membership_inv t"
  shows "membership_lookup t u i = None \<longleftrightarrow>
    (\<forall>m \<in> set (mt_memberships t). om_user_subject m = u \<and> om_organization_id m = i \<longrightarrow> om_state m \<noteq> MEMBER_ACTIVE)"
  using membership_lookup_Some [OF assms, of u i] by (cases "membership_lookup t u i") auto

lemma no_membership_no_access:
  assumes "membership_lookup t u i = None" "areq_principal r = \<lparr>pr_kind = PRINCIPAL_USER, pr_principal_id = u\<rparr>"
    and "resolve (areq_scope_id r) = Some s" "org_id (rs_organization s) = i"
  shows "\<not> ad_allowed (authorize resolve bindings (lk\<lparr>lk_membership := membership_lookup t\<rparr>) r)"
  using assms by (simp add: authorize_def has_active_membership_def)

text \<open>Exactly one membership is touched by a revocation.\<close>

lemma revoked_memberships:
  assumes "membership_inv t" "membership_lookup t u i = Some m"
    and "revoke_active_membership (om_membership_id m) t = (Inr (), t')"
  shows "n \<in> set (mt_memberships t') \<and> om_state n = MEMBER_ACTIVE \<longleftrightarrow>
    n \<in> set (mt_memberships t) \<and> om_state n = MEMBER_ACTIVE \<and> n \<noteq> m"
proof -
  have t': "mt_memberships t' = map (revoke_membership_row (om_membership_id m)) (mt_memberships t)"
    using revoke_cases [OF assms(3)] by auto
  have m: "m \<in> set (mt_memberships t)" using assms(2) by (simp add: membership_lookup_Some [OF assms(1)])
  have kept: "revoke_membership_row (om_membership_id m) n0 = n0" if "om_membership_id n0 \<noteq> om_membership_id m" for n0
    using that by (simp add: revoke_membership_row_def)
  have other: "om_membership_id n0 \<noteq> om_membership_id m \<longleftrightarrow> n0 \<noteq> m" if "n0 \<in> set (mt_memberships t)" for n0
    using same_membership_id [OF assms(1) that m] by blast
  show ?thesis
  proof
    assume n: "n \<in> set (mt_memberships t') \<and> om_state n = MEMBER_ACTIVE"
    then obtain n0 where n0: "n0 \<in> set (mt_memberships t)" "n = revoke_membership_row (om_membership_id m) n0"
      unfolding t' by auto
    then have "om_membership_id n0 \<noteq> om_membership_id m" "om_state n0 = MEMBER_ACTIVE" using n by auto
    with n0 kept [of n0] other [of n0]
    show "n \<in> set (mt_memberships t) \<and> om_state n = MEMBER_ACTIVE \<and> n \<noteq> m" by simp
  next
    assume n: "n \<in> set (mt_memberships t) \<and> om_state n = MEMBER_ACTIVE \<and> n \<noteq> m"
    then have "revoke_membership_row (om_membership_id m) n = n" using kept [of n] other [of n] by simp
    with n show "n \<in> set (mt_memberships t') \<and> om_state n = MEMBER_ACTIVE" unfolding t' by (metis image_eqI set_map)
  qed
qed

lemma revocation_ends_one_membership:
  assumes "membership_inv t" "membership_lookup t u i = Some m"
    and "revoke_active_membership (om_membership_id m) t = (Inr (), t')"
  shows "membership_lookup t' u i = None" and "(v, j) \<noteq> (u, i) \<Longrightarrow> membership_lookup t' v j = membership_lookup t v j"
proof -
  have inv': "membership_inv t'" using assms(1,3) by (rule inv_revoke)
  have m: "m \<in> set (mt_memberships t)" "om_user_subject m = u" "om_organization_id m = i" "om_state m = MEMBER_ACTIVE"
    using assms(2) by (simp_all add: membership_lookup_Some [OF assms(1)])
  note touched = revoked_memberships [OF assms]
  have only: "n = m" if "n \<in> set (mt_memberships t)" "om_state n = MEMBER_ACTIVE" "om_user_subject n = u" "om_organization_id n = i" for n
    using same_active_membership [OF assms(1) that(1) m(1) that(2) m(4)] that(3,4) m(2,3) by simp
  show "membership_lookup t' u i = None" unfolding membership_lookup_None [OF inv']
  proof (intro ballI impI notI)
    fix n assume "n \<in> set (mt_memberships t')" "om_user_subject n = u \<and> om_organization_id n = i" "om_state n = MEMBER_ACTIVE"
    with touched [of n] only [of n] show False by simp
  qed
  assume ne: "(v, j) \<noteq> (u, i)"
  have "membership_lookup t' v j = Some n \<longleftrightarrow> membership_lookup t v j = Some n" for n
    unfolding membership_lookup_Some [OF inv'] membership_lookup_Some [OF assms(1)]
    by (cases "n = m") (use touched [of n] m(2,3) ne in auto)
  then show "membership_lookup t' v j = membership_lookup t v j" by (metis not_Some_eq)
qed

text \<open>Only an acceptance of an invitation gives a user without membership one.\<close>

lemma admitted_by_acceptance:
  assumes "membership_step sha lower idna t t'" "membership_inv t" "membership_lookup t u i = None"
  shows "membership_lookup t' u i = None \<or>
    (\<exists>f d now n. accept_invitation f d u now t = (Inr n, t') \<and> om_organization_id n = i)"
proof -
  have inv': "membership_inv t'" using inv_membership_step assms(1,2) .
  have same: ?thesis if "mt_memberships t' = mt_memberships t"
    using assms(3) that unfolding membership_lookup_None [OF assms(2)] membership_lookup_None [OF inv'] by simp
  from assms(1) show ?thesis
  proof (cases rule: membership_step.cases)
    case (step_invite j x)
    then show ?thesis using create_invitation_cases [OF step_invite] by (intro same) auto
  next
    case (step_accept f d w now y)
    show ?thesis
    proof (cases y)
      case (Inl err)
      with step_accept show ?thesis by (intro same) (auto dest: accept_invitation_Inl)
    next
      case (Inr n)
      with step_accept obtain inv where new: "n = new_membership f w (iv_organization_id inv) now"
        "t' = accepted_tables inv n now t" by (blast elim: accept_invitation_Inr)
      show ?thesis
      proof (cases "w = u \<and> om_organization_id n = i")
        case True
        then show ?thesis using step_accept Inr by blast
      next
        case False
        have "mt_memberships t' = mt_memberships t @ [n]" "om_user_subject n = w"
          by (simp_all add: new accepted_tables_def new_membership_def)
        then have "membership_lookup t' u i = None"
          using assms(3) False unfolding membership_lookup_None [OF assms(2)] membership_lookup_None [OF inv'] by auto
        then show ?thesis ..
      qed
    qed
  next
    case (step_revoke k z)
    then show ?thesis
      using revoke_cases [OF step_revoke] assms(3) unfolding membership_lookup_None [OF assms(2)] membership_lookup_None [OF inv']
      by auto
  qed (rule same, simp)+
qed

lemma reachable_later: "(membership_step sha lower idna)\<^sup>*\<^sup>* t t' \<Longrightarrow> membership_reachable sha lower idna t \<Longrightarrow>
    membership_reachable sha lower idna t'"
  by (induction rule: rtranclp_induct) (auto intro: member_step)

lemma spent_later: "(membership_step sha lower idna)\<^sup>*\<^sup>* t t' \<Longrightarrow> spent d t \<Longrightarrow> spent d t'"
  by (induction rule: rtranclp_induct) (auto intro: spent_step)

lemma accepted_not_spent:
  assumes "membership_inv t" "accept_invitation f d u now t = (Inr n, t')"
  shows "\<not> spent d t"
  using accept_invitation_Inr [OF assms(2)] spent_not_usable [OF assms(1), of d now] by force

lemma readmitted_by_acceptance:
  assumes "(membership_step sha lower idna)\<^sup>*\<^sup>* t t''" "membership_reachable sha lower idna t" "membership_lookup t u i = None"
  shows "membership_lookup t'' u i = None \<or>
    (\<exists>t1 t2 f d now n. (membership_step sha lower idna)\<^sup>*\<^sup>* t t1 \<and> accept_invitation f d u now t1 = (Inr n, t2) \<and>
       om_organization_id n = i \<and> \<not> spent d t \<and> (membership_step sha lower idna)\<^sup>*\<^sup>* t2 t'')"
  using assms(1)
proof (induction rule: rtranclp_induct)
  case base
  show ?case using assms(3) by simp
next
  case (step x y)
  have inv: "membership_inv x" using reachable_later [OF step.hyps(1) assms(2)] membership_reachable_inv by blast
  show ?case
  proof (cases "membership_lookup x u i = None")
    case True
    from admitted_by_acceptance [OF step.hyps(2) inv True] show ?thesis
    proof
      assume "\<exists>f d now n. accept_invitation f d u now x = (Inr n, y) \<and> om_organization_id n = i"
      then obtain f d now n where accepted: "accept_invitation f d u now x = (Inr n, y)" "om_organization_id n = i" by blast
      have "\<not> spent d t" using accepted_not_spent [OF inv accepted(1)] spent_later [OF step.hyps(1)] by blast
      with accepted step.hyps(1) show ?thesis by (intro disjI2 exI conjI) (assumption | rule rtranclp.rtrancl_refl)+
    qed (rule disjI1)
  next
    case False
    with step.IH obtain t1 t2 f d now n where accepted: "(membership_step sha lower idna)\<^sup>*\<^sup>* t t1"
      "accept_invitation f d u now t1 = (Inr n, t2)" "om_organization_id n = i" "\<not> spent d t"
      "(membership_step sha lower idna)\<^sup>*\<^sup>* t2 x" by metis
    note later = rtranclp.rtrancl_into_rtrancl [OF accepted(5) step.hyps(2)]
    show ?thesis by (intro disjI2 exI conjI) (rule accepted(1-4) later)+
  qed
qed

text \<open>
  C33. Revocation ends access: once the active membership of a user was revoked, in every later
  state the user has no active membership of that organization, and the authorizer over the durable
  lookup denies every request of the user for its scopes, whatever role bindings exist; unless
  after the revocation the user accepted an invitation of the organization that was not used up at
  the revocation.  The revocation itself leaves the memberships of other users and organizations as
  they were.
\<close>

theorem revocation_ends_access:
  assumes "membership_reachable sha lower idna t" "membership_lookup t u i = Some m"
    and "revoke_active_membership (om_membership_id m) t = (Inr (), t')"
    and "(membership_step sha lower idna)\<^sup>*\<^sup>* t' t''"
  shows "((membership_lookup t'' u i = None \<and>
      (areq_principal r = \<lparr>pr_kind = PRINCIPAL_USER, pr_principal_id = u\<rparr> \<and>
        resolve (areq_scope_id r) = Some s \<and> org_id (rs_organization s) = i \<longrightarrow>
        \<not> ad_allowed (authorize resolve bindings (lk\<lparr>lk_membership := membership_lookup t''\<rparr>) r))) \<or>
     (\<exists>t1 t2 f d now n. (membership_step sha lower idna)\<^sup>*\<^sup>* t' t1 \<and> accept_invitation f d u now t1 = (Inr n, t2) \<and>
        om_organization_id n = i \<and> \<not> spent d t' \<and> (membership_step sha lower idna)\<^sup>*\<^sup>* t2 t'')) \<and>
    ((v, j) \<noteq> (u, i) \<longrightarrow> membership_lookup t' v j = membership_lookup t v j)"
proof -
  have inv: "membership_inv t" using assms(1) by (blast dest: membership_reachable_inv)
  have reach: "membership_reachable sha lower idna t'" using assms(1,3) by (blast intro: member_step step_revoke)
  note ended = revocation_ends_one_membership [OF inv assms(2,3)]
  from readmitted_by_acceptance [OF assms(4) reach ended(1)] show ?thesis
  proof
    assume gone: "membership_lookup t'' u i = None"
    show ?thesis
      by (intro conjI disjI1 impI gone ended(2)) (use no_membership_no_access [OF gone, of r resolve s bindings lk] in simp_all)
  qed (intro conjI disjI2 impI ended(2))
qed

section \<open>A worked example\<close>

definition demo_invitation :: invitation where
  "demo_invitation = \<lparr>iv_invitation_id = ''invite_1'', iv_organization_id = ''org_1'', iv_canonical_email = ''bob@acme.test'',
     iv_token_digest = replicate 64 (CHR ''b''), iv_expires_at = Aware 100, iv_consumed_at = None\<rparr>"

definition demo_contact :: email_contact where
  "demo_contact = \<lparr>ec_contact_id = ''contact_1'', ec_user_subject = ''usr_2'', ec_email = ''bob@acme.test'',
     ec_canonical_email = ''bob@acme.test'', ec_canonical_domain = ''acme.test'', ec_verified_at = Aware 0\<rparr>"

definition demo_invited :: membership_tables where
  "demo_invited = snd (create_invitation (\<lambda>_. None) demo_invitation
     (empty_membership_tables (demo_active\<lparr>ot_users := ot_users demo_active @ [''usr_2'']\<rparr>) [demo_contact]))"

definition demo_joined :: membership_tables where
  "demo_joined = snd (accept_invitation ''member_1'' (replicate 64 (CHR ''b'')) ''usr_2'' (Aware 50) demo_invited)"

definition demo_member :: organization_membership where
  "demo_member = new_membership ''member_1'' ''usr_2'' ''org_1'' (Aware 50)"

definition demo_left :: membership_tables where
  "demo_left = snd (revoke_active_membership ''member_1'' demo_joined)"

lemma demo_invited_reachable: "membership_reachable demo_sha py_lower (\<lambda>_. None) demo_invited"
proof -
  have "onboarding_reachable demo_sha py_lower (demo_active\<lparr>ot_users := ot_users demo_active @ [''usr_2'']\<rparr>)"
    using demo_active_reachable by (rule reach_step) (rule step_user)
  then have "membership_reachable demo_sha py_lower (\<lambda>_. None)
      (empty_membership_tables (demo_active\<lparr>ot_users := ot_users demo_active @ [''usr_2'']\<rparr>) [demo_contact])"
    by (rule member_empty)
  then show ?thesis unfolding demo_invited_def by (metis member_step prod.collapse step_invite)
qed

lemma demo_accepted: "accept_invitation ''member_1'' (replicate 64 (CHR ''b'')) ''usr_2'' (Aware 50) demo_invited = (Inr demo_member, demo_joined)"
proof -
  have "case fst (accept_invitation ''member_1'' (replicate 64 (CHR ''b'')) ''usr_2'' (Aware 50) demo_invited) of
      Inl _ \<Rightarrow> False | Inr m \<Rightarrow> m = demo_member" by code_simp
  then show ?thesis unfolding demo_joined_def by (auto simp: prod_eq_iff split: sum.splits)
qed

lemma demo_joined_reachable: "membership_reachable demo_sha py_lower (\<lambda>_. None) demo_joined"
  using demo_invited_reachable demo_accepted by (blast intro: member_step step_accept)

lemma demo_member_joined: "demo_member \<in> set (mt_memberships demo_joined)"
proof -
  have "list_ex (\<lambda>m. m = demo_member) (mt_memberships demo_joined)" by code_simp
  then show ?thesis by (auto simp: list_ex_iff)
qed

theorem members_were_invited_by_reviewed_organizations_witness:
  "\<exists>i r q a. invited demo_joined demo_member i \<and> reviewed_by demo_sha (mt_onboarding demo_joined) r q a"
  using members_were_invited_by_reviewed_organizations [OF demo_joined_reachable demo_member_joined] by blast

theorem invitation_admits_once_witness:
  "fst (accept_invitation ''member_9'' (replicate 64 (CHR ''b'')) ''usr_1'' (Aware 51) demo_joined) =
     Inl (OrganizationInvitationNotUsable ''invitation is expired, consumed, or unknown'')"
  using invitation_admits_once [OF demo_invited_reachable demo_accepted rtranclp.rtrancl_refl] by simp

definition demo_request :: access_request where
  "demo_request = \<lparr>areq_principal = \<lparr>pr_kind = PRINCIPAL_USER, pr_principal_id = ''usr_2''\<rparr>,
     areq_action = REQUEST_PROVISION, areq_scope_id = ''scope_1''\<rparr>"

text \<open>After the revocation a second invitation is made; only accepting it would readmit the member.\<close>

definition demo_second_invitation :: invitation where
  "demo_second_invitation = demo_invitation\<lparr>iv_invitation_id := ''invite_2'', iv_token_digest := replicate 64 (CHR ''c'')\<rparr>"

definition demo_reinvited :: membership_tables where
  "demo_reinvited = snd (create_invitation (\<lambda>_. None) demo_second_invitation demo_left)"

lemma membership_step_grows:
  "membership_step sha lower idna t t' \<Longrightarrow> length (mt_memberships t) \<le> length (mt_memberships t')"
proof (induction rule: membership_step.induct)
  case (step_invite i t x t')
  then show ?case by (auto dest!: create_invitation_cases)
next
  case (step_accept f d u now t y t')
  then show ?case by (cases y) (auto dest: accept_invitation_Inl elim!: accept_invitation_Inr simp: accepted_tables_def)
next
  case (step_revoke m t z t')
  then show ?case by (auto dest!: revoke_cases)
qed simp_all

lemma membership_steps_grow:
  "(membership_step sha lower idna)\<^sup>*\<^sup>* t t' \<Longrightarrow> length (mt_memberships t) \<le> length (mt_memberships t')"
  by (induction rule: rtranclp_induct) (auto dest: membership_step_grows)

lemma accepted_grows: "accept_invitation f d u now t = (Inr n, t') \<Longrightarrow> length (mt_memberships t) < length (mt_memberships t')"
  by (auto elim!: accept_invitation_Inr simp: accepted_tables_def)

theorem revocation_ends_access_witness:
  "membership_lookup demo_reinvited ''usr_2'' ''org_1'' = None \<and>
   (\<forall>bindings lk. \<not> ad_allowed (authorize (\<lambda>_. Some demo_resource_scope) bindings (lk\<lparr>lk_membership := membership_lookup demo_reinvited\<rparr>) demo_request)) \<and>
   membership_lookup demo_left ''usr_1'' ''org_1'' = membership_lookup demo_joined ''usr_1'' ''org_1''"
proof -
  have member: "membership_lookup demo_joined ''usr_2'' ''org_1'' = Some demo_member"
    using membership_reachable_inv [OF demo_joined_reachable] demo_member_joined
    by (simp add: membership_lookup_Some) (simp add: demo_member_def new_membership_def)
  have "is_Inr (fst (revoke_active_membership ''member_1'' demo_joined))" by code_simp
  then have left: "revoke_active_membership (om_membership_id demo_member) demo_joined = (Inr (), demo_left)"
    by (auto simp: is_Inr_iff demo_left_def demo_member_def new_membership_def prod_eq_iff)
  have "membership_step demo_sha py_lower (\<lambda>_. None) demo_left demo_reinvited"
    unfolding demo_reinvited_def by (metis prod.collapse step_invite)
  then have steps: "(membership_step demo_sha py_lower (\<lambda>_. None))\<^sup>*\<^sup>* demo_left demo_reinvited" by simp
  have same: "length (mt_memberships demo_reinvited) = length (mt_memberships demo_left)"
    using create_invitation_cases [of "\<lambda>_. None" demo_second_invitation demo_left _ demo_reinvited]
    by (auto simp: demo_reinvited_def prod_eq_iff)
  have never: "\<not> ((membership_step demo_sha py_lower (\<lambda>_. None))\<^sup>*\<^sup>* demo_left t1 \<and>
      accept_invitation f d u now t1 = (Inr n, t2) \<and> om_organization_id n = i \<and> \<not> spent d demo_left \<and>
      (membership_step demo_sha py_lower (\<lambda>_. None))\<^sup>*\<^sup>* t2 demo_reinvited)" for t1 t2 f d u now n i
    using membership_steps_grow accepted_grows same by (metis leD le_less_trans less_le_trans)
  have request: "areq_principal demo_request = \<lparr>pr_kind = PRINCIPAL_USER, pr_principal_id = ''usr_2''\<rparr>"
    "org_id (rs_organization demo_resource_scope) = ''org_1''" by (simp_all add: demo_request_def demo_resource_scope_def)
  note ended = revocation_ends_access [OF demo_joined_reachable member left steps, of demo_request "\<lambda>_. Some demo_resource_scope"
      demo_resource_scope _ _ "''usr_1''" "''org_1''", unfolded request, simplified]
  show ?thesis using ended never by meson
qed

end
