(* ===== verification/Chat_Commands.thy ===== *)
theory Chat_Commands
  imports Py_Text Command_Router
begin

text \<open>
  \<open>gateway/chat_workflow_context.py\<close>, the chat command parser and the contexts a visitor may pick,
  and \<open>gateway/guest_chat_router.py\<close>, the routing of visitors without a session.  The membership and
  review lookups are arguments.
\<close>

section \<open>Contexts and commands\<close>

datatype chat_context_kind =
  CTX_LOGIN | CTX_REGISTER_ACCOUNT | CTX_JOIN_ORGANIZATION | CTX_REGISTER_ORGANIZATION
  | CTX_ONBOARDING_REVIEW | CTX_PROVISION | CTX_HELP

fun context_value :: "chat_context_kind \<Rightarrow> string" where
  "context_value CTX_LOGIN = ''login''"
| "context_value CTX_REGISTER_ACCOUNT = ''register_account''"
| "context_value CTX_JOIN_ORGANIZATION = ''join_organization''"
| "context_value CTX_REGISTER_ORGANIZATION = ''register_organization''"
| "context_value CTX_ONBOARDING_REVIEW = ''onboarding_review''"
| "context_value CTX_PROVISION = ''provision''"
| "context_value CTX_HELP = ''help''"

datatype workflow_run_state = RUN_ACTIVE | RUN_SUSPENDED | RUN_COMPLETED | RUN_CANCELLED

datatype chat_identity_state = IDENTITY_GUEST | IDENTITY_SIGNED_IN | IDENTITY_ORGANIZATION_MEMBER

datatype chat_command_kind =
  CHAT_LOGIN | CHAT_SHOW_CONTEXT | CHAT_SELECT_CONTEXT | CHAT_LIST_RESUMABLE | CHAT_CANCEL_ACTIVE | CHAT_UNKNOWN

record parsed_chat_command =
  cc_kind :: chat_command_kind
  cc_context :: "chat_context_kind option"

definition all_contexts :: "chat_context_kind list" where
  "all_contexts = [CTX_LOGIN, CTX_REGISTER_ACCOUNT, CTX_JOIN_ORGANIZATION, CTX_REGISTER_ORGANIZATION,
     CTX_ONBOARDING_REVIEW, CTX_PROVISION, CTX_HELP]"

definition context_commands :: "(string, chat_context_kind) dict" where
  "context_commands = map (\<lambda>k. (context_value k, k)) all_contexts"

definition plain_command :: "chat_command_kind \<Rightarrow> parsed_chat_command" where
  "plain_command k = \<lparr>cc_kind = k, cc_context = None\<rparr>"

text \<open>A value that is not a string is \<open>None\<close> here, as it is answered like ordinary text.\<close>

definition parse_chat_command :: "string option \<Rightarrow> parsed_chat_command option" where
  "parse_chat_command value =
     (case value of
        None \<Rightarrow> None
      | Some raw \<Rightarrow>
          let normalized = py_strip raw in
          if \<not> starts_with normalized ''/'' then None
          else Some (case py_words normalized of
              [] \<Rightarrow> plain_command CHAT_UNKNOWN
            | command # arguments \<Rightarrow>
                if command = ''/login'' \<and> arguments = [] then plain_command CHAT_LOGIN
                else if command = ''/context''
                then (case arguments of
                    [] \<Rightarrow> plain_command CHAT_SHOW_CONTEXT
                  | [k] \<Rightarrow> (case dict_get context_commands k of
                        Some kind \<Rightarrow> \<lparr>cc_kind = CHAT_SELECT_CONTEXT, cc_context = Some kind\<rparr>
                      | None \<Rightarrow> plain_command CHAT_UNKNOWN)
                  | _ \<Rightarrow> plain_command CHAT_UNKNOWN)
                else if command = ''/resume'' \<and> arguments = [] then plain_command CHAT_LIST_RESUMABLE
                else if command = ''/cancel'' \<and> arguments = [] then plain_command CHAT_CANCEL_ACTIVE
                else plain_command CHAT_UNKNOWN))"

section \<open>Runs and visible contexts\<close>

record active_chat_context =
  ac_kind :: chat_context_kind
  ac_active_run_id :: "string option"
  ac_selected_organization_id :: "string option"

definition check_active_context :: "active_chat_context \<Rightarrow> active_chat_context result" where
  "check_active_context c =
     (if (\<exists>i \<in> set_option (ac_active_run_id c). length i < 8) \<or>
         (\<exists>i \<in> set_option (ac_selected_organization_id c). length i < 5)
      then Inl (ValidationError ''ActiveChatContext'') else Inr c)"

record workflow_run_summary =
  ws_run_id :: string
  ws_context_kind :: chat_context_kind
  ws_state :: workflow_run_state
  ws_title :: string

definition check_run_summary :: "workflow_run_summary \<Rightarrow> workflow_run_summary result" where
  "check_run_summary r =
     (if length (ws_run_id r) < 8 \<or> length (ws_title r) < 1 \<or> 160 < length (ws_title r)
      then Inl (ValidationError ''WorkflowRunSummary'') else Inr r)"

record workflow_run_record =
  wr_run_id :: string
  wr_owner_subject :: string
  wr_context_kind :: chat_context_kind
  wr_state :: workflow_run_state
  wr_summary :: workflow_run_summary

definition check_run_record :: "workflow_run_record \<Rightarrow> workflow_run_record result" where
  "check_run_record r =
     (if length (wr_run_id r) < 8 \<or> wr_owner_subject r = [] then Inl (ValidationError ''WorkflowRunRecord'')
      else bind_result (check_run_summary (wr_summary r)) (\<lambda>_. Inr r))"

definition safe_summary :: "workflow_run_record \<Rightarrow> workflow_run_summary" where
  "safe_summary r = wr_summary r"

record available_contexts =
  av_identity_state :: chat_identity_state
  av_context_kinds :: "chat_context_kind list"

definition contexts_for_principal ::
  "(string \<Rightarrow> bool) \<Rightarrow> (string \<Rightarrow> bool) \<Rightarrow> validated_principal option \<Rightarrow> available_contexts" where
  "contexts_for_principal has_membership may_review who =
     (case who of
        None \<Rightarrow> \<lparr>av_identity_state = IDENTITY_GUEST,
          av_context_kinds = [CTX_LOGIN, CTX_REGISTER_ACCOUNT, CTX_JOIN_ORGANIZATION, CTX_HELP]\<rparr>
      | Some p \<Rightarrow>
          if \<not> has_membership (vp_subject p)
          then \<lparr>av_identity_state = IDENTITY_SIGNED_IN,
            av_context_kinds = [CTX_REGISTER_ORGANIZATION, CTX_JOIN_ORGANIZATION, CTX_HELP]\<rparr>
          else \<lparr>av_identity_state = IDENTITY_ORGANIZATION_MEMBER,
            av_context_kinds = [CTX_PROVISION, CTX_JOIN_ORGANIZATION, CTX_HELP] @
              (if may_review (vp_subject p) then [CTX_ONBOARDING_REVIEW] else [])\<rparr>)"

section \<open>Guests\<close>

datatype guest_intent = GUEST_REGISTER_ACCOUNT | GUEST_JOIN_ORGANIZATION | GUEST_HELP | GUEST_PROTECTED_ACTION

datatype guest_action =
  START_LOGIN | START_REGISTRATION | START_JOIN_ORGANIZATION | SHOW_CONTEXTS | SHOW_HELP | LOGIN_REQUIRED

record guest_route =
  gr_action :: guest_action
  gr_context :: "chat_context_kind option"

definition public_contexts :: "chat_context_kind set" where
  "public_contexts = {CTX_LOGIN, CTX_REGISTER_ACCOUNT, CTX_JOIN_ORGANIZATION, CTX_HELP}"

definition protected_commands :: "string set" where
  "protected_commands = {''/provision'', ''/onboard-org'', ''/review-onboard-org'', ''/onboarding-review''}"

text \<open>\<open>raw_text.strip().split(maxsplit=1)[0]\<close>: the first word; text of spaces only has none and raises.\<close>

definition is_protected_command :: "string \<Rightarrow> bool result" where
  "is_protected_command raw =
     (if raw = [] then Inr False
      else case py_words (py_strip raw) of
        [] \<Rightarrow> Inl (IndexError ''list index out of range'')
      | w # _ \<Rightarrow> Inr (w \<in> protected_commands))"

definition route_public_context :: "chat_context_kind \<Rightarrow> guest_route" where
  "route_public_context k =
     (if k = CTX_LOGIN then \<lparr>gr_action = START_LOGIN, gr_context = Some k\<rparr>
      else if k = CTX_REGISTER_ACCOUNT then \<lparr>gr_action = START_REGISTRATION, gr_context = Some k\<rparr>
      else if k = CTX_JOIN_ORGANIZATION then \<lparr>gr_action = START_JOIN_ORGANIZATION, gr_context = Some k\<rparr>
      else \<lparr>gr_action = SHOW_HELP, gr_context = Some CTX_HELP\<rparr>)"

definition route_command :: "parsed_chat_command \<Rightarrow> string \<Rightarrow> guest_route result" where
  "route_command command raw =
     (if cc_kind command = CHAT_LOGIN then Inr \<lparr>gr_action = START_LOGIN, gr_context = Some CTX_LOGIN\<rparr>
      else if cc_kind command = CHAT_SHOW_CONTEXT then Inr \<lparr>gr_action = SHOW_CONTEXTS, gr_context = None\<rparr>
      else case (if cc_kind command = CHAT_SELECT_CONTEXT then cc_context command else None) of
        Some k \<Rightarrow>
          if k \<in> public_contexts then Inr (route_public_context k)
          else Inr \<lparr>gr_action = SHOW_HELP, gr_context = Some CTX_HELP\<rparr>
      | None \<Rightarrow>
          if cc_kind command = CHAT_UNKNOWN
          then bind_result (is_protected_command raw) (\<lambda>b.
            Inr (if b then \<lparr>gr_action = LOGIN_REQUIRED, gr_context = None\<rparr>
                 else \<lparr>gr_action = SHOW_HELP, gr_context = Some CTX_HELP\<rparr>))
          else Inr \<lparr>gr_action = SHOW_HELP, gr_context = Some CTX_HELP\<rparr>)"

definition guest_chat_route ::
  "parsed_chat_command option \<Rightarrow> guest_intent option \<Rightarrow> string \<Rightarrow> guest_route result" where
  "guest_chat_route command candidate raw =
     (case command of
        Some c \<Rightarrow> route_command c raw
      | None \<Rightarrow> Inr
          (if candidate = Some GUEST_REGISTER_ACCOUNT
           then \<lparr>gr_action = START_REGISTRATION, gr_context = Some CTX_REGISTER_ACCOUNT\<rparr>
           else if candidate = Some GUEST_JOIN_ORGANIZATION
           then \<lparr>gr_action = START_JOIN_ORGANIZATION, gr_context = Some CTX_JOIN_ORGANIZATION\<rparr>
           else if candidate = Some GUEST_PROTECTED_ACTION then \<lparr>gr_action = LOGIN_REQUIRED, gr_context = None\<rparr>
           else \<lparr>gr_action = SHOW_HELP, gr_context = Some CTX_HELP\<rparr>))"

section \<open>The allow-list\<close>

definition known_commands :: "parsed_chat_command list" where
  "known_commands = map plain_command [CHAT_LOGIN, CHAT_SHOW_CONTEXT, CHAT_LIST_RESUMABLE, CHAT_CANCEL_ACTIVE] @
     map (\<lambda>k. \<lparr>cc_kind = CHAT_SELECT_CONTEXT, cc_context = Some k\<rparr>) all_contexts"

definition command_words :: "parsed_chat_command \<Rightarrow> string list" where
  "command_words c =
     (case cc_kind c of
        CHAT_LOGIN \<Rightarrow> [''/login'']
      | CHAT_SHOW_CONTEXT \<Rightarrow> [''/context'']
      | CHAT_SELECT_CONTEXT \<Rightarrow> ''/context'' # map context_value (case cc_context c of None \<Rightarrow> [] | Some k \<Rightarrow> [k])
      | CHAT_LIST_RESUMABLE \<Rightarrow> [''/resume'']
      | CHAT_CANCEL_ACTIVE \<Rightarrow> [''/cancel'']
      | CHAT_UNKNOWN \<Rightarrow> [])"

lemmas command_table = known_commands_def all_contexts_def command_words_def plain_command_def

lemma find_command:
  "find (\<lambda>c. command_words c = [a]) known_commands =
     (if a = ''/login'' then Some (plain_command CHAT_LOGIN) else if a = ''/context'' then Some (plain_command CHAT_SHOW_CONTEXT)
      else if a = ''/resume'' then Some (plain_command CHAT_LIST_RESUMABLE)
      else if a = ''/cancel'' then Some (plain_command CHAT_CANCEL_ACTIVE) else None)"
  "find (\<lambda>c. command_words c = [a, b]) known_commands =
     (if a = ''/context'' then map_option (\<lambda>k. \<lparr>cc_kind = CHAT_SELECT_CONTEXT, cc_context = Some k\<rparr>) (dict_get context_commands b)
      else None)"
  "find (\<lambda>c. command_words c = a # b # d # ws) known_commands = None"
  "find (\<lambda>c. command_words c = []) known_commands = None"
  by (simp_all add: command_table context_commands_def dict_get_def eq_commute [of a] eq_commute [of b])

lemma slash_words:
  assumes "starts_with (py_strip raw) ''/''"
  obtains w ws where "py_words (py_strip raw) = w # ws" and "py_strip raw \<noteq> []"
proof -
  obtain cs where cs: "py_strip raw = CHR ''/'' # cs" using assms by (cases "py_strip raw") (auto simp: starts_with_def)
  have "\<not> py_isspace CHR ''/''" by code_simp
  then show ?thesis using that cs by (simp add: py_words.simps [of "CHR ''/'' # cs"])
qed

text \<open>The command parser is a lookup of the words in the table of the eleven public commands: text that
  does not start with a slash is no command, and any other slash text is UNKNOWN, never a context.\<close>

theorem chat_commands_are_the_allow_list:
  "parse_chat_command (Some raw) =
     (if \<not> starts_with (py_strip raw) ''/'' then None
      else Some (case find (\<lambda>c. command_words c = py_words (py_strip raw)) known_commands of
         Some c \<Rightarrow> c | None \<Rightarrow> plain_command CHAT_UNKNOWN))"
proof (cases "starts_with (py_strip raw) ''/''")
  case True
  then obtain a ws where w: "py_words (py_strip raw) = a # ws" by (rule slash_words)
  show ?thesis
  proof (cases ws)
    case Nil
    with True w show ?thesis by (simp add: parse_chat_command_def Let_def find_command)
  next
    case (Cons b bs)
    with True w show ?thesis
      by (cases bs) (simp_all add: parse_chat_command_def Let_def find_command split: option.splits)
  qed
qed (simp add: parse_chat_command_def Let_def)

section \<open>What a guest reaches\<close>

lemma guest_sees: "set (av_context_kinds (contexts_for_principal member reviewer None)) = public_contexts"
  by (simp add: contexts_for_principal_def public_contexts_def)

lemma protected_is_unknown:
  assumes "py_words (py_strip raw) = w # ws" "w \<in> protected_commands" "starts_with (py_strip raw) ''/''"
  shows "parse_chat_command (Some raw) = Some (plain_command CHAT_UNKNOWN)"
  using assms by (auto simp: parse_chat_command_def Let_def protected_commands_def)

lemma protected_slash:
  assumes "py_words (py_strip raw) = w # ws" "w \<in> protected_commands"
  shows "starts_with (py_strip raw) ''/''"
proof -
  have "\<exists>c cs. dropWhile py_isspace (py_strip raw) = c # cs \<and> hd w = c"
    using assms(1) by (auto simp: py_words.simps [of "py_strip raw"] split: list.splits)
  moreover have "hd w = CHR ''/''" using assms(2) by (auto simp: protected_commands_def)
  moreover have "dropWhile py_isspace (py_strip raw) = py_strip raw"
  proof (cases "py_strip raw")
    case (Cons x xs)
    obtain y ys where y: "py_lstrip raw = y # ys"
      using Cons by (cases "py_lstrip raw") (auto simp: py_strip_def py_rstrip_def)
    then have "\<not> py_isspace y" unfolding py_lstrip_def by (metis dropWhile_eq_Cons_conv)
    moreover have "x = y"
    proof -
      have "rev (dropWhile py_isspace (rev (y # ys))) = x # xs" using Cons y by (simp add: py_strip_def py_rstrip_def)
      then have "dropWhile py_isspace (rev ys @ [y]) = rev xs @ [x]" by (metis rev.simps(2) rev_rev_ident)
      then show ?thesis by (metis dropWhile_append last_snoc snoc_eq_iff_butlast dropWhile.simps \<open>\<not> py_isspace y\<close> append_Nil)
    qed
    ultimately show ?thesis using Cons by simp
  qed simp
  ultimately show ?thesis by (auto simp: starts_with_def)
qed

text \<open>C25. Whatever a visitor without a session types, and whatever intent the classifier proposes, the
  router answers with one of the contexts visible to guests or none, and text that starts with a
  protected command is answered with a request to sign in.\<close>

theorem guests_reach_only_public_workflows:
  "\<exists>g. guest_chat_route (parse_chat_command (Some raw)) candidate raw = Inr g \<and>
     set_option (gr_context g) \<subseteq> set (av_context_kinds (contexts_for_principal member reviewer None)) \<and>
     (py_words (py_strip raw) \<noteq> [] \<and> hd (py_words (py_strip raw)) \<in> protected_commands \<longrightarrow>
        g = \<lparr>gr_action = LOGIN_REQUIRED, gr_context = None\<rparr>)"
proof (cases "starts_with (py_strip raw) ''/''")
  case False
  have "hd (py_words (py_strip raw)) \<notin> protected_commands" if "py_words (py_strip raw) \<noteq> []"
  proof -
    obtain w ws where w: "py_words (py_strip raw) = w # ws" using \<open>py_words (py_strip raw) \<noteq> []\<close> by (meson list.exhaust)
    then show ?thesis using False protected_slash by auto
  qed
  then show ?thesis using False
    by (auto simp: guest_sees guest_chat_route_def parse_chat_command_def Let_def public_contexts_def)
next
  case True
  then obtain w ws where w: "py_words (py_strip raw) = w # ws" and ne: "py_strip raw \<noteq> []" by (rule slash_words)
  from ne have "raw \<noteq> []" by (auto simp: py_strip_def py_rstrip_def py_lstrip_def)
  then have p: "is_protected_command raw = Inr (w \<in> protected_commands)" by (simp add: is_protected_command_def w)
  obtain c where c: "parse_chat_command (Some raw) = Some c" using True by (auto simp: parse_chat_command_def Let_def)
  show ?thesis
  proof (cases "w \<in> protected_commands")
    case True
    with protected_is_unknown [OF w True] \<open>starts_with _ _\<close> p w show ?thesis
      by (simp add: guest_chat_route_def route_command_def plain_command_def)
  next
    case False
    with c p w show ?thesis
      by (auto simp: guest_sees guest_chat_route_def route_command_def route_public_context_def public_contexts_def
          split: option.splits)
  qed
qed

theorem guests_reach_only_public_workflows_witness:
  "guest_chat_route (parse_chat_command (Some '' /provision site'')) (Some GUEST_HELP) '' /provision site'' =
     Inr \<lparr>gr_action = LOGIN_REQUIRED, gr_context = None\<rparr>"
proof -
  have "py_words (py_strip '' /provision site'') = [''/provision'', ''site'']" by code_simp
  with guests_reach_only_public_workflows [of "'' /provision site''" "Some GUEST_HELP"] show ?thesis
    by (auto simp: protected_commands_def)
qed

end
