(* ===== verification/Intake.thy ===== *)
theory Intake
  imports Gateway_Schemas
begin

text \<open>
  The intake workflow: the prefix table and nodes of \<open>workflows/intake\<close> and the routes and tenant
  policy of \<open>gateway/dispatcher.py\<close>.  The language model is an argument, a function of the system
  and the user message and of the outside world that answers tool calls or raises; whatever it
  answers is data.
\<close>

section \<open>The language model\<close>

text \<open>Arguments of a tool call: JSON values, of which the code looks only into texts and objects;
  any other value is known by its truth value.\<close>

datatype arg_value = ArgNone | ArgText string | ArgDict "(string \<times> arg_value) list" | ArgOther bool

fun truthy :: "arg_value \<Rightarrow> bool" where
  "truthy ArgNone = False"
| "truthy (ArgText s) = (s \<noteq> [])"
| "truthy (ArgDict d) = (d \<noteq> [])"
| "truthy (ArgOther b) = b"

record tool_call =
  tc_name :: "arg_value option"
  tc_args :: "arg_value option"

type_synonym 'w llm = "string \<Rightarrow> string \<Rightarrow> 'w \<Rightarrow> tool_call list result \<times> 'w"

text \<open>\<open>call.get("args", {})\<close> and then \<open>args.get(key)\<close>.\<close>

definition call_args :: "tool_call \<Rightarrow> arg_value" where
  "call_args c = (case tc_args c of None \<Rightarrow> ArgDict [] | Some a \<Rightarrow> a)"

fun arg_get :: "arg_value \<Rightarrow> string \<Rightarrow> arg_value result" where
  "arg_get (ArgDict d) k = Inr (case dict_get d k of None \<Rightarrow> ArgNone | Some v \<Rightarrow> v)"
| "arg_get _ k = Inl (AttributeError ''get'')"

text \<open>A field of type \<open>str\<close>.\<close>

fun text_field :: "arg_value \<Rightarrow> string result" where
  "text_field (ArgText s) = Inr s"
| "text_field _ = Inl (ValidationError ''Input should be a valid string'')"

section \<open>Routes and tenant policy\<close>

definition route_table :: "(intent, string) dict" where
  "route_table = [(COMPLIANCE_CHECK, ''compliance_check''), (PROVISION, ''provision'')]"

definition resolve_route_id :: "intent \<Rightarrow> string option" where
  "resolve_route_id i = dict_get route_table i"

definition tenant_policy :: "(string \<times> intent, bool) dict" where
  "tenant_policy = [((''aiq:it'', PROVISION), True)]"

definition check_tenant_policy :: "string \<Rightarrow> intent \<Rightarrow> bool" where
  "check_tenant_policy org_bu i = (case dict_get tenant_policy (org_bu, i) of None \<Rightarrow> False | Some b \<Rightarrow> b)"

definition known_workspaces :: "scope list" where
  "known_workspaces = [\<lparr>s_org = ''aiq'', s_bu = ''it'', s_project = Some ''invoices'', s_workspace = Some ''dev''\<rparr>]"

section \<open>Classification\<close>

definition tier2_prefixes :: "(string, intent) dict" where
  "tier2_prefixes = map (\<lambda>i. (intent_value i @ '': '', i)) all_intents"

definition match_tier2_prefix :: "string \<Rightarrow> intent option" where
  "match_tier2_prefix raw = map_option snd (find (\<lambda>(prefix, i). starts_with raw prefix) tier2_prefixes)"

definition candidates :: "string list" where
  "candidates = map intent_value all_intents"

definition py_tuple :: "string list \<Rightarrow> string" where
  "py_tuple xs = ''('' @ join_with '', '' (map py_repr xs) @ '')''"

definition intake_prompt :: string where
  "intake_prompt = ''Classify the user'' @ [CHR 0x27] @ ''s request into exactly one of these intents: '' @ py_tuple candidates @
     ''. Call select_intent exactly once, with intent set to one of those exact values if you'' @ [CHR 0x27] @
     ''re confident, or clarifying_question set instead if none fit -- never guess an intent outside that list.''"

definition intake_clarification :: "arg_value \<Rightarrow> clarification_question result" where
  "intake_clarification question =
     bind_result (if truthy question then text_field question
        else Inr ''Could not determine which workflow handles this -- please clarify.'')
       (\<lambda>q. Inr \<lparr>q_field = ''intent'', q_question = q, q_choices = candidates\<rparr>)"

record intake_state =
  is_request :: intake_request
  is_result :: "intake_decision option"

text \<open>What the first tool call decides.\<close>

definition read_tool_calls :: "tool_call list \<Rightarrow> intake_decision result" where
  "read_tool_calls calls =
     (case calls of
        [] \<Rightarrow> bind_result (intake_clarification ArgNone) (\<lambda>q. Inr (default_decision\<lparr>d_clarification_questions := [q]\<rparr>))
      | c # _ \<Rightarrow>
          bind_result (arg_get (call_args c) ''intent'') (\<lambda>resolved.
          case (case resolved of ArgText v \<Rightarrow> intent_of_value v | _ \<Rightarrow> None) of
            Some i \<Rightarrow> Inr (default_decision\<lparr>d_intent := Some i\<rparr>)
          | None \<Rightarrow> bind_result (arg_get (call_args c) ''clarifying_question'') (\<lambda>question.
              bind_result (intake_clarification question) (\<lambda>q.
              Inr (default_decision\<lparr>d_clarification_questions := [q]\<rparr>)))))"

definition classify_workflow :: "'w llm \<Rightarrow> (intake_state, 'w) node" where
  "classify_workflow model s w =
     (let raw = ir_raw_text (is_request s) in
      case match_tier2_prefix raw of
        Some i \<Rightarrow> (Inr (s\<lparr>is_result := Some (default_decision\<lparr>d_intent := Some i\<rparr>)\<rparr>), w)
      | None \<Rightarrow>
          (case model intake_prompt raw w of
             (Inl e, w1) \<Rightarrow> (Inl e, w1)
           | (Inr calls, w1) \<Rightarrow>
               (bind_result (read_tool_calls calls) (\<lambda>d. Inr (s\<lparr>is_result := Some d\<rparr>)), w1)))"

definition routed_decision :: "intake_decision \<Rightarrow> intake_decision" where
  "routed_decision d =
     (case d_intent d of
        None \<Rightarrow> d
      | Some i \<Rightarrow>
          (case resolve_route_id i of
             Some route \<Rightarrow> d\<lparr>d_route := Some route, d_ready_to_route := True, d_mutation_requested := (i = PROVISION),
               d_approval_required := False,
               d_evidence := d_evidence d @ [''resolved route='' @ py_repr route @ '' for intent='' @ py_repr (intent_value i)]\<rparr>
           | None \<Rightarrow> d\<lparr>d_route := None, d_ready_to_route := False, d_mutation_requested := (i = PROVISION),
               d_unsupported_reason := Some (''no workflow implemented for intent '' @ py_repr (intent_value i) @ '' yet''),
               d_evidence := d_evidence d @ [''no route available for intent='' @ py_repr (intent_value i)]\<rparr>))"

definition resolve_route :: "(intake_state, 'w) node" where
  "resolve_route s w = (Inr (s\<lparr>is_result := map_option routed_decision (is_result s)\<rparr>), w)"

definition intake_graph :: "'w llm \<Rightarrow> (intake_state, 'w) node" where
  "intake_graph model = and_then (classify_workflow model) resolve_route"

definition run_intake :: "'w llm \<Rightarrow> intake_request \<Rightarrow> 'w \<Rightarrow> intake_decision option result \<times> 'w" where
  "run_intake model request w =
     (case intake_graph model \<lparr>is_request = request, is_result = None\<rparr> w of
        (Inl e, w1) \<Rightarrow> (Inl e, w1)
      | (Inr s, w1) \<Rightarrow> (Inr (is_result s), w1))"

section \<open>What intake can decide\<close>

text \<open>The shapes of a decision that reaches the harness.\<close>

definition decision_shape :: "intake_decision \<Rightarrow> bool" where
  "decision_shape d \<longleftrightarrow> \<not> d_approval_required d \<and>
     (case d_intent d of
        None \<Rightarrow> length (d_clarification_questions d) = 1 \<and> d_route d = None \<and> \<not> d_ready_to_route d \<and>
          \<not> d_mutation_requested d \<and> d_unsupported_reason d = None
      | Some PROVISION \<Rightarrow> d_clarification_questions d = [] \<and> d_route d = Some ''provision'' \<and> d_ready_to_route d \<and>
          d_mutation_requested d \<and> d_unsupported_reason d = None
      | Some COMPLIANCE_CHECK \<Rightarrow> d_clarification_questions d = [] \<and> d_route d = Some ''compliance_check'' \<and>
          d_ready_to_route d \<and> \<not> d_mutation_requested d \<and> d_unsupported_reason d = None
      | Some INQUIRY \<Rightarrow> d_clarification_questions d = [] \<and> d_route d = None \<and> \<not> d_ready_to_route d \<and>
          \<not> d_mutation_requested d \<and> d_unsupported_reason d \<noteq> None)"

lemma routed_intent: "decision_shape (routed_decision (default_decision\<lparr>d_intent := Some i\<rparr>))"
  by (cases i) (simp_all add: decision_shape_def routed_decision_def resolve_route_id_def route_table_def
      default_decision_def dict_get_def)

lemma routed_question: "decision_shape (routed_decision (default_decision\<lparr>d_clarification_questions := [q]\<rparr>))"
  by (simp add: decision_shape_def routed_decision_def default_decision_def)

lemma read_tool_calls_shape:
  "read_tool_calls calls = Inr d \<Longrightarrow> decision_shape (routed_decision d)"
  by (auto simp: read_tool_calls_def result_simps routed_intent routed_question split: list.splits option.splits)

lemma run_intake_shape:
  assumes "run_intake model request w = (Inr r, w')"
  shows "\<exists>d. r = Some d \<and> decision_shape d"
  using assms by (auto simp: run_intake_def intake_graph_def and_then_def classify_workflow_def resolve_route_def Let_def
      result_simps routed_intent dest: read_tool_calls_shape split: option.splits prod.splits sum.splits)


end
