(* ===== verification/Provision_Draft.thy ===== *)
theory Provision_Draft
  imports Intake Scope_Resolution
begin

text \<open>
  The drafting workflow of \<open>workflows/provision\<close>: schemas, the three nodes, the stop condition and
  the graph.  It resolves the scope, lets the model pick the reviewed profile and extract the two
  inputs, and never mutates anything.  The model is the argument of the intake theory; the prompts
  are abbreviated by their purpose, as nothing depends on their text.
\<close>

section \<open>Schemas\<close>

record static_web_request =
  aw_scope :: scope
  aw_artifact_uri :: string
  aw_hostname :: string

definition aws_static_web :: string where
  "aws_static_web = ''aws-static-web''"

definition make_static_web_request :: "scope option \<Rightarrow> arg_value \<Rightarrow> arg_value \<Rightarrow> static_web_request result" where
  "make_static_web_request target artifact hostname =
     (case target of
        None \<Rightarrow> Inl (ValidationError ''AwsStaticWebProvisionRequest'')
      | Some s \<Rightarrow>
          bind_result (text_field artifact) (\<lambda>a.
          bind_result (text_field hostname) (\<lambda>h.
            if a = [] \<or> h = [] then Inl (ValidationError ''AwsStaticWebProvisionRequest'')
            else Inr \<lparr>aw_scope = s, aw_artifact_uri = a, aw_hostname = h\<rparr>)))"

text \<open>\<open>ProfileSelection.model_validate\<close>.\<close>

definition parse_profile_selection :: "arg_value \<Rightarrow> string result" where
  "parse_profile_selection v =
     (case v of
        ArgDict d \<Rightarrow>
          if dict_get d ''profile_id'' = Some (ArgText aws_static_web) then Inr aws_static_web
          else Inl (ValidationError ''ProfileSelection'')
      | _ \<Rightarrow> Inl (ValidationError ''ProfileSelection''))"

record provision_invocation =
  pi_raw_text :: string
  pi_scope_hint :: scope_hint

definition make_provision_invocation :: "string \<Rightarrow> scope_hint \<Rightarrow> provision_invocation result" where
  "make_provision_invocation raw hint =
     (if raw = [] then Inl (ValidationError ''ProvisionInvocation'')
      else Inr \<lparr>pi_raw_text = raw, pi_scope_hint = hint\<rparr>)"

record provision_draft =
  pd_scope :: "scope option"
  pd_profile_id :: "string option"
  pd_application_request :: "static_web_request option"
  pd_clarification_questions :: "clarification_question list"
  pd_unavailable_reason :: "string option"

definition empty_draft :: provision_draft where
  "empty_draft = \<lparr>pd_scope = None, pd_profile_id = None, pd_application_request = None,
     pd_clarification_questions = [], pd_unavailable_reason = None\<rparr>"

definition draft_ready :: "provision_draft \<Rightarrow> bool" where
  "draft_ready d \<longleftrightarrow> pd_application_request d \<noteq> None \<and> pd_clarification_questions d = [] \<and>
     pd_unavailable_reason d = None"

record provision_state =
  pg_invocation :: provision_invocation
  pg_scope :: "scope option"
  pg_profile_id :: "string option"
  pg_result :: provision_draft

section \<open>Nodes\<close>

definition resolve_scope_node :: "scope list \<Rightarrow> execution_grant list \<Rightarrow> (provision_state, 'w) node" where
  "resolve_scope_node known grants s w =
     (bind_result (resolve_scope (pi_scope_hint (pg_invocation s)) known grants) (\<lambda>r.
        if sr_status r = SCOPE_RESOLVED
        then Inr (s\<lparr>pg_scope := sr_scope r, pg_result := empty_draft\<lparr>pd_scope := sr_scope r\<rparr>\<rparr>)
        else if sr_status r = SCOPE_CLARIFICATION_REQUIRED
        then (case sr_clarification r of
            None \<Rightarrow> Inl (ValidationError ''ProvisionDraft'')
          | Some q \<Rightarrow> Inr (s\<lparr>pg_result := empty_draft\<lparr>pd_clarification_questions := [q]\<rparr>\<rparr>))
        else Inr (s\<lparr>pg_result := empty_draft\<lparr>pd_unavailable_reason := sr_public_reason r\<rparr>\<rparr>)), w)"

definition profile_question :: clarification_question where
  "profile_question = \<lparr>q_field = ''profile_id'', q_question = ''Select a supported deployment profile.'',
     q_choices = [aws_static_web]\<rparr>"

definition with_questions :: "clarification_question list \<Rightarrow> provision_state \<Rightarrow> provision_state" where
  "with_questions qs s = s\<lparr>pg_result := (pg_result s)\<lparr>pd_clarification_questions := qs\<rparr>\<rparr>"

text \<open>\<open>args.get("selection", args)\<close>; a failed validation is answered by a question, any other error
  is not caught.\<close>

definition read_selection :: "tool_call list \<Rightarrow> string result" where
  "read_selection calls =
     (case calls of
        [c] \<Rightarrow>
          if tc_name c \<noteq> Some (ArgText ''select_deployment_profile'')
          then Inl (ValueError ''expected one profile-selection tool call'')
          else (case call_args c of
              ArgDict d \<Rightarrow> parse_profile_selection (case dict_get d ''selection'' of None \<Rightarrow> ArgDict d | Some v \<Rightarrow> v)
            | _ \<Rightarrow> Inl (AttributeError ''get''))
      | _ \<Rightarrow> Inl (ValueError ''expected one profile-selection tool call''))"

definition select_prompt :: string where
  "select_prompt = ''Select exactly one reviewed deployment profile. The only available profile is aws-static-web. Call '' @
     ''select_deployment_profile exactly once; do not provide units, edges, credentials, account IDs, or infrastructure code.''"

definition select_profile :: "'w llm \<Rightarrow> (provision_state, 'w) node" where
  "select_profile model s w =
     (case model select_prompt (pi_raw_text (pg_invocation s)) w of
        (Inl e, w1) \<Rightarrow> (Inl e, w1)
      | (Inr calls, w1) \<Rightarrow>
          ((case read_selection calls of
              Inr p \<Rightarrow> Inr (s\<lparr>pg_profile_id := Some p, pg_result := (pg_result s)\<lparr>pd_profile_id := Some p\<rparr>\<rparr>)
            | Inl e \<Rightarrow> if is_value_error e then Inr (with_questions [profile_question] s) else Inl e), w1))"

definition static_web_question :: string where
  "static_web_question = ''To prepare this static website, provide two details: '' @
     ''1) where the built frontend package is, for example s3://releases/invoices-ui.tar.gz, and '' @
     ''2) the website address users should open, for example invoices.dev.example.com. '' @
     ''If you do not have a custom domain yet, say that.''"

definition ask_for_inputs :: "arg_value \<Rightarrow> provision_state \<Rightarrow> provision_state result" where
  "ask_for_inputs question s =
     bind_result (if truthy question then text_field question else Inr static_web_question) (\<lambda>q.
       Inr (with_questions [\<lparr>q_field = ''application_request'', q_question = q, q_choices = []\<rparr>] s))"

definition arg_of :: "tool_call list \<Rightarrow> string \<Rightarrow> arg_value" where
  "arg_of calls k =
     (case calls of
        [c] \<Rightarrow> (case call_args c of
            ArgDict d \<Rightarrow> (case dict_get d k of None \<Rightarrow> ArgNone | Some v \<Rightarrow> v)
          | _ \<Rightarrow> ArgNone)
      | _ \<Rightarrow> ArgNone)"

definition extract_prompt :: string where
  "extract_prompt = ''Extract frontend_artifact_uri and frontend_hostname for the selected aws-static-web profile. Call '' @
     ''extract_aws_static_web_request exactly once. If either value is missing, set clarifying_question instead of guessing.''"

definition extract_profile_request :: "'w llm \<Rightarrow> (provision_state, 'w) node" where
  "extract_profile_request model s w =
     (case model extract_prompt (pi_raw_text (pg_invocation s)) w of
        (Inl e, w1) \<Rightarrow> (Inl e, w1)
      | (Inr calls, w1) \<Rightarrow>
          (let artifact = arg_of calls ''frontend_artifact_uri'';
               hostname = arg_of calls ''frontend_hostname'';
               question = arg_of calls ''clarifying_question'';
               named = (case calls of [c] \<Rightarrow> tc_name c = Some (ArgText ''extract_aws_static_web_request'') | _ \<Rightarrow> False)
           in (if \<not> named \<or> \<not> truthy artifact \<or> \<not> truthy hostname then ask_for_inputs question s
               else (case make_static_web_request (pg_scope s) artifact hostname of
                  Inl _ \<Rightarrow> ask_for_inputs question s
                | Inr r \<Rightarrow> Inr (s\<lparr>pg_result := (pg_result s)\<lparr>pd_application_request := Some r\<rparr>\<rparr>)), w1)))"

definition continue_if_ready :: "provision_state \<Rightarrow> bool" where
  "continue_if_ready s \<longleftrightarrow> pd_clarification_questions (pg_result s) = [] \<and> falsy_text (pd_unavailable_reason (pg_result s))"

definition if_ready :: "(provision_state, 'w) node \<Rightarrow> (provision_state, 'w) node" where
  "if_ready f s = (if continue_if_ready s then f s else Pair (Inr s))"

definition provision_graph :: "'w llm \<Rightarrow> scope list \<Rightarrow> execution_grant list \<Rightarrow> (provision_state, 'w) node" where
  "provision_graph model known grants =
     and_then (resolve_scope_node known grants)
       (if_ready (and_then (select_profile model) (if_ready (extract_profile_request model))))"

definition prepare_provision_request ::
  "provision_invocation \<Rightarrow> 'w llm \<Rightarrow> scope list \<Rightarrow> execution_grant list \<Rightarrow> 'w \<Rightarrow> provision_draft result \<times> 'w" where
  "prepare_provision_request invocation model known grants w =
     (case provision_graph model known grants
        \<lparr>pg_invocation = invocation, pg_scope = None, pg_profile_id = None, pg_result = empty_draft\<rparr> w of
        (Inl e, w1) \<Rightarrow> (Inl e, w1)
      | (Inr s, w1) \<Rightarrow> (Inr (pg_result s), w1))"

section \<open>What a draft contains\<close>

text \<open>A scope the caller may execute in, known to the platform and named by the hint.\<close>

definition granted_scope :: "scope_hint \<Rightarrow> scope list \<Rightarrow> execution_grant list \<Rightarrow> scope \<Rightarrow> bool" where
  "granted_scope hint known grants s \<longleftrightarrow> s \<in> set known \<and> resolve_execution_capability s grants \<noteq> CAP_NONE \<and>
     s = \<lparr>s_org = tenant_org (hint_tenant hint), s_bu = tenant_bu (hint_tenant hint),
          s_project = hint_project hint, s_workspace = hint_workspace hint\<rparr>"

definition draft_ok :: "scope_hint \<Rightarrow> scope list \<Rightarrow> execution_grant list \<Rightarrow> provision_draft \<Rightarrow> bool" where
  "draft_ok hint known grants d \<longleftrightarrow>
     (\<forall>s. pd_scope d = Some s \<longrightarrow> granted_scope hint known grants s) \<and>
     (\<forall>r. pd_application_request d = Some r \<longrightarrow> pd_scope d = Some (aw_scope r) \<and> pd_profile_id d = Some aws_static_web \<and>
        aw_artifact_uri r \<noteq> [] \<and> aw_hostname r \<noteq> []) \<and>
     (pd_profile_id d \<noteq> None \<longrightarrow> pd_scope d \<noteq> None \<and> pd_profile_id d = Some aws_static_web) \<and>
     (draft_ready d \<or> pd_clarification_questions d \<noteq> [] \<or> pd_unavailable_reason d \<noteq> None)"

definition state_ok :: "scope list \<Rightarrow> execution_grant list \<Rightarrow> provision_state \<Rightarrow> bool" where
  "state_ok known grants s \<longleftrightarrow> pd_scope (pg_result s) = pg_scope s \<and> continue_if_ready s \<and>
     pd_application_request (pg_result s) = None \<and> pd_unavailable_reason (pg_result s) = None \<and>
     (\<exists>sc. pg_scope s = Some sc \<and> granted_scope (pi_scope_hint (pg_invocation s)) known grants sc)"

lemma resolve_scope_cases:
  assumes "resolve_scope hint known grants = Inr r"
  shows "(sr_status r = SCOPE_RESOLVED \<and> (\<exists>sc. sr_scope r = Some sc \<and> granted_scope hint known grants sc)) \<or>
    (sr_status r = SCOPE_CLARIFICATION_REQUIRED \<and> sr_clarification r \<noteq> None) \<or>
    (sr_status r = SCOPE_UNAVAILABLE \<and> sr_public_reason r = Some ''target not found or not accessible'')"
  using assms by (auto simp: resolve_scope_def check_scope_resolution_def granted_scope_def Let_def list_ex_iff split: if_splits)

lemma resolve_scope_node_ok:
  assumes "resolve_scope_node known grants s w = (Inr s', w')" "pg_scope s = None"
  shows "w' = w \<and> pg_invocation s' = pg_invocation s \<and> pd_application_request (pg_result s') = None \<and>
    pd_profile_id (pg_result s') = None \<and>
    (state_ok known grants s' \<or> \<not> continue_if_ready s' \<and> pd_scope (pg_result s') = None \<and>
      (pd_clarification_questions (pg_result s') \<noteq> [] \<or> pd_unavailable_reason (pg_result s') \<noteq> None))"
proof -
  obtain r where r: "resolve_scope (pi_scope_hint (pg_invocation s)) known grants = Inr r" "w' = w"
    using assms(1) by (auto simp: resolve_scope_node_def result_simps)
  from resolve_scope_cases [OF r(1)] assms r show ?thesis
    by (auto simp: resolve_scope_node_def state_ok_def continue_if_ready_def falsy_text_def empty_draft_def)
qed

lemma select_profile_ok:
  assumes "select_profile model s w = (Inr s', w')" "state_ok known grants s"
  shows "pg_invocation s' = pg_invocation s \<and> pg_scope s' = pg_scope s \<and> pd_application_request (pg_result s') = None \<and>
    pd_scope (pg_result s') = pd_scope (pg_result s) \<and>
    (pd_clarification_questions (pg_result s') \<noteq> [] \<and> pd_profile_id (pg_result s') = pd_profile_id (pg_result s) \<or>
     state_ok known grants s' \<and> pd_profile_id (pg_result s') = Some aws_static_web)"
  using assms by (auto simp: select_profile_def with_questions_def state_ok_def continue_if_ready_def
      read_selection_def parse_profile_selection_def split: prod.splits sum.splits list.splits if_splits arg_value.splits)

lemma ask_for_inputs_Inr:
  "ask_for_inputs q s = Inr s' \<Longrightarrow> \<exists>c. s' = with_questions [c] s"
  by (auto simp: ask_for_inputs_def result_simps)

lemma make_static_web_request_Inr:
  "make_static_web_request t a h = Inr r \<Longrightarrow> t = Some (aw_scope r) \<and> aw_artifact_uri r \<noteq> [] \<and> aw_hostname r \<noteq> []"
  by (auto simp: make_static_web_request_def result_simps split: option.splits if_splits)

lemma extract_profile_request_ok:
  assumes "extract_profile_request model s w = (Inr s', w')" "state_ok known grants s"
    "pd_profile_id (pg_result s) = Some aws_static_web"
  shows "draft_ok (pi_scope_hint (pg_invocation s)) known grants (pg_result s')"
proof -
  consider (asked) c where "s' = with_questions [c] s"
    | (made) a h r where "make_static_web_request (pg_scope s) a h = Inr r"
        "s' = s\<lparr>pg_result := (pg_result s)\<lparr>pd_application_request := Some r\<rparr>\<rparr>"
    using assms(1) by (auto simp: extract_profile_request_def Let_def dest!: ask_for_inputs_Inr
        split: prod.splits sum.splits if_splits)
  then show ?thesis
  proof cases
    case asked
    with assms show ?thesis by (auto simp: draft_ok_def with_questions_def state_ok_def)
  next
    case made
    with assms make_static_web_request_Inr [OF made(1)] show ?thesis
      by (auto simp: draft_ok_def state_ok_def draft_ready_def continue_if_ready_def)
  qed
qed

lemma drafts_in_scope:
  assumes "prepare_provision_request invocation model known grants w = (Inr d, w')"
  shows "draft_ok (pi_scope_hint invocation) known grants d"
proof -
  let ?s = "\<lparr>pg_invocation = invocation, pg_scope = None, pg_profile_id = None, pg_result = empty_draft\<rparr>"
  obtain s where s: "provision_graph model known grants ?s w = (Inr s, w')" "d = pg_result s"
    using assms by (auto simp: prepare_provision_request_def split: prod.splits sum.splits)
  then obtain s1 w1 where one: "resolve_scope_node known grants ?s w = (Inr s1, w1)"
    "if_ready (and_then (select_profile model) (if_ready (extract_profile_request model))) s1 w1 = (Inr s, w')"
    by (auto simp: provision_graph_def and_then_def split: prod.splits sum.splits)
  note first = resolve_scope_node_ok [OF one(1)]
  show ?thesis
  proof (cases "state_ok known grants s1")
    case False
    with first one(2) s(2) show ?thesis by (auto simp: if_ready_def draft_ok_def)
  next
    case True
    then have "continue_if_ready s1" by (simp add: state_ok_def)
    then obtain s2 w2 where two: "select_profile model s1 w1 = (Inr s2, w2)"
      "if_ready (extract_profile_request model) s2 w2 = (Inr s, w')"
      using one(2) by (auto simp: if_ready_def and_then_def split: prod.splits sum.splits)
    note second = select_profile_ok [OF two(1) True]
    show ?thesis
    proof (cases "continue_if_ready s2")
      case False
      with two(2) second first True s(2) show ?thesis
        by (auto simp: if_ready_def draft_ok_def state_ok_def)
    next
      case ready: True
      then have "extract_profile_request model s2 w2 = (Inr s, w')" using two(2) by (simp add: if_ready_def)
      moreover have "state_ok known grants s2" "pd_profile_id (pg_result s2) = Some aws_static_web"
        using second ready by (auto simp: continue_if_ready_def)
      ultimately have "draft_ok (pi_scope_hint (pg_invocation s2)) known grants (pg_result s)"
        by (rule extract_profile_request_ok)
      then show ?thesis using second first s(2) by simp
    qed
  qed
qed

text \<open>
  A draft stays inside what the caller may execute: whatever the model answers, a returned draft
  names only the hinted scope, known and granted to the caller; a request in it is for that scope,
  for the reviewed profile and complete; and a draft is ready, asks a question or says why not.
\<close>

theorem drafts_stay_in_granted_scope:
  assumes "prepare_provision_request invocation model known grants w = (Inr d, w')"
  shows "draft_ok (pi_scope_hint invocation) known grants d"
  using assms by (rule drafts_in_scope)

definition demo_calls :: "string \<Rightarrow> string \<Rightarrow> nat \<Rightarrow> tool_call list result \<times> nat" where
  "demo_calls system user n =
     (if system = select_prompt
      then (Inr [\<lparr>tc_name = Some (ArgText ''select_deployment_profile''),
        tc_args = Some (ArgDict [(''profile_id'', ArgText ''aws-static-web'')])\<rparr>], n + 1)
      else (Inr [\<lparr>tc_name = Some (ArgText ''extract_aws_static_web_request''),
        tc_args = Some (ArgDict [(''frontend_artifact_uri'', ArgText ''s3://ui''), (''frontend_hostname'', ArgText ''ui.dev'')])\<rparr>], n + 1))"

definition demo_hint :: scope_hint where
  "demo_hint = \<lparr>hint_tenant = \<lparr>tenant_org = ''aiq'', tenant_bu = ''it''\<rparr>, hint_project = Some ''invoices'',
     hint_workspace = Some ''dev''\<rparr>"

definition demo_draft_grants :: "execution_grant list" where
  "demo_draft_grants = [\<lparr>grant_scope = \<lparr>s_org = ''aiq'', s_bu = ''it'', s_project = None, s_workspace = None\<rparr>,
     grant_provider = ''aws'', grant_capability = PLAN\<rparr>]"

theorem drafts_stay_in_granted_scope_witness:
  "\<exists>d. prepare_provision_request \<lparr>pi_raw_text = ''site'', pi_scope_hint = demo_hint\<rparr> demo_calls known_workspaces
      demo_draft_grants 0 = (Inr d, 2) \<and> draft_ready d \<and> draft_ok demo_hint known_workspaces demo_draft_grants d"
proof -
  have "case prepare_provision_request \<lparr>pi_raw_text = ''site'', pi_scope_hint = demo_hint\<rparr> demo_calls known_workspaces
      demo_draft_grants 0 of (Inl e, _) \<Rightarrow> False | (Inr d, n) \<Rightarrow> draft_ready d \<and> n = 2" by code_simp
  then obtain d where d: "prepare_provision_request \<lparr>pi_raw_text = ''site'', pi_scope_hint = demo_hint\<rparr> demo_calls
      known_workspaces demo_draft_grants 0 = (Inr d, 2)" "draft_ready d" by (auto split: prod.splits sum.splits)
  with drafts_stay_in_granted_scope [OF d(1)] show ?thesis by auto
qed

end
