(* ===== verification/Harness.thy ===== *)
theory Harness
  imports Provision_Draft Oidc_Login
begin

text \<open>
  The events of \<open>interaction/events.py\<close> and the harness of \<open>harness/core.py\<close>: the one object every
  transport calls, with the clarifications that wait for an answer as its state.  A call takes the
  fresh event id and the clock readings it uses, and the world the model lives in.
\<close>

section \<open>Events\<close>

datatype event_kind =
  INTAKE_STARTED | ROUTE_RESOLVED | PLAN_STARTED | PLAN_SUMMARY | EXECUTION_STARTED | EXECUTION_PROGRESS
  | EXECUTION_COMPLETED

datatype payload_value = PvNone | PvText string | PvBool bool | PvScope scope | PvRequest static_web_request

record platform_event =
  pe_event_id :: string
  pe_request_id :: string
  pe_kind :: event_kind
  pe_payload :: "(string, payload_value) dict"
  pe_created_at :: datetime

datatype hitl_event_kind = CLARIFICATION_REQUIRED | APPROVAL_REQUIRED

datatype hitl_status = HITL_PENDING | HITL_ANSWERED | HITL_APPROVED | HITL_REJECTED | HITL_EXPIRED | HITL_CANCELLED

datatype hitl_verdict = VERDICT_ANSWER | HITL_APPROVE | HITL_REJECT | HITL_CANCEL

datatype resume_mode = REINVOKE | CHECKPOINT_RESUME

datatype hitl_payload = PayloadDecision intake_decision | PayloadApproval approval_request

record hitl_event =
  he_event_id :: string
  he_request_id :: string
  he_kind :: hitl_event_kind
  he_status :: hitl_status
  he_actor :: "actor_ref option"
  he_payload :: hitl_payload
  he_resume_mode :: resume_mode
  he_created_at :: datetime
  he_expires_at :: "datetime option"

definition check_hitl_event :: "hitl_event \<Rightarrow> hitl_event result" where
  "check_hitl_event e =
     (case he_kind e of
        CLARIFICATION_REQUIRED \<Rightarrow>
          (case he_payload e of
             PayloadApproval _ \<Rightarrow> Inl (ValidationError ''clarification.required must carry an IntakeDecision payload'')
           | PayloadDecision _ \<Rightarrow>
               if he_resume_mode e \<noteq> REINVOKE
               then Inl (ValidationError (''clarification.required must use resume_mode='' @ py_repr ''reinvoke'')) else Inr e)
      | APPROVAL_REQUIRED \<Rightarrow>
          (case he_payload e of
             PayloadDecision _ \<Rightarrow> Inl (ValidationError ''approval.required must carry an ApprovalRequest payload'')
           | PayloadApproval _ \<Rightarrow>
               if he_resume_mode e \<noteq> CHECKPOINT_RESUME
               then Inl (ValidationError (''approval.required must use resume_mode='' @ py_repr ''checkpoint_resume'')) else Inr e))"

record hitl_response =
  hr_event_id :: string
  hr_request_id :: string
  hr_responder :: actor_ref
  hr_verdict :: hitl_verdict
  hr_value :: "string option"
  hr_selected_choice :: "string option"
  hr_approval_digest :: "string option"
  hr_responded_at :: datetime

datatype harness_event = HitlRaised hitl_event | EventEmitted platform_event

section \<open>Waiting clarifications\<close>

definition max_clarification_rounds :: int where
  "max_clarification_rounds = 2"

text \<open>The kind and the one replayed value it comes with: \<open>intake_request\<close>, or \<open>provision_invocation\<close>
  with \<open>provision_round\<close>.\<close>

datatype pending_replay = PendingIntake intake_request | PendingProvision provision_invocation int

record pending_clarification =
  pc_replay :: pending_replay
  pc_interrupt_id :: string
  pc_actor_id :: string
  pc_scope_hint :: "scope_hint option"

type_synonym pending_table = "(string, pending_clarification) dict"

definition route_registry :: "string set" where
  "route_registry = {''provision''}"

definition require_active_session :: "actor_session \<Rightarrow> datetime \<Rightarrow> unit result" where
  "require_active_session a now =
     bind_result (session_is_expired a now) (\<lambda>expired.
       if expired then Inl (ValueError (''session '' @ py_repr (as_session_id a) @ '' is expired'')) else Inr ())"

definition actor_ref_of :: "actor_session \<Rightarrow> actor_ref" where
  "actor_ref_of a = \<lparr>ref_user_id = a_user_id (as_actor a), ref_email = a_email (as_actor a)\<rparr>"

definition text_or_none :: "string option \<Rightarrow> payload_value" where
  "text_or_none v = (case v of None \<Rightarrow> PvNone | Some s \<Rightarrow> PvText s)"

definition route_resolved_event :: "string \<Rightarrow> string \<Rightarrow> intake_decision \<Rightarrow> datetime \<Rightarrow> platform_event" where
  "route_resolved_event event_id request_id d now =
     \<lparr>pe_event_id = event_id, pe_request_id = request_id, pe_kind = ROUTE_RESOLVED,
       pe_payload = [(''intent'', text_or_none (map_option intent_value (d_intent d))), (''route'', text_or_none (d_route d)),
         (''ready_to_route'', PvBool (d_ready_to_route d)), (''mutation_requested'', PvBool (d_mutation_requested d)),
         (''approval_required'', PvBool (d_approval_required d)),
         (''unsupported_reason'', text_or_none (d_unsupported_reason d))],
       pe_created_at = now\<rparr>"

text \<open>Both workflows raise the same event for a question and remember what to replay.\<close>

definition raise_clarification ::
  "actor_session \<Rightarrow> string \<Rightarrow> string \<Rightarrow> datetime \<Rightarrow> intake_decision \<Rightarrow> pending_replay \<Rightarrow> scope_hint option \<Rightarrow> pending_table
     \<Rightarrow> harness_event result \<times> pending_table" where
  "raise_clarification a request_id event_id now payload replay hint table =
     (bind_result (check_hitl_event \<lparr>he_event_id = event_id, he_request_id = request_id, he_kind = CLARIFICATION_REQUIRED,
          he_status = HITL_PENDING, he_actor = Some (actor_ref_of a), he_payload = PayloadDecision payload,
          he_resume_mode = REINVOKE, he_created_at = now, he_expires_at = None\<rparr>) (\<lambda>e. Inr (HitlRaised e)),
      dict_set request_id \<lparr>pc_replay = replay, pc_interrupt_id = event_id, pc_actor_id = a_user_id (as_actor a),
        pc_scope_hint = hint\<rparr> table)"

section \<open>Dispatch\<close>

definition drafted_event :: "string \<Rightarrow> string \<Rightarrow> provision_draft \<Rightarrow> datetime \<Rightarrow> platform_event" where
  "drafted_event event_id request_id d now =
     \<lparr>pe_event_id = event_id, pe_request_id = request_id, pe_kind = ROUTE_RESOLVED,
       pe_payload =
         (case pd_unavailable_reason d of
            Some reason \<Rightarrow> [(''intent'', PvText ''provision''), (''route'', PvText ''provision''), (''ready_to_route'', PvBool False),
              (''mutation_requested'', PvBool True), (''approval_required'', PvBool False), (''unsupported_reason'', PvText reason)]
          | None \<Rightarrow> [(''intent'', PvText ''provision''), (''route'', PvText ''provision''), (''ready_to_route'', PvBool True),
              (''mutation_requested'', PvBool True), (''approval_required'', PvBool False),
              (''profile_id'', text_or_none (pd_profile_id d)),
              (''scope'', (case pd_scope d of None \<Rightarrow> PvNone | Some s \<Rightarrow> PvScope s)),
              (''application_request'', (case pd_application_request d of None \<Rightarrow> PvNone | Some r \<Rightarrow> PvRequest r))]),
       pe_created_at = now\<rparr>"

definition dispatch_provision ::
  "'w llm \<Rightarrow> actor_session \<Rightarrow> string \<Rightarrow> provision_invocation \<Rightarrow> int \<Rightarrow> string \<Rightarrow> datetime \<Rightarrow> pending_table \<times> 'w
     \<Rightarrow> harness_event result \<times> pending_table \<times> 'w" where
  "dispatch_provision model a request_id invocation n event_id now = (\<lambda>(table, w).
     case prepare_provision_request invocation model known_workspaces (a_execution_grants (as_actor a)) w of
       (Inl e, w1) \<Rightarrow> (Inl e, table, w1)
     | (Inr d, w1) \<Rightarrow>
         if pd_clarification_questions d \<noteq> []
         then (case raise_clarification a request_id event_id now
                 (default_decision\<lparr>d_clarification_questions := pd_clarification_questions d\<rparr>)
                 (PendingProvision invocation n) (Some (pi_scope_hint invocation)) table of
             (r, table1) \<Rightarrow> (r, table1, w1))
         else (Inr (EventEmitted (drafted_event event_id request_id d now)), table, w1))"

definition classify ::
  "'w llm \<Rightarrow> actor_session \<Rightarrow> string \<Rightarrow> intake_request \<Rightarrow> scope_hint option \<Rightarrow> string \<Rightarrow> datetime \<Rightarrow> pending_table \<times> 'w
     \<Rightarrow> harness_event result \<times> pending_table \<times> 'w" where
  "classify model a request_id request hint event_id now = (\<lambda>(table, w).
     case run_intake model request w of
       (Inl e, w1) \<Rightarrow> (Inl e, table, w1)
     | (Inr None, w1) \<Rightarrow> (Inl (AttributeError ''clarification_questions''), table, w1)
     | (Inr (Some d), w1) \<Rightarrow>
         if d_clarification_questions d \<noteq> []
         then (case raise_clarification a request_id event_id now d (PendingIntake request) hint table of
             (r, table1) \<Rightarrow> (r, table1, w1))
         else if d_route d \<notin> Some ` route_registry
         then (Inr (EventEmitted (route_resolved_event event_id request_id d now)), table, w1)
         else (case hint of
             Some h \<Rightarrow>
               if \<not> (case d_intent d of None \<Rightarrow> False | Some i \<Rightarrow> check_tenant_policy (tenant_org_bu (hint_tenant h)) i)
               then (Inr (EventEmitted (route_resolved_event event_id request_id
                  (d\<lparr>d_ready_to_route := False, d_unsupported_reason := Some ''tenant not authorized for this route''\<rparr>) now)),
                  table, w1)
               else (case make_provision_invocation (ir_raw_text request) h of
                   Inl e \<Rightarrow> (Inl e, table, w1)
                 | Inr invocation \<Rightarrow> dispatch_provision model a request_id invocation 0 event_id now (table, w1))
           | None \<Rightarrow> (Inr (EventEmitted (route_resolved_event event_id request_id
                  (d\<lparr>d_ready_to_route := False, d_unsupported_reason := Some ''tenant not authorized for this route''\<rparr>) now)),
                  table, w1)))"

section \<open>The two entry points\<close>

definition start_run ::
  "'w llm \<Rightarrow> actor_session \<Rightarrow> string \<Rightarrow> string \<Rightarrow> scope_hint option \<Rightarrow> string \<Rightarrow> datetime \<Rightarrow> datetime
     \<Rightarrow> pending_table \<times> 'w \<Rightarrow> harness_event result \<times> pending_table \<times> 'w" where
  "start_run model a request_id raw hint event_id checked_at now st =
     (case require_active_session a checked_at of
        Inl e \<Rightarrow> (Inl e, st)
      | Inr _ \<Rightarrow> classify model a request_id \<lparr>ir_raw_text = raw, ir_clarification_round = 0\<rparr> hint event_id now st)"

definition clarified :: "string \<Rightarrow> string \<Rightarrow> string" where
  "clarified raw answer = raw @ [CHR 0x0A, CHR 0x0A] @ ''Clarification: '' @ answer"

definition round_cap_reached :: exn where
  "round_cap_reached = ValueError (''clarification round cap ('' @ show_int max_clarification_rounds @ '') already reached'')"

text \<open>The checks before the pending clarification is taken.\<close>

definition resume_guard ::
  "pending_table \<Rightarrow> actor_session \<Rightarrow> string \<Rightarrow> string \<Rightarrow> string \<Rightarrow> datetime \<Rightarrow> pending_clarification result" where
  "resume_guard table a request_id interrupt_id answer checked_at =
     bind_result (require_active_session a checked_at) (\<lambda>_.
     case dict_get table request_id of
       None \<Rightarrow> Inl (ValueError (''no pending clarification for request '' @ py_repr request_id))
     | Some p \<Rightarrow>
         if pc_interrupt_id p \<noteq> interrupt_id
         then Inl (ValueError (''interrupt '' @ py_repr interrupt_id @ '' does not match the pending clarification for request '' @ py_repr request_id))
         else if pc_actor_id p \<noteq> a_user_id (as_actor a)
         then Inl (ValueError ''resume actor does not match the actor who started this run'')
         else if answer = [] then Inl (ValueError ''clarification answer must not be empty'')
         else if max_clarification_rounds \<le> (case pc_replay p of
             PendingIntake r \<Rightarrow> ir_clarification_round r | PendingProvision _ n \<Rightarrow> n) + 1
         then Inl round_cap_reached
         else Inr p)"

definition resume_clarification ::
  "'w llm \<Rightarrow> actor_session \<Rightarrow> string \<Rightarrow> string \<Rightarrow> string \<Rightarrow> string \<Rightarrow> datetime \<Rightarrow> datetime
     \<Rightarrow> pending_table \<times> 'w \<Rightarrow> harness_event result \<times> pending_table \<times> 'w" where
  "resume_clarification model a request_id interrupt_id answer event_id checked_at now = (\<lambda>(table, w).
     case resume_guard table a request_id interrupt_id answer checked_at of
       Inl e \<Rightarrow> (Inl e, table, w)
     | Inr p \<Rightarrow>
         (let table1 = dict_pop request_id table in
          case pc_replay p of
            PendingProvision invocation n \<Rightarrow>
              (case make_provision_invocation (clarified (pi_raw_text invocation) answer) (pi_scope_hint invocation) of
                 Inl e \<Rightarrow> (Inl e, table1, w)
               | Inr invocation1 \<Rightarrow> dispatch_provision model a request_id invocation1 (n + 1) event_id now (table1, w))
          | PendingIntake r \<Rightarrow>
              classify model a request_id \<lparr>ir_raw_text = clarified (ir_raw_text r) answer,
                ir_clarification_round = ir_clarification_round r + 1\<rparr> (pc_scope_hint p) event_id now (table1, w)))"

end
