(* ===== verification/Harness_Properties.thy ===== *)
theory Harness_Properties
  imports Harness
begin

text \<open>
  Histories of the harness: any calls, by any actors, with any answers of the model, while the outside
  world may change between calls.  A run asks at
  most two questions it accepts answers to, only its starter answers them, and a drafted request
  carries the authority of the caller.
\<close>

section \<open>Histories\<close>

datatype harness_call =
    StartCall actor_session string string "scope_hint option" string datetime datetime
  | ResumeCall actor_session string string string string datetime datetime

fun call_actor :: "harness_call \<Rightarrow> actor_session" where
  "call_actor (StartCall a _ _ _ _ _ _) = a"
| "call_actor (ResumeCall a _ _ _ _ _ _) = a"

fun is_start :: "string \<Rightarrow> harness_call \<Rightarrow> bool" where
  "is_start i (StartCall _ j _ _ _ _ _) = (i = j)"
| "is_start i (ResumeCall _ _ _ _ _ _ _) = False"

fun is_resume :: "string \<Rightarrow> harness_call \<Rightarrow> bool" where
  "is_resume i (StartCall _ _ _ _ _ _ _) = False"
| "is_resume i (ResumeCall _ j _ _ _ _ _) = (i = j)"

fun perform :: "'w llm \<Rightarrow> harness_call \<Rightarrow> pending_table \<times> 'w \<Rightarrow> harness_event result \<times> pending_table \<times> 'w" where
  "perform model (StartCall a i raw hint ev t1 t2) st = start_run model a i raw hint ev t1 t2 st"
| "perform model (ResumeCall a i interrupt answer ev t1 t2) st = resume_clarification model a i interrupt answer ev t1 t2 st"

type_synonym harness_log = "(harness_call \<times> harness_event result) list"

inductive harness_run :: "'w llm \<Rightarrow> harness_log \<Rightarrow> pending_table \<Rightarrow> 'w \<Rightarrow> bool" for model where
  run_empty: "harness_run model [] [] w"
| run_world: "harness_run model log table w \<Longrightarrow> harness_run model log table w'"
| run_call: "harness_run model log table w \<Longrightarrow> perform model c (table, w) = (r, table', w') \<Longrightarrow>
     harness_run model (log @ [(c, r)]) table' w'"

definition starts :: "string \<Rightarrow> harness_log \<Rightarrow> nat" where
  "starts i log = length (filter (\<lambda>(c, r). is_start i c) log)"

definition answers :: "string \<Rightarrow> harness_log \<Rightarrow> nat" where
  "answers i log = length (filter (\<lambda>(c, r). is_resume i c \<and> is_Inr r) log)"

section \<open>What a call does to the waiting clarifications\<close>

fun replay_round :: "pending_replay \<Rightarrow> int" where
  "replay_round (PendingIntake r) = ir_clarification_round r"
| "replay_round (PendingProvision _ n) = n"

text \<open>How many answers an entry still admits.\<close>

fun replay_budget :: "pending_replay \<Rightarrow> nat" where
  "replay_budget (PendingIntake r) = (if 1 \<le> ir_clarification_round r then 0 else 2)"
| "replay_budget (PendingProvision _ n) = (if 1 \<le> n then 0 else 1)"

definition budget :: "pending_table \<Rightarrow> string \<Rightarrow> nat" where
  "budget table i = (case dict_get table i of None \<Rightarrow> 0 | Some p \<Rightarrow> replay_budget (pc_replay p))"

definition tenant_allows :: "scope_hint \<Rightarrow> bool" where
  "tenant_allows h = check_tenant_policy (tenant_org_bu (hint_tenant h)) PROVISION"

fun replay_allowed :: "pending_replay \<Rightarrow> bool" where
  "replay_allowed (PendingIntake _) = True"
| "replay_allowed (PendingProvision invocation _) = tenant_allows (pi_scope_hint invocation)"

definition request_authorized :: "actor_session \<Rightarrow> harness_event result \<Rightarrow> bool" where
  "request_authorized a r \<longleftrightarrow> (\<forall>ev req. r = Inr (EventEmitted ev) \<and> (''application_request'', PvRequest req) \<in> set (pe_payload ev) \<longrightarrow>
     aw_scope req \<in> set known_workspaces \<and>
     resolve_execution_capability (aw_scope req) (a_execution_grants (as_actor a)) \<noteq> CAP_NONE \<and>
     check_tenant_policy (scope_org_bu (aw_scope req)) PROVISION)"

text \<open>The entry a call may leave: by this actor, with a replay of a given kind.\<close>

definition leaves :: "pending_table \<Rightarrow> string \<Rightarrow> actor_session \<Rightarrow> (pending_replay \<Rightarrow> bool) \<Rightarrow> pending_table \<Rightarrow> bool" where
  "leaves table i a P table' \<longleftrightarrow> table' = table \<or>
     (\<exists>p. table' = dict_set i p table \<and> pc_actor_id p = a_user_id (as_actor a) \<and> P (pc_replay p))"

lemma raise_clarification_leaves:
  "raise_clarification a i ev now d replay hint table = (r, table') \<Longrightarrow>
     leaves table i a (\<lambda>x. x = replay) table' \<and> request_authorized a r"
  by (auto simp: raise_clarification_def leaves_def request_authorized_def check_hitl_event_def result_simps)

lemma leaves_weaken: "leaves table i a P table' \<Longrightarrow> (\<And>x. P x \<Longrightarrow> Q x) \<Longrightarrow> leaves table i a Q table'"
  by (auto simp: leaves_def)

lemma drafted_request:
  assumes "(''application_request'', PvRequest req) \<in> set (pe_payload (drafted_event ev i d now))"
  shows "pd_application_request d = Some req"
  using assms by (auto simp: drafted_event_def text_or_none_def split: option.splits)

lemma routed_event_request: "(''application_request'', x) \<notin> set (pe_payload (route_resolved_event ev i d now))"
  by (simp add: route_resolved_event_def)

lemma dispatch_provision_leaves:
  assumes "dispatch_provision model a i invocation n ev now (table, w) = (r, table', w')"
    and "tenant_allows (pi_scope_hint invocation)"
  shows "leaves table i a (\<lambda>x. x = PendingProvision invocation n) table' \<and> request_authorized a r"
proof -
  obtain x w1 where x: "prepare_provision_request invocation model known_workspaces (a_execution_grants (as_actor a)) w = (x, w1)"
    by (cases "prepare_provision_request invocation model known_workspaces (a_execution_grants (as_actor a)) w")
  show ?thesis
  proof (cases x)
    case (Inl e)
    with assms(1) x show ?thesis by (auto simp: dispatch_provision_def leaves_def request_authorized_def)
  next
    case (Inr d)
    with x have d: "draft_ok (pi_scope_hint invocation) known_workspaces (a_execution_grants (as_actor a)) d"
      using drafts_in_scope by simp
    show ?thesis
    proof (cases "pd_clarification_questions d = []")
      case False
      with assms(1) x Inr show ?thesis
        by (auto simp: dispatch_provision_def split: prod.splits dest: raise_clarification_leaves)
    next
      case True
      with assms(1) x Inr have r: "r = Inr (EventEmitted (drafted_event ev i d now))" "table' = table"
        by (auto simp: dispatch_provision_def)
      have "request_authorized a r"
        unfolding request_authorized_def r(1)
      proof (intro allI impI)
        fix ev' req
        assume "Inr (EventEmitted (drafted_event ev i d now)) = (Inr (EventEmitted ev') :: harness_event result) \<and>
          (''application_request'', PvRequest req) \<in> set (pe_payload ev')"
        then have "pd_application_request d = Some req" using drafted_request by auto
        with d have g: "granted_scope (pi_scope_hint invocation) known_workspaces (a_execution_grants (as_actor a)) (aw_scope req)"
          by (auto simp: draft_ok_def)
        then have k: "aw_scope req \<in> set known_workspaces"
            "resolve_execution_capability (aw_scope req) (a_execution_grants (as_actor a)) \<noteq> CAP_NONE"
          unfolding granted_scope_def by blast+
        from g have bu: "scope_org_bu (aw_scope req) = tenant_org_bu (hint_tenant (pi_scope_hint invocation))"
          unfolding granted_scope_def scope_org_bu_def tenant_org_bu_def
          by (metis (no_types) scope.select_convs(1,2))
        show "aw_scope req \<in> set known_workspaces \<and>
            resolve_execution_capability (aw_scope req) (a_execution_grants (as_actor a)) \<noteq> CAP_NONE \<and>
            check_tenant_policy (scope_org_bu (aw_scope req)) PROVISION"
          using k assms(2) unfolding bu tenant_allows_def by blast
      qed
      with r(2) show ?thesis by (simp add: leaves_def)
    qed
  qed
qed

lemma classify_leaves:
  assumes "classify model a i request hint ev now (table, w) = (r, table', w')"
  shows "leaves table i a (\<lambda>x. x = PendingIntake request \<or> (\<exists>invocation. x = PendingProvision invocation 0 \<and> replay_allowed x)) table' \<and>
    request_authorized a r"
proof -
  let ?P = "\<lambda>x. x = PendingIntake request \<or> (\<exists>invocation. x = PendingProvision invocation 0 \<and> replay_allowed x)"
  obtain x w1 where x: "run_intake model request w = (x, w1)" by (cases "run_intake model request w")
  show ?thesis
  proof (cases x)
    case (Inl e)
    with assms x show ?thesis by (auto simp: classify_def leaves_def request_authorized_def)
  next
    case (Inr found)
    with x run_intake_shape [of model request w found w1] obtain d where d: "found = Some d" "decision_shape d" by auto
    consider (ask) "d_clarification_questions d \<noteq> []"
      | (event) d' where "r = Inr (EventEmitted (route_resolved_event ev i d' now))" "table' = table"
      | (go) h invocation where "tenant_allows h" "make_provision_invocation (ir_raw_text request) h = Inr invocation"
          "dispatch_provision model a i invocation 0 ev now (table, w1) = (r, table', w')"
      | (bad) e where "r = Inl e" "table' = table"
      using assms x Inr d unfolding classify_def
      by (auto simp: route_registry_def decision_shape_def tenant_allows_def
          split: if_splits option.splits sum.splits intent.splits)
    then show ?thesis
    proof cases
      case ask
      with assms x Inr d(1) have "leaves table i a (\<lambda>x. x = PendingIntake request) table' \<and> request_authorized a r"
        by (auto simp: classify_def split: prod.splits dest: raise_clarification_leaves)
      then show ?thesis by (blast intro: leaves_weaken)
    next
      case event
      then show ?thesis by (auto simp: leaves_def request_authorized_def routed_event_request)
    next
      case go
      have hint: "pi_scope_hint invocation = h" using go(2) by (auto simp: make_provision_invocation_def split: if_splits)
      with dispatch_provision_leaves [OF go(3)] go(1)
      have "leaves table i a (\<lambda>x. x = PendingProvision invocation 0) table' \<and> request_authorized a r" by simp
      with hint go(1) show ?thesis by (auto intro: leaves_weaken)
    next
      case bad
      then show ?thesis by (auto simp: leaves_def request_authorized_def)
    qed
  qed
qed

text \<open>A resume that passes its checks takes the entry first.\<close>

lemma resume_guard_Inr:
  assumes "resume_guard table a i interrupt answer t = Inr p"
  shows "dict_get table i = Some p \<and> pc_interrupt_id p = interrupt \<and> pc_actor_id p = a_user_id (as_actor a) \<and>
    answer \<noteq> [] \<and> replay_round (pc_replay p) < 1"
  using assms by (auto simp: resume_guard_def result_simps max_clarification_rounds_def
      split: option.splits if_splits pending_replay.splits)

lemma resume_leaves:
  assumes "resume_clarification model a i interrupt answer ev t1 t2 (table, w) = (r, table', w')"
    and allowed: "\<forall>p. dict_get table i = Some p \<longrightarrow> replay_allowed (pc_replay p) \<and> 0 \<le> replay_round (pc_replay p)"
  shows "(\<exists>e. r = Inl e) \<and> table' = table \<and> w' = w \<or>
    (\<exists>p. resume_guard table a i interrupt answer t1 = Inr p \<and> request_authorized a r \<and>
       leaves (dict_pop i table) i a (\<lambda>x. replay_allowed x \<and> replay_budget x < replay_budget (pc_replay p) \<and>
         0 \<le> replay_round x) table')"
proof (cases "resume_guard table a i interrupt answer t1")
  case (Inl e)
  with assms(1) show ?thesis by (auto simp: resume_clarification_def)
next
  case (Inr p)
  note guard = resume_guard_Inr [OF Inr]
  show ?thesis
  proof (cases "pc_replay p")
    case (PendingIntake q)
    with assms(1) Inr have "classify model a i \<lparr>ir_raw_text = clarified (ir_raw_text q) answer,
        ir_clarification_round = ir_clarification_round q + 1\<rparr> (pc_scope_hint p) ev t2 (dict_pop i table, w) = (r, table', w')"
      by (simp add: resume_clarification_def Let_def)
    moreover have "0 \<le> ir_clarification_round q" using allowed guard PendingIntake by auto
    ultimately show ?thesis using classify_leaves guard PendingIntake Inr
      by (intro disjI2 exI [of _ p]) (fastforce elim!: leaves_weaken)
  next
    case (PendingProvision q n)
    show ?thesis
    proof (cases "make_provision_invocation (clarified (pi_raw_text q) answer) (pi_scope_hint q)")
      case (Inl e)
      with assms(1) Inr PendingProvision show ?thesis
        by (intro disjI2 exI [of _ p]) (auto simp: resume_clarification_def Let_def leaves_def request_authorized_def)
    next
      case (Inr q1)
      with assms(1) \<open>resume_guard table a i interrupt answer t1 = Inr p\<close> PendingProvision
      have run: "dispatch_provision model a i q1 (n + 1) ev t2 (dict_pop i table, w) = (r, table', w')"
        by (simp add: resume_clarification_def Let_def)
      have hint: "pi_scope_hint q1 = pi_scope_hint q" using Inr by (auto simp: make_provision_invocation_def split: if_splits)
      have "tenant_allows (pi_scope_hint q1)" and n: "0 \<le> n" using allowed guard PendingProvision hint by auto
      from dispatch_provision_leaves [OF run this(1)] n guard PendingProvision \<open>resume_guard _ _ _ _ _ _ = Inr p\<close> \<open>tenant_allows (pi_scope_hint q1)\<close> show ?thesis
        by (intro disjI2 exI [of _ p]) (auto elim!: leaves_weaken)
    qed
  qed
qed

section \<open>One call\<close>

definition table_ok :: "pending_table \<Rightarrow> bool" where
  "table_ok table \<longleftrightarrow> (\<forall>i p. dict_get table i = Some p \<longrightarrow> replay_allowed (pc_replay p) \<and> 0 \<le> replay_round (pc_replay p))"

definition user_of :: "actor_session \<Rightarrow> string" where
  "user_of a = a_user_id (as_actor a)"

lemma leaves_table_ok:
  assumes "leaves table i a P table'" "table_ok table" "\<And>x. P x \<Longrightarrow> replay_allowed x \<and> 0 \<le> replay_round x"
  shows "table_ok table'"
  using assms by (auto simp: leaves_def table_ok_def dict_simps split: if_splits)

lemma leaves_actor:
  "leaves table i a P table' \<Longrightarrow> dict_get table' j = Some p \<Longrightarrow> dict_get table j = Some p \<or> j = i \<and> pc_actor_id p = user_of a"
  by (auto simp: leaves_def user_of_def dict_simps split: if_splits)

lemma leaves_budget:
  assumes "leaves table i a P table'" "\<And>x. P x \<Longrightarrow> replay_budget x \<le> n" "budget table i \<le> n"
  shows "budget table' i \<le> n" and "j \<noteq> i \<Longrightarrow> budget table' j = budget table j"
  using assms by (auto simp: leaves_def budget_def dict_simps)

lemma table_ok_pop: "table_ok table \<Longrightarrow> table_ok (dict_pop i table)"
  by (simp add: table_ok_def dict_simps)

lemma budget_pop: "budget (dict_pop i table) j = (if j = i then 0 else budget table j)"
  by (simp add: budget_def dict_simps)

lemma replay_budget_positive: "replay_round x < 1 \<Longrightarrow> 0 < replay_budget x"
  by (cases x) auto

lemma replay_budget_le: "replay_budget x \<le> 2"
  by (cases x) auto

lemma budget_le: "budget table i \<le> 2"
  by (simp add: budget_def replay_budget_le split: option.splits)

definition call_ok :: "harness_call \<Rightarrow> harness_event result \<Rightarrow> pending_table \<Rightarrow> pending_table \<Rightarrow> bool" where
  "call_ok c r table table' \<longleftrightarrow> request_authorized (call_actor c) r \<and> table_ok table' \<and>
     (\<forall>i p. dict_get table' i = Some p \<longrightarrow> dict_get table i = Some p \<or>
        pc_actor_id p = user_of (call_actor c) \<and> (is_start i c \<or>
          (\<exists>p0. is_resume i c \<and> dict_get table i = Some p0 \<and> pc_actor_id p0 = pc_actor_id p))) \<and>
     (\<forall>i. is_resume i c \<and> is_Inr r \<longrightarrow> (\<exists>p. dict_get table i = Some p \<and> pc_actor_id p = user_of (call_actor c))) \<and>
     (\<forall>i. budget table' i + (if is_resume i c \<and> is_Inr r then 1 else 0) \<le> budget table i + (if is_start i c then 2 else 0))"

lemma start_ok:
  assumes "start_run model a i raw hint ev t1 t2 (table, w) = (r, table', w')" "table_ok table"
  shows "call_ok (StartCall a i raw hint ev t1 t2) r table table'"
proof (cases "require_active_session a t1")
  case (Inl e)
  with assms show ?thesis by (auto simp: start_run_def call_ok_def request_authorized_def)
next
  case (Inr u)
  with assms(1) have run: "classify model a i \<lparr>ir_raw_text = raw, ir_clarification_round = 0\<rparr> hint ev t2 (table, w) = (r, table', w')"
    by (simp add: start_run_def)
  define P where "P = (\<lambda>x. replay_allowed x \<and> 0 \<le> replay_round x)"
  have l: "leaves table i a P table'" and auth: "request_authorized a r"
    using classify_leaves [OF run] by (auto simp: P_def elim!: leaves_weaken)
  have ok: "table_ok table'" using leaves_table_ok [OF l assms(2)] by (simp add: P_def)
  have b: "budget table' j \<le> budget table j + (if i = j then 2 else 0)" for j
    using leaves_budget(2) [OF l replay_budget_le budget_le] budget_le [of table' j] by (cases "i = j") auto
  have "dict_get table' j = Some p \<Longrightarrow> dict_get table j = Some p \<or> pc_actor_id p = user_of a \<and> j = i" for j p
    using leaves_actor [OF l] by blast
  moreover have "\<forall>j. budget table' j + (if is_resume j (StartCall a i raw hint ev t1 t2) \<and> is_Inr r then 1 else 0)
      \<le> budget table j + (if is_start j (StartCall a i raw hint ev t1 t2) then 2 else 0)"
  proof
    fix j
    show "budget table' j + (if is_resume j (StartCall a i raw hint ev t1 t2) \<and> is_Inr r then 1 else 0)
      \<le> budget table j + (if is_start j (StartCall a i raw hint ev t1 t2) then 2 else 0)"
      using b [of j] by (auto split: if_splits)
  qed
  ultimately show ?thesis using ok auth unfolding call_ok_def by simp
qed

lemma resume_ok:
  assumes "resume_clarification model a i interrupt answer ev t1 t2 (table, w) = (r, table', w')" "table_ok table"
  shows "call_ok (ResumeCall a i interrupt answer ev t1 t2) r table table'"
proof -
  have "\<forall>p. dict_get table i = Some p \<longrightarrow> replay_allowed (pc_replay p) \<and> 0 \<le> replay_round (pc_replay p)"
    using assms(2) by (simp add: table_ok_def)
  from resume_leaves [OF assms(1) this] show ?thesis
  proof (elim disjE exE conjE)
    fix e
    assume "r = Inl e" "table' = table"
    then show ?thesis using assms(2) by (auto simp: call_ok_def request_authorized_def)
  next
    fix p :: pending_clarification
    let ?P = "\<lambda>x. replay_allowed x \<and> replay_budget x < replay_budget (pc_replay p) \<and> 0 \<le> replay_round x"
    assume "resume_guard table a i interrupt answer t1 = Inr p" and auth: "request_authorized a r"
      and l: "leaves (dict_pop i table) i a ?P table'"
    then have p: "dict_get table i = Some p" "pc_actor_id p = user_of a" "replay_round (pc_replay p) < 1"
      by (auto dest: resume_guard_Inr simp: user_of_def)
    have ok: "table_ok table'" using leaves_table_ok [OF l table_ok_pop [OF assms(2)]] by simp
    define n where "n = replay_budget (pc_replay p) - 1"
    have n: "budget table i = n + 1" using p replay_budget_positive [OF p(3)] by (simp add: budget_def n_def)
    have le: "?P x \<Longrightarrow> replay_budget x \<le> n" for x by (auto simp: n_def)
    have b: "budget table' i \<le> n" by (rule leaves_budget(1) [OF l le]) (simp_all add: budget_pop)
    have b2: "j \<noteq> i \<Longrightarrow> budget table' j = budget table j" for j
      using leaves_budget(2) [OF l le, of j] by (simp add: budget_pop)
    have e: "dict_get table' j = Some q \<Longrightarrow> dict_get table j = Some q \<or> pc_actor_id q = user_of a \<and> j = i" for j q
      using leaves_actor [OF l, of j q] by (auto simp: dict_simps split: if_splits)
    have "budget table' j + (if j = i \<and> is_Inr r then 1 else 0) \<le> budget table j" for j
      using b b2 n by (cases "j = i") auto
    moreover have "\<forall>j q. dict_get table' j = Some q \<longrightarrow> dict_get table j = Some q \<or> pc_actor_id q = user_of a \<and>
        (\<exists>p0. j = i \<and> dict_get table j = Some p0 \<and> pc_actor_id p0 = pc_actor_id q)"
      using e p by metis
    ultimately show ?thesis using ok auth p unfolding call_ok_def by auto
  qed
qed

lemma perform_ok: "perform model c (table, w) = (r, table', w') \<Longrightarrow> table_ok table \<Longrightarrow> call_ok c r table table'"
  by (cases c) (auto intro: start_ok resume_ok)

section \<open>Every history\<close>

definition started_by :: "harness_log \<Rightarrow> string \<Rightarrow> string \<Rightarrow> bool" where
  "started_by log i u \<longleftrightarrow> (\<exists>(c, r) \<in> set log. is_start i c \<and> user_of (call_actor c) = u)"

definition history_ok :: "harness_log \<Rightarrow> pending_table \<Rightarrow> bool" where
  "history_ok log table \<longleftrightarrow> table_ok table \<and> (\<forall>i. answers i log + budget table i \<le> 2 * starts i log) \<and>
     (\<forall>i p. dict_get table i = Some p \<longrightarrow> started_by log i (pc_actor_id p)) \<and>
     (\<forall>(c, r) \<in> set log. request_authorized (call_actor c) r)"

lemma started_by_snoc: "started_by (log @ [(c, r)]) i u \<longleftrightarrow> started_by log i u \<or> is_start i c \<and> user_of (call_actor c) = u"
  by (auto simp: started_by_def)

lemma counts_snoc:
  "starts i (log @ [(c, r)]) = starts i log + (if is_start i c then 1 else 0)"
  "answers i (log @ [(c, r)]) = answers i log + (if is_resume i c \<and> is_Inr r then 1 else 0)"
  by (simp_all add: starts_def answers_def)

lemma history_step:
  assumes "history_ok log table" "call_ok c r table table'"
  shows "history_ok (log @ [(c, r)]) table'"
proof -
  have "answers i (log @ [(c, r)]) + budget table' i \<le> 2 * starts i (log @ [(c, r)])" for i
  proof -
    have "answers i log + budget table i \<le> 2 * starts i log" using assms(1) by (simp add: history_ok_def)
    moreover have "budget table' i + (if is_resume i c \<and> is_Inr r then 1 else 0) \<le> budget table i + (if is_start i c then 2 else 0)"
      using assms(2) unfolding call_ok_def by blast
    ultimately show ?thesis unfolding counts_snoc by (cases "is_resume i c \<and> is_Inr r"; cases "is_start i c") auto
  qed
  moreover have "started_by (log @ [(c, r)]) i (pc_actor_id p)" if "dict_get table' i = Some p" for i p
  proof -
    have "dict_get table i = Some p \<or> pc_actor_id p = user_of (call_actor c) \<and> (is_start i c \<or>
        (\<exists>p0. is_resume i c \<and> dict_get table i = Some p0 \<and> pc_actor_id p0 = pc_actor_id p))"
      using assms(2) that unfolding call_ok_def by blast
    moreover have "dict_get table i = Some q \<Longrightarrow> started_by log i (pc_actor_id q)" for q
      using assms(1) by (simp add: history_ok_def)
    ultimately show ?thesis unfolding started_by_snoc by metis
  qed
  moreover have "request_authorized (call_actor c) r" "table_ok table'" using assms(2) by (simp_all add: call_ok_def)
  ultimately show ?thesis using assms(1) by (simp add: history_ok_def)
qed

lemma run_history_ok: "harness_run model log table w \<Longrightarrow> history_ok log table"
proof (induction rule: harness_run.induct)
  case (run_empty w)
  show ?case by (simp add: history_ok_def table_ok_def budget_def answers_def starts_def dict_simps)
next
  case (run_world log table w w')
  then show ?case by simp
next
  case (run_call log table w c r table' w')
  then have "table_ok table" by (simp add: history_ok_def)
  with run_call show ?case by (blast intro: history_step perform_ok)
qed

lemma run_prefix:
  assumes "harness_run model (before @ (c, r) # after) table w"
  shows "\<exists>t1 w1 t2 w2. harness_run model before t1 w1 \<and> perform model c (t1, w1) = (r, t2, w2)"
  using assms
proof (induction "before @ (c, r) # after" table w arbitrary: after rule: harness_run.induct)
  case run_empty
  then show ?case by simp
next
  case (run_world log table w w')
  then show ?case by blast
next
  case (run_call log table w c' r' table' w')
  show ?case
  proof (cases after rule: rev_cases)
    case Nil
    with run_call show ?thesis by auto
  next
    case (snoc rest x)
    with run_call.hyps(4) have "log = before @ (c, r) # rest" by auto
    then show ?thesis by (rule run_call.hyps(2))
  qed
qed

section \<open>The properties\<close>

text \<open>C8. However a run goes, the harness accepts at most two answers for each time a request id was
  started: the clarification rounds of both workflows together stay under the cap.\<close>

theorem clarification_answers_bounded:
  assumes "harness_run model log table w"
  shows "answers i log \<le> 2 * starts i log"
  using run_history_ok [OF assms] by (fastforce simp: history_ok_def dest: add_leD1)

text \<open>C20. An answer is accepted only from a user who started a run of that request id earlier.\<close>

theorem only_the_starter_answers:
  assumes "harness_run model (before @ (c, Inr e) # after) table w" "is_resume i c"
  shows "\<exists>(c0, r0) \<in> set before. is_start i c0 \<and> user_of (call_actor c0) = user_of (call_actor c)"
proof -
  obtain t1 w1 t2 w2 where run: "harness_run model before t1 w1" and step: "perform model c (t1, w1) = (Inr e, t2, w2)"
    using run_prefix [OF assms(1)] by blast
  note ok = run_history_ok [OF run]
  then have "call_ok c (Inr e) t1 t2" using perform_ok [OF step] by (simp add: history_ok_def)
  then obtain p where "dict_get t1 i = Some p" "pc_actor_id p = user_of (call_actor c)"
    using assms(2) unfolding call_ok_def by auto
  with ok have "started_by before i (user_of (call_actor c))" unfolding history_ok_def by metis
  then show ?thesis by (simp add: started_by_def)
qed

text \<open>C7. Every application request the harness announces is for a registered workspace that the
  caller's execution grants cover and whose tenant may be provisioned, whatever the model answered and
  however many clarifications came before.\<close>

theorem drafted_requests_carry_authority:
  assumes "harness_run model log table w" "(c, Inr (EventEmitted ev)) \<in> set log"
    and "(''application_request'', PvRequest req) \<in> set (pe_payload ev)"
  shows "aw_scope req \<in> set known_workspaces \<and>
    resolve_execution_capability (aw_scope req) (a_execution_grants (as_actor (call_actor c))) \<noteq> CAP_NONE \<and>
    check_tenant_policy (scope_org_bu (aw_scope req)) PROVISION"
proof -
  have "request_authorized (call_actor c) (Inr (EventEmitted ev))"
    using run_history_ok [OF assms(1)] assms(2) by (fastforce simp: history_ok_def)
  with assms(3) show ?thesis unfolding request_authorized_def by blast
qed

section \<open>A run with one question\<close>

text \<open>The second call of the model finds no hostname, so the harness asks; the answer completes the request.\<close>

definition demo_asking :: "string \<Rightarrow> string \<Rightarrow> nat \<Rightarrow> tool_call list result \<times> nat" where
  "demo_asking system user n = (if n = 1 then (Inr [], 2) else demo_calls system user n)"

definition demo_actor :: actor_session where
  "demo_actor = \<lparr>as_session_id = ''s1'', as_actor = \<lparr>a_user_id = ''alice'', a_email = ''alice@x.io'',
     a_execution_grants = demo_draft_grants, a_approval_grants = [], a_resolved_at = Aware 0\<rparr>,
     as_groups = [], as_created_at = Aware 0, as_expires_at = Aware 900\<rparr>"

definition demo_start :: harness_call where
  "demo_start = StartCall demo_actor ''r1'' ''provision: site'' (Some demo_hint) ''e1'' (Aware 1) (Aware 1)"

definition demo_resume :: harness_call where
  "demo_resume = ResumeCall demo_actor ''r1'' ''e1'' ''ui.dev'' ''e2'' (Aware 2) (Aware 2)"

definition demo_first :: "harness_event result \<times> pending_table \<times> nat" where
  "demo_first = perform demo_asking demo_start ([], 0)"

definition demo_second :: "harness_event result \<times> pending_table \<times> nat" where
  "demo_second = perform demo_asking demo_resume (snd demo_first)"

lemma demo_run: "harness_run demo_asking ([] @ [(demo_start, fst demo_first)]) (fst (snd demo_first)) (snd (snd demo_first))"
  by (rule run_call [OF run_empty]) (simp add: demo_first_def)

lemma demo_history:
  "harness_run demo_asking ([(demo_start, fst demo_first)] @ (demo_resume, fst demo_second) # [])
     (fst (snd demo_second)) (snd (snd demo_second))"
proof -
  have "perform demo_asking demo_resume (fst (snd demo_first), snd (snd demo_first)) =
      (fst demo_second, fst (snd demo_second), snd (snd demo_second))"
    by (simp add: demo_second_def)
  from run_call [OF demo_run this] show ?thesis by simp
qed

lemma demo_emits:
  "case fst demo_second of
     Inr (EventEmitted ev) \<Rightarrow>
       (''application_request'', PvRequest \<lparr>aw_scope = \<lparr>s_org = ''aiq'', s_bu = ''it'', s_project = Some ''invoices'',
          s_workspace = Some ''dev''\<rparr>, aw_artifact_uri = ''s3://ui'', aw_hostname = ''ui.dev''\<rparr>) \<in> set (pe_payload ev)
   | _ \<Rightarrow> False"
  by code_simp

lemma demo_emitted:
  obtains ev where "fst demo_second = Inr (EventEmitted ev)"
    and "(''application_request'', PvRequest \<lparr>aw_scope = \<lparr>s_org = ''aiq'', s_bu = ''it'', s_project = Some ''invoices'',
      s_workspace = Some ''dev''\<rparr>, aw_artifact_uri = ''s3://ui'', aw_hostname = ''ui.dev''\<rparr>) \<in> set (pe_payload ev)"
  using demo_emits by (cases "fst demo_second") (auto split: harness_event.splits)

lemmas demo_calls_defs = demo_start_def demo_resume_def

theorem clarification_answers_bounded_witness:
  "\<exists>log table w. harness_run demo_asking log table w \<and> answers ''r1'' log = 1 \<and> starts ''r1'' log = 1 \<and>
     answers ''r1'' log \<le> 2 * starts ''r1'' log"
proof -
  obtain ev where "fst demo_second = Inr (EventEmitted ev)" by (rule demo_emitted)
  then have "answers ''r1'' ([(demo_start, fst demo_first)] @ (demo_resume, fst demo_second) # []) = 1"
    "starts ''r1'' ([(demo_start, fst demo_first)] @ (demo_resume, fst demo_second) # []) = 1"
    by (simp_all add: answers_def starts_def demo_calls_defs)
  with demo_history clarification_answers_bounded [OF demo_history, of "''r1''"] show ?thesis by metis
qed

theorem only_the_starter_answers_witness:
  "(\<exists>e. fst demo_second = Inr e) \<and> (\<exists>(c0, r0) \<in> set [(demo_start, fst demo_first)]. is_start ''r1'' c0 \<and>
      user_of (call_actor c0) = user_of (call_actor demo_resume))"
proof -
  obtain ev where ev: "fst demo_second = Inr (EventEmitted ev)" by (rule demo_emitted)
  have "is_resume ''r1'' demo_resume" by (simp add: demo_resume_def)
  from only_the_starter_answers [OF demo_history [unfolded ev] this] ev show ?thesis by blast
qed

theorem drafted_requests_carry_authority_witness:
  "\<exists>ev req. fst demo_second = Inr (EventEmitted ev) \<and> (''application_request'', PvRequest req) \<in> set (pe_payload ev) \<and>
     aw_scope req \<in> set known_workspaces \<and> resolve_execution_capability (aw_scope req) demo_draft_grants \<noteq> CAP_NONE \<and>
     check_tenant_policy (scope_org_bu (aw_scope req)) PROVISION"
proof -
  obtain ev where ev: "fst demo_second = Inr (EventEmitted ev)"
    and req: "(''application_request'', PvRequest \<lparr>aw_scope = \<lparr>s_org = ''aiq'', s_bu = ''it'', s_project = Some ''invoices'',
      s_workspace = Some ''dev''\<rparr>, aw_artifact_uri = ''s3://ui'', aw_hostname = ''ui.dev''\<rparr>) \<in> set (pe_payload ev)"
    by (rule demo_emitted)
  have "(demo_resume, Inr (EventEmitted ev)) \<in> set ([(demo_start, fst demo_first)] @ (demo_resume, fst demo_second) # [])"
    using ev by simp
  note d = drafted_requests_carry_authority [OF demo_history this req]
  have "a_execution_grants (as_actor (call_actor demo_resume)) = demo_draft_grants"
    by (simp add: demo_resume_def demo_actor_def)
  with ev req d show ?thesis by auto
qed

end
