(* ===== verification/Scope_Tables.thy ===== *)
theory Scope_Tables
  imports Scope_Registry Provider_Bindings Onboarding_Invariant
begin

text \<open>
  \<open>gateway/resource_scope_registry_postgres.py\<close> and \<open>gateway/resource_scope_bindings_postgres.py\<close> over
  the tables of migrations 003 and 004, beside the organizations of \<open>Onboarding_Tables\<close>.  A method is
  one transaction: it returns its result and the tables, unchanged when it raises.  The keys, unique
  constraints and checks are guards of the upserts; the database's collation is an argument.
\<close>

section \<open>The tables\<close>

text \<open>Business units, teams, projects and environments share one shape: key, parent key, slug, state.\<close>

record level_row =
  lv_id :: string
  lv_parent :: string
  lv_slug :: string
  lv_state :: resource_scope_state

record scope_row =
  sw_scope_id :: string
  sw_organization_id :: string
  sw_organization_slug :: string
  sw_business_unit_id :: string
  sw_team_id :: string
  sw_project_id :: string
  sw_environment_id :: string
  sw_canonical_path :: string
  sw_state :: resource_scope_state
  sw_version :: int

record scope_tables =
  sct_onboarding :: onboarding_tables
  sct_business_units :: "level_row list"
  sct_teams :: "level_row list"
  sct_projects :: "level_row list"
  sct_environments :: "level_row list"
  sct_scopes :: "scope_row list"
  sct_bindings :: "container_binding list"

definition empty_scope_tables :: "onboarding_tables \<Rightarrow> scope_tables" where
  "empty_scope_tables b = \<lparr>sct_onboarding = b, sct_business_units = [], sct_teams = [], sct_projects = [],
     sct_environments = [], sct_scopes = [], sct_bindings = []\<rparr>"

definition integer_out_of_range :: exn where
  "integer_out_of_range = ExternalError ''psycopg.errors.NumericValueOutOfRange''"

text \<open>A PostgreSQL \<open>INTEGER\<close> column with \<open>CHECK (version >= 1)\<close>.\<close>

definition check_version :: "int \<Rightarrow> unit result" where
  "check_version v =
     (if v < - (2 ^ 31) \<or> 2 ^ 31 \<le> v then Inl integer_out_of_range else if v < 1 then Inl check_violation else Inr ())"

section \<open>Registering a scope\<close>

definition find_level :: "string \<Rightarrow> level_row list \<Rightarrow> level_row option" where
  "find_level i rows = find (\<lambda>r. lv_id r = i) rows"

text \<open>\<open>INSERT ... ON CONFLICT (id) DO UPDATE SET slug, state\<close>: the parent of an existing row stays.\<close>

definition upsert_level :: "level_row \<Rightarrow> level_row list \<Rightarrow> level_row list result" where
  "upsert_level new rows =
     (case find_level (lv_id new) rows of
        None \<Rightarrow>
          if list_ex (\<lambda>q. lv_parent q = lv_parent new \<and> lv_slug q = lv_slug new) rows then Inl unique_violation
          else Inr (rows @ [new])
      | Some r \<Rightarrow>
          if list_ex (\<lambda>q. lv_id q \<noteq> lv_id new \<and> lv_parent q = lv_parent r \<and> lv_slug q = lv_slug new) rows
          then Inl unique_violation
          else Inr (map (\<lambda>q. if lv_id q = lv_id new then q\<lparr>lv_slug := lv_slug new, lv_state := lv_state new\<rparr> else q) rows))"

definition find_scope_row :: "string \<Rightarrow> scope_row list \<Rightarrow> scope_row option" where
  "find_scope_row i rows = find (\<lambda>r. sw_scope_id r = i) rows"

text \<open>The conflict clause of \<open>resource_scopes\<close> updates path, state and version only.\<close>

definition upsert_scope :: "scope_row \<Rightarrow> scope_row list \<Rightarrow> scope_row list result" where
  "upsert_scope new rows =
     bind_result (check_version (sw_version new)) (\<lambda>_.
     case find_scope_row (sw_scope_id new) rows of
       None \<Rightarrow>
         if list_ex (\<lambda>q. sw_canonical_path q = sw_canonical_path new \<or> sw_environment_id q = sw_environment_id new) rows
         then Inl unique_violation else Inr (rows @ [new])
     | Some _ \<Rightarrow>
         if list_ex (\<lambda>q. sw_scope_id q \<noteq> sw_scope_id new \<and> sw_canonical_path q = sw_canonical_path new) rows
         then Inl unique_violation
         else Inr (map (\<lambda>q. if sw_scope_id q = sw_scope_id new
             then q\<lparr>sw_canonical_path := sw_canonical_path new, sw_state := sw_state new, sw_version := sw_version new\<rparr>
             else q) rows))"

definition row_of_scope :: "resource_scope \<Rightarrow> scope_row" where
  "row_of_scope s = \<lparr>sw_scope_id = rs_scope_id s, sw_organization_id = org_id (rs_organization s),
     sw_organization_slug = org_slug (rs_organization s), sw_business_unit_id = bu_id (rs_business_unit s),
     sw_team_id = team_id (rs_team s), sw_project_id = project_id (rs_project s),
     sw_environment_id = env_id (rs_environment s), sw_canonical_path = rs_canonical_path s,
     sw_state = rs_state s, sw_version = rs_version s\<rparr>"

definition level_of_unit :: "resource_scope \<Rightarrow> level_row" where
  "level_of_unit s = \<lparr>lv_id = bu_id (rs_business_unit s), lv_parent = org_id (rs_organization s),
     lv_slug = bu_slug (rs_business_unit s), lv_state = bu_state (rs_business_unit s)\<rparr>"

definition level_of_team :: "resource_scope \<Rightarrow> level_row" where
  "level_of_team s = \<lparr>lv_id = team_id (rs_team s), lv_parent = bu_id (rs_business_unit s),
     lv_slug = team_slug (rs_team s), lv_state = team_state (rs_team s)\<rparr>"

definition level_of_project :: "resource_scope \<Rightarrow> level_row" where
  "level_of_project s = \<lparr>lv_id = project_id (rs_project s), lv_parent = team_id (rs_team s),
     lv_slug = project_slug (rs_project s), lv_state = project_state (rs_project s)\<rparr>"

definition level_of_environment :: "resource_scope \<Rightarrow> level_row" where
  "level_of_environment s = \<lparr>lv_id = env_id (rs_environment s), lv_parent = project_id (rs_project s),
     lv_slug = env_slug (rs_environment s), lv_state = env_state (rs_environment s)\<rparr>"

definition register_scope_body :: "resource_scope \<Rightarrow> scope_tables \<Rightarrow> scope_tables result" where
  "register_scope_body s t =
     (case find_org (sct_onboarding t) (org_id (rs_organization s)) of
        None \<Rightarrow> Inl (ValueError ''Resource Scope organization must already exist'')
      | Some _ \<Rightarrow>
          bind_result (upsert_level (level_of_unit s) (sct_business_units t)) (\<lambda>units.
          bind_result (upsert_level (level_of_team s) (sct_teams t)) (\<lambda>teams.
          bind_result (upsert_level (level_of_project s) (sct_projects t)) (\<lambda>projects.
          bind_result (upsert_level (level_of_environment s) (sct_environments t)) (\<lambda>environments.
          bind_result (upsert_scope (row_of_scope s) (sct_scopes t)) (\<lambda>scopes.
            Inr (t\<lparr>sct_business_units := units, sct_teams := teams, sct_projects := projects,
              sct_environments := environments, sct_scopes := scopes\<rparr>)))))))"

definition pg_register_scope :: "resource_scope \<Rightarrow> scope_tables \<Rightarrow> unit result \<times> scope_tables" where
  "pg_register_scope s t =
     (case register_scope_body s t of
        Inr t' \<Rightarrow> (Inr (), t')
      | Inl e \<Rightarrow> (Inl (if e = unique_violation then duplicate_scope_path else e), t))"

section \<open>Resolving a scope\<close>

definition scope_of_rows ::
  "scope_row \<Rightarrow> org_row \<Rightarrow> level_row \<Rightarrow> level_row \<Rightarrow> level_row \<Rightarrow> level_row \<Rightarrow> resource_scope" where
  "scope_of_rows r k u m p v =
     \<lparr>rs_scope_id = sw_scope_id r,
      rs_organization = \<lparr>org_id = or_organization_id k, org_slug = sw_organization_slug r, org_state = RS_ACTIVE\<rparr>,
      rs_business_unit = \<lparr>bu_id = lv_id u, bu_org_id = or_organization_id k, bu_slug = lv_slug u, bu_state = lv_state u\<rparr>,
      rs_team = \<lparr>team_id = lv_id m, team_bu_id = lv_id u, team_slug = lv_slug m, team_state = lv_state m\<rparr>,
      rs_project = \<lparr>project_id = lv_id p, project_team_id = lv_id m, project_slug = lv_slug p, project_state = lv_state p\<rparr>,
      rs_environment = \<lparr>env_id = lv_id v, env_project_id = lv_id p, env_slug = lv_slug v, env_state = lv_state v\<rparr>,
      rs_state = sw_state r, rs_version = sw_version r, rs_canonical_path = sw_canonical_path r\<rparr>"

definition joined_row :: "string \<Rightarrow> scope_tables \<Rightarrow>
    (scope_row \<times> org_row \<times> level_row \<times> level_row \<times> level_row \<times> level_row) option" where
  "joined_row i t =
     (case find_scope_row i (sct_scopes t) of
        None \<Rightarrow> None
      | Some r \<Rightarrow>
          (case (find_org (sct_onboarding t) (sw_organization_id r), find_level (sw_business_unit_id r) (sct_business_units t),
                 find_level (sw_team_id r) (sct_teams t), find_level (sw_project_id r) (sct_projects t),
                 find_level (sw_environment_id r) (sct_environments t)) of
             (Some k, Some u, Some m, Some p, Some v) \<Rightarrow>
               if sw_state r = RS_ACTIVE \<and> or_state k = ORG_ACTIVE \<and>
                  list_all (\<lambda>x. lv_state x = RS_ACTIVE) [u, m, p, v]
               then Some (r, k, u, m, p, v) else None
           | _ \<Rightarrow> None))"

text \<open>The validator of \<open>ResourceScope\<close> computes the canonical path again from the joined slugs.\<close>

definition pg_resolve_scope :: "string \<Rightarrow> scope_tables \<Rightarrow> resource_scope option result" where
  "pg_resolve_scope i t =
     (case joined_row i t of
        None \<Rightarrow> Inr None
      | Some (r, k, u, m, p, v) \<Rightarrow> bind_result (make_resource_scope (scope_of_rows r k u m p v)) (\<lambda>s. Inr (Some s)))"

section \<open>Bindings\<close>

definition put_binding :: "container_binding \<Rightarrow> container_binding list \<Rightarrow> container_binding list" where
  "put_binding b rows =
     (if list_ex (\<lambda>r. cb_binding_id r = cb_binding_id b) rows
      then map (\<lambda>r. if cb_binding_id r = cb_binding_id b then b else r) rows else rows @ [b])"

definition pg_register_binding :: "container_binding \<Rightarrow> scope_tables \<Rightarrow> unit result \<times> scope_tables" where
  "pg_register_binding b t =
     (if find_scope_row (cb_scope_id b) (sct_scopes t) = None
      then (Inl (ValueError ''Cloud Resource Container binding scope does not exist''), t)
      else case check_version (cb_version b) of
          Inl e \<Rightarrow> (Inl e, t)
        | Inr _ \<Rightarrow>
            if cb_container_type b \<noteq> expected_container_type (cb_provider b) then (Inl check_violation, t)
            else (Inr (), t\<lparr>sct_bindings := put_binding b (sct_bindings t)\<rparr>))"

definition pg_set_binding_state :: "string \<Rightarrow> provider_binding_state \<Rightarrow> scope_tables \<Rightarrow> unit result \<times> scope_tables" where
  "pg_set_binding_state i new t =
     (if length (filter (\<lambda>r. cb_binding_id r = i) (sct_bindings t)) \<noteq> 1
      then (Inl (ValueError ''Cloud Resource Container binding does not exist''), t)
      else (Inr (), t\<lparr>sct_bindings := map (\<lambda>r. if cb_binding_id r = i then r\<lparr>cb_state := new\<rparr> else r) (sct_bindings t)\<rparr>))"

fun check_all :: "('a \<Rightarrow> 'a result) \<Rightarrow> 'a list \<Rightarrow> 'a list result" where
  "check_all check [] = Inr []"
| "check_all check (x # xs) = bind_result (check x) (\<lambda>y. bind_result (check_all check xs) (\<lambda>ys. Inr (y # ys)))"

definition pg_active_bindings :: "(string \<Rightarrow> 'k::linorder) \<Rightarrow> string \<Rightarrow> scope_tables \<Rightarrow> container_binding list result" where
  "pg_active_bindings collation scope_id t =
     check_all check_container_binding (sort_key (collation \<circ> cb_binding_id)
       (filter (\<lambda>b. cb_scope_id b = scope_id \<and> cb_state b = BIND_ACTIVE) (sct_bindings t)))"

end
