(* ===== verification/Scope_Tables_Correct.thy ===== *)
theory Scope_Tables_Correct
  imports Scope_Tables Onboarding_Properties Resolved_Context
begin

text \<open>
  What the PostgreSQL registries of scopes and bindings guarantee: what a registered scope resolves to,
  whose scopes resolve in any reachable state, and that the binding table and the in-memory binding
  registry are both stores in the sense of the locale \<open>binding_store\<close>.
\<close>

section \<open>The upserts\<close>

lemma find_map_update:
  assumes "\<And>q. key (g q) = key q"
  shows "find (\<lambda>q. key q = i) (map (\<lambda>q. if key q = k then g q else q) rows) =
    (if i = k then map_option g (find (\<lambda>q. key q = i) rows) else find (\<lambda>q. key q = i) rows)"
  using assms by (induction rows) auto

lemma find_snoc: "find P (xs @ [x]) = (case find P xs of None \<Rightarrow> if P x then Some x else None | Some y \<Rightarrow> Some y)"
  by (induction xs) auto

lemma upsert_level_find:
  assumes "upsert_level new rows = Inr rows'"
  shows "find_level i rows' =
    (if i = lv_id new
     then Some (case find_level i rows of None \<Rightarrow> new | Some r \<Rightarrow> new\<lparr>lv_parent := lv_parent r\<rparr>) else find_level i rows)"
proof (cases "find_level (lv_id new) rows")
  case None
  with assms have "rows' = rows @ [new]" by (auto simp: upsert_level_def split: if_splits)
  with None show ?thesis by (auto simp: find_level_def find_snoc split: option.splits)
next
  case (Some r)
  from assms Some
  have "rows' = map (\<lambda>q. if lv_id q = lv_id new then q\<lparr>lv_slug := lv_slug new, lv_state := lv_state new\<rparr> else q) rows" by (auto simp: upsert_level_def split: if_splits)
  then have "find_level i rows' = (if i = lv_id new
      then map_option (\<lambda>q. q\<lparr>lv_slug := lv_slug new, lv_state := lv_state new\<rparr>) (find_level i rows) else find_level i rows)"
    unfolding find_level_def by (simp add: find_map_update)
  with Some show ?thesis by (auto simp: find_level_def dest!: find_SomeD)
qed

lemma upsert_level_found:
  assumes "upsert_level new rows = Inr rows'"
  obtains p where "find_level (lv_id new) rows' = Some (new\<lparr>lv_parent := p\<rparr>)"
proof (cases "find_level (lv_id new) rows")
  case None
  have "find_level (lv_id new) rows' = Some (new\<lparr>lv_parent := lv_parent new\<rparr>)"
    unfolding upsert_level_find [OF assms] using None by simp
  then show ?thesis by (rule that)
next
  case (Some r)
  have "find_level (lv_id new) rows' = Some (new\<lparr>lv_parent := lv_parent r\<rparr>)"
    unfolding upsert_level_find [OF assms] using Some by simp
  then show ?thesis by (rule that)
qed

lemma upsert_scope_rows:
  assumes "upsert_scope new rows = Inr rows'"
  obtains (new) "find_scope_row (sw_scope_id new) rows = None" "rows' = rows @ [new]"
      "\<forall>q \<in> set rows. sw_canonical_path q \<noteq> sw_canonical_path new \<and> sw_environment_id q \<noteq> sw_environment_id new"
  | (old) r where "find_scope_row (sw_scope_id new) rows = Some r" "rows' = map (\<lambda>q. if sw_scope_id q = sw_scope_id new
        then q\<lparr>sw_canonical_path := sw_canonical_path new, sw_state := sw_state new, sw_version := sw_version new\<rparr> else q) rows"
      "\<forall>q \<in> set rows. sw_scope_id q \<noteq> sw_scope_id new \<longrightarrow> sw_canonical_path q \<noteq> sw_canonical_path new"
  using assms by (auto simp: upsert_scope_def result_simps list_ex_iff split: option.splits if_splits)

lemma upsert_scope_find:
  assumes "upsert_scope new rows = Inr rows'"
  shows "find_scope_row i rows' =
    (if i = sw_scope_id new
     then Some (case find_scope_row i rows of None \<Rightarrow> new
       | Some r \<Rightarrow> r\<lparr>sw_canonical_path := sw_canonical_path new, sw_state := sw_state new, sw_version := sw_version new\<rparr>)
     else find_scope_row i rows)"
  using assms
proof (cases rule: upsert_scope_rows)
  case new
  then show ?thesis by (auto simp: find_scope_row_def find_snoc split: option.splits)
next
  case (old r)
  have "find_scope_row i rows' = (if i = sw_scope_id new
      then map_option (\<lambda>q. q\<lparr>sw_canonical_path := sw_canonical_path new, sw_state := sw_state new, sw_version := sw_version new\<rparr>)
        (find_scope_row i rows) else find_scope_row i rows)"
    unfolding find_scope_row_def old(2) by (simp add: find_map_update)
  with old(1) show ?thesis by auto
qed

lemma pg_register_scope_Inr:
  assumes "pg_register_scope s t = (Inr (), t')"
  obtains k units teams projects environments scopes where
    "find_org (sct_onboarding t) (org_id (rs_organization s)) = Some k"
    "upsert_level (level_of_unit s) (sct_business_units t) = Inr units"
    "upsert_level (level_of_team s) (sct_teams t) = Inr teams"
    "upsert_level (level_of_project s) (sct_projects t) = Inr projects"
    "upsert_level (level_of_environment s) (sct_environments t) = Inr environments"
    "upsert_scope (row_of_scope s) (sct_scopes t) = Inr scopes"
    "t' = t\<lparr>sct_business_units := units, sct_teams := teams, sct_projects := projects,
       sct_environments := environments, sct_scopes := scopes\<rparr>"
  using assms that
  by (auto simp: pg_register_scope_def register_scope_body_def result_simps split: sum.splits option.splits)

lemma pg_register_scope_Inl: "pg_register_scope s t = (Inl e, t') \<Longrightarrow> t' = t"
  by (auto simp: pg_register_scope_def split: sum.splits)

section \<open>What a registered scope resolves to\<close>

definition with_active_org :: "resource_scope \<Rightarrow> resource_scope" where
  "with_active_org s = s\<lparr>rs_organization := (rs_organization s)\<lparr>org_state := RS_ACTIVE\<rparr>\<rparr>"

text \<open>The scope row registered earlier under the id, when there is one, names the same hierarchy.\<close>

definition hierarchy_kept :: "resource_scope \<Rightarrow> scope_tables \<Rightarrow> bool" where
  "hierarchy_kept s t \<longleftrightarrow> (\<forall>r. find_scope_row (rs_scope_id s) (sct_scopes t) = Some r \<longrightarrow>
     sw_organization_id r = org_id (rs_organization s) \<and> sw_organization_slug r = org_slug (rs_organization s) \<and>
     sw_business_unit_id r = bu_id (rs_business_unit s) \<and> sw_team_id r = team_id (rs_team s) \<and>
     sw_project_id r = project_id (rs_project s) \<and> sw_environment_id r = env_id (rs_environment s))"

definition org_active :: "string \<Rightarrow> scope_tables \<Rightarrow> bool" where
  "org_active i t \<longleftrightarrow> (\<exists>k. find_org (sct_onboarding t) i = Some k \<and> or_state k = ORG_ACTIVE)"

lemma make_resource_scope_Inr:
  "make_resource_scope s = Inr x \<longleftrightarrow>
     is_Inr (check_organization (rs_organization s)) \<and> is_Inr (check_business_unit (rs_business_unit s)) \<and>
     is_Inr (check_team (rs_team s)) \<and> is_Inr (check_project (rs_project s)) \<and> is_Inr (check_environment (rs_environment s)) \<and>
     8 \<le> length (rs_scope_id s) \<and> 1 \<le> rs_version s \<and>
     bu_org_id (rs_business_unit s) = org_id (rs_organization s) \<and> team_bu_id (rs_team s) = bu_id (rs_business_unit s) \<and>
     project_team_id (rs_project s) = team_id (rs_team s) \<and> env_project_id (rs_environment s) = project_id (rs_project s) \<and>
     x = s\<lparr>rs_canonical_path := canonical_path s\<rparr>"
  by (auto simp: make_resource_scope_def result_simps is_Inr_iff split: if_splits)

lemma path_update_id: "s = s\<lparr>rs_canonical_path := p\<rparr> \<longleftrightarrow> rs_canonical_path s = p" for s :: resource_scope
  by (cases s) auto

lemma valid_with_active_org: "valid_scope s \<Longrightarrow> valid_scope (with_active_org s)"
  unfolding valid_scope_def make_resource_scope_Inr path_update_id
  by (simp add: with_active_org_def check_organization_def check_fields_def canonical_path_def split: if_splits)

lemma valid_scope_links:
  assumes "valid_scope s"
  shows "bu_org_id (rs_business_unit s) = org_id (rs_organization s)" "team_bu_id (rs_team s) = bu_id (rs_business_unit s)"
    "project_team_id (rs_project s) = team_id (rs_team s)" "env_project_id (rs_environment s) = project_id (rs_project s)"
  using assms unfolding valid_scope_def make_resource_scope_Inr by blast+

lemma row_after_registration:
  assumes "upsert_scope (row_of_scope s) (sct_scopes t) = Inr scopes" "hierarchy_kept s t"
  shows "find_scope_row (rs_scope_id s) scopes = Some (row_of_scope s)"
  using upsert_scope_find [OF assms(1), of "rs_scope_id s"] assms(2)
  by (auto simp: row_of_scope_def hierarchy_kept_def find_scope_row_def dest: find_SomeD split: option.splits)

lemma registered_scope_resolves:
  assumes "valid_scope s" "pg_register_scope s t = (Inr (), t')" "hierarchy_kept s t"
  shows "pg_resolve_scope (rs_scope_id s) t' = Inr
    (if org_active (org_id (rs_organization s)) t \<and> is_complete_and_active (with_active_org s)
     then Some (with_active_org s) else None)"
  using assms(2)
proof (cases rule: pg_register_scope_Inr)
  case (1 k units teams projects environments scopes)
  note row = row_after_registration [OF 1(6) assms(3)]
  obtain pu where u: "find_level (bu_id (rs_business_unit s)) units = Some ((level_of_unit s)\<lparr>lv_parent := pu\<rparr>)"
    using upsert_level_found [OF 1(2)] by (auto simp: level_of_unit_def)
  obtain pm where m: "find_level (team_id (rs_team s)) teams = Some ((level_of_team s)\<lparr>lv_parent := pm\<rparr>)"
    using upsert_level_found [OF 1(3)] by (auto simp: level_of_team_def)
  obtain pp where p: "find_level (project_id (rs_project s)) projects = Some ((level_of_project s)\<lparr>lv_parent := pp\<rparr>)"
    using upsert_level_found [OF 1(4)] by (auto simp: level_of_project_def)
  obtain pv where v: "find_level (env_id (rs_environment s)) environments = Some ((level_of_environment s)\<lparr>lv_parent := pv\<rparr>)"
    using upsert_level_found [OF 1(5)] by (auto simp: level_of_environment_def)
  have org: "or_organization_id k = org_id (rs_organization s)" using 1(1) by (auto simp: find_org_def dest: find_SomeD)
  have built: "scope_of_rows (row_of_scope s) k ((level_of_unit s)\<lparr>lv_parent := pu\<rparr>) ((level_of_team s)\<lparr>lv_parent := pm\<rparr>)
      ((level_of_project s)\<lparr>lv_parent := pp\<rparr>) ((level_of_environment s)\<lparr>lv_parent := pv\<rparr>) = with_active_org s"
    using valid_scope_links [OF assms(1)] org
    by (simp add: scope_of_rows_def row_of_scope_def level_of_unit_def level_of_team_def level_of_project_def
        level_of_environment_def with_active_org_def)
  have "joined_row (rs_scope_id s) t' =
      (if org_active (org_id (rs_organization s)) t \<and> is_complete_and_active (with_active_org s)
       then Some (row_of_scope s, k, (level_of_unit s)\<lparr>lv_parent := pu\<rparr>, (level_of_team s)\<lparr>lv_parent := pm\<rparr>,
         (level_of_project s)\<lparr>lv_parent := pp\<rparr>, (level_of_environment s)\<lparr>lv_parent := pv\<rparr>) else None)"
    unfolding joined_row_def 1(7) using row u m p v 1(1)
    by (simp add: org_active_def is_complete_and_active_def with_active_org_def row_of_scope_def level_of_unit_def
        level_of_team_def level_of_project_def level_of_environment_def)
  moreover have "make_resource_scope (with_active_org s) = Inr (with_active_org s)"
    using valid_with_active_org [OF assms(1)] by (simp add: valid_scope_def)
  ultimately show ?thesis using built by (simp add: pg_resolve_scope_def)
qed

text \<open>An existing row keeps its hierarchy, whatever hierarchy the new record names.\<close>

definition hierarchy_of_row :: "scope_row \<Rightarrow> resource_scope \<Rightarrow> bool" where
  "hierarchy_of_row r s \<longleftrightarrow> org_id (rs_organization s) = sw_organization_id r \<and>
     org_slug (rs_organization s) = sw_organization_slug r \<and> bu_id (rs_business_unit s) = sw_business_unit_id r \<and>
     team_id (rs_team s) = sw_team_id r \<and> project_id (rs_project s) = sw_project_id r \<and>
     env_id (rs_environment s) = sw_environment_id r"

lemma reregistration_keeps_hierarchy:
  assumes "pg_register_scope s t = (Inr (), t')" "find_scope_row (rs_scope_id s) (sct_scopes t) = Some r"
    and "pg_resolve_scope (rs_scope_id s) t' = Inr (Some s')"
  shows "hierarchy_of_row r s' \<and> rs_version s' = rs_version s"
  using assms(1)
proof (cases rule: pg_register_scope_Inr)
  case (1 k units teams projects environments scopes)
  have "find_scope_row (rs_scope_id s) scopes = Some (r\<lparr>sw_canonical_path := rs_canonical_path s, sw_state := rs_state s,
      sw_version := rs_version s\<rparr>)"
    using upsert_scope_find [OF 1(6), of "rs_scope_id s"] assms(2) by (simp add: row_of_scope_def)
  with assms(3) 1(7) show ?thesis
    by (auto simp: pg_resolve_scope_def joined_row_def result_simps make_resource_scope_Inr scope_of_rows_def find_level_def
        find_org_def hierarchy_of_row_def dest!: find_SomeD split: option.splits if_splits)
qed

text \<open>
  C17. What a scope registered in PostgreSQL resolves to.  When its id is new, or its earlier
  registration named the same hierarchy (\<open>hierarchy_kept\<close>), it resolves to what was registered: to the
  scope itself when its own levels are active and its organization is active in the organizations
  table, and to nothing otherwise.  When the id was registered before, under whatever hierarchy,
  anything it resolves to keeps the organization, business unit, team, project and environment of the
  earlier row, with the version of the new record.
\<close>

theorem pg_registered_scope_resolves:
  assumes "valid_scope s" "pg_register_scope s t = (Inr (), t')"
  shows "(hierarchy_kept s t \<longrightarrow> pg_resolve_scope (rs_scope_id s) t' = Inr
      (if org_active (org_id (rs_organization s)) t \<and> is_complete_and_active (with_active_org s)
       then Some (with_active_org s) else None)) \<and>
    (\<forall>r s'. find_scope_row (rs_scope_id s) (sct_scopes t) = Some r \<and> pg_resolve_scope (rs_scope_id s) t' = Inr (Some s') \<longrightarrow>
       hierarchy_of_row r s' \<and> rs_version s' = rs_version s)"
  using registered_scope_resolves [OF assms] reregistration_keeps_hierarchy [OF assms(2)] by blast

section \<open>Every history of the tables\<close>

inductive scope_step :: "(string \<Rightarrow> string) \<Rightarrow> (string \<Rightarrow> string) \<Rightarrow> scope_tables \<Rightarrow> scope_tables \<Rightarrow> bool" for sha lower where
  step_scope: "pg_register_scope s t = (x, t') \<Longrightarrow> scope_step sha lower t t'"
| step_binding: "pg_register_binding b t = (x, t') \<Longrightarrow> scope_step sha lower t t'"
| step_binding_state: "pg_set_binding_state i new t = (x, t') \<Longrightarrow> scope_step sha lower t t'"
| step_organizations: "onboarding_step sha lower (sct_onboarding t) b \<Longrightarrow> scope_step sha lower t (t\<lparr>sct_onboarding := b\<rparr>)"

inductive scope_reachable :: "(string \<Rightarrow> string) \<Rightarrow> (string \<Rightarrow> string) \<Rightarrow> scope_tables \<Rightarrow> bool" for sha lower where
  scope_empty: "onboarding_reachable sha lower b \<Longrightarrow> scope_reachable sha lower (empty_scope_tables b)"
| scope_next: "scope_reachable sha lower t \<Longrightarrow> scope_step sha lower t t' \<Longrightarrow> scope_reachable sha lower t'"

definition scope_rows_ok :: "scope_row list \<Rightarrow> bool" where
  "scope_rows_ok rows \<longleftrightarrow> distinct (map sw_scope_id rows) \<and> distinct (map sw_canonical_path rows) \<and>
     distinct (map sw_environment_id rows)"

definition binding_rows_ok :: "scope_tables \<Rightarrow> bool" where
  "binding_rows_ok t \<longleftrightarrow> distinct (map cb_binding_id (sct_bindings t)) \<and>
     (\<forall>b \<in> set (sct_bindings t). cb_scope_id b \<in> sw_scope_id ` set (sct_scopes t) \<and>
        cb_container_type b = expected_container_type (cb_provider b) \<and> check_version (cb_version b) = Inr ())"

lemma find_scope_row_None: "find_scope_row i rows = None \<longleftrightarrow> i \<notin> sw_scope_id ` set rows"
  by (auto simp: find_scope_row_def find_None_iff)

lemma upsert_scope_ids:
  assumes "upsert_scope new rows = Inr rows'"
  shows "sw_scope_id ` set rows' = insert (sw_scope_id new) (sw_scope_id ` set rows)"
  using assms
proof (cases rule: upsert_scope_rows)
  case (old r)
  have "map sw_scope_id rows' = map sw_scope_id rows" using old(2) by simp
  then have "sw_scope_id ` set rows' = sw_scope_id ` set rows" by (metis set_map)
  moreover have "sw_scope_id new \<in> sw_scope_id ` set rows" using old(1) find_scope_row_None [of "sw_scope_id new" rows] by auto
  ultimately show ?thesis by (simp add: insert_absorb)
qed simp

lemma pg_register_scope_frame:
  assumes "pg_register_scope s t = (Inr (), t')"
  shows "sct_bindings t' = sct_bindings t" "sw_scope_id ` set (sct_scopes t') = insert (rs_scope_id s) (sw_scope_id ` set (sct_scopes t))"
  using assms
proof (atomize (full), cases rule: pg_register_scope_Inr)
  case (1 k units teams projects environments scopes)
  then show "sct_bindings t' = sct_bindings t \<and>
      sw_scope_id ` set (sct_scopes t') = insert (rs_scope_id s) (sw_scope_id ` set (sct_scopes t))"
    using upsert_scope_ids [OF 1(6)] by (simp add: row_of_scope_def)
qed

lemma upsert_scope_ok:
  assumes "upsert_scope new rows = Inr rows'" "scope_rows_ok rows"
  shows "scope_rows_ok rows'"
  using assms(1)
proof (cases rule: upsert_scope_rows)
  case new
  then show ?thesis using assms(2) by (auto simp: scope_rows_ok_def find_scope_row_None)
next
  case (old r)
  let ?f = "\<lambda>q. if sw_scope_id q = sw_scope_id new
    then q\<lparr>sw_canonical_path := sw_canonical_path new, sw_state := sw_state new, sw_version := sw_version new\<rparr> else q"
  have keep: "map sw_scope_id rows' = map sw_scope_id rows" "map sw_environment_id rows' = map sw_environment_id rows"
    unfolding old(2) by simp_all
  have one: "p \<in> set rows \<Longrightarrow> q \<in> set rows \<Longrightarrow> sw_scope_id p = sw_scope_id q \<Longrightarrow> p = q" for p q
    using assms(2) by (auto simp: scope_rows_ok_def distinct_map dest: inj_onD)
  have "inj_on (sw_canonical_path \<circ> ?f) (set rows)"
  proof (rule inj_onI)
    fix p q
    assume pq: "p \<in> set rows" "q \<in> set rows" "(sw_canonical_path \<circ> ?f) p = (sw_canonical_path \<circ> ?f) q"
    have "inj_on sw_canonical_path (set rows)" using assms(2) by (simp add: scope_rows_ok_def distinct_map)
    then show "p = q" using pq old(3) one [OF pq(1,2)] by (auto split: if_splits dest: inj_onD)
  qed
  moreover have "distinct rows" using assms(2) by (simp add: scope_rows_ok_def distinct_map)
  ultimately have "distinct (map sw_canonical_path rows')" unfolding old(2) by (simp add: distinct_map comp_inj_on_iff)
  then show ?thesis using assms(2) unfolding scope_rows_ok_def keep by simp
qed

lemma put_binding_rows:
  assumes "distinct (map cb_binding_id rows)"
  shows "distinct (map cb_binding_id (put_binding b rows)) \<and> set (put_binding b rows) \<subseteq> insert b (set rows)"
proof -
  have "map cb_binding_id (map (\<lambda>r. if cb_binding_id r = cb_binding_id b then b else r) rows) = map cb_binding_id rows"
    by simp
  then show ?thesis using assms unfolding put_binding_def by (auto simp: list_ex_iff simp del: map_map)
qed

definition scope_inv :: "(string \<Rightarrow> string) \<Rightarrow> (string \<Rightarrow> string) \<Rightarrow> scope_tables \<Rightarrow> bool" where
  "scope_inv sha lower t \<longleftrightarrow> onboarding_reachable sha lower (sct_onboarding t) \<and> scope_rows_ok (sct_scopes t) \<and> binding_rows_ok t"

lemma scope_inv_step:
  assumes "scope_step sha lower t t'" "scope_inv sha lower t"
  shows "scope_inv sha lower t'"
  using assms
proof (cases rule: scope_step.cases)
  case (step_scope s x)
  show ?thesis
  proof (cases x)
    case (Inl e)
    with step_scope assms(2) pg_register_scope_Inl show ?thesis by blast
  next
    case (Inr u)
    with step_scope have "pg_register_scope s t = (Inr (), t')" by simp
    then show ?thesis
    proof (cases rule: pg_register_scope_Inr)
      case (1 k units teams projects environments scopes)
      with assms(2) upsert_scope_ok [OF 1(6)] upsert_scope_ids [OF 1(6)] show ?thesis
        by (auto simp: scope_inv_def binding_rows_ok_def)
    qed
  qed
next
  case (step_binding b x)
  have d: "distinct (map cb_binding_id (sct_bindings t))" using assms(2) by (simp add: scope_inv_def binding_rows_ok_def)
  from step_binding assms(2) put_binding_rows [OF d, of b] show ?thesis
    by (auto simp: pg_register_binding_def scope_inv_def binding_rows_ok_def find_scope_row_None split: if_splits sum.splits)
next
  case (step_binding_state i new x)
  have "map cb_binding_id (map (\<lambda>r. if cb_binding_id r = i then r\<lparr>cb_state := new\<rparr> else r) (sct_bindings t)) =
      map cb_binding_id (sct_bindings t)" by simp
  with step_binding_state assms(2) show ?thesis
    by (auto simp: pg_set_binding_state_def scope_inv_def binding_rows_ok_def simp del: map_map split: if_splits)
next
  case (step_organizations b)
  with assms(2) show ?thesis by (auto simp: scope_inv_def binding_rows_ok_def intro: reach_step)
qed

lemma scope_reachable_inv: "scope_reachable sha lower t \<Longrightarrow> scope_inv sha lower t"
proof (induction rule: scope_reachable.induct)
  case (scope_empty b)
  then show ?case by (simp add: scope_inv_def scope_rows_ok_def binding_rows_ok_def empty_scope_tables_def)
qed (blast intro: scope_inv_step)

section \<open>Whose scopes resolve\<close>

lemma pg_resolve_scope_Some:
  assumes "pg_resolve_scope i t = Inr (Some s)"
  obtains r k where "r \<in> set (sct_scopes t)" "sw_scope_id r = i" "sw_environment_id r = env_id (rs_environment s)"
    "k \<in> set (ot_organizations (sct_onboarding t))" "or_organization_id k = org_id (rs_organization s)" "or_state k = ORG_ACTIVE"
    "rs_scope_id s = i" "is_complete_and_active s"
proof -
  obtain r k u m p v where j: "joined_row i t = Some (r, k, u, m, p, v)"
    and s: "make_resource_scope (scope_of_rows r k u m p v) = Inr s"
    using assms by (auto simp: pg_resolve_scope_def result_simps split: option.splits)
  from j have f: "find_scope_row i (sct_scopes t) = Some r" "find_org (sct_onboarding t) (sw_organization_id r) = Some k"
    "find_level (sw_environment_id r) (sct_environments t) = Some v" "or_state k = ORG_ACTIVE" "sw_state r = RS_ACTIVE"
    "list_all (\<lambda>x. lv_state x = RS_ACTIVE) [u, m, p, v]"
    by (auto simp: joined_row_def split: option.splits if_splits)
  from s have s': "s = (scope_of_rows r k u m p v)\<lparr>rs_canonical_path := canonical_path (scope_of_rows r k u m p v)\<rparr>"
    unfolding make_resource_scope_Inr by blast
  show ?thesis
    by (rule that [of r k]) (use f s' in \<open>auto simp: find_scope_row_def find_org_def find_level_def scope_of_rows_def
        is_complete_and_active_def dest: find_SomeD\<close>)
qed

text \<open>
  C16. In every reachable state of the tables a scope that resolves is complete and active, belongs to an
  organization that was reviewed under the digest of its request, and shares its environment with no
  other scope that resolves.
\<close>

theorem resolved_scopes_are_reviewed_and_exclusive:
  assumes "scope_reachable sha lower t" "pg_resolve_scope i t = Inr (Some s)"
  shows "rs_scope_id s = i \<and> is_complete_and_active s \<and>
    (\<exists>k q a. k \<in> set (ot_organizations (sct_onboarding t)) \<and> or_organization_id k = org_id (rs_organization s) \<and>
       or_state k = ORG_ACTIVE \<and> reviewed_by sha (sct_onboarding t) k q a) \<and>
    (pg_resolve_scope j t = Inr (Some s') \<and> env_id (rs_environment s') = env_id (rs_environment s) \<longrightarrow> j = i)"
proof -
  have inv: "scope_inv sha lower t" using assms(1) by (rule scope_reachable_inv)
  obtain r k where r: "r \<in> set (sct_scopes t)" "sw_scope_id r = i" "sw_environment_id r = env_id (rs_environment s)"
    and k: "k \<in> set (ot_organizations (sct_onboarding t))" "or_organization_id k = org_id (rs_organization s)"
      "or_state k = ORG_ACTIVE"
    and s: "rs_scope_id s = i" "is_complete_and_active s"
    using assms(2) by (rule pg_resolve_scope_Some)
  have "onboarding_inv sha lower (sct_onboarding t)" using inv by (auto simp: scope_inv_def dest: inv_reachable)
  then obtain q a where "reviewed_by sha (sct_onboarding t) k q a"
    using k unfolding onboarding_inv_def reviewed_ok_def by blast
  moreover have "j = i" if other: "pg_resolve_scope j t = Inr (Some s')" and env: "env_id (rs_environment s') = env_id (rs_environment s)"
  proof -
    obtain r' where r': "r' \<in> set (sct_scopes t)" "sw_scope_id r' = j" "sw_environment_id r' = env_id (rs_environment s')"
      using other by (rule pg_resolve_scope_Some)
    have "inj_on sw_environment_id (set (sct_scopes t))" using inv by (simp add: scope_inv_def scope_rows_ok_def distinct_map)
    then have "r' = r" using r(1,3) r'(1,3) env by (simp add: inj_onD)
    with r(2) r'(2) show ?thesis by simp
  qed
  ultimately show ?thesis using k s by blast
qed

section \<open>Binding stores\<close>

text \<open>The histories of a binding registry, with the answer of each call.\<close>

fun run_ops ::
  "(container_binding \<Rightarrow> 'st \<Rightarrow> unit result \<times> 'st) \<Rightarrow> (string \<Rightarrow> provider_binding_state \<Rightarrow> 'st \<Rightarrow> unit result \<times> 'st)
     \<Rightarrow> binding_op list \<Rightarrow> 'st \<Rightarrow> unit result list \<times> 'st" where
  "run_ops register set_state [] st = ([], st)"
| "run_ops register set_state (RegisterBinding b # ops) st =
     (case register b st of (r, st1) \<Rightarrow> case run_ops register set_state ops st1 of (rs, st2) \<Rightarrow> (r # rs, st2))"
| "run_ops register set_state (SetBindingState i new # ops) st =
     (case set_state i new st of (r, st1) \<Rightarrow> case run_ops register set_state ops st1 of (rs, st2) \<Rightarrow> (r # rs, st2))"

fun spec_answer :: "binding_op \<Rightarrow> (string \<rightharpoonup> container_binding) \<Rightarrow> unit result" where
  "spec_answer (RegisterBinding b) m = Inr ()"
| "spec_answer (SetBindingState i new) m =
     (if m i = None then Inl (ValueError ''Cloud Resource Container binding does not exist'') else Inr ())"

fun spec_answers :: "binding_op list \<Rightarrow> (string \<rightharpoonup> container_binding) \<Rightarrow> unit result list" where
  "spec_answers [] m = []"
| "spec_answers (x # xs) m = spec_answer x m # spec_answers xs (spec_binding_op x m)"

text \<open>A store promises this for the bindings it \<open>accepts\<close>.\<close>

locale binding_store =
  fixes register :: "container_binding \<Rightarrow> 'st \<Rightarrow> unit result \<times> 'st"
    and set_state :: "string \<Rightarrow> provider_binding_state \<Rightarrow> 'st \<Rightarrow> unit result \<times> 'st"
    and active :: "'st \<Rightarrow> string \<Rightarrow> container_binding list"
    and stored :: "'st \<Rightarrow> string \<Rightarrow> container_binding option"
    and accepts :: "'st \<Rightarrow> container_binding \<Rightarrow> bool"
    and inv :: "'st \<Rightarrow> bool"
  assumes register_law: "inv st \<Longrightarrow> accepts st b \<Longrightarrow> \<exists>st'. register b st = (Inr (), st') \<and> inv st' \<and>
      stored st' = spec_binding_op (RegisterBinding b) (stored st) \<and> accepts st' = accepts st"
    and set_state_law: "inv st \<Longrightarrow> \<exists>st'. set_state i new st = (spec_answer (SetBindingState i new) (stored st), st') \<and> inv st' \<and>
      stored st' = spec_binding_op (SetBindingState i new) (stored st) \<and> accepts st' = accepts st"
    and active_law: "inv st \<Longrightarrow> set (active st s) =
      {b. cb_scope_id b = s \<and> cb_state b = BIND_ACTIVE \<and> stored st (cb_binding_id b) = Some b}"
    and active_distinct: "inv st \<Longrightarrow> distinct (active st s)"
begin

lemma run_spec:
  assumes "inv st" "\<forall>b. RegisterBinding b \<in> set ops \<longrightarrow> accepts st b"
  shows "\<exists>st'. run_ops register set_state ops st = (spec_answers ops (stored st), st') \<and> inv st' \<and>
    stored st' = fold spec_binding_op ops (stored st)"
  using assms
proof (induction ops arbitrary: st)
  case (Cons x ops)
  have "\<exists>st1. (case x of RegisterBinding b \<Rightarrow> register b st | SetBindingState i new \<Rightarrow> set_state i new st) =
      (spec_answer x (stored st), st1) \<and> inv st1 \<and> stored st1 = spec_binding_op x (stored st) \<and> accepts st1 = accepts st"
    using register_law set_state_law Cons.prems by (cases x) auto
  then obtain st1 where st1: "(case x of RegisterBinding b \<Rightarrow> register b st | SetBindingState i new \<Rightarrow> set_state i new st) =
      (spec_answer x (stored st), st1)" "inv st1" "stored st1 = spec_binding_op x (stored st)" "accepts st1 = accepts st"
    by blast
  with Cons.prems(2) obtain st2 where "run_ops register set_state ops st1 = (spec_answers ops (stored st1), st2)" "inv st2"
    "stored st2 = fold spec_binding_op ops (stored st1)"
    using Cons.IH [of st1] by auto
  with st1 show ?case by (cases x) auto
qed simp

end

definition memory_register :: "container_binding \<Rightarrow> binding_registry_state \<Rightarrow> unit result \<times> binding_registry_state" where
  "memory_register b st = (Inr (), register_reviewed_binding b st)"

lemma memory_set_state: "\<exists>st'. set_binding_state i new st = (spec_answer (SetBindingState i new) (dict_get st), st')"
  by (auto simp: set_binding_state_def split: option.splits)

interpretation memory_bindings: binding_store memory_register set_binding_state active_container_bindings dict_get
  "\<lambda>_ _. True" binding_registry_ok
proof
  fix st s i new
  assume ok: "binding_registry_ok st"
  show "set (active_container_bindings st s) =
      {b. cb_scope_id b = s \<and> cb_state b = BIND_ACTIVE \<and> dict_get st (cb_binding_id b) = Some b}"
    using ok by (rule active_container_bindings_set)
  show "distinct (active_container_bindings st s)"
    using active_container_bindings_distinct [OF ok, of s] by (simp add: distinct_map)
  show "\<exists>st'. set_binding_state i new st = (spec_answer (SetBindingState i new) (dict_get st), st') \<and> binding_registry_ok st' \<and>
      dict_get st' = spec_binding_op (SetBindingState i new) (dict_get st) \<and> (\<lambda>_. True) = (\<lambda>_. True)"
    using memory_set_state [of i new st] set_binding_state_law [OF ok, of i new] by auto
qed (auto simp: memory_register_def register_reviewed_binding_law)

definition binding_row :: "scope_tables \<Rightarrow> string \<Rightarrow> container_binding option" where
  "binding_row t i = find (\<lambda>b. cb_binding_id b = i) (sct_bindings t)"

definition accepts_binding :: "scope_tables \<Rightarrow> container_binding \<Rightarrow> bool" where
  "accepts_binding t b \<longleftrightarrow> cb_scope_id b \<in> sw_scope_id ` set (sct_scopes t) \<and> check_container_binding b = Inr b \<and> cb_version b < 2 ^ 31"

definition bindings_checked :: "scope_tables \<Rightarrow> bool" where
  "bindings_checked t \<longleftrightarrow> distinct (map cb_binding_id (sct_bindings t)) \<and>
     (\<forall>b \<in> set (sct_bindings t). check_container_binding b = Inr b)"

definition sorted_active :: "(string \<Rightarrow> 'k::linorder) \<Rightarrow> scope_tables \<Rightarrow> string \<Rightarrow> container_binding list" where
  "sorted_active collation t s = sort_key (collation \<circ> cb_binding_id)
     (filter (\<lambda>b. cb_scope_id b = s \<and> cb_state b = BIND_ACTIVE) (sct_bindings t))"

lemma check_all_fixed: "\<forall>x \<in> set xs. check x = Inr x \<Longrightarrow> check_all check xs = Inr xs"
  by (induction xs) auto

lemma pg_active_sorted: "bindings_checked t \<Longrightarrow> pg_active_bindings collation s t = Inr (sorted_active collation t s)"
  unfolding pg_active_bindings_def sorted_active_def
  by (rule check_all_fixed) (auto simp: bindings_checked_def)

lemma find_key_iff:
  "distinct (map key xs) \<Longrightarrow> find (\<lambda>x. key x = i) xs = Some y \<longleftrightarrow> y \<in> set xs \<and> key y = i"
  by (induction xs) auto

lemma one_row:
  assumes "distinct (map key xs)"
  shows "length (filter (\<lambda>x. key x = i) xs) = 1 \<longleftrightarrow> find (\<lambda>x. key x = i) xs \<noteq> None"
  using assms
proof (induction xs)
  case (Cons x xs)
  then have "\<forall>y \<in> set xs. key y \<noteq> key x" by (metis distinct.simps(2) image_eqI list.simps(9) set_map)
  then have "filter (\<lambda>y. key y = key x) xs = []" by (simp add: filter_empty_conv)
  with Cons show ?case by (cases "key x = i") auto
qed simp

lemma find_put_binding:
  "find (\<lambda>r. cb_binding_id r = i) (put_binding b rows) = (if i = cb_binding_id b then Some b else find (\<lambda>r. cb_binding_id r = i) rows)"
proof (cases "list_ex (\<lambda>r. cb_binding_id r = cb_binding_id b) rows")
  case True
  then have "find (\<lambda>r. cb_binding_id r = cb_binding_id b) rows \<noteq> None" by (auto simp: list_ex_iff find_None_iff)
  moreover have "find (\<lambda>r. cb_binding_id r = i) (map (\<lambda>r. if cb_binding_id r = cb_binding_id b then b else r) rows) =
      (if i = cb_binding_id b then map_option (\<lambda>_. b) (find (\<lambda>r. cb_binding_id r = i) rows)
       else find (\<lambda>r. cb_binding_id r = i) rows)"
    by (induction rows) auto
  ultimately show ?thesis using True by (auto simp: put_binding_def)
next
  case False
  then have "find (\<lambda>r. cb_binding_id r = cb_binding_id b) rows = None" by (auto simp: list_ex_iff find_None_iff)
  with False show ?thesis by (auto simp: put_binding_def find_snoc split: option.splits)
qed

lemma check_binding_facts:
  "check_container_binding b = Inr b \<Longrightarrow> 1 \<le> cb_version b \<and> cb_container_type b = expected_container_type (cb_provider b)"
  by (auto simp: check_container_binding_def split: if_splits)

lemma table_register:
  assumes "bindings_checked t" "accepts_binding t b"
  shows "pg_register_binding b t = (Inr (), t\<lparr>sct_bindings := put_binding b (sct_bindings t)\<rparr>)"
    "bindings_checked (t\<lparr>sct_bindings := put_binding b (sct_bindings t)\<rparr>)"
proof -
  have "1 \<le> cb_version b" "cb_version b < 2 ^ 31" "cb_container_type b = expected_container_type (cb_provider b)"
    "find_scope_row (cb_scope_id b) (sct_scopes t) \<noteq> None"
    using assms(2) check_binding_facts by (auto simp: accepts_binding_def find_scope_row_None)
  then show "pg_register_binding b t = (Inr (), t\<lparr>sct_bindings := put_binding b (sct_bindings t)\<rparr>)"
    by (simp add: pg_register_binding_def check_version_def)
  show "bindings_checked (t\<lparr>sct_bindings := put_binding b (sct_bindings t)\<rparr>)"
    using assms put_binding_rows [of "sct_bindings t" b] by (auto simp: bindings_checked_def accepts_binding_def)
qed

lemma table_set_state:
  assumes "bindings_checked t"
  shows "\<exists>t'. pg_set_binding_state i new t = (spec_answer (SetBindingState i new) (binding_row t), t') \<and> bindings_checked t' \<and>
    binding_row t' = spec_binding_op (SetBindingState i new) (binding_row t) \<and> sct_scopes t' = sct_scopes t"
proof (cases "binding_row t i")
  case None
  then have "length (filter (\<lambda>r. cb_binding_id r = i) (sct_bindings t)) \<noteq> 1"
    using assms one_row [of cb_binding_id "sct_bindings t" i] by (simp add: bindings_checked_def binding_row_def)
  with None assms show ?thesis by (simp add: pg_set_binding_state_def)
next
  case (Some b)
  let ?rows = "map (\<lambda>r. if cb_binding_id r = i then r\<lparr>cb_state := new\<rparr> else r) (sct_bindings t)"
  have "length (filter (\<lambda>r. cb_binding_id r = i) (sct_bindings t)) = 1"
    using Some assms one_row [of cb_binding_id "sct_bindings t" i] by (simp add: bindings_checked_def binding_row_def)
  then have set: "pg_set_binding_state i new t = (Inr (), t\<lparr>sct_bindings := ?rows\<rparr>)" by (simp add: pg_set_binding_state_def)
  have "map cb_binding_id ?rows = map cb_binding_id (sct_bindings t)" by simp
  moreover have "check_container_binding b = Inr b \<Longrightarrow> check_container_binding (b\<lparr>cb_state := new\<rparr>) = Inr (b\<lparr>cb_state := new\<rparr>)" for b
    by (auto simp: check_container_binding_def split: if_splits)
  ultimately have ok: "bindings_checked (t\<lparr>sct_bindings := ?rows\<rparr>)"
    using assms by (auto simp: bindings_checked_def simp del: map_map)
  have "binding_row (t\<lparr>sct_bindings := ?rows\<rparr>) = spec_binding_op (SetBindingState i new) (binding_row t)"
    using Some by (auto simp: fun_eq_iff binding_row_def find_map_update split: option.splits)
  with set ok Some show ?thesis by auto
qed

interpretation table_bindings: binding_store pg_register_binding pg_set_binding_state "sorted_active collation" binding_row
  accepts_binding bindings_checked for collation :: "string \<Rightarrow> 'k::linorder"
proof
  fix t s i new b
  assume ok: "bindings_checked t"
  have accepts: "sct_scopes t' = sct_scopes t \<Longrightarrow> accepts_binding t' = accepts_binding t" for t'
    by (simp add: fun_eq_iff accepts_binding_def)
  show "set (sorted_active collation t s) =
      {b. cb_scope_id b = s \<and> cb_state b = BIND_ACTIVE \<and> binding_row t (cb_binding_id b) = Some b}"
    using ok by (auto simp: sorted_active_def bindings_checked_def binding_row_def find_key_iff)
  show "distinct (sorted_active collation t s)"
    using ok by (simp add: sorted_active_def bindings_checked_def distinct_map)
  show "\<exists>t'. pg_set_binding_state i new t = (spec_answer (SetBindingState i new) (binding_row t), t') \<and> bindings_checked t' \<and>
      binding_row t' = spec_binding_op (SetBindingState i new) (binding_row t) \<and> accepts_binding t' = accepts_binding t"
    using table_set_state [OF ok] accepts by metis
  show "accepts_binding t b \<Longrightarrow> \<exists>t'. pg_register_binding b t = (Inr (), t') \<and> bindings_checked t' \<and>
      binding_row t' = spec_binding_op (RegisterBinding b) (binding_row t) \<and> accepts_binding t' = accepts_binding t"
  proof -
    let ?t = "t\<lparr>sct_bindings := put_binding b (sct_bindings t)\<rparr>"
    assume b: "accepts_binding t b"
    have "binding_row ?t = spec_binding_op (RegisterBinding b) (binding_row t)"
      by (simp add: fun_eq_iff binding_row_def find_put_binding)
    moreover have "accepts_binding ?t = accepts_binding t" by (rule accepts) simp
    ultimately show ?thesis using table_register [OF ok b] by blast
  qed
qed

lemma same_choice:
  assumes "distinct xs" "distinct (act s)" "set xs = set (act s)"
  shows "resolve_binding (\<lambda>_. xs) s p = resolve_binding act s p"
proof -
  let ?P = "\<lambda>b. cb_provider b \<in> bp_eligible_providers p"
  have "filter ?P xs = [b] \<longleftrightarrow> filter ?P (act s) = [b]" for b
    using assms set_eq_singleton_distinct [of "filter ?P xs" b] set_eq_singleton_distinct [of "filter ?P (act s)" b] by simp
  then show ?thesis unfolding resolve_binding_cases by (metis list.sel(1))
qed

text \<open>
  C18. The binding table refines the in-memory registry: over any history of registrations of accepted
  bindings and state changes both give the same answers, the table then lists the same active bindings
  of every scope, in the order of the database's collation, and the resolver decides the same.
\<close>

theorem pg_bindings_refine_memory:
  assumes "sct_bindings t = []" "\<forall>b. RegisterBinding b \<in> set ops \<longrightarrow> accepts_binding t b"
    and "run_ops pg_register_binding pg_set_binding_state ops t = (rs, t')"
    and "run_ops memory_register set_binding_state ops [] = (rs', st)"
  shows "rs = rs' \<and> (\<exists>bs. pg_active_bindings collation s t' = Inr bs \<and> set bs = set (active_container_bindings st s) \<and>
    sorted (map (collation \<circ> cb_binding_id) bs) \<and>
    resolve_binding (\<lambda>_. bs) s p = resolve_binding (active_container_bindings st) s p)"
proof -
  let ?bs = "sorted_active collation t' s"
  have empty: "bindings_checked t" "binding_row t = Map.empty" "binding_registry_ok []" "dict_get [] = Map.empty"
    using assms(1) by (auto simp: bindings_checked_def binding_row_def binding_registry_ok_Nil dict_get_Nil_fun fun_eq_iff)
  have t': "rs = spec_answers ops Map.empty" "bindings_checked t'" "binding_row t' = fold spec_binding_op ops Map.empty"
    using table_bindings.run_spec [OF empty(1) assms(2)] assms(3) empty(2) by auto
  have st: "rs' = spec_answers ops Map.empty" "binding_registry_ok st" "dict_get st = fold spec_binding_op ops Map.empty"
    using memory_bindings.run_spec [OF empty(3), of ops] assms(4) unfolding empty(4) by auto
  have "set ?bs = set (active_container_bindings st s)"
    unfolding table_bindings.active_law [OF t'(2)] memory_bindings.active_law [OF st(2)] t'(3) st(3) ..
  moreover have "resolve_binding (\<lambda>_. ?bs) s p = resolve_binding (active_container_bindings st) s p"
    by (rule same_choice) (use calculation table_bindings.active_distinct [OF t'(2)] memory_bindings.active_distinct [OF st(2)] in blast)+
  moreover have "sorted (map (collation \<circ> cb_binding_id) ?bs)" by (simp add: sorted_active_def)
  ultimately show ?thesis using t'(1) st(1) pg_active_sorted [OF t'(2)] by blast
qed

section \<open>Worked examples\<close>

definition demo_registered :: scope_tables where
  "demo_registered = snd (pg_register_scope demo_resource_scope (empty_scope_tables demo_active))"

lemma demo_organization: "find_org demo_active ''org_1'' = Some demo_org"
proof -
  have "case find_org demo_active ''org_1'' of None \<Rightarrow> False | Some k \<Rightarrow> k = demo_org" by code_simp
  then show ?thesis by (simp split: option.splits)
qed

lemma demo_registration: "pg_register_scope demo_resource_scope (empty_scope_tables demo_active) = (Inr (), demo_registered)"
proof -
  have "fst (pg_register_scope demo_resource_scope (empty_scope_tables b)) = Inr ()" if "find_org b ''org_1'' = Some k" for b k
    using that by (simp add: pg_register_scope_def register_scope_body_def empty_scope_tables_def upsert_level_def
        upsert_scope_def find_level_def find_scope_row_def check_version_def row_of_scope_def demo_resource_scope_def)
  from this [OF demo_organization] show ?thesis unfolding demo_registered_def by (metis prod.collapse)
qed

lemma demo_with_org: "with_active_org demo_resource_scope = demo_resource_scope"
  by (simp add: with_active_org_def demo_resource_scope_def)

lemma demo_registered_scope:
  "valid_scope demo_resource_scope" "hierarchy_kept demo_resource_scope (empty_scope_tables demo_active)"
  "org_active (org_id (rs_organization demo_resource_scope)) (empty_scope_tables demo_active)"
  using demo_organization demo_resource_scope_valid
  by (simp_all add: valid_scope_def hierarchy_kept_def org_active_def empty_scope_tables_def find_scope_row_def)
    (simp add: demo_resource_scope_def demo_org_def)

lemma demo_resolves: "pg_resolve_scope (rs_scope_id demo_resource_scope) demo_registered = Inr (Some demo_resource_scope)"
  using registered_scope_resolves [OF demo_registered_scope(1) demo_registration demo_registered_scope(2)]
    demo_registered_scope(3) demo_resource_scope_active by (simp add: demo_with_org)

theorem pg_registered_scope_resolves_witness:
  "pg_resolve_scope (rs_scope_id demo_resource_scope) demo_registered = Inr (Some (with_active_org demo_resource_scope))"
  using pg_registered_scope_resolves [OF demo_registered_scope(1) demo_registration] demo_registered_scope(2,3)
    demo_resource_scope_active by (simp add: demo_with_org)

lemma demo_scope_reachable: "scope_reachable demo_sha py_lower demo_registered"
  using scope_next [OF scope_empty [OF demo_active_reachable] step_scope [OF demo_registration]] .

theorem resolved_scopes_are_reviewed_and_exclusive_witness:
  "\<exists>k q a. or_organization_id k = ''org_1'' \<and> reviewed_by demo_sha (sct_onboarding demo_registered) k q a"
proof -
  have "org_id (rs_organization demo_resource_scope) = ''org_1''" by (simp add: demo_resource_scope_def)
  with resolved_scopes_are_reviewed_and_exclusive [OF demo_scope_reachable demo_resolves] show ?thesis by metis
qed

definition demo_ops :: "binding_op list" where
  "demo_ops = [RegisterBinding demo_binding, SetBindingState ''binding_02'' BIND_ACTIVE]"

theorem pg_bindings_refine_memory_witness:
  "\<exists>bs. pg_active_bindings length ''scope_01'' (snd (run_ops pg_register_binding pg_set_binding_state demo_ops demo_registered))
     = Inr bs \<and> set bs = {demo_binding}"
proof -
  note frame = pg_register_scope_frame [OF demo_registration]
  have t: "sct_bindings demo_registered = []" using frame(1) by (simp add: empty_scope_tables_def)
  have "\<forall>b. RegisterBinding b \<in> set demo_ops \<longrightarrow> accepts_binding demo_registered b"
  proof -
    have "cb_scope_id demo_binding \<in> sw_scope_id ` set (sct_scopes demo_registered)"
      using frame(2) by (simp add: demo_binding_def demo_resource_scope_def)
    moreover have "check_container_binding demo_binding = Inr demo_binding" "cb_version demo_binding < 2 ^ 31" by code_simp+
    ultimately show ?thesis by (force simp: demo_ops_def accepts_binding_def list_ex_iff)
  qed
  note refine = pg_bindings_refine_memory [OF t this surjective_pairing surjective_pairing, of length "''scope_01''"]
  have "list_all (\<lambda>b. b = demo_binding) (active_container_bindings (snd (run_ops memory_register set_binding_state demo_ops [])) ''scope_01'')"
    "active_container_bindings (snd (run_ops memory_register set_binding_state demo_ops [])) ''scope_01'' \<noteq> []"
    by code_simp+
  then have "set (active_container_bindings (snd (run_ops memory_register set_binding_state demo_ops [])) ''scope_01'') = {demo_binding}"
    by (cases "active_container_bindings (snd (run_ops memory_register set_binding_state demo_ops [])) ''scope_01''") (auto simp: list_all_iff)
  with refine show ?thesis by metis
qed

text \<open>Moving a registered scope to another environment: accepted, and still resolved as before.\<close>

definition demo_plain :: scope_tables where
  "demo_plain = snd (pg_register_scope demo_resource_scope
     (empty_scope_tables ((empty_onboarding_tables [])\<lparr>ot_organizations := [demo_org]\<rparr>)))"

definition demo_moved :: resource_scope where
  "demo_moved = demo_resource_scope\<lparr>rs_environment := \<lparr>env_id = ''env2'', env_project_id = ''project1'', env_slug = ''prod'',
     env_state = RS_ACTIVE\<rparr>, rs_canonical_path := ''org:aiq:bu:it:team:web:project:site:env:prod''\<rparr>"

theorem pg_moved_scope_keeps_its_environment:
  "fst (pg_register_scope demo_moved demo_plain) = Inr () \<and>
   pg_resolve_scope ''scope_01'' (snd (pg_register_scope demo_moved demo_plain)) = Inr (Some demo_resource_scope) \<and>
   resolve_active_scope (snd (register_reviewed_scope demo_moved (snd (register_reviewed_scope demo_resource_scope
     empty_scope_registry)))) ''scope_01'' = Some demo_moved"
  by code_simp

text \<open>Two scopes of one canonical path: \<open>team2\<close> was registered under another business unit, and its
  project is renamed afterwards.\<close>

definition demo_level_scope :: "string \<Rightarrow> string \<times> string \<Rightarrow> string \<Rightarrow> string \<times> string \<Rightarrow> resource_scope" where
  "demo_level_scope i unit p env = (let s = demo_resource_scope\<lparr>rs_scope_id := i,
     rs_business_unit := \<lparr>bu_id = fst unit, bu_org_id = ''org_1'', bu_slug = snd unit, bu_state = RS_ACTIVE\<rparr>,
     rs_team := \<lparr>team_id = ''team2'', team_bu_id = fst unit, team_slug = ''web'', team_state = RS_ACTIVE\<rparr>,
     rs_project := \<lparr>project_id = ''project2'', project_team_id = ''team2'', project_slug = p, project_state = RS_ACTIVE\<rparr>,
     rs_environment := \<lparr>env_id = fst env, env_project_id = ''project2'', env_slug = snd env, env_state = RS_ACTIVE\<rparr>\<rparr>
   in s\<lparr>rs_canonical_path := canonical_path s\<rparr>)"

definition demo_shared :: scope_tables where
  "demo_shared = fold (\<lambda>s t. snd (pg_register_scope s t))
     [demo_level_scope ''scope_02'' (''bu_3'', ''ops'') ''old'' (''env2'', ''w''),
      demo_level_scope ''scope_03'' (''bu_1'', ''it'') ''old'' (''env3'', ''dev''),
      demo_level_scope ''scope_02'' (''bu_3'', ''ops'') ''site'' (''env2'', ''w'')] demo_plain"

theorem pg_rename_duplicates_a_canonical_path:
  "map_sum id (map_option rs_canonical_path) (pg_resolve_scope ''scope_01'' demo_shared) =
     Inr (Some ''org:aiq:bu:it:team:web:project:site:env:dev'') \<and>
   map_sum id (map_option rs_canonical_path) (pg_resolve_scope ''scope_03'' demo_shared) =
     Inr (Some ''org:aiq:bu:it:team:web:project:site:env:dev'')"
  by code_simp

end
