(* ===== verification/Dynamic_Ui.thy ===== *)
theory Dynamic_Ui
  imports Harness Chat_Commands Onboarding_Workflow
begin

text \<open>
  \<open>interaction/dynamic_ui.py\<close> (validated cards compiled to components) and \<open>interaction/agui.py\<close>
  (events as AG-UI frames).  The wire dictionaries are values of one nested datatype; the JSON dump
  of a whole payload and the ISO text of a date are its leaves.
\<close>

section \<open>Wire values\<close>

datatype ui_value =
  UvNone | UvBool bool | UvText string | UvList "ui_value list" | UvDict "(string \<times> ui_value) list"
  | UvPayload hitl_payload | UvTime datetime

fun uv_get :: "ui_value \<Rightarrow> string \<Rightarrow> ui_value option" where
  "uv_get (UvDict d) k = dict_get d k"
| "uv_get _ k = None"

fun uv_texts :: "ui_value \<Rightarrow> string list" where
  "uv_texts (UvList vs) = concat (map (\<lambda>v. case v of UvText s \<Rightarrow> [s] | _ \<Rightarrow> []) vs)"
| "uv_texts _ = []"

definition text_component :: "string \<Rightarrow> string \<Rightarrow> ui_value" where
  "text_component i t = UvDict [(''id'', UvText i), (''component'', UvText ''Text''), (''text'', UvText t)]"

definition column_component :: "string \<Rightarrow> string list \<Rightarrow> ui_value" where
  "column_component i children = UvDict [(''id'', UvText i), (''component'', UvText ''Column''),
     (''children'', UvList (map UvText children))]"

definition button_component :: "string \<Rightarrow> string \<Rightarrow> string \<Rightarrow> (string \<times> ui_value) list \<Rightarrow> ui_value" where
  "button_component i label event_name context_dict = UvDict [(''id'', UvText i), (''component'', UvText ''Button''),
     (''child'', UvText label),
     (''action'', UvDict [(''event'', UvDict [(''name'', UvText event_name), (''context'', UvDict context_dict)])])]"

section \<open>Cards\<close>

record dynamic_choice =
  ch_label :: string
  ch_value :: string

record card_spec =
  cs_title :: string
  cs_message :: string
  cs_help_texts :: "string list"
  cs_choices :: "dynamic_choice list"
  cs_choice_response_field :: string

definition length_between :: "nat \<Rightarrow> nat \<Rightarrow> 'a list \<Rightarrow> bool" where
  "length_between lo hi xs \<longleftrightarrow> lo \<le> length xs \<and> length xs \<le> hi"

definition check_choice :: "dynamic_choice \<Rightarrow> dynamic_choice result" where
  "check_choice c = (if length_between 1 80 (ch_label c) \<and> length_between 1 120 (ch_value c) then Inr c
     else Inl (ValidationError ''DynamicChoice''))"

definition html_like :: "string \<Rightarrow> bool" where
  "html_like s \<longleftrightarrow> CHR ''<'' \<in> set s \<or> CHR ''>'' \<in> set s"

definition check_card_spec :: "card_spec \<Rightarrow> card_spec result" where
  "check_card_spec s =
     (if list_ex (\<lambda>c. \<not> is_Inr (check_choice c)) (cs_choices s) then Inl (ValidationError ''DynamicChoice'')
      else if \<not> (length_between 1 80 (cs_title s) \<and> length_between 1 1200 (cs_message s) \<and>
          length_between 0 8 (cs_help_texts s) \<and> length_between 0 8 (cs_choices s) \<and>
          length_between 1 80 (cs_choice_response_field s))
      then Inl (ValidationError ''DynamicCardSpec'')
      else if list_ex html_like ([cs_title s, cs_message s] @ cs_help_texts s @ map ch_label (cs_choices s))
      then Inl (ValidationError ''dynamic UI text must not contain raw HTML'')
      else Inr s)"

definition help_id :: "nat \<Rightarrow> string" where
  "help_id n = ''help-'' @ show_nat n"

definition choice_id :: "nat \<Rightarrow> string" where
  "choice_id n = ''choice-'' @ show_nat n"

definition choice_components :: "string \<Rightarrow> string \<Rightarrow> nat \<times> dynamic_choice \<Rightarrow> ui_value list" where
  "choice_components surface_id field = (\<lambda>(n, c).
     [text_component (choice_id n @ ''-label'') (ch_label c),
      button_component (choice_id n) (choice_id n @ ''-label'') surface_id [(field, UvText (ch_value c))]])"

definition compile_dynamic_card :: "card_spec \<Rightarrow> string \<Rightarrow> ui_value list" where
  "compile_dynamic_card s surface_id =
     (let helps = enumerate 0 (cs_help_texts s); choices = enumerate 0 (cs_choices s) in
      [UvDict [(''id'', UvText ''root''), (''component'', UvText ''Card''), (''child'', UvText ''content'')],
       column_component ''content'' ([''title'', ''message''] @ map (help_id \<circ> fst) helps @ map (choice_id \<circ> fst) choices),
       UvDict [(''id'', UvText ''title''), (''component'', UvText ''Text''), (''text'', UvText (cs_title s)),
         (''variant'', UvText ''h3'')],
       text_component ''message'' (cs_message s)] @
      map (\<lambda>(n, t). text_component (help_id n) t) helps @
      concat (map (choice_components surface_id (cs_choice_response_field s)) choices))"

section \<open>AG-UI frames\<close>

fun hitl_kind_value :: "hitl_event_kind \<Rightarrow> string" where
  "hitl_kind_value CLARIFICATION_REQUIRED = ''clarification.required''"
| "hitl_kind_value APPROVAL_REQUIRED = ''approval.required''"

fun hitl_status_value :: "hitl_status \<Rightarrow> string" where
  "hitl_status_value HITL_PENDING = ''pending''"
| "hitl_status_value HITL_ANSWERED = ''answered''"
| "hitl_status_value HITL_APPROVED = ''approved''"
| "hitl_status_value HITL_REJECTED = ''rejected''"
| "hitl_status_value HITL_EXPIRED = ''expired''"
| "hitl_status_value HITL_CANCELLED = ''cancelled''"

fun hitl_verdict_value :: "hitl_verdict \<Rightarrow> string" where
  "hitl_verdict_value VERDICT_ANSWER = ''answer''"
| "hitl_verdict_value HITL_APPROVE = ''approve''"
| "hitl_verdict_value HITL_REJECT = ''reject''"
| "hitl_verdict_value HITL_CANCEL = ''cancel''"

fun resume_mode_value :: "resume_mode \<Rightarrow> string" where
  "resume_mode_value REINVOKE = ''reinvoke''"
| "resume_mode_value CHECKPOINT_RESUME = ''checkpoint_resume''"

definition text_of_option :: "string option \<Rightarrow> string" where
  "text_of_option v = (case v of None \<Rightarrow> ''None'' | Some s \<Rightarrow> s)"

definition message_for :: "hitl_event \<Rightarrow> string" where
  "message_for e =
     (case (he_kind e, he_payload e) of
        (APPROVAL_REQUIRED, PayloadApproval r) \<Rightarrow>
          ''Approval required for '' @ scope_org_bu (aq_scope r) @ ''/'' @ text_of_option (s_project (aq_scope r)) @ ''/'' @
            text_of_option (s_workspace (aq_scope r)) @ ''.''
      | (CLARIFICATION_REQUIRED, PayloadDecision d) \<Rightarrow>
          (case d_clarification_questions d of q # _ \<Rightarrow> q_question q | [] \<Rightarrow> hitl_kind_value (he_kind e))
      | _ \<Rightarrow> hitl_kind_value (he_kind e))"

definition string_schema :: ui_value where
  "string_schema = UvDict [(''type'', UvText ''string'')]"

definition response_schema_for :: "hitl_event \<Rightarrow> ui_value" where
  "response_schema_for e =
     (if he_kind e = APPROVAL_REQUIRED
      then UvDict [(''type'', UvText ''object''),
        (''properties'', UvDict [(''verdict'', UvDict [(''type'', UvText ''string''),
             (''enum'', UvList [UvText ''approve'', UvText ''reject''])]), (''approval_digest'', string_schema)]),
        (''required'', UvList [UvText ''verdict'', UvText ''approval_digest'']), (''additionalProperties'', UvBool False)]
      else (case he_payload e of
          PayloadDecision d \<Rightarrow>
            (case d_clarification_questions d of
               q # _ \<Rightarrow> UvDict [(''type'', UvText ''object''),
                 (''properties'', UvDict [(''selected_choice'', UvDict ((''type'', UvText ''string'') #
                      (if q_choices q = [] then [] else [(''enum'', UvList (map UvText (q_choices q)))]))),
                    (''value'', string_schema)]),
                 (''additionalProperties'', UvBool False)]
             | [] \<Rightarrow> UvDict [(''type'', UvText ''object''), (''additionalProperties'', UvBool True)])
        | PayloadApproval _ \<Rightarrow> UvDict [(''type'', UvText ''object''), (''additionalProperties'', UvBool True)]))"

definition hitl_event_to_interrupt :: "hitl_event \<Rightarrow> ui_value" where
  "hitl_event_to_interrupt e = UvDict
     ([(''id'', UvText (he_event_id e)), (''reason'', UvText (hitl_kind_value (he_kind e))),
       (''message'', UvText (message_for e)), (''responseSchema'', response_schema_for e),
       (''metadata'', UvDict [(''platformops'', UvDict [(''request_id'', UvText (he_request_id e)),
          (''status'', UvText (hitl_status_value (he_status e))), (''resume_mode'', UvText (resume_mode_value (he_resume_mode e))),
          (''payload'', UvPayload (he_payload e))])])] @
      (case he_expires_at e of None \<Rightarrow> [] | Some t \<Rightarrow> [(''expiresAt'', UvTime t)]))"

definition hitl_event_to_run_finished :: "hitl_event \<Rightarrow> string \<Rightarrow> string \<Rightarrow> ui_value" where
  "hitl_event_to_run_finished e thread_id run_id = UvDict [(''type'', UvText ''RUN_FINISHED''), (''threadId'', UvText thread_id),
     (''runId'', UvText run_id),
     (''outcome'', UvDict [(''type'', UvText ''interrupt''), (''interrupts'', UvList [hitl_event_to_interrupt e])])]"

definition scope_dump :: "scope \<Rightarrow> ui_value" where
  "scope_dump s = UvDict [(''org'', UvText (s_org s)), (''bu'', UvText (s_bu s)),
     (''project'', (case s_project s of None \<Rightarrow> UvNone | Some p \<Rightarrow> UvText p)),
     (''workspace'', (case s_workspace s of None \<Rightarrow> UvNone | Some p \<Rightarrow> UvText p))]"

fun payload_dump :: "payload_value \<Rightarrow> ui_value" where
  "payload_dump PvNone = UvNone"
| "payload_dump (PvText s) = UvText s"
| "payload_dump (PvBool b) = UvBool b"
| "payload_dump (PvScope s) = scope_dump s"
| "payload_dump (PvRequest r) = UvDict [(''profile_id'', UvText aws_static_web), (''scope'', scope_dump (aw_scope r)),
     (''frontend_artifact_uri'', UvText (aw_artifact_uri r)), (''frontend_hostname'', UvText (aw_hostname r))]"

definition platformops_event_to_run_finished :: "platform_event \<Rightarrow> string \<Rightarrow> string \<Rightarrow> ui_value" where
  "platformops_event_to_run_finished e thread_id run_id = UvDict [(''type'', UvText ''RUN_FINISHED''),
     (''threadId'', UvText thread_id), (''runId'', UvText run_id),
     (''result'', UvDict (map (\<lambda>(k, v). (k, payload_dump v)) (pe_payload e))), (''outcome'', UvDict [(''type'', UvText ''success'')])]"

definition hitl_response_to_resume_entry :: "hitl_response \<Rightarrow> ui_value" where
  "hitl_response_to_resume_entry r =
     (let present = (\<lambda>(k, v). case v of None \<Rightarrow> [] | Some s \<Rightarrow> [(k, UvText s)]) in
      if hr_verdict r = HITL_CANCEL
      then UvDict [(''interruptId'', UvText (hr_event_id r)), (''status'', UvText ''cancelled'')]
      else UvDict [(''interruptId'', UvText (hr_event_id r)), (''status'', UvText ''resolved''),
        (''payload'', UvDict (concat (map present
          (if hr_verdict r = VERDICT_ANSWER then [(''value'', hr_value r), (''selected_choice'', hr_selected_choice r)]
           else [(''verdict'', Some (hitl_verdict_value (hr_verdict r))), (''approval_digest'', hr_approval_digest r)]))))])"

end
