(* ===== verification/A2ui.thy ===== *)
theory A2ui
  imports Dynamic_Ui
begin

text \<open>
  \<open>interaction/a2ui.py\<close> and \<open>interaction/guest_chat_a2ui.py\<close>: the browser surfaces for clarifications,
  route results, command outcomes, onboarding reviews and guest chat, and what they can show.
\<close>

section \<open>Surfaces\<close>

definition basic_catalog_id :: string where
  "basic_catalog_id = ''https://a2ui.org/specification/v0_9/catalogs/basic/catalog.json''"

definition create_surface :: "string \<Rightarrow> ui_value" where
  "create_surface surface_id = UvDict [(''version'', UvText ''v0.9''),
     (''createSurface'', UvDict [(''surfaceId'', UvText surface_id), (''catalogId'', UvText basic_catalog_id)])]"

definition update_components :: "string \<Rightarrow> ui_value list \<Rightarrow> ui_value" where
  "update_components surface_id components = UvDict [(''version'', UvText ''v0.9''),
     (''updateComponents'', UvDict [(''surfaceId'', UvText surface_id), (''components'', UvList components)])]"

definition surface :: "string \<Rightarrow> ui_value list \<Rightarrow> ui_value list" where
  "surface surface_id components = [create_surface surface_id, update_components surface_id components]"

section \<open>Clarifications and approvals\<close>

definition static_web_help_texts :: "string list" where
  "static_web_help_texts =
     [''Need help with these details?'',
      ''Built frontend package: where your compiled website files are stored, for example s3://releases/invoices-ui.tar.gz.'',
      ''Website address: the domain users should open, for example invoices.dev.example.com.'',
      ''If you do not have a custom domain yet, say: use the generated CloudFront URL for now.'',
      ''If you only have source code, say where it is, for example: GitHub repo org/invoices-ui on branch main.'']"

text \<open>The \<open>selected_choice\<close> enumeration of the interrupt's response schema, when it is not empty.\<close>

definition choice_field_and_enum :: "ui_value \<Rightarrow> (string \<times> string list) option" where
  "choice_field_and_enum interrupt =
     (let none = UvDict [];
          step = (\<lambda>v k. case uv_get v k of None \<Rightarrow> none | Some x \<Rightarrow> x);
          schema = step (step (step interrupt ''responseSchema'') ''properties'') ''selected_choice'';
          values = uv_texts (step schema ''enum'')
      in if values = [] then None else Some (''selected_choice'', values))"

definition help_texts_for :: "hitl_event \<Rightarrow> string list" where
  "help_texts_for e =
     (case (he_kind e, he_payload e) of
        (CLARIFICATION_REQUIRED, PayloadDecision d) \<Rightarrow>
          (case d_clarification_questions d of
             q # _ \<Rightarrow> if q_field q = ''application_request'' then static_web_help_texts else []
           | [] \<Rightarrow> [])
      | _ \<Rightarrow> [])"

definition card_spec_for :: "hitl_event \<Rightarrow> ui_value \<Rightarrow> card_spec result" where
  "card_spec_for e interrupt =
     (let enum = (if he_kind e = CLARIFICATION_REQUIRED then choice_field_and_enum interrupt else None);
          field = (case enum of None \<Rightarrow> ''selected_choice'' | Some (f, _) \<Rightarrow> f);
          values = (case enum of None \<Rightarrow> [] | Some (_, vs) \<Rightarrow> vs)
      in check_card_spec
        \<lparr>cs_title = (if he_kind e = CLARIFICATION_REQUIRED then ''Input needed'' else ''Approval required''),
         cs_message = (case uv_get interrupt ''message'' of Some (UvText m) \<Rightarrow> m | _ \<Rightarrow> []),
         cs_help_texts = help_texts_for e,
         cs_choices = map (\<lambda>v. \<lparr>ch_label = v, ch_value = v\<rparr>) values,
         cs_choice_response_field = field\<rparr>)"

definition hitl_event_to_a2ui_messages :: "hitl_event \<Rightarrow> ui_value list result" where
  "hitl_event_to_a2ui_messages e =
     bind_result (card_spec_for e (hitl_event_to_interrupt e)) (\<lambda>s.
       Inr (surface (he_event_id e) (compile_dynamic_card s (he_event_id e))))"

section \<open>Route results\<close>

definition route_result_fields :: "string list" where
  "route_result_fields =
     [''intent'', ''route'', ''ready_to_route'', ''mutation_requested'', ''approval_required'', ''unsupported_reason'']"

text \<open>Python's \<open>str\<close> of a payload value; a dictionary is written as \<open>repr\<close> writes it.\<close>

definition option_repr :: "string option \<Rightarrow> string" where
  "option_repr v = (case v of None \<Rightarrow> ''None'' | Some s \<Rightarrow> py_repr s)"

definition dict_repr :: "(string \<times> string) list \<Rightarrow> string" where
  "dict_repr kvs = ''{'' @ join_with '', '' (map (\<lambda>(k, v). py_repr k @ '': '' @ v) kvs) @ ''}''"

definition scope_repr :: "scope \<Rightarrow> string" where
  "scope_repr s = dict_repr [(''org'', py_repr (s_org s)), (''bu'', py_repr (s_bu s)),
     (''project'', option_repr (s_project s)), (''workspace'', option_repr (s_workspace s))]"

fun payload_text :: "payload_value \<Rightarrow> string" where
  "payload_text PvNone = ''None''"
| "payload_text (PvText s) = s"
| "payload_text (PvBool b) = (if b then ''True'' else ''False'')"
| "payload_text (PvScope s) = scope_repr s"
| "payload_text (PvRequest r) = dict_repr [(''profile_id'', py_repr aws_static_web), (''scope'', scope_repr (aw_scope r)),
     (''frontend_artifact_uri'', py_repr (aw_artifact_uri r)), (''frontend_hostname'', py_repr (aw_hostname r))]"

definition field_id :: "string \<Rightarrow> string" where
  "field_id k = ''field-'' @ k"

text \<open>A root column of one text per line.\<close>

definition field_column :: "string \<Rightarrow> (string \<times> string) list \<Rightarrow> ui_value list" where
  "field_column surface_id lines =
     surface surface_id (column_component ''root'' (map (field_id \<circ> fst) lines) #
       map (\<lambda>(k, t). text_component (field_id k) t) lines)"

definition shown_field :: "(string, payload_value) dict \<Rightarrow> string \<Rightarrow> (string \<times> string) list" where
  "shown_field payload k =
     (case dict_get payload k of
        None \<Rightarrow> []
      | Some v \<Rightarrow> if v = PvNone then [] else [(k, k @ '': '' @ payload_text v)])"

definition platformops_event_to_a2ui_messages :: "platform_event \<Rightarrow> ui_value list" where
  "platformops_event_to_a2ui_messages e =
     field_column (pe_event_id e) (concat (map (shown_field (pe_payload e)) route_result_fields))"

section \<open>Command outcomes\<close>

text \<open>A handler's result: a mapping from keys to values with their text, a pending review, or another
  object.  An organization is recognised by its class.\<close>

datatype outcome_value = OvNone | OvText string | OvOrganization active_organization string

datatype command_outcome = OutDict "(string, outcome_value) dict" | OutPending pending_review | OutOther

definition command_outcome_fields :: "string list" where
  "command_outcome_fields = [''status'', ''request_id'', ''scope_id'', ''message'']"

fun outcome_text :: "outcome_value \<Rightarrow> string option" where
  "outcome_text OvNone = None"
| "outcome_text (OvText s) = Some s"
| "outcome_text (OvOrganization _ s) = Some s"

definition outcome_fields :: "string \<Rightarrow> command_outcome \<Rightarrow> (string, string) dict" where
  "outcome_fields command outcome =
     (let safe = (case outcome of OutDict d \<Rightarrow> d | _ \<Rightarrow> []);
          shown = concat (map (\<lambda>k. case dict_get safe k of None \<Rightarrow> []
            | Some v \<Rightarrow> (case outcome_text v of None \<Rightarrow> [] | Some s \<Rightarrow> [(k, s)])) command_outcome_fields)
      in foldl (\<lambda>d (k, v). dict_set k v d) [(''command'', command), (''status'', ''completed'')] shown)"

definition command_outcome_to_a2ui_messages :: "string \<Rightarrow> string \<Rightarrow> command_outcome \<Rightarrow> ui_value list" where
  "command_outcome_to_a2ui_messages surface_id command outcome =
     field_column surface_id (map (\<lambda>(k, v). (k, k @ '': '' @ v)) (outcome_fields command outcome))"

section \<open>Onboarding reviews\<close>

definition component_kind :: "ui_value \<Rightarrow> string option" where
  "component_kind v = (case uv_get v ''component'' of Some (UvText k) \<Rightarrow> Some k | _ \<Rightarrow> None)"

definition component_id :: "ui_value \<Rightarrow> string" where
  "component_id v = (case uv_get v ''id'' of Some (UvText i) \<Rightarrow> i | _ \<Rightarrow> [])"

definition text_column :: "string \<Rightarrow> (string \<times> string) list \<Rightarrow> ui_value list \<Rightarrow> ui_value list" where
  "text_column surface_id lines extra =
     surface surface_id
       (column_component ''root'' (map (field_id \<circ> fst) lines @
          map component_id (filter (\<lambda>c. component_kind c = Some ''Button'') extra)) #
        map (\<lambda>(k, t). text_component (field_id k) t) lines @ extra)"

fun review_status_value :: "review_status \<Rightarrow> string" where
  "review_status_value REVIEW_PENDING = ''pending''"
| "review_status_value REVIEW_ACTIVATED = ''activated''"

definition review_outcome_surface :: "string \<Rightarrow> review_outcome \<Rightarrow> ui_value list" where
  "review_outcome_surface surface_id p = text_column surface_id
     [(''title'', ''Organization activated''), (''organization_name'', ''organization_name: '' @ vo_organization_name p),
      (''organization_id'', ''organization_id: '' @ vo_organization_id p),
      (''status'', ''status: '' @ review_status_value (vo_status p))] []"

definition approve_button :: "string \<Rightarrow> ui_value" where
  "approve_button request_id =
     button_component ''approve'' ''approve-label'' (command_value REVIEW_ONBOARDING) [(''request_id'', UvText request_id)]"

definition pending_review_surface :: "string \<Rightarrow> pending_review \<Rightarrow> ui_value list" where
  "pending_review_surface surface_id p = text_column surface_id
     [(''title'', ''Organization onboarding review''), (''request_id'', ''request_id: '' @ pv_request_id p),
      (''organization_name'', ''organization_name: '' @ pv_organization_name p),
      (''identity_boundary'', ''identity_boundary: '' @ pv_boundary_kind p @ '' '' @ pv_boundary_reference p),
      (''identity_proof_recorded'', ''identity_proof_recorded: '' @ (if pv_proof_recorded p then ''True'' else ''False'')),
      (''status'', ''status: '' @ review_status_value (pv_status p))]
     (if pv_status p = REVIEW_PENDING \<and> pv_proof_recorded p
      then [text_component ''approve-label'' ''Approve'', approve_button (pv_request_id p)] else [])"

definition command_result_to_a2ui_messages :: "string \<Rightarrow> string \<Rightarrow> command_outcome \<Rightarrow> ui_value list result" where
  "command_result_to_a2ui_messages surface_id command outcome =
     (case outcome of
        OutPending p \<Rightarrow> Inr (pending_review_surface surface_id p)
      | OutDict d \<Rightarrow>
          (case (if command = command_value REVIEW_ONBOARDING then dict_get d ''organization'' else None) of
             Some (OvOrganization org _) \<Rightarrow>
               bind_result (review_outcome_of org) (\<lambda>p. Inr (review_outcome_surface surface_id p))
           | _ \<Rightarrow> Inr (command_outcome_to_a2ui_messages surface_id command outcome))
      | OutOther \<Rightarrow> Inr (command_outcome_to_a2ui_messages surface_id command outcome))"

section \<open>Guest chat\<close>

definition copy_for :: "guest_action \<Rightarrow> string \<times> string" where
  "copy_for a =
     (case a of
        START_LOGIN \<Rightarrow> (''Sign in'', ''Enter your email address to receive a sign-in link.'')
      | START_REGISTRATION \<Rightarrow> (''Create an account'', ''Start with your email address to create a PlatformOps account.'')
      | START_JOIN_ORGANIZATION \<Rightarrow>
          (''Join an organization'', ''Use an invitation or your organization'' @ [CHR 0x27] @ ''s sign-in path.'')
      | SHOW_CONTEXTS \<Rightarrow>
          (''Available contexts'', ''Login, account registration, organization joining, and help are available.'')
      | LOGIN_REQUIRED \<Rightarrow> (''Sign in required'', ''Use /login before continuing with that request.'')
      | SHOW_HELP \<Rightarrow>
          (''How can we help?'', ''Use /login to sign in or ask about creating or joining an organization.''))"

definition email_pattern :: string where
  "email_pattern = ''^[^'' @ [CHR 0x5C] @ ''s@]+@[^'' @ [CHR 0x5C] @ ''s@]+'' @ [CHR 0x5C] @ ''.[^'' @ [CHR 0x5C] @ ''s@]+$''"

definition email_path :: ui_value where
  "email_path = UvDict [(''path'', UvText ''/email'')]"

definition guest_components :: "guest_route \<Rightarrow> ui_value list" where
  "guest_components route =
     (let (title, message) = copy_for (gr_action route); login = (gr_action route = START_LOGIN) in
      [column_component ''root'' ([''title'', ''message''] @ (if login then [''email'', ''submit''] else [])),
       text_component ''title'' title, text_component ''message'' message] @
      (if login
       then [UvDict [(''id'', UvText ''email''), (''component'', UvText ''TextField''), (''label'', UvText ''Email address''),
               (''value'', email_path), (''variant'', UvText ''shortText''), (''validationRegexp'', UvText email_pattern)],
             button_component ''submit'' ''submit-label'' ''guest.login.submit'' [(''email'', email_path)],
             text_component ''submit-label'' ''Send sign-in link'']
       else []))"

definition guest_chat_route_to_a2ui_messages :: "guest_route \<Rightarrow> string \<Rightarrow> ui_value list" where
  "guest_chat_route_to_a2ui_messages route surface_id = surface surface_id (guest_components route)"

end
