(* ===== verification/Http_Transport.thy ===== *)
theory Http_Transport
  imports A2ui Browser_Sessions
begin

text \<open>
  \<open>transports/http.py\<close> and \<open>transports/browser_auth.py\<close>: request parsing, the guard against payload
  fields that name authority, and the endpoints \<open>/info\<close>, \<open>/runs\<close> and \<open>/commands\<close>.  The authenticator, the
  actor resolver and the handlers are arguments, as they are injected; so are the AG-UI request parser,
  Python's \<open>str\<close> of a JSON value that is no text, and the text of an exception.
\<close>

section \<open>Request values\<close>

text \<open>A parsed JSON value; a number keeps whether it is not zero and its text.\<close>

datatype wire = WNull | WBool bool | WNumber bool string | WText string | WArray "wire list" | WObject "(string \<times> wire) list"

fun wire_truthy :: "wire \<Rightarrow> bool" where
  "wire_truthy WNull = False"
| "wire_truthy (WBool b) = b"
| "wire_truthy (WNumber b _) = b"
| "wire_truthy (WText s) = (s \<noteq> [])"
| "wire_truthy (WArray vs) = (vs \<noteq> [])"
| "wire_truthy (WObject d) = (d \<noteq> [])"

record http_request =
  rq_cookie :: "string option"
  rq_origin :: "string option"
  rq_csrf_proof :: "string option"
  rq_client_host :: "string option"
  rq_body :: "wire option"

text \<open>The parts of an AG-UI run input that the endpoint reads; a message whose content is no text is \<open>None\<close>.\<close>

record run_input =
  ri_thread_id :: string
  ri_run_id :: string
  ri_messages :: "string option list"
  ri_resume :: "(string \<times> wire) list"
  ri_forwarded_props :: wire

section \<open>Parsing\<close>

definition bad_request :: "string \<Rightarrow> exn" where
  "bad_request detail = HTTPException 400 detail"

definition extract_text :: "string option list \<Rightarrow> string result" where
  "extract_text messages =
     (if messages = [] then Inl (bad_request ''messages must contain a user message'')
      else case last messages of
          Some t \<Rightarrow> if t = [] then Inl (bad_request ''last message must have text content'') else Inr t
        | None \<Rightarrow> Inl (bad_request ''last message must have text content''))"

fun wire_get :: "wire \<Rightarrow> string \<Rightarrow> wire result" where
  "wire_get (WObject d) k = Inr (case dict_get d k of None \<Rightarrow> WNull | Some v \<Rightarrow> v)"
| "wire_get _ k = Inl (AttributeError ''get'')"

definition extract_answer :: "(string \<times> wire) list \<Rightarrow> (string \<times> wire) result" where
  "extract_answer resume =
     (case resume of
        [(interrupt_id, raw)] \<Rightarrow>
          let payload = (if wire_truthy raw then raw else WObject []) in
          bind_result (wire_get payload ''selected_choice'') (\<lambda>choice.
          bind_result (if wire_truthy choice then Inr choice else wire_get payload ''value'') (\<lambda>answer.
            if \<not> wire_truthy answer then Inl (bad_request ''resume payload missing an answer'')
            else Inr (interrupt_id, answer)))
      | _ \<Rightarrow> Inl (bad_request ''exactly one resume entry expected''))"

text \<open>\<open>ScopeHint.model_validate\<close>.\<close>

fun optional_text :: "wire option \<Rightarrow> string option result" where
  "optional_text None = Inr None"
| "optional_text (Some WNull) = Inr None"
| "optional_text (Some (WText s)) = Inr (Some s)"
| "optional_text (Some _) = Inl (ValidationError ''Input should be a valid string'')"

definition parse_wire_hint :: "wire \<Rightarrow> scope_hint result" where
  "parse_wire_hint v =
     (case v of
        WObject d \<Rightarrow>
          bind_result (case dict_get d ''tenant'' of
              Some (WObject t) \<Rightarrow> (case (dict_get t ''org'', dict_get t ''bu'') of
                  (Some (WText og), Some (WText bu)) \<Rightarrow> make_tenant_ref og bu
                | _ \<Rightarrow> Inl (ValidationError ''TenantRef''))
            | _ \<Rightarrow> Inl (ValidationError ''ScopeHint'')) (\<lambda>tenant.
          bind_result (optional_text (dict_get d ''project'')) (\<lambda>project.
          bind_result (optional_text (dict_get d ''workspace'')) (\<lambda>workspace.
            Inr \<lparr>hint_tenant = tenant, hint_project = project, hint_workspace = workspace\<rparr>)))
      | _ \<Rightarrow> Inl (ValidationError ''ScopeHint''))"

definition extract_scope_hint :: "(exn \<Rightarrow> string) \<Rightarrow> wire \<Rightarrow> scope_hint option result" where
  "extract_scope_hint describe props =
     (case props of
        WObject d \<Rightarrow>
          let structured = (case dict_get d ''scopeHint'' of None \<Rightarrow> WNull | Some v \<Rightarrow> v);
              raw_scope = (case dict_get d ''scope'' of None \<Rightarrow> WNull | Some v \<Rightarrow> v) in
          if structured \<noteq> WNull
          then (case parse_wire_hint structured of
              Inr h \<Rightarrow> Inr (Some h)
            | Inl _ \<Rightarrow> Inl (bad_request ''invalid scopeHint forwardedProp''))
          else (case raw_scope of
              WNull \<Rightarrow> Inr None
            | WText s \<Rightarrow>
                if s = [] then Inl (bad_request ''scope forwardedProp must use org:bu/project/workspace'')
                else (case parse_scope_hint s of
                    Inr h \<Rightarrow> Inr (Some h)
                  | Inl e \<Rightarrow> Inl (if is_value_error e then bad_request (describe e) else e))
            | _ \<Rightarrow> Inl (bad_request ''scope forwardedProp must use org:bu/project/workspace''))
      | _ \<Rightarrow> Inr None)"

section \<open>Fields that name authority\<close>

definition authority_key_fragments :: "string list" where
  "authority_key_fragments = [''provider'', ''binding'', ''credential'', ''secret'', ''token'', ''grant'',
     ''reviewer'', ''principal'', ''actor'', ''issuer'', ''subject'', ''role'', ''session'']"

definition contains_text :: "string \<Rightarrow> string \<Rightarrow> bool" where
  "contains_text s part \<longleftrightarrow> list_ex (\<lambda>n. starts_with (drop n s) part) [0..<Suc (length s)]"

definition names_authority :: "string \<Rightarrow> bool" where
  "names_authority k \<longleftrightarrow> list_ex (contains_text (py_lower k)) authority_key_fragments"

fun find_authority_key :: "wire \<Rightarrow> string option"
  and find_in_members :: "(string \<times> wire) list \<Rightarrow> string option"
  and find_in_items :: "wire list \<Rightarrow> string option" where
  "find_authority_key (WObject d) = find_in_members d"
| "find_authority_key (WArray vs) = find_in_items vs"
| "find_authority_key WNull = None"
| "find_authority_key (WBool _) = None"
| "find_authority_key (WNumber _ _) = None"
| "find_authority_key (WText _) = None"
| "find_in_members [] = None"
| "find_in_members ((k, v) # d) =
     (if names_authority k then Some k
      else if falsy_text (find_authority_key v) then find_in_members d else find_authority_key v)"
| "find_in_items [] = None"
| "find_in_items (v # vs) = (if falsy_text (find_authority_key v) then find_in_items vs else find_authority_key v)"

section \<open>Responses\<close>

datatype sse_frame =
    RunStarted string string
  | CustomFrame string ui_value
  | RunFinished ui_value
  | CommandFinished string string

datatype http_response = HttpError nat string | EventStream "sse_frame list" | JsonBody ui_value

definition custom_frame :: "ui_value \<Rightarrow> sse_frame" where
  "custom_frame m = CustomFrame
     (''a2ui.'' @ (if uv_get m ''createSurface'' \<noteq> None then ''createSurface'' else ''updateComponents'')) m"

definition respond :: "sse_frame list result \<Rightarrow> http_response" where
  "respond r =
     (case r of
        Inr frames \<Rightarrow> EventStream frames
      | Inl (HTTPException status detail) \<Rightarrow> HttpError status detail
      | Inl _ \<Rightarrow> HttpError 500 ''Internal Server Error'')"

definition info_endpoint :: http_response where
  "info_endpoint = JsonBody (UvDict [(''agentId'', UvText ''platformops''), (''protocol'', UvText ''ag-ui'')])"

section \<open>Authentication\<close>

type_synonym 'w authenticator = "'w \<Rightarrow> string \<Rightarrow> string option \<Rightarrow> string option \<Rightarrow> validated_principal result"

definition browser_principal :: "'w authenticator \<Rightarrow> http_request \<Rightarrow> 'w \<Rightarrow> validated_principal result" where
  "browser_principal auth rq w =
     (case auth w (case rq_cookie rq of None \<Rightarrow> [] | Some t \<Rightarrow> t) (rq_origin rq) (rq_csrf_proof rq) of
        Inl (BrowserSessionAuthenticationError _) \<Rightarrow> Inl (HTTPException 401 ''invalid browser session'')
      | r \<Rightarrow> r)"

text \<open>The request's own actor session, five minutes from the clock reading.\<close>

definition request_session :: "validated_principal \<Rightarrow> actor \<Rightarrow> datetime \<Rightarrow> actor_session" where
  "request_session p a now = \<lparr>as_session_id = ''browser-request:'' @ vp_subject p, as_actor = a, as_groups = [],
     as_created_at = now, as_expires_at = dt_add_seconds now 300\<rparr>"

definition load_actor_session ::
  "'w authenticator \<Rightarrow> ('w \<Rightarrow> validated_principal \<Rightarrow> actor result) \<Rightarrow> http_request \<Rightarrow> datetime \<Rightarrow> 'w \<Rightarrow> actor_session result" where
  "load_actor_session auth resolve rq now w =
     bind_result (browser_principal auth rq w) (\<lambda>p.
       case resolve w p of
         Inl (BrowserRuntimeActorResolutionError _) \<Rightarrow> Inl (HTTPException 403 ''runtime actor unavailable'')
       | Inl e \<Rightarrow> Inl e
       | Inr a \<Rightarrow> Inr (request_session p a now))"

section \<open>Runs\<close>

definition answer_text :: "(wire \<Rightarrow> string) \<Rightarrow> wire \<Rightarrow> string" where
  "answer_text str_of v = (case v of WText s \<Rightarrow> s | _ \<Rightarrow> str_of v)"

text \<open>The one call of the harness a run makes, or the error that comes before it.\<close>

datatype harness_turn =
    StartTurn string string "scope_hint option"
  | ResumeTurn string string string

definition turn_of :: "(wire \<Rightarrow> string) \<Rightarrow> (exn \<Rightarrow> string) \<Rightarrow> run_input \<Rightarrow> harness_turn result" where
  "turn_of str_of describe ri =
     (if ri_resume ri \<noteq> []
      then bind_result (extract_answer (ri_resume ri)) (\<lambda>(i, answer).
        Inr (ResumeTurn (ri_thread_id ri) i (answer_text str_of answer)))
      else bind_result (extract_text (ri_messages ri)) (\<lambda>t.
        bind_result (extract_scope_hint describe (ri_forwarded_props ri)) (\<lambda>hint.
        Inr (StartTurn (ri_thread_id ri) t hint))))"

definition value_error_as_400 :: "(exn \<Rightarrow> string) \<Rightarrow> 'a result \<Rightarrow> 'a result" where
  "value_error_as_400 describe r =
     (case r of Inl e \<Rightarrow> Inl (if is_value_error e then bad_request (describe e) else e) | Inr x \<Rightarrow> Inr x)"

definition run_frames :: "run_input \<Rightarrow> harness_event \<Rightarrow> sse_frame list result" where
  "run_frames ri ev =
     (case ev of
        HitlRaised e \<Rightarrow> bind_result (hitl_event_to_a2ui_messages e) (\<lambda>ms.
          Inr (RunStarted (ri_thread_id ri) (ri_run_id ri) # map custom_frame ms @
            [RunFinished (hitl_event_to_run_finished e (ri_thread_id ri) (ri_run_id ri))]))
      | EventEmitted e \<Rightarrow>
          Inr (RunStarted (ri_thread_id ri) (ri_run_id ri) # map custom_frame (platformops_event_to_a2ui_messages e) @
            [RunFinished (platformops_event_to_run_finished e (ri_thread_id ri) (ri_run_id ri))]))"

text \<open>The fresh event id and the two clock readings of the harness call are arguments.\<close>

fun perform_turn ::
  "'w llm \<Rightarrow> actor_session \<Rightarrow> harness_turn \<Rightarrow> string \<Rightarrow> datetime \<Rightarrow> datetime \<Rightarrow> pending_table \<times> 'w
     \<Rightarrow> harness_event result \<times> pending_table \<times> 'w" where
  "perform_turn model a (StartTurn i t hint) ev t1 t2 st = start_run model a i t hint ev t1 t2 st"
| "perform_turn model a (ResumeTurn i interrupt answer) ev t1 t2 st =
     resume_clarification model a i interrupt answer ev t1 t2 st"

definition runs_endpoint ::
  "'w llm \<Rightarrow> 'w authenticator \<Rightarrow> ('w \<Rightarrow> validated_principal \<Rightarrow> actor result) \<Rightarrow> (wire \<Rightarrow> run_input option) \<Rightarrow> (wire \<Rightarrow> string)
     \<Rightarrow> (exn \<Rightarrow> string) \<Rightarrow> http_request \<Rightarrow> string \<Rightarrow> datetime \<Rightarrow> datetime \<Rightarrow> datetime \<Rightarrow> pending_table \<times> 'w
     \<Rightarrow> sse_frame list result \<times> pending_table \<times> 'w" where
  "runs_endpoint model auth resolve parse_run str_of describe rq ev t0 t1 t2 st =
     (case load_actor_session auth resolve rq t0 (snd st) of
        Inl e \<Rightarrow> (Inl e, st)
      | Inr a \<Rightarrow>
          (case Option.bind (rq_body rq) parse_run of
             None \<Rightarrow> (Inl (bad_request ''invalid run body''), st)
           | Some ri \<Rightarrow>
               (case turn_of str_of describe ri of
                  Inl e \<Rightarrow> (value_error_as_400 describe (Inl e), st)
                | Inr turn \<Rightarrow>
                    (case perform_turn model a turn ev t1 t2 st of
                       (r, st') \<Rightarrow> (bind_result (value_error_as_400 describe r) (run_frames ri), st')))))"

section \<open>Commands\<close>

text \<open>The shape of a command body: thread, run, command and payload.\<close>

definition nonempty_text :: "wire option \<Rightarrow> string option" where
  "nonempty_text v = (case v of Some (WText s) \<Rightarrow> if s = [] then None else Some s | _ \<Rightarrow> None)"

definition parse_command_body :: "wire option \<Rightarrow> (string \<times> string \<times> string \<times> (string \<times> wire) list) result" where
  "parse_command_body body =
     (case body of
        Some (WObject d) \<Rightarrow>
          (case (nonempty_text (dict_get d ''threadId''), nonempty_text (dict_get d ''runId''), nonempty_text (dict_get d ''command'')) of
             (Some thread_id, Some run_id, Some command) \<Rightarrow>
               (case (case dict_get d ''payload'' of None \<Rightarrow> WObject [] | Some v \<Rightarrow> v) of
                  WObject payload \<Rightarrow>
                    (case find_authority_key (WObject payload) of
                       Some k \<Rightarrow>
                         if k \<noteq> [] then Inl (bad_request (''payload field '' @ py_repr k @ '' is not accepted''))
                         else Inr (thread_id, run_id, command, payload)
                     | None \<Rightarrow> Inr (thread_id, run_id, command, payload))
                | _ \<Rightarrow> Inl (bad_request ''payload must be an object''))
           | _ \<Rightarrow> Inl (bad_request ''threadId, runId and command are required''))
      | _ \<Rightarrow> Inl (bad_request ''invalid command body''))"

text \<open>\<open>LoginCommand.model_validate(payload).model_dump()\<close>.\<close>

definition login_payload :: "(string \<times> wire) list \<Rightarrow> (string \<times> wire) list result" where
  "login_payload payload =
     (case dict_get payload ''email'' of
        Some (WText email_text) \<Rightarrow>
          if only_keys [''email''] payload \<and> 1 \<le> length email_text \<and> length email_text \<le> 320
          then Inr [(''email'', WText email_text)] else Inl (bad_request ''invalid login payload'')
      | _ \<Rightarrow> Inl (bad_request ''invalid login payload''))"

text \<open>Login is the one public command; any other takes its principal from the cookie.\<close>

definition command_principal ::
  "'w authenticator \<Rightarrow> ('w \<Rightarrow> string option \<Rightarrow> bool) \<Rightarrow> http_request \<Rightarrow> string \<Rightarrow> (string \<times> wire) list \<Rightarrow> 'w
     \<Rightarrow> (validated_principal option \<times> (string \<times> wire) list) result" where
  "command_principal auth expected_origin rq command payload w =
     (if command = ''/login''
      then if \<not> expected_origin w (rq_origin rq) then Inl (HTTPException 403 ''command not permitted'')
           else bind_result (login_payload payload) (\<lambda>p. Inr (None, p))
      else bind_result (browser_principal auth rq w) (\<lambda>who. Inr (Some who, payload)))"

definition command_error :: "(exn \<Rightarrow> string) \<Rightarrow> exn \<Rightarrow> exn" where
  "command_error describe e =
     (case e of
        CommandRouteUnavailable _ \<Rightarrow> HTTPException 404 (describe e)
      | ValidationError _ \<Rightarrow> bad_request ''invalid command payload''
      | _ \<Rightarrow> if is_permission_error e then HTTPException 403 ''command not permitted'' else e)"

definition command_frames :: "string \<Rightarrow> string \<Rightarrow> ui_value list \<Rightarrow> sse_frame list" where
  "command_frames thread_id run_id ms = RunStarted thread_id run_id # map custom_frame ms @ [CommandFinished thread_id run_id]"

definition commands_endpoint ::
  "((string, ((string \<times> wire) list, command_outcome, 'w) workflow_handler) dict) \<Rightarrow> 'w authenticator \<Rightarrow> ('w \<Rightarrow> string option \<Rightarrow> bool)
     \<Rightarrow> (exn \<Rightarrow> string) \<Rightarrow> http_request \<Rightarrow> 'w \<Rightarrow> sse_frame list result \<times> 'w" where
  "commands_endpoint handlers auth expected_origin describe rq w =
     (case parse_command_body (rq_body rq) of
        Inl e \<Rightarrow> (Inl e, w)
      | Inr (thread_id, run_id, command, payload) \<Rightarrow>
          (case command_principal auth expected_origin rq command payload w of
             Inl e \<Rightarrow> (Inl e, w)
           | Inr (who, payload1) \<Rightarrow>
               (case dispatch handlers command payload1 who (rq_client_host rq) w of
                  (Inl e, w1) \<Rightarrow> (Inl (command_error describe e), w1)
                | (Inr outcome, w1) \<Rightarrow>
                    (bind_result (command_result_to_a2ui_messages (run_id @ ''-command'') command outcome) (\<lambda>ms.
                       Inr (command_frames thread_id run_id ms)), w1))))"

end
