(* ===== verification/Remote_Tui.thy ===== *)
theory Remote_Tui
  imports Http_Transport
begin

text \<open>
  The terminal side: \<open>interaction/tui.py\<close> (rendering and prompting, with what the user typed as an
  argument) and \<open>transports/remote_tui.py\<close> (the client state of one AG-UI thread).  The ISO text of a
  date is an argument.
\<close>

section \<open>Rendering\<close>

fun event_kind_value :: "event_kind \<Rightarrow> string" where
  "event_kind_value INTAKE_STARTED = ''intake.started''"
| "event_kind_value ROUTE_RESOLVED = ''route.resolved''"
| "event_kind_value PLAN_STARTED = ''plan.started''"
| "event_kind_value PLAN_SUMMARY = ''plan.summary''"
| "event_kind_value EXECUTION_STARTED = ''execution.started''"
| "event_kind_value EXECUTION_PROGRESS = ''execution.progress''"
| "event_kind_value EXECUTION_COMPLETED = ''execution.completed''"

fun payload_repr :: "payload_value \<Rightarrow> string" where
  "payload_repr (PvText s) = py_repr s"
| "payload_repr v = payload_text v"

definition render_platform_event :: "platform_event \<Rightarrow> string" where
  "render_platform_event e = ''['' @ event_kind_value (pe_kind e) @ ''] request='' @ pe_request_id e @ '' payload='' @
     dict_repr (map (\<lambda>(k, v). (k, payload_repr v)) (pe_payload e))"

definition line_break :: string where
  "line_break = [CHR 0x0A]"

definition render_session_summary :: "(datetime \<Rightarrow> string) \<Rightarrow> actor_session \<Rightarrow> datetime \<Rightarrow> string result" where
  "render_session_summary iso_text s now =
     bind_result (session_is_expired s now) (\<lambda>expired.
       Inr (a_email (as_actor s) @ '' ('' @ a_user_id (as_actor s) @ '')'' @ line_break @ ''session '' @
         (if expired then ''EXPIRED'' else ''active'') @ '', expires '' @ iso_text (as_expires_at s)))"

definition or_star :: "string option \<Rightarrow> string" where
  "or_star v = (if falsy_text v then ''*'' else the v)"

definition grant_target :: "scope \<Rightarrow> string" where
  "grant_target s = ''  '' @ scope_org_bu s @ ''/'' @ or_star (s_project s) @ ''/'' @ or_star (s_workspace s)"

definition render_session_detail :: "(datetime \<Rightarrow> string) \<Rightarrow> actor_session \<Rightarrow> datetime \<Rightarrow> string result" where
  "render_session_detail iso_text s now =
     bind_result (render_session_summary iso_text s now) (\<lambda>summary.
       Inr (join_with line_break
         ([summary, [], ''groups: '' @ (if join_with '', '' (as_groups s) = [] then ''(none)'' else join_with '', '' (as_groups s)),
           ''execution_grants:''] @
          (if a_execution_grants (as_actor s) = [] then [''  (none)'']
           else map (\<lambda>g. grant_target (grant_scope g) @ '' -> '' @ capability_value (grant_capability g) @ '' ('' @ grant_provider g @ '')'')
             (a_execution_grants (as_actor s))) @
          [''approval_grants:''] @
          (if a_approval_grants (as_actor s) = [] then [''  (none)'']
           else map (\<lambda>g. grant_target (ag_scope g) @ '' -> max '' @ capability_value (ag_max_capability g))
             (a_approval_grants (as_actor s))))))"

definition render_hitl_event :: "hitl_event \<Rightarrow> string" where
  "render_hitl_event e =
     (if he_kind e = CLARIFICATION_REQUIRED
      then (case he_payload e of
          PayloadDecision d \<Rightarrow>
            (case d_clarification_questions d of
               q # _ \<Rightarrow> ''[clarification] '' @ q_question q @ line_break @ ''choices: '' @
                 (if q_choices q = [] then ''free text'' else join_with '', '' (q_choices q))
             | [] \<Rightarrow> ''[clarification] input required'')
        | PayloadApproval _ \<Rightarrow> ''[clarification] input required'')
      else (case he_payload e of
          PayloadApproval r \<Rightarrow> ''[approval] '' @ scope_org_bu (aq_scope r) @ ''/'' @ text_of_option (s_project (aq_scope r)) @ ''/'' @
            text_of_option (s_workspace (aq_scope r)) @ line_break @ ''intent: '' @ aq_intent r @ line_break @
            ''capability: '' @ capability_value (aq_capability_required r) @ line_break @
            ''digest: '' @ aq_approval_digest r @ line_break @ aq_vibe_diff r
        | PayloadDecision _ \<Rightarrow> ''[approval] approval required''))"

section \<open>Prompting\<close>

definition prompt_hitl_response :: "hitl_event \<Rightarrow> actor_ref \<Rightarrow> string \<Rightarrow> datetime \<Rightarrow> hitl_response" where
  "prompt_hitl_response e responder typed now =
     (if he_kind e = CLARIFICATION_REQUIRED
      then let selected = (if py_strip typed = [] then None else Some (py_strip typed)) in
        \<lparr>hr_event_id = he_event_id e, hr_request_id = he_request_id e, hr_responder = responder, hr_verdict = VERDICT_ANSWER,
         hr_value = selected, hr_selected_choice = selected, hr_approval_digest = None, hr_responded_at = now\<rparr>
      else let approved = py_lower (py_strip typed) \<in> {''y'', ''yes'', ''approve'', ''approved''} in
        \<lparr>hr_event_id = he_event_id e, hr_request_id = he_request_id e, hr_responder = responder,
         hr_verdict = (if approved then HITL_APPROVE else HITL_REJECT), hr_value = None, hr_selected_choice = None,
         hr_approval_digest = (case he_payload e of PayloadApproval r \<Rightarrow> Some (aq_approval_digest r) | PayloadDecision _ \<Rightarrow> None),
         hr_responded_at = now\<rparr>)"

section \<open>The remote client\<close>

record remote_state =
  rm_thread_id :: string
  rm_pending :: "ui_value list"
  rm_interrupted_run_id :: "ui_value option"

fun uv_truthy :: "ui_value \<Rightarrow> bool" where
  "uv_truthy UvNone = False"
| "uv_truthy (UvBool b) = b"
| "uv_truthy (UvText s) = (s \<noteq> [])"
| "uv_truthy (UvList vs) = (vs \<noteq> [])"
| "uv_truthy (UvDict d) = (d \<noteq> [])"
| "uv_truthy _ = True"

text \<open>\<open>d.get(key)\<close>, with \<open>None\<close> for a missing key.\<close>

fun uv_field :: "ui_value \<Rightarrow> string \<Rightarrow> ui_value result" where
  "uv_field (UvDict d) k = Inr (case dict_get d k of None \<Rightarrow> UvNone | Some v \<Rightarrow> v)"
| "uv_field _ k = Inl (AttributeError ''get'')"

definition interrupt_id :: "ui_value \<Rightarrow> ui_value result" where
  "interrupt_id v = bind_result (uv_field v ''id'') (\<lambda>i.
     if uv_truthy i then Inr i else Inl (ValueError ''interrupt is missing its id''))"

fun collect_results :: "('a \<Rightarrow> 'b result) \<Rightarrow> 'a list \<Rightarrow> 'b list result" where
  "collect_results f [] = Inr []"
| "collect_results f (x # xs) = bind_result (f x) (\<lambda>y. bind_result (collect_results f xs) (\<lambda>ys. Inr (y # ys)))"

definition build_user_run_input :: "remote_state \<Rightarrow> string \<Rightarrow> string \<Rightarrow> ui_value result" where
  "build_user_run_input st run_id message =
     (if rm_pending st \<noteq> [] then Inl (ValueError ''pending interrupts must be resumed before sending new input'')
      else Inr (UvDict [(''threadId'', UvText (rm_thread_id st)), (''runId'', UvText run_id),
        (''messages'', UvList [UvDict [(''role'', UvText ''user''), (''content'', UvText message)]])]))"

definition success_outcome :: ui_value where
  "success_outcome = UvDict [(''type'', UvText ''success'')]"

fun uv_items :: "ui_value \<Rightarrow> ui_value list result" where
  "uv_items (UvList vs) = Inr vs"
| "uv_items _ = Inl (TypeError ''object is not a list of interrupts'')"

definition observe_agui_event :: "remote_state \<Rightarrow> ui_value \<Rightarrow> remote_state result" where
  "observe_agui_event st event =
     bind_result (uv_field event ''threadId'') (\<lambda>thread.
     if thread \<noteq> UvNone \<and> thread \<noteq> UvText (rm_thread_id st)
     then Inl (ValueError ''AG-UI event threadId does not match remote TUI thread'')
     else bind_result (uv_field event ''type'') (\<lambda>ty.
     if ty \<noteq> UvText ''RUN_FINISHED'' then Inr st
     else bind_result (uv_field event ''outcome'') (\<lambda>raw.
       let outcome = (if uv_truthy raw then raw else success_outcome) in
       bind_result (uv_field outcome ''type'') (\<lambda>kind.
       if kind = UvText ''interrupt''
       then bind_result (uv_field outcome ''interrupts'') (\<lambda>found.
         bind_result (if uv_truthy found then uv_items found else Inr []) (\<lambda>interrupts.
         bind_result (collect_results interrupt_id interrupts) (\<lambda>ids.
         if ids = [] then Inl (ValueError ''interrupt outcome must carry at least one interrupt'')
         else bind_result (uv_field event ''runId'') (\<lambda>run.
           Inr (st\<lparr>rm_pending := ids, rm_interrupted_run_id := (if run = UvNone then None else Some run)\<rparr>)))))
       else Inr (st\<lparr>rm_pending := [], rm_interrupted_run_id := None\<rparr>)))))"

definition build_resume_run_input :: "remote_state \<Rightarrow> string \<Rightarrow> hitl_response list \<Rightarrow> ui_value result" where
  "build_resume_run_input st run_id responses =
     (let ids = map (\<lambda>r. UvText (hr_event_id r)) responses in
      if rm_pending st = [] then Inl (ValueError ''no pending interrupts to resume'')
      else if set ids \<noteq> set (rm_pending st) then Inl (ValueError ''resume must address every pending interrupt exactly once'')
      else if \<not> distinct ids then Inl (ValueError ''resume contains duplicate interrupt responses'')
      else Inr (UvDict [(''threadId'', UvText (rm_thread_id st)), (''runId'', UvText run_id),
        (''resume'', UvList (map hitl_response_to_resume_entry responses))]))"

end
