(* ===== verification/Web_Properties.thy ===== *)
theory Web_Properties
  imports Remote_Tui Harness_Properties
begin

text \<open>
  What a browser or a remote terminal can make the program do: commands run with the authority of the
  cookie and never of the payload, the requests of a server drive the harness only as the resolved
  actor, surfaces show only listed fields, and an answer typed in the terminal reaches the question
  that was asked.
\<close>

section \<open>Keys that name authority\<close>

text \<open>Every key of a JSON value, at any depth.\<close>

fun wire_keys :: "wire \<Rightarrow> string list"
  and member_keys :: "(string \<times> wire) list \<Rightarrow> string list"
  and item_keys :: "wire list \<Rightarrow> string list" where
  "wire_keys (WObject d) = member_keys d"
| "wire_keys (WArray vs) = item_keys vs"
| "wire_keys WNull = []"
| "wire_keys (WBool _) = []"
| "wire_keys (WNumber _ _) = []"
| "wire_keys (WText _) = []"
| "member_keys [] = []"
| "member_keys ((k, v) # d) = k # wire_keys v @ member_keys d"
| "item_keys [] = []"
| "item_keys (v # vs) = wire_keys v @ item_keys vs"

definition free_of_authority :: "(string \<times> wire) list \<Rightarrow> bool" where
  "free_of_authority payload \<longleftrightarrow> \<not> list_ex names_authority (member_keys payload)"

lemma no_empty_authority_key [simp]: "\<not> names_authority []"
  by code_simp

lemma found_key_names_authority:
  shows "find_authority_key v = Some k \<Longrightarrow> names_authority k"
    and "find_in_members d = Some k \<Longrightarrow> names_authority k"
    and "find_in_items vs = Some k \<Longrightarrow> names_authority k"
  by (induction v and d and vs rule: find_authority_key_find_in_members_find_in_items.induct)
    (auto split: if_splits)

lemma found_key_not_falsy: "falsy_text (find_authority_key v) \<longleftrightarrow> find_authority_key v = None"
  by (cases "find_authority_key v") (auto simp: falsy_text_def dest: found_key_names_authority(1))

lemma find_authority_key_None:
  shows "find_authority_key v = None \<longleftrightarrow> \<not> list_ex names_authority (wire_keys v)"
    and "find_in_members d = None \<longleftrightarrow> \<not> list_ex names_authority (member_keys d)"
    and "find_in_items vs = None \<longleftrightarrow> \<not> list_ex names_authority (item_keys vs)"
  by (induction v and d and vs rule: find_authority_key_find_in_members_find_in_items.induct)
    (auto simp: found_key_not_falsy)

lemma parse_command_body_Inr:
  assumes "parse_command_body body = Inr (thread_id, run_id, command, payload)"
  shows "\<exists>d. body = Some (WObject d) \<and> dict_get d ''threadId'' = Some (WText thread_id) \<and>
    dict_get d ''runId'' = Some (WText run_id) \<and> dict_get d ''command'' = Some (WText command) \<and>
    (dict_get d ''payload'' = Some (WObject payload) \<or> dict_get d ''payload'' = None \<and> payload = []) \<and>
    free_of_authority payload"
proof -
  have named: "nonempty_text v = Some s \<Longrightarrow> v = Some (WText s)" for v s
    by (auto simp: nonempty_text_def split: option.splits wire.splits if_splits)
  obtain d where body: "body = Some (WObject d)"
    using assms by (auto simp: parse_command_body_def split: option.splits wire.splits)
  have free: "find_authority_key (WObject payload) = None"
    using assms found_key_names_authority(1) [of "WObject payload"]
    by (auto simp: parse_command_body_def split: option.splits wire.splits if_splits)
  then have "free_of_authority payload"
    by (simp add: free_of_authority_def find_authority_key_None)
  moreover have "nonempty_text (dict_get d ''threadId'') = Some thread_id \<and> nonempty_text (dict_get d ''runId'') = Some run_id \<and>
      nonempty_text (dict_get d ''command'') = Some command \<and>
      (case dict_get d ''payload'' of None \<Rightarrow> WObject [] | Some v \<Rightarrow> v) = WObject payload"
    using assms body by (auto simp: parse_command_body_def split: option.splits wire.splits if_splits)
  ultimately show ?thesis using body named by (auto split: option.splits)
qed

section \<open>Browser commands\<close>

text \<open>Who a browser command runs as: nobody for a login from the expected origin, and otherwise the
  principal of the cookie.\<close>

definition command_caller ::
  "'w authenticator \<Rightarrow> ('w \<Rightarrow> string option \<Rightarrow> bool) \<Rightarrow> http_request \<Rightarrow> 'w \<Rightarrow> control_plane_command
     \<Rightarrow> validated_principal option \<Rightarrow> bool" where
  "command_caller auth expected_origin rq w c who \<longleftrightarrow>
     (if c = LOGIN then who = None \<and> expected_origin w (rq_origin rq)
      else who \<noteq> None \<and> auth w (case rq_cookie rq of None \<Rightarrow> [] | Some t \<Rightarrow> t) (rq_origin rq) (rq_csrf_proof rq) = Inr (the who))"

definition body_command :: "http_request \<Rightarrow> string option" where
  "body_command rq = (case rq_body rq of Some (WObject d) \<Rightarrow> nonempty_text (dict_get d ''command'') | _ \<Rightarrow> None)"

lemma login_payload_Inr:
  "login_payload payload = Inr p \<Longrightarrow> \<exists>m. dict_get payload ''email'' = Some (WText m) \<and> p = [(''email'', WText m)] \<and> free_of_authority p"
proof -
  assume "login_payload payload = Inr p"
  then obtain m where "dict_get payload ''email'' = Some (WText m)" "p = [(''email'', WText m)]"
    by (auto simp: login_payload_def split: option.splits wire.splits if_splits)
  moreover have "\<not> names_authority ''email''" by code_simp
  ultimately show ?thesis by (auto simp: free_of_authority_def)
qed

lemma browser_principal_Inr:
  "browser_principal auth rq w = Inr p \<longleftrightarrow>
     auth w (case rq_cookie rq of None \<Rightarrow> [] | Some t \<Rightarrow> t) (rq_origin rq) (rq_csrf_proof rq) = Inr p"
  by (auto simp: browser_principal_def split: sum.splits exn.splits)

lemma command_principal_Inr:
  assumes "command_principal auth expected_origin rq (command_value c) payload w = Inr (who, payload1)" "free_of_authority payload"
  shows "command_caller auth expected_origin rq w c who \<and> free_of_authority payload1"
proof (cases "c = LOGIN")
  case True
  with assms show ?thesis
    by (auto simp: command_principal_def command_caller_def result_simps dest: login_payload_Inr split: if_splits)
next
  case False
  then have "command_value c \<noteq> ''/login''" using command_value_inj [of c LOGIN] by simp
  with assms False show ?thesis
    by (auto simp: command_principal_def command_caller_def result_simps browser_principal_Inr)
qed

text \<open>
  C4. A browser command changes the world only by running the handler of a declared command, once,
  with the peer address as its source, a payload without any key that names authority at any depth,
  and the principal the cookie authenticator accepted for this request; only a login runs without a
  principal, and only from the expected origin.  Every other request is refused and changes nothing.
\<close>

theorem browser_commands_take_authority_from_the_cookie:
  assumes "commands_endpoint handlers auth expected_origin describe rq w = (r, w')"
  shows "(\<exists>e. r = Inl e) \<and> w' = w \<or>
    (\<exists>c h who payload outcome. body_command rq = Some (command_value c) \<and> command_caller auth expected_origin rq w c who \<and>
       free_of_authority payload \<and> dict_get handlers (rt_workflow_id (command_routes c)) = Some h \<and>
       h \<lparr>inv_route = command_routes c, inv_principal = who, inv_payload = payload, inv_source = rq_client_host rq\<rparr> w = (outcome, w') \<and>
       (is_Inr r \<longrightarrow> is_Inr outcome))"
proof (cases "parse_command_body (rq_body rq)")
  case (Inl e)
  with assms show ?thesis by (auto simp: commands_endpoint_def)
next
  case (Inr parts)
  obtain thread_id run_id command payload where parts: "parts = (thread_id, run_id, command, payload)" by (cases parts)
  note body = parse_command_body_Inr [OF Inr [unfolded parts]]
  have "command \<noteq> []" using Inr parts
    by (auto simp: parse_command_body_def nonempty_text_def split: option.splits wire.splits if_splits)
  with body have named: "body_command rq = Some command" by (auto simp: body_command_def nonempty_text_def)
  show ?thesis
  proof (cases "command_principal auth expected_origin rq command payload w")
    case (Inl e)
    with assms Inr parts show ?thesis by (auto simp: commands_endpoint_def)
  next
    case chosen: (Inr pair)
    obtain who payload1 where pair: "pair = (who, payload1)" by (cases pair)
    obtain x w1 where x: "dispatch handlers command payload1 who (rq_client_host rq) w = (x, w1)"
      by (cases "dispatch handlers command payload1 who (rq_client_host rq) w")
    have r: "w' = w1" "is_Inr r \<longrightarrow> is_Inr x" "x = Inl e \<Longrightarrow> \<exists>e. r = Inl e" for e
      using assms Inr parts chosen pair x by (auto simp: commands_endpoint_def split: sum.splits)
    from dispatch_runs_only_declared_routes [of command who handlers payload1 "rq_client_host rq" w]
    consider (ran) c h where "command = command_value c" "dict_get handlers (rt_workflow_id (command_routes c)) = Some h"
        "h \<lparr>inv_route = command_routes c, inv_principal = who, inv_payload = payload1, inv_source = rq_client_host rq\<rparr> w = (x, w1)"
      | (refused) e where "x = Inl e" "w1 = w"
      unfolding x by fastforce
    then show ?thesis
    proof cases
      case ran
      with chosen pair body command_principal_Inr [of auth expected_origin rq c payload w who payload1]
      have "command_caller auth expected_origin rq w c who" "free_of_authority payload1" by auto
      with ran r named show ?thesis by blast
    next
      case refused
      with r show ?thesis by blast
    qed
  qed
qed

definition demo_handlers :: "(string, ((string \<times> wire) list, command_outcome, nat) workflow_handler) dict" where
  "demo_handlers = [(''provision'', \<lambda>i n. (Inr (OutDict [(''status'', OvText ''planned'')]), n + 1))]"

definition demo_cookie :: "nat authenticator" where
  "demo_cookie n token origin csrf =
     (if token = ''t1'' then Inr \<lparr>vp_issuer = ''iss'', vp_subject = ''alice''\<rparr>
      else Inl (BrowserSessionAuthenticationError ''invalid browser session''))"

definition demo_request :: "string \<Rightarrow> (string \<times> wire) list \<Rightarrow> http_request" where
  "demo_request command payload = \<lparr>rq_cookie = Some ''t1'', rq_origin = None, rq_csrf_proof = None, rq_client_host = None,
     rq_body = Some (WObject [(''threadId'', WText ''th''), (''runId'', WText ''r''), (''command'', WText command),
       (''payload'', WObject payload)])\<rparr>"

definition demo_command :: "(string \<times> wire) list \<Rightarrow> sse_frame list result \<times> nat" where
  "demo_command payload = commands_endpoint demo_handlers demo_cookie (\<lambda>_ _. False) (\<lambda>_. []) (demo_request ''/provision'' payload) 0"

lemma demo_command_runs: "is_Inr (fst (demo_command [(''site'', WText ''ui'')])) \<and> snd (demo_command [(''site'', WText ''ui'')]) = 1"
  by code_simp

lemma demo_command_refused:
  "demo_command [(''site'', WArray [WObject [(''AccessToken'', WNull)]])] =
     (Inl (HTTPException 400 (''payload field '' @ py_repr ''AccessToken'' @ '' is not accepted'')), 0)"
  by code_simp

theorem browser_commands_take_authority_from_the_cookie_witness:
  "\<exists>c h who payload outcome. command_caller demo_cookie (\<lambda>_ _. False) (demo_request ''/provision'' [(''site'', WText ''ui'')]) 0 c who \<and>
     free_of_authority payload \<and> dict_get demo_handlers (rt_workflow_id (command_routes c)) = Some h \<and>
     h \<lparr>inv_route = command_routes c, inv_principal = who, inv_payload = payload, inv_source = None\<rparr> 0 = (outcome, 1) \<and> is_Inr outcome"
proof -
  have "rq_client_host (demo_request ''/provision'' [(''site'', WText ''ui'')]) = None" by (simp add: demo_request_def)
  moreover obtain frames where "demo_command [(''site'', WText ''ui'')] = (Inr frames, 1)"
    using demo_command_runs by (cases "demo_command [(''site'', WText ''ui'')]") (auto simp: is_Inr_iff)
  ultimately show ?thesis
    using browser_commands_take_authority_from_the_cookie
      [of demo_handlers demo_cookie "\<lambda>_ _. False" "\<lambda>_. []" "demo_request ''/provision'' [(''site'', WText ''ui'')]" 0 "Inr frames" 1]
    unfolding demo_command_def is_Inr_iff by (metis (no_types, lifting) Inl_Inr_False)
qed

section \<open>The requests of one server\<close>

text \<open>Any requests to both endpoints, in any order, while the outside world may change between them.\<close>

record 'w server_setup =
  sv_model :: "'w llm"
  sv_authenticator :: "'w authenticator"
  sv_resolver :: "'w \<Rightarrow> validated_principal \<Rightarrow> actor result"
  sv_parse_run :: "wire \<Rightarrow> run_input option"
  sv_str_of :: "wire \<Rightarrow> string"
  sv_describe :: "exn \<Rightarrow> string"
  sv_handlers :: "(string, ((string \<times> wire) list, command_outcome, 'w) workflow_handler) dict"
  sv_expected_origin :: "'w \<Rightarrow> string option \<Rightarrow> bool"

definition serve_run :: "'w server_setup \<Rightarrow> http_request \<Rightarrow> string \<Rightarrow> datetime \<Rightarrow> datetime \<Rightarrow> datetime \<Rightarrow> pending_table \<times> 'w
     \<Rightarrow> sse_frame list result \<times> pending_table \<times> 'w" where
  "serve_run sv = runs_endpoint (sv_model sv) (sv_authenticator sv) (sv_resolver sv) (sv_parse_run sv) (sv_str_of sv) (sv_describe sv)"

definition serve_command :: "'w server_setup \<Rightarrow> http_request \<Rightarrow> 'w \<Rightarrow> sse_frame list result \<times> 'w" where
  "serve_command sv = commands_endpoint (sv_handlers sv) (sv_authenticator sv) (sv_expected_origin sv) (sv_describe sv)"

type_synonym web_log = "(http_request \<times> sse_frame list result) list"

inductive web_run :: "'w server_setup \<Rightarrow> web_log \<Rightarrow> pending_table \<Rightarrow> 'w \<Rightarrow> bool" for sv where
  web_empty: "web_run sv [] [] w"
| web_world: "web_run sv log table w \<Longrightarrow> web_run sv log table w'"
| web_post_run: "web_run sv log table w \<Longrightarrow> serve_run sv rq ev t0 t1 t2 (table, w) = (r, table', w') \<Longrightarrow>
     web_run sv (log @ [(rq, r)]) table' w'"
| web_post_command: "web_run sv log table w \<Longrightarrow> serve_command sv rq w = (r, w') \<Longrightarrow> web_run sv (log @ [(rq, r)]) table w'"

text \<open>The actor a request acts as: the resolved actor of the principal its cookie authenticates.\<close>

definition acts_as :: "'w server_setup \<Rightarrow> http_request \<Rightarrow> actor \<Rightarrow> bool" where
  "acts_as sv rq a \<longleftrightarrow> (\<exists>w p. browser_principal (sv_authenticator sv) rq w = Inr p \<and> sv_resolver sv w p = Inr a)"

lemma load_actor_session_Inr:
  "load_actor_session auth resolve rq now w = Inr s \<longleftrightarrow>
     (\<exists>p a. browser_principal auth rq w = Inr p \<and> resolve w p = Inr a \<and> s = request_session p a now)"
  by (cases "browser_principal auth rq w") (auto simp: load_actor_session_def split: sum.splits exn.splits)

fun turn_call :: "harness_turn \<Rightarrow> actor_session \<Rightarrow> string \<Rightarrow> datetime \<Rightarrow> datetime \<Rightarrow> harness_call" where
  "turn_call (StartTurn i t hint) a ev t1 t2 = StartCall a i t hint ev t1 t2"
| "turn_call (ResumeTurn i interrupt answer) a ev t1 t2 = ResumeCall a i interrupt answer ev t1 t2"

lemma perform_turn_call: "perform_turn model a turn ev t1 t2 st = perform model (turn_call turn a ev t1 t2) st"
  by (cases turn) simp_all

lemma turn_call_actor [simp]: "call_actor (turn_call turn a ev t1 t2) = a"
  by (cases turn) simp_all

lemma value_error_as_400_simps [simp]:
  "value_error_as_400 describe r = Inr x \<longleftrightarrow> r = Inr x"
  "\<exists>e'. value_error_as_400 describe (Inl e) = Inl e'"
  by (auto simp: value_error_as_400_def split: sum.splits)

text \<open>A request to \<open>/runs\<close> is refused before the harness or is one call of it.\<close>

lemma runs_endpoint_is_one_call:
  assumes "serve_run sv rq ev t0 t1 t2 (table, w) = (r, table', w')"
  shows "(\<exists>e. r = Inl e) \<and> table' = table \<and> w' = w \<or>
    (\<exists>c a hr ri. acts_as sv rq a \<and> as_actor (call_actor c) = a \<and> perform (sv_model sv) c (table, w) = (hr, table', w') \<and>
       r = bind_result (value_error_as_400 (sv_describe sv) hr) (run_frames ri))"
proof (cases "load_actor_session (sv_authenticator sv) (sv_resolver sv) rq t0 w")
  case (Inl e)
  with assms show ?thesis by (auto simp: serve_run_def runs_endpoint_def)
next
  case (Inr s)
  then obtain p a where who: "browser_principal (sv_authenticator sv) rq w = Inr p" "sv_resolver sv w p = Inr a"
      "s = request_session p a t0"
    by (auto simp: load_actor_session_Inr)
  show ?thesis
  proof (cases "Option.bind (rq_body rq) (sv_parse_run sv)")
    case None
    with assms Inr show ?thesis by (auto simp: serve_run_def runs_endpoint_def)
  next
    case (Some ri)
    show ?thesis
    proof (cases "turn_of (sv_str_of sv) (sv_describe sv) ri")
      case (Inl e)
      with assms \<open>load_actor_session _ _ _ _ _ = Inr s\<close> Some show ?thesis
        using value_error_as_400_simps(2) [of "sv_describe sv" e] by (auto simp: serve_run_def runs_endpoint_def)
    next
      case (Inr turn)
      obtain hr st' where hr: "perform (sv_model sv) (turn_call turn s ev t1 t2) (table, w) = (hr, st')"
        by (cases "perform (sv_model sv) (turn_call turn s ev t1 t2) (table, w)")
      have "r = bind_result (value_error_as_400 (sv_describe sv) hr) (run_frames ri) \<and> st' = (table', w')"
        using assms \<open>load_actor_session _ _ _ _ _ = Inr s\<close> Some Inr hr
        by (simp add: serve_run_def runs_endpoint_def perform_turn_call)
      moreover have "acts_as sv rq a" using who by (auto simp: acts_as_def)
      moreover have "as_actor s = a" using who by (simp add: request_session_def)
      ultimately show ?thesis using hr by (metis turn_call_actor)
    qed
  qed
qed

text \<open>The harness history behind a web history: each call was made by the actor of some request, and
  each finished run of a response is the outcome of one of its calls, by the actor of that request.\<close>

definition finishes_run :: "sse_frame list \<Rightarrow> bool" where
  "finishes_run frames \<longleftrightarrow> (\<exists>f. RunFinished f \<in> set frames)"

definition backs :: "'w server_setup \<Rightarrow> harness_log \<Rightarrow> web_log \<Rightarrow> bool" where
  "backs sv hlog log \<longleftrightarrow>
     (\<forall>(c, hr) \<in> set hlog. \<exists>rq r. (rq, r) \<in> set log \<and> acts_as sv rq (as_actor (call_actor c))) \<and>
     (\<forall>rq frames. (rq, Inr frames) \<in> set log \<and> finishes_run frames \<longrightarrow>
        (\<exists>c e ri. (c, Inr e) \<in> set hlog \<and> acts_as sv rq (as_actor (call_actor c)) \<and> run_frames ri e = Inr frames))"

lemma command_frames_no_run: "\<not> finishes_run (command_frames thread_id run_id ms)"
  by (auto simp: finishes_run_def command_frames_def custom_frame_def)

lemma commands_no_run: "serve_command sv rq w = (Inr frames, w') \<Longrightarrow> \<not> finishes_run frames"
  unfolding serve_command_def commands_endpoint_def
  by (auto simp: result_simps command_frames_no_run split: sum.splits prod.splits)

lemma backs_refused: "backs sv hlog log \<Longrightarrow> (\<And>frames. r = Inr frames \<Longrightarrow> \<not> finishes_run frames) \<Longrightarrow> backs sv hlog (log @ [(rq, r)])"
  unfolding backs_def by fastforce

lemma backs_call:
  assumes "backs sv hlog log" "acts_as sv rq (as_actor (call_actor c))"
    and "r = bind_result (value_error_as_400 describe hr) (run_frames ri)"
  shows "backs sv (hlog @ [(c, hr)]) (log @ [(rq, r)])"
proof -
  have "\<exists>e. hr = Inr e \<and> run_frames ri e = Inr frames" if "r = Inr frames" for frames
    using assms(3) that bind_result_eq_Inr by (metis value_error_as_400_simps(1))
  with assms(1,2) show ?thesis unfolding backs_def by fastforce
qed

lemma web_run_drives_harness:
  "web_run sv log table w \<Longrightarrow> \<exists>hlog. harness_run (sv_model sv) hlog table w \<and> backs sv hlog log"
proof (induction rule: web_run.induct)
  case (web_empty w)
  have "backs sv [] []" by (simp add: backs_def)
  with run_empty [of "sv_model sv" w] show ?case by (intro exI [of _ "[]"] conjI)
next
  case (web_world log table w w')
  then show ?case by (auto intro: run_world)
next
  case (web_post_run log table w rq ev t0 t1 t2 r table' w')
  then obtain hlog where hlog: "harness_run (sv_model sv) hlog table w" "backs sv hlog log" by blast
  from runs_endpoint_is_one_call [OF web_post_run.hyps(2)] show ?case
  proof (elim disjE exE conjE)
    fix e assume "r = Inl e" "table' = table" "w' = w"
    with hlog show ?thesis by (intro exI [of _ hlog]) (auto intro: backs_refused)
  next
    fix c a hr ri
    assume "acts_as sv rq a" "as_actor (call_actor c) = a" "perform (sv_model sv) c (table, w) = (hr, table', w')"
      "r = bind_result (value_error_as_400 (sv_describe sv) hr) (run_frames ri)"
    with hlog show ?thesis by (intro exI [of _ "hlog @ [(c, hr)]"]) (auto intro: backs_call run_call)
  qed
next
  case (web_post_command log table w rq r w')
  then obtain hlog where hlog: "harness_run (sv_model sv) hlog table w" "backs sv hlog log" by blast
  have "backs sv hlog (log @ [(rq, r)])"
    using web_post_command.hyps(2) by (intro backs_refused [OF hlog(2)]) (simp add: commands_no_run)
  with run_world [OF hlog(1)] show ?case by (intro exI [of _ hlog] conjI)
qed

lemma scope_dump_inject: "scope_dump a = scope_dump b \<longleftrightarrow> a = b"
  by (cases a; cases b) (auto simp: scope_dump_def split: option.splits)

lemma payload_dump_request: "payload_dump v = payload_dump (PvRequest req) \<longleftrightarrow> v = PvRequest req"
proof (cases v)
  case (PvRequest r)
  then show ?thesis by (cases r; cases req) (auto simp: scope_dump_inject)
qed (simp_all add: scope_dump_def)

text \<open>The result a \<open>RUN_FINISHED\<close> frame reports.\<close>

definition reports :: "sse_frame list \<Rightarrow> string \<Rightarrow> payload_value \<Rightarrow> bool" where
  "reports frames k v \<longleftrightarrow> (\<exists>f d. RunFinished f \<in> set frames \<and> uv_get f ''result'' = Some (UvDict d) \<and> (k, payload_dump v) \<in> set d)"

lemma run_frames_report:
  assumes "run_frames ri e = Inr frames" "reports frames k (PvRequest req)"
  shows "\<exists>ev. e = EventEmitted ev \<and> (k, PvRequest req) \<in> set (pe_payload ev)"
proof (cases e)
  case (HitlRaised q)
  with assms show ?thesis
    by (auto simp: run_frames_def result_simps reports_def custom_frame_def hitl_event_to_run_finished_def dict_get_def)
next
  case (EventEmitted ev)
  with assms have "(k, payload_dump (PvRequest req)) \<in> (\<lambda>(k, v). (k, payload_dump v)) ` set (pe_payload ev)"
    unfolding run_frames_def reports_def
    by (auto simp: custom_frame_def platformops_event_to_run_finished_def dict_get_def simp del: payload_dump.simps)
  then obtain v where "(k, v) \<in> set (pe_payload ev)" "payload_dump v = payload_dump (PvRequest req)" by auto
  with EventEmitted show ?thesis unfolding payload_dump_request by blast
qed

text \<open>
  C3. End to end: whatever requests a server gets, in any order and with any answers of the model, an
  application request that a response streams to a browser is for a registered workspace covered by the
  execution grants of an actor resolved for the principal of that request's own cookie, and its tenant
  may be provisioned.
\<close>

theorem streamed_requests_carry_cookie_authority:
  assumes "web_run sv log table w" "(rq, Inr frames) \<in> set log" "reports frames ''application_request'' (PvRequest req)"
  shows "\<exists>a. acts_as sv rq a \<and> aw_scope req \<in> set known_workspaces \<and>
    resolve_execution_capability (aw_scope req) (a_execution_grants a) \<noteq> CAP_NONE \<and>
    check_tenant_policy (scope_org_bu (aw_scope req)) PROVISION"
proof -
  obtain hlog where hlog: "harness_run (sv_model sv) hlog table w" "backs sv hlog log"
    using web_run_drives_harness [OF assms(1)] by blast
  have "finishes_run frames" using assms(3) by (auto simp: reports_def finishes_run_def)
  with hlog(2) assms(2) obtain c e ri where c: "(c, Inr e) \<in> set hlog" "acts_as sv rq (as_actor (call_actor c))"
      "run_frames ri e = Inr frames"
    unfolding backs_def by blast
  obtain ev where ev: "e = EventEmitted ev" "(''application_request'', PvRequest req) \<in> set (pe_payload ev)"
    using run_frames_report [OF c(3) assms(3)] by blast
  have "request_authorized (call_actor c) (Inr e)"
    using run_history_ok [OF hlog(1)] c(1) by (fastforce simp: history_ok_def)
  with ev c(2) show ?thesis unfolding request_authorized_def by blast
qed

definition demo_server :: "nat server_setup" where
  "demo_server = \<lparr>sv_model = demo_calls, sv_authenticator = demo_cookie, sv_resolver = \<lambda>_ _. Inr (as_actor demo_actor),
     sv_parse_run = \<lambda>_. Some \<lparr>ri_thread_id = ''th'', ri_run_id = ''r'', ri_messages = [Some ''provision: site''], ri_resume = [],
       ri_forwarded_props = WObject [(''scope'', WText ''aiq:it/invoices/dev'')]\<rparr>,
     sv_str_of = \<lambda>_. [], sv_describe = \<lambda>_. [], sv_handlers = demo_handlers, sv_expected_origin = \<lambda>_ _. False\<rparr>"

definition demo_web :: "sse_frame list result \<times> pending_table \<times> nat" where
  "demo_web = serve_run demo_server (demo_request ''run'' []) ''e1'' (Aware 1) (Aware 1) (Aware 1) ([], 0)"

definition demo_site :: static_web_request where
  "demo_site = \<lparr>aw_scope = \<lparr>s_org = ''aiq'', s_bu = ''it'', s_project = Some ''invoices'', s_workspace = Some ''dev''\<rparr>,
     aw_artifact_uri = ''s3://ui'', aw_hostname = ''ui.dev''\<rparr>"

definition frame_reports :: "string \<Rightarrow> payload_value \<Rightarrow> sse_frame \<Rightarrow> bool" where
  "frame_reports k v f \<longleftrightarrow> (case f of
     RunFinished x \<Rightarrow> (case uv_get x ''result'' of Some (UvDict d) \<Rightarrow> list_ex (\<lambda>e. e = (k, payload_dump v)) d | _ \<Rightarrow> False)
   | _ \<Rightarrow> False)"

lemma demo_web_reports:
  "case fst demo_web of Inr frames \<Rightarrow> list_ex (frame_reports ''application_request'' (PvRequest demo_site)) frames | Inl _ \<Rightarrow> False"
  by code_simp

lemma frame_reports_reports:
  assumes "list_ex (frame_reports k v) frames"
  shows "reports frames k v"
proof -
  obtain x where x: "x \<in> set frames" "frame_reports k v x" using assms by (auto simp: list_ex_iff)
  obtain f where f: "x = RunFinished f" using x(2) by (cases x) (simp_all add: frame_reports_def)
  obtain d where d: "uv_get f ''result'' = Some (UvDict d)" "(k, payload_dump v) \<in> set d"
    using x(2) f by (auto simp: frame_reports_def list_ex_iff split: option.split_asm ui_value.split_asm)
  show ?thesis unfolding reports_def using x(1) f d by blast
qed

theorem streamed_requests_carry_cookie_authority_witness:
  "\<exists>frames a. fst demo_web = Inr frames \<and> acts_as demo_server (demo_request ''run'' []) a \<and>
     resolve_execution_capability (aw_scope demo_site) (a_execution_grants a) \<noteq> CAP_NONE"
proof -
  obtain frames where frames: "fst demo_web = Inr frames" "reports frames ''application_request'' (PvRequest demo_site)"
    using demo_web_reports frame_reports_reports by (auto split: sum.splits)
  have "serve_run demo_server (demo_request ''run'' []) ''e1'' (Aware 1) (Aware 1) (Aware 1) ([], 0) =
      (Inr frames, fst (snd demo_web), snd (snd demo_web))"
    by (simp add: frames(1) [symmetric] demo_web_def)
  note run = web_post_run [OF web_empty this]
  have "(demo_request ''run'' [], Inr frames) \<in> set ([] @ [(demo_request ''run'' [], Inr frames)])" by simp
  from streamed_requests_carry_cookie_authority [OF run this frames(2)] frames(1) show ?thesis by blast
qed

end
