(* ===== verification/Web_Sessions.thy ===== *)
theory Web_Sessions
  imports Web_Properties
begin

text \<open>
  The endpoints over the real authenticator: \<open>BrowserSessionAuthenticator.authenticate_mutation\<close> with the
  PostgreSQL session repository, whose rows are part of the outside world.
\<close>

definition cookie_authenticator ::
  "jwt_library \<Rightarrow> session_authenticator \<Rightarrow> (string \<Rightarrow> string \<Rightarrow> string) \<Rightarrow> string \<Rightarrow> ('w \<Rightarrow> session_table) \<Rightarrow> ('w \<Rightarrow> datetime)
     \<Rightarrow> 'w authenticator" where
  "cookie_authenticator jwt cfg hmac hmac_key tables clock w token origin csrf =
     authenticate_mutation jwt cfg (pg_get_active_session (tables w))
       (verify_session_csrf hmac hmac_key (pg_get_active_session (tables w))) token origin csrf (clock w)"

text \<open>A cookie names one session, whatever the repository holds and whenever it is read.\<close>

lemma same_token_same_session:
  "authenticate_identity jwt cfg get1 token t1 = Inr (p1, sid1) \<Longrightarrow> authenticate_identity jwt cfg get2 token t2 = Inr (p2, sid2) \<Longrightarrow>
     sid1 = sid2"
  unfolding bind_eq_Inr_pair by auto

lemma refused_principal:
  assumes "\<And>p. browser_principal auth rq w \<noteq> Inr p"
  shows "\<exists>e. runs_endpoint model auth resolve parse_run str_of describe rq ev t0 t1 t2 (table, w) = (Inl e, table, w)"
    and "body_command rq \<noteq> Some ''/login'' \<Longrightarrow> \<exists>e. commands_endpoint handlers auth expected_origin describe rq w = (Inl e, w)"
proof -
  obtain e where e: "browser_principal auth rq w = Inl e" using assms by (cases "browser_principal auth rq w") auto
  then have "load_actor_session auth resolve rq t0 w = Inl e" by (simp add: load_actor_session_def)
  then show "\<exists>e. runs_endpoint model auth resolve parse_run str_of describe rq ev t0 t1 t2 (table, w) = (Inl e, table, w)"
    by (simp add: runs_endpoint_def)
  assume command: "body_command rq \<noteq> Some ''/login''"
  show "\<exists>e. commands_endpoint handlers auth expected_origin describe rq w = (Inl e, w)"
  proof (cases "parse_command_body (rq_body rq)")
    case (Inl x)
    then show ?thesis by (simp add: commands_endpoint_def)
  next
    case (Inr parts)
    obtain thread_id run_id c payload where parts: "parts = (thread_id, run_id, c, payload)" by (cases parts)
    have "body_command rq = Some c" using Inr parts
      by (auto simp: parse_command_body_def body_command_def split: option.splits wire.splits if_splits)
    with command have "command_principal auth expected_origin rq c payload w = Inl e" using e by (simp add: command_principal_def)
    with Inr parts show ?thesis by (simp add: commands_endpoint_def)
  qed
qed

text \<open>
  C14. Logout ends web access: once a session was logged out, a request that presents its cookie again is
  refused by both endpoints at any later time, with any origin and CSRF proof and whatever sessions were
  created or revoked since; it neither reaches the harness nor a handler, and changes nothing.  Only a
  login, which takes no principal, is still open to it.
\<close>

theorem logged_out_cookie_reaches_nothing:
  assumes "session_table_ok tb"
    and login: "authenticate_identity jwt cfg (pg_get_active_session tb) token (Aware t) = Inr (p, sid)"
    and "logout_session jwt cfg pg_get_active_session pg_revoke_session token (Aware t) tb = (Inr q, tb')"
    and "postgres_sessions.later tb' (tables w)" and clock: "clock w = Aware u" and cookie: "rq_cookie rq = Some token"
  shows "(\<exists>e. runs_endpoint model (cookie_authenticator jwt cfg hmac hmac_key tables clock) resolve parse_run str_of describe rq
        ev t0 t1 t2 (table, w) = (Inl e, table, w)) \<and>
    (body_command rq \<noteq> Some ''/login'' \<longrightarrow> (\<exists>e. commands_endpoint handlers
        (cookie_authenticator jwt cfg hmac hmac_key tables clock) expected_origin describe rq w = (Inl e, w)))"
proof -
  have gone: "authenticate_identity jwt cfg (pg_get_active_session (tables w)) token (Aware u) \<noteq> Inr (p', sid)" for p'
    by (rule postgres_sessions.logout_final [OF assms(1,2,3,4)])
  have "browser_principal (cookie_authenticator jwt cfg hmac hmac_key tables clock) rq w \<noteq> Inr p'" for p'
  proof
    assume "browser_principal (cookie_authenticator jwt cfg hmac hmac_key tables clock) rq w = Inr p'"
    then obtain sid' where "authenticate_identity jwt cfg (pg_get_active_session (tables w)) token (Aware u) = Inr (p', sid')"
      unfolding browser_principal_Inr cookie_authenticator_def cookie clock
      by (auto simp: authenticate_mutation_def result_simps split: if_splits)
    with gone same_token_same_session [OF login this] show False by blast
  qed
  from refused_principal [OF this] show ?thesis by blast
qed

definition demo_tables :: session_table where
  "demo_tables = \<lparr>tbl_sessions = [demo_session], tbl_accounts = {''alice''}\<rparr>"

definition demo_token :: string where
  "demo_token = ck_token (is_set_cookie demo_issue)"

definition replayed :: http_request where
  "replayed = \<lparr>rq_cookie = Some demo_token, rq_origin = Some ''https://console'', rq_csrf_proof = Some ''proof'',
     rq_client_host = None, rq_body = Some (WObject [(''threadId'', WText ''th''), (''runId'', WText ''r''),
       (''command'', WText ''/provision''), (''payload'', WObject [])])\<rparr>"

theorem logged_out_cookie_reaches_nothing_witness:
  "\<exists>tables. logout_session demo_jwt demo_authenticator pg_get_active_session pg_revoke_session demo_token (Aware 5000000) demo_tables
      = (Inr \<lparr>vp_issuer = ''platformops'', vp_subject = ''alice''\<rparr>, tables) \<and>
    (\<exists>e. commands_endpoint [] (cookie_authenticator demo_jwt demo_authenticator demo_hmac ''k'' (\<lambda>_. tables) (\<lambda>_. Aware 6000000))
       (\<lambda>_ _. False) (\<lambda>_. []) replayed (0 :: nat) = (Inl e, 0))"
proof -
  have ok: "session_table_ok demo_tables"
    using demo_build by (auto simp: session_table_ok_def demo_tables_def dest: build_browser_session_Inr)
  have "session_table_ok \<lparr>tbl_sessions = [], tbl_accounts = {''alice''}\<rparr>" by (simp add: session_table_ok_def)
  from postgres_sessions.issued_token_authenticates [OF this demo_jwt_round_trips demo_issue_postgres demo_keys,
      of 5000000 "\<lparr>vp_issuer = ''platformops'', vp_subject = ''alice''\<rparr>" "''bsess_01''"]
  have auth: "authenticate_identity demo_jwt demo_authenticator (pg_get_active_session demo_tables) demo_token (Aware 5000000)
      = Inr (\<lparr>vp_issuer = ''platformops'', vp_subject = ''alice''\<rparr>, ''bsess_01'')"
    by (simp add: int_timestamp_def platformops_issuer_def demo_issuer_def demo_tables_def demo_token_def)
  then obtain tables where out: "logout_session demo_jwt demo_authenticator pg_get_active_session pg_revoke_session
      demo_token (Aware 5000000) demo_tables = (Inr \<lparr>vp_issuer = ''platformops'', vp_subject = ''alice''\<rparr>, tables)"
    by (simp add: logout_session_def pg_revoke_session_def)
  have cookie: "rq_cookie replayed = Some demo_token" and command: "body_command replayed \<noteq> Some ''/login''"
    by (simp add: replayed_def, code_simp)
  show ?thesis
    using logged_out_cookie_reaches_nothing [OF ok auth out, of "\<lambda>_. tables" 0 "\<lambda>_. Aware 6000000" 6000000 replayed]
      postgres_sessions.later.later_refl cookie command out by blast
qed

end
