(* ===== verification/Surface_Properties.thy ===== *)
theory Surface_Properties
  imports Remote_Tui
begin

text \<open>
  What the interaction adapters show and carry back: cards without markup whose buttons answer the
  question that was asked, surfaces that depend on listed fields only, an approve button exactly for a
  review that can be approved, and the way of an answer from the terminal to the endpoint.
\<close>

section \<open>Reading a surface\<close>

definition message_components :: "ui_value \<Rightarrow> ui_value list" where
  "message_components m = (case uv_get m ''updateComponents'' of
     Some x \<Rightarrow> (case uv_get x ''components'' of Some (UvList cs) \<Rightarrow> cs | _ \<Rightarrow> []) | None \<Rightarrow> [])"

definition components_of :: "ui_value list \<Rightarrow> ui_value list" where
  "components_of ms = concat (map message_components ms)"

definition actions_of :: "ui_value list \<Rightarrow> ui_value list" where
  "actions_of cs = concat (map (\<lambda>c. case uv_get c ''action'' of None \<Rightarrow> [] | Some a \<Rightarrow> [a]) cs)"

definition texts_of :: "ui_value list \<Rightarrow> string list" where
  "texts_of cs = concat (map (\<lambda>c. case uv_get c ''text'' of Some (UvText t) \<Rightarrow> [t] | _ \<Rightarrow> []) cs)"

definition event_action :: "string \<Rightarrow> (string \<times> ui_value) list \<Rightarrow> ui_value" where
  "event_action name context_dict = UvDict [(''event'', UvDict [(''name'', UvText name), (''context'', UvDict context_dict)])]"

lemma components_of_surface [simp]: "components_of (surface i cs) = cs"
  by (simp add: components_of_def message_components_def surface_def create_surface_def update_components_def dict_get_def)

lemma actions_of_simps [simp]:
  "actions_of [] = []"
  "actions_of (text_component i t # cs) = actions_of cs"
  "actions_of (column_component i ids # cs) = actions_of cs"
  "actions_of (button_component i l n d # cs) = event_action n d # actions_of cs"
  "actions_of (xs @ ys) = actions_of xs @ actions_of ys"
  by (simp_all add: actions_of_def text_component_def column_component_def button_component_def event_action_def dict_get_def)

lemma texts_of_simps [simp]:
  "texts_of [] = []"
  "texts_of (text_component i t # cs) = t # texts_of cs"
  "texts_of (column_component i ids # cs) = texts_of cs"
  "texts_of (button_component i l n d # cs) = texts_of cs"
  "texts_of (xs @ ys) = texts_of xs @ texts_of ys"
  by (simp_all add: texts_of_def text_component_def column_component_def button_component_def dict_get_def)

section \<open>Cards\<close>

lemma choice_parts:
  "actions_of (concat (map (choice_components i field) (enumerate n cs))) =
     map (\<lambda>c. event_action i [(field, UvText (ch_value c))]) cs"
  "texts_of (concat (map (choice_components i field) (enumerate n cs))) = map ch_label cs"
  by (induction cs arbitrary: n) (simp_all add: choice_components_def)

lemma help_parts:
  "actions_of (map (\<lambda>(n, t). text_component (help_id n) t) (enumerate n ts)) = []"
  "texts_of (map (\<lambda>(n, t). text_component (help_id n) t) (enumerate n ts)) = ts"
  by (induction ts arbitrary: n) simp_all

lemma card_parts:
  "actions_of (compile_dynamic_card s i) =
     map (\<lambda>c. event_action i [(cs_choice_response_field s, UvText (ch_value c))]) (cs_choices s)"
  "texts_of (compile_dynamic_card s i) = cs_title s # cs_message s # cs_help_texts s @ map ch_label (cs_choices s)"
proof -
  have "actions_of (UvDict [(''id'', UvText ''root''), (''component'', UvText ''Card''), (''child'', UvText ''content'')] # cs) = actions_of cs"
      "texts_of (UvDict [(''id'', UvText ''root''), (''component'', UvText ''Card''), (''child'', UvText ''content'')] # cs) = texts_of cs"
      "actions_of (UvDict [(''id'', UvText ''title''), (''component'', UvText ''Text''), (''text'', UvText t), (''variant'', UvText ''h3'')] # cs) =
        actions_of cs"
      "texts_of (UvDict [(''id'', UvText ''title''), (''component'', UvText ''Text''), (''text'', UvText t), (''variant'', UvText ''h3'')] # cs) =
        t # texts_of cs" for cs t
    by (simp_all add: actions_of_def texts_of_def dict_get_def)
  note head = this
  show "actions_of (compile_dynamic_card s i) =
      map (\<lambda>c. event_action i [(cs_choice_response_field s, UvText (ch_value c))]) (cs_choices s)"
    unfolding compile_dynamic_card_def Let_def by (simp add: head choice_parts help_parts)
  show "texts_of (compile_dynamic_card s i) = cs_title s # cs_message s # cs_help_texts s @ map ch_label (cs_choices s)"
    unfolding compile_dynamic_card_def Let_def by (simp add: head choice_parts help_parts)
qed

lemma check_card_spec_Inr:
  "check_card_spec s = Inr s' \<Longrightarrow> s' = s \<and> list_all (\<lambda>t. \<not> html_like t) (cs_title s # cs_message s # cs_help_texts s @ map ch_label (cs_choices s))"
  by (auto simp: check_card_spec_def list_ex_iff list_all_iff split: if_splits)

text \<open>The choices a clarification offers.\<close>

definition offered_choices :: "hitl_event \<Rightarrow> string list" where
  "offered_choices e =
     (case (he_kind e, he_payload e) of
        (CLARIFICATION_REQUIRED, PayloadDecision d) \<Rightarrow>
          (case d_clarification_questions d of q # _ \<Rightarrow> q_choices q | [] \<Rightarrow> [])
      | _ \<Rightarrow> [])"

lemma uv_texts_texts: "concat (map (\<lambda>v. case v of UvText s \<Rightarrow> [s] | _ \<Rightarrow> []) (map UvText ts)) = ts"
  by (induction ts) simp_all

lemma choices_of_interrupt:
  "(if he_kind e = CLARIFICATION_REQUIRED then choice_field_and_enum (hitl_event_to_interrupt e) else None) =
     (if offered_choices e = [] then None else Some (''selected_choice'', offered_choices e))"
proof (cases "he_kind e")
  case APPROVAL_REQUIRED
  then show ?thesis by (simp add: offered_choices_def)
next
  case kind: CLARIFICATION_REQUIRED
  show ?thesis
  proof (cases "he_payload e")
    case (PayloadApproval r)
    with kind show ?thesis
      by (simp add: choice_field_and_enum_def hitl_event_to_interrupt_def response_schema_for_def offered_choices_def
          dict_get_def Let_def)
  next
    case (PayloadDecision d)
    with kind show ?thesis
      by (cases "d_clarification_questions d")
        (simp_all add: choice_field_and_enum_def hitl_event_to_interrupt_def response_schema_for_def offered_choices_def
          dict_get_def Let_def uv_texts_texts del: map_map)
  qed
qed

text \<open>
  C22. A card for a person shows no markup, whatever the model put into the question, and its buttons
  are exactly the choices of the first question, each answering under the event's own id with that
  choice and nothing else; an approval offers none.
\<close>

theorem cards_show_no_markup_and_offer_only_the_choices:
  assumes "hitl_event_to_a2ui_messages e = Inr ms"
  shows "list_all (\<lambda>t. \<not> html_like t) (texts_of (components_of ms)) \<and>
    actions_of (components_of ms) =
      map (\<lambda>v. event_action (he_event_id e) [(''selected_choice'', UvText v)]) (offered_choices e)"
proof -
  obtain s where s: "card_spec_for e (hitl_event_to_interrupt e) = Inr s"
      "ms = surface (he_event_id e) (compile_dynamic_card s (he_event_id e))"
    using assms by (auto simp: hitl_event_to_a2ui_messages_def result_simps)
  note spec = s(1) [unfolded card_spec_for_def choices_of_interrupt Let_def]
  have "list_all (\<lambda>t. \<not> html_like t) (cs_title s # cs_message s # cs_help_texts s @ map ch_label (cs_choices s))"
    using check_card_spec_Inr [OF spec] by metis
  moreover have "cs_choice_response_field s = ''selected_choice''" "cs_choices s = map (\<lambda>v. \<lparr>ch_label = v, ch_value = v\<rparr>) (offered_choices e)"
    using check_card_spec_Inr [OF spec] by (auto split: if_splits)
  ultimately show ?thesis using s(2) by (simp add: card_parts comp_def)
qed

lemma markup_question_has_no_card:
  assumes "he_kind e = CLARIFICATION_REQUIRED" "he_payload e = PayloadDecision d" "d_clarification_questions d = q # qs"
    "html_like (q_question q)"
  shows "\<exists>err. hitl_event_to_a2ui_messages e = Inl err"
proof (cases "hitl_event_to_a2ui_messages e")
  case (Inr ms)
  have "uv_get (hitl_event_to_interrupt e) ''message'' = Some (UvText (q_question q))"
    using assms by (simp add: hitl_event_to_interrupt_def message_for_def dict_get_def)
  with Inr assms(4) show ?thesis
    by (auto simp: hitl_event_to_a2ui_messages_def card_spec_for_def result_simps Let_def dest!: check_card_spec_Inr)
qed simp

definition demo_question :: hitl_event where
  "demo_question = \<lparr>he_event_id = ''e1'', he_request_id = ''r1'', he_kind = CLARIFICATION_REQUIRED, he_status = HITL_PENDING,
     he_actor = None, he_payload = PayloadDecision (default_decision\<lparr>d_clarification_questions := [profile_question]\<rparr>),
     he_resume_mode = REINVOKE, he_created_at = Aware 0, he_expires_at = None\<rparr>"

theorem cards_show_no_markup_and_offer_only_the_choices_witness:
  "\<exists>ms. hitl_event_to_a2ui_messages demo_question = Inr ms \<and>
     actions_of (components_of ms) = [event_action ''e1'' [(''selected_choice'', UvText ''aws-static-web'')]]"
proof -
  have "is_Inr (hitl_event_to_a2ui_messages demo_question)" by code_simp
  then obtain ms where ms: "hitl_event_to_a2ui_messages demo_question = Inr ms" by (auto simp: is_Inr_iff)
  have "offered_choices demo_question = [''aws-static-web'']" "he_event_id demo_question = ''e1''" by code_simp+
  with ms cards_show_no_markup_and_offer_only_the_choices [OF ms] show ?thesis by simp
qed

section \<open>Result surfaces\<close>

lemma field_column_parts [simp]:
  "actions_of (components_of (field_column i lines)) = []"
  "texts_of (components_of (field_column i lines)) = map snd lines"
proof -
  have "actions_of (map (\<lambda>(k, t). text_component (field_id k) t) lines) = []"
      "texts_of (map (\<lambda>(k, t). text_component (field_id k) t) lines) = map snd lines"
    by (induction lines) auto
  then show "actions_of (components_of (field_column i lines)) = []"
      "texts_of (components_of (field_column i lines)) = map snd lines"
    by (simp_all add: field_column_def)
qed

text \<open>Two results of one command that agree on what its surface may show.\<close>

fun shows_alike :: "string \<Rightarrow> command_outcome \<Rightarrow> command_outcome \<Rightarrow> bool" where
  "shows_alike command (OutDict d) (OutDict d') \<longleftrightarrow>
     list_all (\<lambda>k. dict_get d k = dict_get d' k) command_outcome_fields \<and>
     (command = command_value REVIEW_ONBOARDING \<longrightarrow> dict_get d ''organization'' = dict_get d' ''organization'')"
| "shows_alike command x y \<longleftrightarrow> x = y"

lemma outcome_fields_cong:
  assumes "list_all (\<lambda>k. dict_get d k = dict_get d' k) command_outcome_fields"
  shows "outcome_fields command (OutDict d) = outcome_fields command (OutDict d')"
  using assms by (simp add: outcome_fields_def command_outcome_fields_def)

text \<open>
  C23. What a browser is shown of a route result or a command result depends only on the listed fields
  (and, for an activation, on the organization): results that differ in anything else, such as a
  credential, a binding or the application request, have the same surface.
\<close>

theorem surfaces_depend_on_listed_fields_only:
  assumes "pe_event_id e = pe_event_id f" "\<forall>k \<in> set route_result_fields. dict_get (pe_payload e) k = dict_get (pe_payload f) k"
    and "shows_alike command x y"
  shows "platformops_event_to_a2ui_messages e = platformops_event_to_a2ui_messages f \<and>
    command_result_to_a2ui_messages i command x = command_result_to_a2ui_messages i command y"
proof -
  have "map (shown_field (pe_payload e)) route_result_fields = map (shown_field (pe_payload f)) route_result_fields"
    using assms(2) by (intro map_cong) (simp_all add: shown_field_def)
  then have "platformops_event_to_a2ui_messages e = platformops_event_to_a2ui_messages f"
    unfolding platformops_event_to_a2ui_messages_def assms(1) by metis
  moreover have "command_result_to_a2ui_messages i command x = command_result_to_a2ui_messages i command y"
    using assms(3)
  proof (cases x; cases y)
    fix d d' assume xy: "x = OutDict d" "y = OutDict d'"
    with assms(3) have shown: "command_outcome_to_a2ui_messages i command (OutDict d) = command_outcome_to_a2ui_messages i command (OutDict d')"
        and organization: "(if command = command_value REVIEW_ONBOARDING then dict_get d ''organization'' else None) =
         (if command = command_value REVIEW_ONBOARDING then dict_get d' ''organization'' else None)"
      using outcome_fields_cong [of d d' command] by (simp_all add: command_outcome_to_a2ui_messages_def)
    show ?thesis unfolding command_result_to_a2ui_messages_def xy command_outcome.case shown organization ..
  qed simp_all
  ultimately show ?thesis by blast
qed

definition demo_result :: "(string, payload_value) dict \<Rightarrow> platform_event" where
  "demo_result extra = \<lparr>pe_event_id = ''e1'', pe_request_id = ''r1'', pe_kind = ROUTE_RESOLVED,
     pe_payload = (''intent'', PvText ''provision'') # extra, pe_created_at = Aware 0\<rparr>"

theorem surfaces_depend_on_listed_fields_only_witness:
  "platformops_event_to_a2ui_messages (demo_result [(''token'', PvText ''secret'')]) = platformops_event_to_a2ui_messages (demo_result []) \<and>
   command_result_to_a2ui_messages ''s'' ''/provision'' (OutDict [(''status'', OvText ''ready''), (''token'', OvText ''secret'')]) =
     command_result_to_a2ui_messages ''s'' ''/provision'' (OutDict [(''status'', OvText ''ready'')])"
  by (rule surfaces_depend_on_listed_fields_only)
    (simp_all add: demo_result_def route_result_fields_def command_outcome_fields_def dict_get_def)

text \<open>The buttons of a command result.\<close>

definition review_buttons :: "command_outcome \<Rightarrow> ui_value list" where
  "review_buttons x = (case x of
     OutPending p \<Rightarrow> if pv_status p = REVIEW_PENDING \<and> pv_proof_recorded p
       then [event_action (command_value REVIEW_ONBOARDING) [(''request_id'', UvText (pv_request_id p))]] else []
   | _ \<Rightarrow> [])"

lemma text_lines_parts:
  "actions_of (map (\<lambda>(k, t). text_component (field_id k) t) lines) = []"
  by (induction lines) auto

lemma text_column_actions: "actions_of (components_of (text_column i lines extra)) = actions_of extra"
  by (simp add: text_column_def text_lines_parts)

text \<open>
  The one button a command result can carry is the approval of an onboarding request, exactly when
  that request is pending and its identity proof is recorded; it sends the request id alone.
\<close>

theorem only_reviewable_requests_offer_approval:
  assumes "command_result_to_a2ui_messages i command x = Inr ms"
  shows "actions_of (components_of ms) = review_buttons x"
proof (cases x)
  case (OutDict d)
  with assms show ?thesis
    by (auto simp: command_result_to_a2ui_messages_def review_buttons_def command_outcome_to_a2ui_messages_def result_simps
        review_outcome_surface_def text_column_actions split: option.splits outcome_value.splits)
next
  case (OutPending p)
  with assms show ?thesis
    by (auto simp: command_result_to_a2ui_messages_def review_buttons_def pending_review_surface_def text_column_actions
        approve_button_def)
next
  case OutOther
  with assms show ?thesis
    by (auto simp: command_result_to_a2ui_messages_def review_buttons_def command_outcome_to_a2ui_messages_def)
qed

definition demo_review :: pending_review where
  "demo_review = \<lparr>pv_request_id = ''request-1'', pv_organization_name = ''Acme'', pv_boundary_kind = ''domain'',
     pv_boundary_reference = ''acme.io'', pv_proof_recorded = True, pv_status = REVIEW_PENDING\<rparr>"

theorem only_reviewable_requests_offer_approval_witness:
  "\<exists>ms. command_result_to_a2ui_messages ''s'' ''/onboarding-review'' (OutPending demo_review) = Inr ms \<and>
     actions_of (components_of ms) = [event_action ''/review-onboard-org'' [(''request_id'', UvText ''request-1'')]]"
  using only_reviewable_requests_offer_approval [of "''s''" "''/onboarding-review''" "OutPending demo_review"]
  by (simp add: command_result_to_a2ui_messages_def review_buttons_def demo_review_def)

section \<open>An answer from the terminal\<close>

text \<open>The JSON value of a wire dictionary, and the resume entries the AG-UI parser reads from a run input.\<close>

fun wire_of :: "ui_value \<Rightarrow> wire" where
  "wire_of UvNone = WNull"
| "wire_of (UvBool b) = WBool b"
| "wire_of (UvText s) = WText s"
| "wire_of (UvList vs) = WArray (map wire_of vs)"
| "wire_of (UvDict d) = WObject (map (\<lambda>(k, v). (k, wire_of v)) d)"
| "wire_of _ = WNull"

fun read_entry :: "wire \<Rightarrow> (string \<times> wire) list" where
  "read_entry (WObject d) =
     (case dict_get d ''interruptId'' of
        Some (WText i) \<Rightarrow> [(i, case dict_get d ''payload'' of None \<Rightarrow> WNull | Some v \<Rightarrow> v)]
      | _ \<Rightarrow> [])"
| "read_entry _ = []"

definition read_resume :: "wire \<Rightarrow> (string \<times> wire) list" where
  "read_resume v =
     (case v of WObject d \<Rightarrow> (case dict_get d ''resume'' of Some (WArray vs) \<Rightarrow> concat (map read_entry vs) | _ \<Rightarrow> []) | _ \<Rightarrow> [])"

lemma observe_interrupt:
  assumes "he_event_id e \<noteq> []"
  shows "observe_agui_event st (hitl_event_to_run_finished e (rm_thread_id st) run_id) =
    Inr (st\<lparr>rm_pending := [UvText (he_event_id e)], rm_interrupted_run_id := Some (UvText run_id)\<rparr>)"
  using assms by (simp add: observe_agui_event_def hitl_event_to_run_finished_def hitl_event_to_interrupt_def interrupt_id_def
      dict_get_def Let_def)

lemma answer_entry:
  assumes "he_kind e = CLARIFICATION_REQUIRED"
  shows "read_entry (wire_of (hitl_response_to_resume_entry (prompt_hitl_response e responder typed now))) =
    [(he_event_id e, if py_strip typed = [] then WObject []
      else WObject [(''value'', WText (py_strip typed)), (''selected_choice'', WText (py_strip typed))])]"
  using assms by (simp add: hitl_response_to_resume_entry_def prompt_hitl_response_def Let_def dict_get_def)

text \<open>
  C21. Round trip of an answer: when the harness raises a question and its frame reaches the terminal of
  that thread, the terminal refuses new input until it is answered; what the user types comes out of the
  endpoint's parser, stripped, under the interrupt id of the entry that waits for it (a blank line is
  refused there), and an active session then passes the harness's guard unless the round cap is reached.
\<close>

theorem terminal_answer_reaches_its_question:
  assumes raised: "raise_clarification a (rm_thread_id st) ev now d replay hint table = (Inr (HitlRaised e), table')"
    and "ev \<noteq> []" and active: "require_active_session a later = Inr ()"
  shows "\<exists>st' resume p. observe_agui_event st (hitl_event_to_run_finished e (rm_thread_id st) run_id) = Inr st' \<and>
    (\<exists>err. build_user_run_input st' next_id message = Inl err) \<and>
    build_resume_run_input st' next_id [prompt_hitl_response e responder typed answered] = Inr resume \<and>
    extract_answer (read_resume (wire_of resume)) =
      (if py_strip typed = [] then Inl (bad_request ''resume payload missing an answer'') else Inr (ev, WText (py_strip typed))) \<and>
    pc_replay p = replay \<and> pc_scope_hint p = hint \<and>
    (py_strip typed \<noteq> [] \<longrightarrow> resume_guard table' a (rm_thread_id st) ev (py_strip typed) later =
      (if max_clarification_rounds \<le> (case replay of PendingIntake r \<Rightarrow> ir_clarification_round r | PendingProvision _ n \<Rightarrow> n) + 1
       then Inl round_cap_reached else Inr p))"
proof -
  let ?st = "st\<lparr>rm_pending := [UvText ev], rm_interrupted_run_id := Some (UvText run_id)\<rparr>"
  let ?p = "\<lparr>pc_replay = replay, pc_interrupt_id = ev, pc_actor_id = a_user_id (as_actor a), pc_scope_hint = hint\<rparr>"
  have e: "he_event_id e = ev" "he_kind e = CLARIFICATION_REQUIRED" and table': "table' = dict_set (rm_thread_id st) ?p table"
    using raised by (auto simp: raise_clarification_def check_hitl_event_def)
  have seen: "observe_agui_event st (hitl_event_to_run_finished e (rm_thread_id st) run_id) = Inr ?st"
    using observe_interrupt [of e st run_id] e \<open>ev \<noteq> []\<close> by simp
  let ?r = "prompt_hitl_response e responder typed answered"
  let ?resume = "UvDict [(''threadId'', UvText (rm_thread_id st)), (''runId'', UvText next_id),
    (''resume'', UvList [hitl_response_to_resume_entry ?r])]"
  have resume: "build_resume_run_input ?st next_id [?r] = Inr ?resume"
    using e by (simp add: build_resume_run_input_def prompt_hitl_response_def Let_def)
  have "read_resume (wire_of ?resume) = read_entry (wire_of (hitl_response_to_resume_entry ?r))"
    by (simp add: read_resume_def dict_get_def)
  then have answer: "extract_answer (read_resume (wire_of ?resume)) =
      (if py_strip typed = [] then Inl (bad_request ''resume payload missing an answer'') else Inr (ev, WText (py_strip typed)))"
    unfolding answer_entry [OF e(2)] e(1) by (simp add: extract_answer_def dict_get_def)
  have "resume_guard table' a (rm_thread_id st) ev (py_strip typed) later =
      (if max_clarification_rounds \<le> (case replay of PendingIntake r \<Rightarrow> ir_clarification_round r | PendingProvision _ n \<Rightarrow> n) + 1
       then Inl round_cap_reached else Inr ?p)" if "py_strip typed \<noteq> []"
    using that active by (simp add: resume_guard_def table' dict_simps)
  with seen resume answer show ?thesis
    by (intro exI [of _ ?st] exI [of _ ?resume] exI [of _ ?p]) (simp add: build_user_run_input_def)
qed

definition terminal_actor :: actor_session where
  "terminal_actor = \<lparr>as_session_id = ''s1'', as_actor = \<lparr>a_user_id = ''alice'', a_email = ''alice@x.io'',
     a_execution_grants = [], a_approval_grants = [], a_resolved_at = Aware 0\<rparr>,
     as_groups = [], as_created_at = Aware 0, as_expires_at = Aware 900\<rparr>"

definition terminal_state :: remote_state where
  "terminal_state = \<lparr>rm_thread_id = ''r1'', rm_pending = [], rm_interrupted_run_id = None\<rparr>"

definition asked_replay :: pending_replay where
  "asked_replay = PendingIntake \<lparr>ir_raw_text = ''deploy'', ir_clarification_round = 0\<rparr>"

definition asked :: "harness_event result \<times> pending_table" where
  "asked = raise_clarification terminal_actor ''r1'' ''e1'' (Aware 1)
     (default_decision\<lparr>d_clarification_questions := [profile_question]\<rparr>) asked_replay None []"

theorem terminal_answer_reaches_its_question_witness:
  "\<exists>e st' resume p. fst asked = Inr (HitlRaised e) \<and>
     observe_agui_event terminal_state (hitl_event_to_run_finished e ''r1'' ''run1'') = Inr st' \<and>
     build_resume_run_input st' ''run2'' [prompt_hitl_response e (actor_ref_of terminal_actor) ''  aws-static-web '' (Aware 2)] = Inr resume \<and>
     extract_answer (read_resume (wire_of resume)) = Inr (''e1'', WText ''aws-static-web'') \<and>
     resume_guard (snd asked) terminal_actor ''r1'' ''e1'' ''aws-static-web'' (Aware 3) = Inr p"
proof -
  obtain e where e: "asked = (Inr (HitlRaised e), snd asked)"
    by (simp add: asked_def raise_clarification_def check_hitl_event_def)
  have active: "require_active_session terminal_actor (Aware 3) = Inr ()" and typed: "py_strip ''  aws-static-web '' = ''aws-static-web''"
    by code_simp+
  have thread: "rm_thread_id terminal_state = ''r1''" by (simp add: terminal_state_def)
  have round: "(case asked_replay of PendingIntake r \<Rightarrow> ir_clarification_round r | PendingProvision _ n \<Rightarrow> n) = 0"
    by (simp add: asked_replay_def)
  have raised: "raise_clarification terminal_actor (rm_thread_id terminal_state) ''e1'' (Aware 1)
      (default_decision\<lparr>d_clarification_questions := [profile_question]\<rparr>) asked_replay None [] = (Inr (HitlRaised e), snd asked)"
    using e unfolding asked_def thread .
  have "''e1'' \<noteq> []" by simp
  from terminal_answer_reaches_its_question [OF raised this active, of "''run1''" "''run2''" "''x''" "actor_ref_of terminal_actor"
      "''  aws-static-web ''" "Aware 2"] e
  show ?thesis unfolding typed thread round max_clarification_rounds_def by (auto dest: arg_cong [of asked _ fst])
qed

end
