(* ===== verification/Session_Keys.thy ===== *)
theory Session_Keys
  imports Http_Transport
begin

text \<open>
  The development key loader of \<open>gateway/browser_sessions.py\<close>: signing keys from environment variables,
  with the keys of an earlier rotation as a JSON object.  The base64url and JSON decoders are arguments.
\<close>

definition decode_base64url_secret :: "(string \<Rightarrow> string option) \<Rightarrow> wire \<Rightarrow> string result" where
  "decode_base64url_secret b64 v =
     (case v of
        WText s \<Rightarrow>
          if s = [] then Inl (ValueError ''signing key must be base64url text'')
          else (case b64 (s @ replicate ((4 - length s mod 4) mod 4) (CHR ''='')) of
              None \<Rightarrow> Inl (ValueError ''signing key must be valid base64url text'')
            | Some secret \<Rightarrow> Inr secret)
      | _ \<Rightarrow> Inl (ValueError ''signing key must be base64url text''))"

fun decode_previous :: "(string \<Rightarrow> string option) \<Rightarrow> (string \<times> wire) list \<Rightarrow> signing_key list result" where
  "decode_previous b64 [] = Inr []"
| "decode_previous b64 ((i, v) # d) =
     bind_result (decode_base64url_secret b64 v) (\<lambda>secret.
     bind_result (decode_previous b64 d) (\<lambda>keys. Inr (\<lparr>sk_key_id = i, sk_secret = secret\<rparr> # keys)))"

definition keys_from_environment ::
  "(string \<Rightarrow> string option) \<Rightarrow> (string \<Rightarrow> wire option) \<Rightarrow> (string, string) dict \<Rightarrow> key_provider result" where
  "keys_from_environment b64 parse_json env =
     (let variable = (\<lambda>k otherwise. case dict_get env k of None \<Rightarrow> otherwise | Some v \<Rightarrow> v);
          invalid = Inl (ValueError ''local browser session signing keys are invalid'') in
      if dict_get env ''PLATFORMOPS_ENVIRONMENT'' = Some ''production''
      then Inl (ValueError ''local browser session signing keys are not allowed in production'')
      else if falsy_text (dict_get env ''PLATFORMOPS_BROWSER_SESSION_LOCAL_SIGNING_KEY'')
      then Inl (ValueError ''local browser session signing key is required'')
      else case decode_base64url_secret b64 (WText (variable ''PLATFORMOPS_BROWSER_SESSION_LOCAL_SIGNING_KEY'' [])) of
          Inl _ \<Rightarrow> invalid
        | Inr secret \<Rightarrow>
            (case parse_json (variable ''PLATFORMOPS_BROWSER_SESSION_PREVIOUS_SIGNING_KEYS_JSON'' ''{}'') of
               Some (WObject d) \<Rightarrow>
                 (case decode_previous b64 d of
                    Inl _ \<Rightarrow> invalid
                  | Inr previous \<Rightarrow> make_key_provider
                      \<lparr>sk_key_id = variable ''PLATFORMOPS_BROWSER_SESSION_SIGNING_KEY_ID'' ''local-v1'', sk_secret = secret\<rparr> previous)
             | _ \<Rightarrow> invalid))"

text \<open>Loaded keys are usable, and never come from a production environment.\<close>

lemma loaded_keys_are_usable:
  assumes "keys_from_environment b64 parse_json env = Inr keys"
  shows "dict_get env ''PLATFORMOPS_ENVIRONMENT'' \<noteq> Some ''production'' \<and> 32 \<le> length (sk_secret (kp_current keys)) \<and>
    sk_key_id (kp_current keys) \<noteq> []"
  using assms by (auto simp: keys_from_environment_def make_key_provider_def Let_def
      split: if_splits sum.splits option.splits wire.splits)

end
