(* ===== verification/Terminal_Cli.thy ===== *)
theory Terminal_Cli
  imports Remote_Tui Device_Login
begin

text \<open>
  The handlers of the local command line: \<open>transports/cli.py\<close>.  Argument parsing is outside; a handler
  takes the parsed arguments, ends with an exit code, and prints through the ports.  The grant mapping
  file and the session file are read by arguments of the model, as documents a library parses.
\<close>

record login_args =
  la_issuer :: "string option"
  la_client_id :: "string option"
  la_audience :: "string option"
  la_grant_mapping :: "string option"
  la_session_path :: string

record 'w cli_ports =
  cp_login :: "'w login_ports"
  cp_print_error :: "string \<Rightarrow> 'w \<Rightarrow> 'w"
  cp_load_mapping :: "string \<Rightarrow> 'w \<Rightarrow> grant_mapping_config result"
  cp_session_exists :: "string \<Rightarrow> 'w \<Rightarrow> bool"
  cp_read_session :: "string \<Rightarrow> 'w \<Rightarrow> actor_session result"

definition load_grant_mapping :: "'w cli_ports \<Rightarrow> string option \<Rightarrow> 'w \<Rightarrow> grant_mapping_config result" where
  "load_grant_mapping ports path w =
     (case path of
        None \<Rightarrow> Inr \<lparr>mc_mappings = []\<rparr>
      | Some p \<Rightarrow> cp_load_mapping ports p w)"

definition login_config :: "string \<Rightarrow> string \<Rightarrow> string option \<Rightarrow> device_client_config" where
  "login_config issuer client_id audience = \<lparr>dc_issuer = rstrip_slash issuer, dc_client_id = client_id,
     dc_audience = (if falsy_text audience then client_id else the audience), dc_scopes = [''openid'', ''email'', ''profile'']\<rparr>"

definition handle_login ::
  "'w cli_ports \<Rightarrow> json_object oidc_library \<Rightarrow> login_args \<Rightarrow> string \<Rightarrow> datetime \<Rightarrow> 'w \<Rightarrow> (nat result \<times> 'w) option" where
  "handle_login ports lib args fresh_id now w =
     (if falsy_text (la_issuer args)
      then Some (Inr 2, cp_print_error ports ''error: --issuer or PLATFORMOPS_OIDC_ISSUER is required'' w)
      else if falsy_text (la_client_id args)
      then Some (Inr 2, cp_print_error ports ''error: --client-id or PLATFORMOPS_OIDC_CLIENT_ID is required'' w)
      else case load_grant_mapping ports (la_grant_mapping args) w of
          Inl e \<Rightarrow> Some (Inl e, w)
        | Inr mapping \<Rightarrow>
            map_option (\<lambda>(r, w'). (bind_result r (\<lambda>_. Inr 0), w'))
              (login_once (cp_login ports) lib (login_config (the (la_issuer args)) (the (la_client_id args)) (la_audience args))
                mapping (la_session_path args) fresh_id now w))"

definition print_session :: "'w cli_ports \<Rightarrow> string \<Rightarrow> (actor_session \<Rightarrow> string result) \<Rightarrow> 'w \<Rightarrow> nat result \<times> 'w" where
  "print_session ports path render w =
     (if \<not> cp_session_exists ports path w
      then (Inr 1, cp_print_error ports (''error: no session at '' @ path @ '' -- run '' @ py_repr ''platformops login'' @ '' first'') w)
      else case bind_result (cp_read_session ports path w) render of
          Inl e \<Rightarrow> (Inl e, w)
        | Inr shown \<Rightarrow> (Inr 0, lp_print (cp_login ports) shown w))"

definition handle_whoami :: "'w cli_ports \<Rightarrow> (datetime \<Rightarrow> string) \<Rightarrow> string \<Rightarrow> datetime \<Rightarrow> 'w \<Rightarrow> nat result \<times> 'w" where
  "handle_whoami ports iso_text path now = print_session ports path (\<lambda>s. render_session_summary iso_text s now)"

definition handle_session_show :: "'w cli_ports \<Rightarrow> (datetime \<Rightarrow> string) \<Rightarrow> string \<Rightarrow> datetime \<Rightarrow> 'w \<Rightarrow> nat result \<times> 'w" where
  "handle_session_show ports iso_text path now = print_session ports path (\<lambda>s. render_session_detail iso_text s now)"

definition handle_run :: "'w cli_ports \<Rightarrow> 'w \<Rightarrow> nat result \<times> 'w" where
  "handle_run ports w = (Inr 1, cp_print_error ports
     (''error: no model provider configured; intake requires a bound model (see workflows/intake/graph.py'' @ [CHR 0x27] @
      ''s build_intake_graph docstring) -- not guessed here.'') w)"

text \<open>A login ends with code 0 only after the device flow wrote a session.\<close>

lemma login_succeeds_only_by_device_flow:
  assumes "handle_login ports lib args fresh_id now w = Some (Inr 0, w')"
  shows "\<exists>mapping s. load_grant_mapping ports (la_grant_mapping args) w = Inr mapping \<and>
    login_once (cp_login ports) lib (login_config (the (la_issuer args)) (the (la_client_id args)) (la_audience args))
      mapping (la_session_path args) fresh_id now w = Some (Inr s, w')"
  using assms by (auto simp: handle_login_def result_simps split: if_splits sum.splits)

end
