(* ===== verification/Spec_Compliance.thy ===== *)
theory Spec_Compliance
  imports Py_Text Complex_Main
begin

text \<open>
  \<open>spec/check_compliance.py\<close>: the rules of \<open>reference_architecture.md\<close> over a loaded YAML document.
  The approved region and the cost ceiling come from the environment and are arguments; a number is a
  rational.
\<close>

datatype yaml = YNone | YBool bool | YNumber rat | YText string | YList "yaml list" | YDict "(string \<times> yaml) list"

fun yaml_truthy :: "yaml \<Rightarrow> bool" where
  "yaml_truthy YNone = False"
| "yaml_truthy (YBool b) = b"
| "yaml_truthy (YNumber r) = (r \<noteq> 0)"
| "yaml_truthy (YText s) = (s \<noteq> [])"
| "yaml_truthy (YList vs) = (vs \<noteq> [])"
| "yaml_truthy (YDict d) = (d \<noteq> [])"

fun yaml_get :: "yaml \<Rightarrow> string \<Rightarrow> yaml \<Rightarrow> yaml result" where
  "yaml_get (YDict d) k otherwise = Inr (case dict_get d k of None \<Rightarrow> otherwise | Some v \<Rightarrow> v)"
| "yaml_get _ k otherwise = Inl (AttributeError ''get'')"

text \<open>\<open>value > limit\<close>, which Python defines for numbers and booleans.\<close>

fun yaml_exceeds :: "yaml \<Rightarrow> rat \<Rightarrow> bool result" where
  "yaml_exceeds (YNumber r) limit = Inr (limit < r)"
| "yaml_exceeds (YBool b) limit = Inr (limit < of_bool b)"
| "yaml_exceeds _ limit = Inl (TypeError ''>'')"

text \<open>What a \<open>for\<close> loop visits: the keys of a mapping, the characters of a text.\<close>

fun yaml_items :: "yaml \<Rightarrow> yaml list result" where
  "yaml_items (YList vs) = Inr vs"
| "yaml_items (YDict d) = Inr (map (YText \<circ> fst) d)"
| "yaml_items (YText s) = Inr (map (\<lambda>c. YText [c]) s)"
| "yaml_items _ = Inl (TypeError ''not iterable'')"

definition name_prefix :: string where
  "name_prefix = ''platformops-demo-''"

definition region_failure :: string where
  "region_failure = ''resource targets a non-approved region''"

definition cost_failure :: string where
  "cost_failure = ''spec exceeds approved cost ceiling''"

definition naming_failure :: "string \<Rightarrow> string" where
  "naming_failure name = ''resource name violates naming convention: '' @ name"

definition public_failure :: "string \<Rightarrow> string" where
  "public_failure name = ''public write access is prohibited: '' @ name"

definition https_failure :: "string \<Rightarrow> string" where
  "https_failure name = ''viewer traffic is not forced to HTTPS: '' @ name"

definition check_resource :: "yaml \<Rightarrow> string list result" where
  "check_resource resource =
     bind_result (yaml_get resource ''name'' (YText [])) (\<lambda>v.
       case v of
         YText name \<Rightarrow>
           bind_result (yaml_get resource ''type'' YNone) (\<lambda>kind.
           bind_result (yaml_get resource ''public_write'' YNone) (\<lambda>public_write.
           bind_result (yaml_get resource ''viewer_protocol_policy'' YNone) (\<lambda>policy.
             Inr ((if starts_with name name_prefix then [] else [naming_failure name]) @
                  (if kind = YText ''s3_bucket'' \<and> yaml_truthy public_write then [public_failure name] else []) @
                  (if kind = YText ''cloudfront_distribution'' \<and> policy \<notin> {YText ''redirect-to-https'', YText ''https-only''}
                   then [https_failure name] else [])))))
       | _ \<Rightarrow> Inl (AttributeError ''startswith''))"

fun check_resources :: "yaml list \<Rightarrow> string list result" where
  "check_resources [] = Inr []"
| "check_resources (r # rs) = bind_result (check_resource r) (\<lambda>fs. bind_result (check_resources rs) (\<lambda>gs. Inr (fs @ gs)))"

definition check_compliance :: "string \<Rightarrow> rat \<Rightarrow> yaml \<Rightarrow> string list result" where
  "check_compliance approved_region max_cost spec =
     bind_result (yaml_get spec ''region'' YNone) (\<lambda>region.
     bind_result (yaml_get spec ''estimated_monthly_usd'' (YNumber 0)) (\<lambda>cost.
     bind_result (yaml_exceeds cost max_cost) (\<lambda>exceeds.
     bind_result (yaml_get spec ''resources'' (YList [])) (\<lambda>found.
     bind_result (yaml_items found) (\<lambda>resources.
     bind_result (check_resources resources) (\<lambda>failures.
       Inr ((if region \<noteq> YText approved_region then [region_failure] else []) @
            (if exceeds then [cost_failure] else []) @ failures)))))))"

section \<open>The scenarios of the reference architecture\<close>

definition yaml_field :: "yaml \<Rightarrow> string \<Rightarrow> yaml" where
  "yaml_field v k = (case v of YDict d \<Rightarrow> (case dict_get d k of None \<Rightarrow> YNone | Some x \<Rightarrow> x) | _ \<Rightarrow> YNone)"

text \<open>The resources of a document: dictionaries with a text for a name, which may be missing.\<close>

fun resources_of :: "yaml \<Rightarrow> yaml list" where
  "resources_of (YDict d) = (case dict_get d ''resources'' of Some (YList rs) \<Rightarrow> rs | _ \<Rightarrow> [])"
| "resources_of _ = []"

definition resource_name :: "yaml \<Rightarrow> string" where
  "resource_name r = (case yaml_field r ''name'' of YText n \<Rightarrow> n | _ \<Rightarrow> [])"

definition well_formed_resource :: "yaml \<Rightarrow> bool" where
  "well_formed_resource r \<longleftrightarrow> (\<exists>d. r = YDict d \<and> (dict_get d ''name'' = None \<or> (\<exists>n. dict_get d ''name'' = Some (YText n))))"

text \<open>A document of the documented shape: a number for the cost and a list of resources, or neither.\<close>

definition well_formed_spec :: "yaml \<Rightarrow> bool" where
  "well_formed_spec spec \<longleftrightarrow> (\<exists>d. spec = YDict d \<and>
     (dict_get d ''estimated_monthly_usd'' = None \<or> (\<exists>c. dict_get d ''estimated_monthly_usd'' = Some (YNumber c))) \<and>
     (dict_get d ''resources'' = None \<or> (\<exists>rs. dict_get d ''resources'' = Some (YList rs))) \<and>
     list_all well_formed_resource (resources_of spec))"

definition cost_of :: "yaml \<Rightarrow> rat" where
  "cost_of spec = (case yaml_field spec ''estimated_monthly_usd'' of YNumber c \<Rightarrow> c | _ \<Rightarrow> 0)"

inductive fails_with :: "string \<Rightarrow> rat \<Rightarrow> yaml \<Rightarrow> string \<Rightarrow> bool" for approved_region max_cost spec where
  wrong_region: "yaml_field spec ''region'' \<noteq> YText approved_region \<Longrightarrow> fails_with approved_region max_cost spec region_failure"
| too_expensive: "max_cost < cost_of spec \<Longrightarrow> fails_with approved_region max_cost spec cost_failure"
| badly_named: "r \<in> set (resources_of spec) \<Longrightarrow> \<not> starts_with (resource_name r) name_prefix \<Longrightarrow>
    fails_with approved_region max_cost spec (naming_failure (resource_name r))"
| publicly_written: "r \<in> set (resources_of spec) \<Longrightarrow> yaml_field r ''type'' = YText ''s3_bucket'' \<Longrightarrow>
    yaml_truthy (yaml_field r ''public_write'') \<Longrightarrow> fails_with approved_region max_cost spec (public_failure (resource_name r))"
| plain_http: "r \<in> set (resources_of spec) \<Longrightarrow> yaml_field r ''type'' = YText ''cloudfront_distribution'' \<Longrightarrow>
    yaml_field r ''viewer_protocol_policy'' \<notin> {YText ''redirect-to-https'', YText ''https-only''} \<Longrightarrow>
    fails_with approved_region max_cost spec (https_failure (resource_name r))"

inductive_simps fails_with_iff: "fails_with approved_region max_cost spec reason"

definition resource_failures :: "yaml \<Rightarrow> string list" where
  "resource_failures r =
     (if starts_with (resource_name r) name_prefix then [] else [naming_failure (resource_name r)]) @
     (if yaml_field r ''type'' = YText ''s3_bucket'' \<and> yaml_truthy (yaml_field r ''public_write'')
      then [public_failure (resource_name r)] else []) @
     (if yaml_field r ''type'' = YText ''cloudfront_distribution'' \<and>
         yaml_field r ''viewer_protocol_policy'' \<notin> {YText ''redirect-to-https'', YText ''https-only''}
      then [https_failure (resource_name r)] else [])"

lemma check_well_formed_resource: "well_formed_resource r \<Longrightarrow> check_resource r = Inr (resource_failures r)"
  unfolding well_formed_resource_def
  by (auto simp: check_resource_def resource_failures_def resource_name_def yaml_field_def)

lemma check_well_formed_resources:
  "list_all well_formed_resource rs \<Longrightarrow> check_resources rs = Inr (concat (map resource_failures rs))"
  by (induction rs) (simp_all add: check_well_formed_resource)

text \<open>
  C24. The checker implements the scenarios of the reference architecture: on every document of the
  documented shape it returns, and a reason is reported exactly when a scenario fails with it; so a
  document passes exactly when no scenario fails.
\<close>

theorem compliance_reports_exactly_the_failed_scenarios:
  assumes "well_formed_spec spec"
  shows "\<exists>failures. check_compliance approved_region max_cost spec = Inr failures \<and>
    (\<forall>reason. reason \<in> set failures \<longleftrightarrow> fails_with approved_region max_cost spec reason)"
proof -
  obtain d where d: "spec = YDict d"
      "dict_get d ''estimated_monthly_usd'' = None \<or> (\<exists>c. dict_get d ''estimated_monthly_usd'' = Some (YNumber c))"
      "dict_get d ''resources'' = None \<or> (\<exists>rs. dict_get d ''resources'' = Some (YList rs))"
      "list_all well_formed_resource (resources_of spec)"
    using assms unfolding well_formed_spec_def by blast
  let ?failures = "(if yaml_field spec ''region'' \<noteq> YText approved_region then [region_failure] else []) @
    (if max_cost < cost_of spec then [cost_failure] else []) @ concat (map resource_failures (resources_of spec))"
  have "check_compliance approved_region max_cost spec = Inr ?failures"
    using d(2,3) check_well_formed_resources [OF d(4)] unfolding d(1)
    by (auto simp: check_compliance_def yaml_field_def cost_of_def)
  moreover have "reason \<in> set ?failures \<longleftrightarrow> fails_with approved_region max_cost spec reason" for reason
    unfolding fails_with_iff by (auto simp: resource_failures_def)
  ultimately show ?thesis by blast
qed

definition demo_bucket :: "string \<Rightarrow> bool \<Rightarrow> yaml" where
  "demo_bucket name public_write = YDict [(''type'', YText ''s3_bucket''), (''name'', YText name), (''public_write'', YBool public_write)]"

definition demo_spec :: yaml where
  "demo_spec = YDict [(''region'', YText ''us-east-1''), (''estimated_monthly_usd'', YNumber 2),
     (''resources'', YList [demo_bucket ''platformops-demo-site'' True])]"

theorem compliance_reports_exactly_the_failed_scenarios_witness:
  "\<exists>failures. check_compliance ''us-east-1'' 5 demo_spec = Inr failures \<and>
     failures = [public_failure ''platformops-demo-site''] \<and> fails_with ''us-east-1'' 5 demo_spec (public_failure ''platformops-demo-site'')"
proof -
  have "well_formed_spec demo_spec"
    by (simp add: well_formed_spec_def demo_spec_def dict_get_def well_formed_resource_def demo_bucket_def)
  note found = compliance_reports_exactly_the_failed_scenarios [OF this, of "''us-east-1''" 5]
  have "check_compliance ''us-east-1'' 5 demo_spec = Inr [public_failure ''platformops-demo-site'']"
    by (simp add: check_compliance_def demo_spec_def dict_get_def demo_bucket_def check_resource_def starts_with_def name_prefix_def)
  with found show ?thesis by auto
qed

end
