(* ===== verification/Spec2Isabelle.thy ===== *)
theory Spec2Isabelle
  imports Scope_Resolution Provision_Plan Provider_Connections Registration_Properties Device_Login
    Topology_Correct Membership_Properties Chat_Commands Harness_Properties Scope_Tables_Correct
    Web_Properties Web_Sessions Surface_Properties Session_Keys Terminal_Cli Spec_Compliance
begin

text \<open>
  PlatformOps is a gateway in front of infrastructure workflows: people log in by a mailed link or
  by an OIDC device flow, organizations are onboarded and reviewed, members join by invitation, and
  a provision request is resolved to a reviewed resource scope, planned, approved by a second person
  and executed.  This library models that control plane and its edges, the Python packages
  \<open>src/gateway\<close>, \<open>src/workflows\<close>, \<open>src/harness\<close>, \<open>src/interaction\<close>, \<open>src/transports\<close> and
  \<open>src/spec\<close>, and proves what makes it correct.

  Parts of the program, the theories that model them, and the files they translate:

  \<^item> Shared vocabulary: \<open>Platform_Prelude\<close> (exceptions, results, dictionaries, date-times),
    \<open>Py_Text\<close> (Python string operations), \<open>Json_Text\<close> (\<open>json.dumps\<close> with sorted keys and its
    injectivity, on which every digest property rests).
  \<^item> Data contracts: \<open>Gateway_Schemas\<close> (\<open>gateway/schemas.py\<close>, \<open>gateway/auth/schemas.py\<close>,
    \<open>gateway/approval.py\<close>).
  \<^item> Access: \<open>Access_Ceiling\<close> (\<open>gateway/policy/ceiling.py\<close>), \<open>Scope_Resolution\<close> (\<open>gateway/scope.py\<close>,
    \<open>gateway/auth/grants.py\<close>), \<open>Scope_Registry\<close>, \<open>Provider_Bindings\<close>, \<open>Scope_Access\<close>,
    \<open>Resolved_Context\<close> (the \<open>resource_scope\<close> modules of \<open>gateway\<close>), \<open>Provider_Connections\<close>,
    \<open>Scope_Tables\<close> and \<open>Scope_Tables_Correct\<close> (\<open>gateway/resource_scope_registry_postgres.py\<close>,
    \<open>gateway/resource_scope_bindings_postgres.py\<close>).
  \<^item> Provisioning: \<open>Provision_Plan\<close> (\<open>gateway/provision_plan.py\<close>, \<open>gateway/provision_execution.py\<close>,
    \<open>workflows/provision/preflight.py\<close>, \<open>workflows/provision/approval_graph.py\<close>), \<open>Topology\<close> and
    \<open>Topology_Correct\<close> (\<open>workflows/provision/topology.py\<close>, \<open>workflows/provision/profiles.py\<close>).
  \<^item> Routing and sessions: \<open>Command_Router\<close> (\<open>gateway/command_router.py\<close>,
    \<open>gateway/provision_handler.py\<close>), \<open>Browser_Sessions\<close> (\<open>gateway/browser_sessions.py\<close>, its PostgreSQL
    repository, the logout handler and the runtime actor), \<open>Session_Keys\<close> (its development key loader).
  \<^item> Login: \<open>Registration\<close>, \<open>Rate_Limiter\<close>, \<open>User_Accounts\<close>, \<open>Registration_Service\<close> and
    \<open>Registration_Properties\<close> (\<open>gateway/auth/registration.py\<close>, \<open>gateway/auth/postgres.py\<close>,
    \<open>workflows/login_registration\<close>, the login handlers and domain discovery), \<open>Oidc_Login\<close> and
    \<open>Device_Login\<close> (\<open>gateway/auth/claims.py\<close>, \<open>sessions.py\<close>, \<open>login.py\<close>, \<open>cli.py\<close>).
  \<^item> Organizations: \<open>Org_Onboarding\<close>, \<open>Onboarding_Tables\<close>, \<open>Onboarding_Workflow\<close>,
    \<open>Onboarding_Correct\<close>, \<open>Onboarding_Invariant\<close>, \<open>Onboarding_Properties\<close> (onboarding records, both
    stores, the graphs of \<open>workflows/organization_onboarding\<close> and the handlers), \<open>Org_Membership\<close>,
    \<open>Membership_Tables\<close> and \<open>Membership_Properties\<close> (memberships, invitations,
    \<open>workflows/organization_member_onboarding\<close>, and the authorizer over the durable memberships).
  \<^item> Chat: \<open>Chat_Commands\<close> (\<open>gateway/chat_workflow_context.py\<close>, \<open>gateway/guest_chat_router.py\<close>), \<open>Intake\<close>
    (\<open>workflows/intake\<close>, \<open>gateway/dispatcher.py\<close>), \<open>Provision_Draft\<close> (the drafting nodes and graph of
    \<open>workflows/provision\<close>), \<open>Harness\<close> and \<open>Harness_Properties\<close> (\<open>interaction/events.py\<close>,
    \<open>harness/core.py\<close>: both entry points over the table of waiting clarifications).
  \<^item> Edges: \<open>Dynamic_Ui\<close> (\<open>interaction/dynamic_ui.py\<close>, \<open>interaction/agui.py\<close>), \<open>A2ui\<close>
    (\<open>interaction/a2ui.py\<close>, \<open>interaction/guest_chat_a2ui.py\<close>), \<open>Http_Transport\<close>
    (\<open>transports/http.py\<close>, \<open>transports/browser_auth.py\<close>), \<open>Remote_Tui\<close> (\<open>interaction/tui.py\<close>,
    \<open>transports/remote_tui.py\<close>), \<open>Terminal_Cli\<close> (the handlers of \<open>transports/cli.py\<close>), with
    \<open>Web_Properties\<close>, \<open>Web_Sessions\<close> and \<open>Surface_Properties\<close>; \<open>Spec_Compliance\<close> (\<open>spec/check_compliance.py\<close>).

  How code is read.  A class is a record or a datatype with a constructor function that raises where
  pydantic or a validator raises; a method that changes state returns its result and the new state;
  an exception is \<open>Inl\<close> of \<open>exn\<close>.  A PostgreSQL table is a list of rows, a repository method is one
  transaction with the migration's constraints as guards, and a failed transaction leaves the rows
  as they were.  A LangGraph graph is the composition of its nodes along its edges; an interrupt is
  an argument that holds the answer.  Fresh identifiers, tokens and clock readings are arguments.
  A language model is a function of the prompt, the text and the state of the world that returns
  tool calls or raises.  Code outside the repository (SHA-256 and HMAC, IDNA, the JWT library, the identity provider, the
  mail sender, cloud adapters, the database's \<open>lower\<close>) is a parameter; properties that need a law
  of such code name it as a hypothesis and have a witness with a concrete function, and digest
  properties conclude that contents agree or that two texts collide under the hash.

  What the lemma groups show.  Registries and stores: unique keys over any history and refinement of
  maps.  Decisions (access, governance, topologies, resolution): exact conditions for each answer,
  errors included.  Approvals: a digest binds one content, four eyes, no execution of stale plans.
  Sessions, links and invitations: usable only within their life and, over every later history of
  their tables, not after they were consumed; a revoked member stays out until readmitted.
  Onboarding: an inductive step relation over the tables with an invariant by rule induction, the
  handlers as sequences of steps, and discovery and routing on top of it; the membership tables
  extend it.  Chat: the parser is a table lookup, guests reach public contexts only, and over any
  history of harness calls and any answers of the model the clarification rounds are bounded, only
  the starter answers, and announced requests carry the caller's authority.  Edges: the requests of
  a web server, to both endpoints and in any order, refine a harness history whose actors come from
  the cookies, so what is streamed carries that authority; commands take none from their payload; over
  the real authenticator a logged-out cookie reaches neither the harness nor a handler;
  surfaces show listed fields, no markup and only the buttons of the question; an answer typed in the
  terminal reaches the entry that waits for it.

  Locales state what a client needs of a provider and are interpreted on the models of the code:
  \<open>session_repository\<close> and \<open>attempt_repository\<close> on the in-memory and the PostgreSQL repository,
  \<open>pending_store\<close> and \<open>activating_store\<close> on both onboarding stores, \<open>binding_store\<close> on the in-memory
  registry and the table of container bindings.

  Bounds.  Loops are structural or have a measure; the polling loop of the device login may run
  forever and is a partial function whose return is proved from the laws of its clock.

  Not modelled: the static MCP server table (constant launch configurations), argument parsing of
  the command lines, the web framework and the encoding of its frames, building the language model
  from the environment, the migration runners (they execute SQL files), YAML and environment
  readers, logging and metrics.  Strings are lists of
  characters with code points below 256, and text stored in PostgreSQL contains no NUL.
\<close>

end
